(* ===== verification/Prelude.thy ===== *)
theory Prelude
  imports Complex_Main "HOL-Library.Multiset"
begin

text \<open>
  Shared vocabulary of the development: JavaScript values where the code tests them with
  \<open>===\<close>, the array idioms the application uses on its state (\<open>map\<close> with a conditional
  replacement, \<open>find\<close>, stable \<open>sort\<close> by a numeric key) and the generic lemmas about them
  that the component theories rely on.
\<close>

named_theorems model_simps \<open>unfolding rules of the model's small definitions\<close>

section \<open>JavaScript values\<close>

text \<open>
  A field typed \<open>boolean\<close> in TypeScript may still be missing or \<open>null\<close> at run time
  (the code guards against it with \<open>=== true\<close>). \<open>jsval\<close> keeps the cases apart.
\<close>

datatype jsval = JUndefined | JNull | JBool bool | JNum int | JStr string

definition strict_true :: "jsval \<Rightarrow> bool" where
  "strict_true v \<longleftrightarrow> v = JBool True"

fun truthy :: "jsval \<Rightarrow> bool" where
  "truthy JUndefined = False"
| "truthy JNull = False"
| "truthy (JBool b) = b"
| "truthy (JNum n) = (n \<noteq> 0)"
| "truthy (JStr s) = (s \<noteq> [])"

lemma strict_true_simps [simp, model_simps]:
  "strict_true (JBool b) = b"
  "\<not> strict_true JUndefined" "\<not> strict_true JNull"
  "\<not> strict_true (JNum n)" "\<not> strict_true (JStr s)"
  by (simp_all add: strict_true_def)

lemma strict_true_truthy: "strict_true v \<Longrightarrow> truthy v"
  by (auto simp: strict_true_def)

section \<open>Replacing the elements that match: \<open>xs.map(x => p(x) ? f(x) : x)\<close>\<close>

definition map_where :: "('a \<Rightarrow> bool) \<Rightarrow> ('a \<Rightarrow> 'a) \<Rightarrow> 'a list \<Rightarrow> 'a list" where
  "map_where P f xs = map (\<lambda>x. if P x then f x else x) xs"

lemma map_where_simps [simp]:
  "map_where P f [] = []"
  "map_where P f (x # xs) = (if P x then f x else x) # map_where P f xs"
  by (simp_all add: map_where_def)

lemma length_map_where [simp]: "length (map_where P f xs) = length xs"
  by (simp add: map_where_def)

lemma map_where_append [simp]: "map_where P f (xs @ ys) = map_where P f xs @ map_where P f ys"
  by (simp add: map_where_def)

lemma map_map_where_keep:
  assumes "\<And>x. P x \<Longrightarrow> g (f x) = g x"
  shows "map g (map_where P f xs) = map g xs"
  using assms by (induction xs) auto

lemma map_where_nth:
  "i < length xs \<Longrightarrow> map_where P f xs ! i = (if P (xs ! i) then f (xs ! i) else xs ! i)"
  by (simp add: map_where_def)

lemma map_where_no_match: "\<forall>x\<in>set xs. \<not> P x \<Longrightarrow> map_where P f xs = xs"
  by (induction xs) auto

lemma set_map_where:
  "set (map_where P f xs) = {f x |x. x \<in> set xs \<and> P x} \<union> {x \<in> set xs. \<not> P x}"
  by (auto simp: map_where_def)

lemma map_where_mem_cases:
  "y \<in> set (map_where P f xs) \<Longrightarrow> (\<exists>x\<in>set xs. P x \<and> y = f x) \<or> (y \<in> set xs \<and> \<not> P y)"
  by (auto simp: set_map_where)

lemma filter_map_where_invariant:
  assumes "\<And>x. P x \<Longrightarrow> Q (f x) = Q x"
  shows "length (filter Q (map_where P f xs)) = length (filter Q xs)"
  using assms by (induction xs) auto

section \<open>Stable sort by a key: \<open>xs.sort((a, b) => k(a) - k(b))\<close>\<close>

text \<open>
  \<open>Array.prototype.sort\<close> is stable (ECMAScript 2019), and a comparator
  \<open>k(a) - k(b)\<close> on integer keys orders by \<open>k\<close>; the library's \<open>sort_key\<close> is the stable
  insertion sort, so it is the model of that call.
\<close>

lemma sort_key_sorted_keys [simp]: "sorted (map k (sort_key k xs))"
  by simp

lemma mset_sort_key_append1: "mset (sort_key k (xs @ [x])) = mset xs + {#x#}"
  by simp

lemma sort_key_map_where_keep:
  assumes "\<And>x. P x \<Longrightarrow> k (f x) = k x"
  shows "sort_key k (map_where P f xs) = map_where P f (sort_key k xs)"
  using assms
proof (induction xs)
  case Nil
  then show ?case by simp
next
  case (Cons x xs)
  have insort_map: "insort_key k (if P y then f y else y) (map_where P f ys)
        = map_where P f (insort_key k y ys)" for y ys
    using Cons.prems by (induction ys) auto
  show ?case using Cons by (simp add: insort_map)
qed

text \<open>
  Appending one element to a sorted list and sorting again puts the element after every
  element whose key is not greater: a stable insertion at the end of its block of
  equal keys.
\<close>

lemma sort_key_snoc_sorted:
  assumes "sorted (map k xs)"
  shows "sort_key k (xs @ [x]) =
           takeWhile (\<lambda>y. k y \<le> k x) xs @ x # dropWhile (\<lambda>y. k y \<le> k x) xs"
  using assms
proof (induction xs)
  case Nil
  then show ?case by simp
next
  case (Cons y ys)
  then have IH: "sort_key k (ys @ [x]) =
      takeWhile (\<lambda>y. k y \<le> k x) ys @ x # dropWhile (\<lambda>y. k y \<le> k x) ys"
    and ys_ge: "\<forall>z\<in>set ys. k y \<le> k z" by auto
  show ?case
  proof (cases "k y \<le> k x")
    case True
    have "\<forall>z\<in>set (takeWhile (\<lambda>y. k y \<le> k x) ys @ x # dropWhile (\<lambda>y. k y \<le> k x) ys).
            k y \<le> k z"
      using True ys_ge by (auto dest: set_takeWhileD set_dropWhileD)
    then show ?thesis using IH True by (simp add: insort_is_Cons)
  next
    case False
    then have "\<forall>z\<in>set ys. \<not> k z \<le> k x" using ys_ge by fastforce
    then have tw: "takeWhile (\<lambda>y. k y \<le> k x) ys = []"
      and dw: "dropWhile (\<lambda>y. k y \<le> k x) ys = ys"
      by (cases ys; simp)+
    have "insort_key k y ys = y # ys"
      using ys_ge by (simp add: insort_is_Cons)
    then show ?thesis using IH False tw dw by (simp add: insort_is_Cons)
  qed
qed

section \<open>Strings\<close>

text \<open>\<open>x || d\<close> on a string: the empty string is falsy.\<close>

definition js_or :: "string \<Rightarrow> string \<Rightarrow> string" where
  "js_or x d = (if x = [] then d else x)"

text \<open>\<open>x || d\<close> on an optional string (\<open>undefined\<close> is falsy as well).\<close>

definition opt_or :: "string option \<Rightarrow> string \<Rightarrow> string" where
  "opt_or x d = (case x of None \<Rightarrow> d | Some v \<Rightarrow> js_or v d)"

lemma js_or_opt_or_simps [simp, model_simps]:
  "js_or [] d = d" "js_or (c # cs) d = c # cs"
  "opt_or None d = d" "opt_or (Some v) d = js_or v d"
  by (simp_all add: js_or_def opt_or_def)

lemma js_or_nonempty: "d \<noteq> [] \<Longrightarrow> js_or x d \<noteq> []"
  by (simp add: js_or_def)

lemma opt_or_nonempty: "d \<noteq> [] \<Longrightarrow> opt_or x d \<noteq> []"
  by (simp add: opt_or_def js_or_def split: option.splits)

text \<open>\<open>s.includes(pat)\<close>: \<open>pat\<close> occurs in \<open>s\<close> at some position.\<close>

definition js_includes :: "string \<Rightarrow> string \<Rightarrow> bool" where
  "js_includes s pat = list_ex (\<lambda>i. take (length pat) (drop i s) = pat) [0..<Suc (length s)]"

lemma js_includes_append: "js_includes (xs @ pat @ ys) pat"
  unfolding js_includes_def list_ex_iff
  by (rule bexI [of _ "length xs"]) auto

text \<open>\<open>String.prototype.trim\<close> on the ASCII white space.\<close>

definition js_is_space :: "char \<Rightarrow> bool" where
  "js_is_space c \<longleftrightarrow> c \<in> {CHR '' '', CHR 0x09, CHR 0x0A, CHR 0x0B, CHR 0x0C, CHR 0x0D}"

definition js_trim :: "string \<Rightarrow> string" where
  "js_trim s = rev (dropWhile js_is_space (rev (dropWhile js_is_space s)))"

lemma js_trim_plain:
  assumes "\<not> js_is_space (hd s)" and "\<not> js_is_space (last s)"
  shows "js_trim s = s"
proof -
  have "dropWhile js_is_space s = s" using assms(1) by (cases s) auto
  moreover have "dropWhile js_is_space (rev s) = rev s" using assms(2) by (cases s rule: rev_cases) auto
  ultimately show ?thesis by (simp add: js_trim_def)
qed

text \<open>Decimal rendering of a number in a template literal (\<open>`${n}`\<close>), for integers.\<close>

definition digit_char :: "nat \<Rightarrow> char" where
  "digit_char n = char_of (48 + n)"

fun nat_digits :: "nat \<Rightarrow> string" where
  "nat_digits n = (if n < 10 then [digit_char n] else nat_digits (n div 10) @ [digit_char (n mod 10)])"

declare nat_digits.simps [simp del]

definition int_to_string :: "int \<Rightarrow> string" where
  "int_to_string i = (if i < 0 then CHR ''-'' # nat_digits (nat (- i)) else nat_digits (nat i))"

section \<open>Lookups: \<open>xs.find(p)\<close>\<close>

lemma find_Some_mem: "List.find P xs = Some x \<Longrightarrow> x \<in> set xs \<and> P x"
  by (induction xs) (auto split: if_splits)

lemma find_None_iff: "List.find P xs = None \<longleftrightarrow> (\<forall>x\<in>set xs. \<not> P x)"
  by (induction xs) auto

end
