(* ===== verification/Model_Types.thy ===== *)
theory Model_Types
  imports Prelude
begin

text \<open>
  The data model of \<open>src/types.ts\<close>: reviews, therapists with their clinic, users with a
  role, intake forms, and bookings; and the transient booking details of
  \<open>src/App.tsx\<close> (the type of \<open>pendingBookingDetails\<close>). Interfaces become records, string
  unions become datatypes, optional fields (\<open>x?: T\<close>) become \<open>T option\<close>. A JavaScript
  \<open>Date\<close> is represented by the integer its \<open>getTime()\<close> returns (only valid dates reach
  a booking: the booking form rejects \<open>NaN\<close>); the fractional ratings are \<open>rat\<close>.
\<close>

type_synonym js_date = int

record review =
  review_id :: int
  review_patientName :: string
  review_rating :: rat
  comment :: string
  review_date :: string

record timings =
  days :: string
  hours :: "string list"

record clinic =
  clinic_name :: string
  address :: string
  clinic_rating :: rat
  clinic_timings :: timings
  isOnlinePaymentAvailable :: jsval
  isPrime :: bool
  maxWaitTime :: int
  isVerified :: bool
  clinic_phone :: "string option"

text \<open>
  \<open>clinic\<close> is declared mandatory, but the code reads it with optional chaining
  (\<open>therapist.clinic?.isOnlinePaymentAvailable\<close>) and the profile page tests it; the model
  keeps it optional.
\<close>

record therapist =
  tid :: int
  tname :: string
  temail :: "string option"
  title :: string
  location :: string
  rating :: rat
  reviewCount :: int
  specialties :: "string list"
  description :: string
  qualifications :: "string list"
  clinicPhotos :: "string list"
  reviews :: "review list"
  fee :: int
  isProfileClaimed :: bool
  experience :: int
  specialistExperience :: int
  patientSatisfaction :: int
  clinic :: "clinic option"

datatype role = RPatient | RTherapist | RAdmin

record user =
  uid :: string
  uname :: string
  email :: "string option"
  role :: role
  therapistId :: "int option"

datatype gender = Male | Female | Other | PreferNotToSay

record personal_info =
  fullName :: string
  dob :: string
  gender :: gender

record medical_history =
  allergies :: string
  medications :: string
  pastSurgeries :: string
  chronicConditions :: string

record current_condition =
  primaryComplaint :: string
  symptoms :: string
  painLevel :: int
  onset :: string
  betterWith :: string
  worseWith :: string

record goals =
  patientGoals :: string

record intake_form =
  personalInfo :: personal_info
  medicalHistory :: medical_history
  currentCondition :: current_condition
  goals :: goals

datatype booking_status = Confirmed | CheckedIn | Completed | Cancelled

record booking =
  bid :: string
  userId :: string
  patientName :: string
  therapist :: therapist
  date :: js_date
  time :: string
  status :: "booking_status option"
  intakeForm :: "intake_form option"
  patientEmail :: "string option"
  phoneNo :: "string option"
  service :: "string option"
  isPaid :: "bool option"

text \<open>The booking details the booking form emits (\<open>App.tsx\<close>, \<open>pendingBookingDetails\<close>).\<close>

record booking_details =
  d_date :: js_date
  d_time :: string
  d_patientName :: string
  d_phoneNo :: string
  d_service :: string

section \<open>Shared observations on the data\<close>

text \<open>The booking list is kept ordered by appointment date.\<close>

definition bookings_sorted :: "booking list \<Rightarrow> bool" where
  "bookings_sorted bs \<longleftrightarrow> sorted (map date bs)"

text \<open>The clinic flag as the code reads it: \<open>therapist.clinic?.isOnlinePaymentAvailable === true\<close>.\<close>

definition online_payment_flag :: "therapist \<Rightarrow> bool" where
  "online_payment_flag t =
     (case clinic t of None \<Rightarrow> False | Some c \<Rightarrow> strict_true (isOnlinePaymentAvailable c))"

lemma online_payment_flag_simps [simp]:
  "clinic t = None \<Longrightarrow> \<not> online_payment_flag t"
  "clinic t = Some c \<Longrightarrow> online_payment_flag t = strict_true (isOnlinePaymentAvailable c)"
  by (simp_all add: online_payment_flag_def)

lemma bookings_sorted_sort_key [simp]: "bookings_sorted (sort_key date bs)"
  by (simp add: bookings_sorted_def)

end
