(* ===== verification/Demo_Data.thy ===== *)
theory Demo_Data
  imports Model_Types
begin

text \<open>
  Sample records used by the concrete runs and the witnesses of the development: a
  clinic with or without online payment, a therapist, a patient, and the details the
  booking form emits. They model no code; they are inputs.
\<close>

definition demo_clinic :: "bool \<Rightarrow> clinic" where
  "demo_clinic online =
     \<lparr>clinic_name = ''Physio Care'', address = ''Vashi, Navi Mumbai'', clinic_rating = 4,
      clinic_timings = \<lparr>days = ''Mon-Sat'', hours = [''10:00 AM - 6:00 PM'']\<rparr>,
      isOnlinePaymentAvailable = JBool online, isPrime = False, maxWaitTime = 15,
      isVerified = True, clinic_phone = None\<rparr>"

definition demo_therapist :: "int \<Rightarrow> int \<Rightarrow> bool \<Rightarrow> therapist" where
  "demo_therapist i f online =
     \<lparr>tid = i, tname = ''Dr. Shilpa Rangari'', temail = None, title = ''Physiotherapist'',
      location = ''Vashi, Navi Mumbai'', rating = 9 / 2, reviewCount = 0,
      specialties = [''Sports Injury''], description = [], qualifications = [], clinicPhotos = [],
      reviews = [], fee = f, isProfileClaimed = True, experience = 8, specialistExperience = 5,
      patientSatisfaction = 95, clinic = Some (demo_clinic online)\<rparr>"

definition demo_user :: user where
  "demo_user = \<lparr>uid = ''u1'', uname = ''Asha'', email = Some ''asha@example.com'',
                role = RPatient, therapistId = None\<rparr>"

definition demo_details :: "js_date \<Rightarrow> string \<Rightarrow> booking_details" where
  "demo_details d t = \<lparr>d_date = d, d_time = t, d_patientName = ''Asha'', d_phoneNo = ''9820012345'',
                       d_service = ''Sports Injury''\<rparr>"

end
