(* ===== verification/Booking_Modal.thy ===== *)
theory Booking_Modal
  imports Demo_Data
begin

text \<open>
  The booking form of \<open>src/components/BookingModal.tsx\<close>: its local state, the input
  handlers, the date parsing of \<open>handleDateChange\<close> (lines 37--47), the validation of
  \<open>handleConfirmClick\<close> (lines 23--35) and the payment gate \<open>isOnlinePayment\<close>
  (line 50). The form emits booking details to its caller and changes nothing else.
\<close>

definition availableTimes :: "string list" where
  "availableTimes = [''09:00 AM'', ''10:00 AM'', ''11:00 AM'', ''02:00 PM'', ''03:00 PM'', ''04:00 PM'']"

text \<open>A \<open>Date\<close> object: valid with its time value, or an Invalid Date (\<open>getTime()\<close> is \<open>NaN\<close>).\<close>

datatype date_value = ValidDate js_date | InvalidDate

record booking_form =
  form_patientName :: string
  form_phoneNo :: string
  form_service :: string
  form_selectedDate :: "date_value option"
  form_selectedTime :: string
  form_error :: string

text \<open>The initial values of the \<open>useState\<close> calls (lines 16--21).\<close>

definition init_booking_form :: "therapist \<Rightarrow> user option \<Rightarrow> booking_form" where
  "init_booking_form t u =
     \<lparr>form_patientName = (case u of None \<Rightarrow> '''' | Some cu \<Rightarrow> js_or (uname cu) ''''),
      form_phoneNo = '''',
      form_service = (case specialties t of [] \<Rightarrow> '''' | s # _ \<Rightarrow> js_or s ''''),
      form_selectedDate = None,
      form_selectedTime = '''',
      form_error = ''''\<rparr>"

section \<open>Date parsing: local calendar components\<close>

text \<open>
  \<open>dateString.split('-').map(Number)\<close>: \<open>split_on\<close> is \<open>String.prototype.split\<close> with a
  one-character separator, \<open>js_Number\<close> is \<open>Number\<close> on the strings a date input can
  produce: a run of decimal digits, or the empty string (which is \<open>0\<close>); anything else is
  \<open>NaN\<close>, here \<open>None\<close>.
\<close>

fun split_on :: "char \<Rightarrow> string \<Rightarrow> string list" where
  "split_on c [] = [[]]"
| "split_on c (x # xs) =
     (if x = c then [] # split_on c xs
      else (case split_on c xs of w # ws \<Rightarrow> (x # w) # ws | [] \<Rightarrow> [[x]]))"

definition is_digit :: "char \<Rightarrow> bool" where
  "is_digit c \<longleftrightarrow> 48 \<le> (of_char c :: nat) \<and> (of_char c :: nat) \<le> 57"

fun digits_value :: "nat \<Rightarrow> string \<Rightarrow> nat option" where
  "digits_value acc [] = Some acc"
| "digits_value acc (c # cs) =
     (if is_digit c then digits_value (10 * acc + (of_char c - 48)) cs else None)"

definition js_Number :: "string \<Rightarrow> int option" where
  "js_Number s = map_option int (digits_value 0 s)"

text \<open>
  The proleptic Gregorian day number of a calendar date (days since 1970-01-01), the
  \<open>MakeDay\<close> of ECMAScript for a month in \<open>1..12\<close>: the standard era-based closed form.
\<close>

definition days_from_civil :: "int \<Rightarrow> int \<Rightarrow> int \<Rightarrow> int" where
  "days_from_civil y m d =
     (let y' = (if m \<le> 2 then y - 1 else y);
          era = y' div 400;
          yoe = y' - era * 400;
          doy = (153 * (if m > 2 then m - 3 else m + 9) + 2) div 5 + d - 1;
          doe = yoe * 365 + yoe div 4 - yoe div 100 + doy
      in era * 146097 + doe - 719468)"

definition ms_per_day :: int where
  "ms_per_day = 86400000"

text \<open>
  \<open>new Date(year, monthIndex, day)\<close> in local time: a two-digit year means \<open>19xx\<close>, the
  month index is normalised into the year, the day may overflow the month, and a time
  value beyond \<open>8.64e15\<close> ms (\<open>10^8\<close> days) is an Invalid Date. The value is the local
  clock's midnight; it differs from \<open>getTime()\<close> by the time-zone offset, which orders
  dates the same way.
\<close>

definition js_new_Date :: "int option \<Rightarrow> int option \<Rightarrow> int option \<Rightarrow> date_value" where
  "js_new_Date yo mo do' =
     (case (yo, mo, do') of
        (Some y, Some m0, Some d) \<Rightarrow>
          (let y1 = (if 0 \<le> y \<and> y \<le> 99 then 1900 + y else y);
               day = days_from_civil (y1 + m0 div 12) (m0 mod 12 + 1) 1 + d - 1
           in if \<bar>day\<bar> > 100000000 then InvalidDate else ValidDate (day * ms_per_day))
      | _ \<Rightarrow> InvalidDate)"

text \<open>\<open>const [year, month, day] = ...\<close>: a missing component is \<open>undefined\<close>, and
  \<open>undefined - 1\<close> is \<open>NaN\<close>.\<close>

definition component :: "int option list \<Rightarrow> nat \<Rightarrow> int option" where
  "component xs i = (if i < length xs then xs ! i else None)"

definition handleDateChange :: "string \<Rightarrow> date_value option" where
  "handleDateChange s =
     (if s = [] then None
      else (let parts = map js_Number (split_on CHR ''-'' s)
            in Some (js_new_Date (component parts 0)
                                 (map_option (\<lambda>m. m - 1) (component parts 1))
                                 (component parts 2))))"

section \<open>The form's inputs\<close>

text \<open>
  The events the rendered form offers: free text for the name and phone, a \<open>select\<close>
  whose options are the therapist's specialties and "General Consultation", the date
  input, and one button per entry of \<open>availableTimes\<close>. An event the form does not offer
  (a service or a time that is not rendered) is \<open>None\<close>.
\<close>

datatype form_event =
  EditPatientName string
| EditPhoneNo string
| SelectService string
| ChangeDate string
| SelectTime string

definition service_options :: "therapist \<Rightarrow> string list" where
  "service_options t = specialties t @ [''General Consultation'']"

fun form_input :: "therapist \<Rightarrow> form_event \<Rightarrow> booking_form \<Rightarrow> booking_form option" where
  "form_input t (EditPatientName v) f = Some (f\<lparr>form_patientName := v\<rparr>)"
| "form_input t (EditPhoneNo v) f = Some (f\<lparr>form_phoneNo := v\<rparr>)"
| "form_input t (SelectService v) f =
     (if v \<in> set (service_options t) then Some (f\<lparr>form_service := v\<rparr>) else None)"
| "form_input t (ChangeDate v) f = Some (f\<lparr>form_selectedDate := handleDateChange v\<rparr>)"
| "form_input t (SelectTime v) f =
     (if v \<in> set availableTimes then Some (f\<lparr>form_selectedTime := v\<rparr>) else None)"

section \<open>Submitting\<close>

definition msg_fill_all :: string where
  "msg_fill_all = ''Please fill in all fields, and select a date and time.''"

definition msg_invalid_date :: string where
  "msg_invalid_date = ''Invalid date selected. Please select again.''"

text \<open>
  \<open>handleConfirmClick\<close>: the presence check of every field (a \<open>Date\<close> object is truthy
  even when invalid), then the \<open>isNaN(getTime())\<close> check; on success the error is
  cleared and the details are handed to \<open>onConfirm\<close>.
\<close>

definition handleConfirmClick :: "booking_form \<Rightarrow> booking_form \<times> booking_details option" where
  "handleConfirmClick f =
     (if form_patientName f = [] \<or> form_phoneNo f = [] \<or> form_service f = []
         \<or> form_selectedDate f = None \<or> form_selectedTime f = []
      then (f\<lparr>form_error := msg_fill_all\<rparr>, None)
      else (case form_selectedDate f of
              Some (ValidDate d) \<Rightarrow>
                (f\<lparr>form_error := ''''\<rparr>,
                 Some \<lparr>d_date = d, d_time = form_selectedTime f, d_patientName = form_patientName f,
                       d_phoneNo = form_phoneNo f, d_service = form_service f\<rparr>)
            | _ \<Rightarrow> (f\<lparr>form_error := msg_invalid_date\<rparr>, None)))"

section \<open>Payment gate\<close>

text \<open>Line 50: \<open>therapist.clinic?.isOnlinePaymentAvailable === true && !isRescheduling\<close>.\<close>

definition isOnlinePayment :: "therapist \<Rightarrow> bool \<Rightarrow> bool" where
  "isOnlinePayment t isRescheduling \<longleftrightarrow> online_payment_flag t \<and> \<not> isRescheduling"

section \<open>Properties of the booking form\<close>

lemma handleConfirmClick_missing:
  "form_patientName f = [] \<or> form_phoneNo f = [] \<or> form_service f = [] \<or>
   form_selectedDate f = None \<or> form_selectedTime f = [] \<Longrightarrow>
   handleConfirmClick f = (f\<lparr>form_error := msg_fill_all\<rparr>, None)"
  by (auto simp: handleConfirmClick_def)

text \<open>
  Claim C4. The payment gate: the form asks for online payment exactly when the booking
  is not a reschedule and the therapist's clinic exists and carries the flag \<open>true\<close>
  itself; a missing clinic, a missing or \<open>null\<close> flag, or any other value means no
  online payment.
\<close>

theorem payment_gate:
  "isOnlinePayment t isRescheduling \<longleftrightarrow>
     \<not> isRescheduling \<and> (\<exists>c. clinic t = Some c \<and> isOnlinePaymentAvailable c = JBool True)"
  by (auto simp: isOnlinePayment_def online_payment_flag_def strict_true_def split: option.splits)

theorem payment_gate_witness:
  "isOnlinePayment (demo_therapist 2 800 True) False \<and> \<not> isOnlinePayment (demo_therapist 2 800 True) True
   \<and> \<not> isOnlinePayment (demo_therapist 2 800 False) False"
  using payment_gate [of "demo_therapist 2 800 True" False] payment_gate [of "demo_therapist 2 800 True" True]
    payment_gate [of "demo_therapist 2 800 False" False]
  by (simp add: demo_therapist_def demo_clinic_def)

text \<open>
  Submitting the form with the patient name, the phone, the service, the date
  or the time missing shows the "fill in all fields" error and emits no booking details.
\<close>

theorem confirm_rejects_missing:
  assumes "form_patientName f = [] \<or> form_phoneNo f = [] \<or> form_service f = [] \<or>
           form_selectedDate f = None \<or> form_selectedTime f = []"
  shows "snd (handleConfirmClick f) = None \<and> form_error (fst (handleConfirmClick f)) = msg_fill_all"
  using handleConfirmClick_missing [OF assms] by simp

theorem confirm_rejects_missing_witness:
  "snd (handleConfirmClick (init_booking_form (demo_therapist 2 500 False) (Some demo_user))) = None \<and>
   form_error (fst (handleConfirmClick (init_booking_form (demo_therapist 2 500 False) (Some demo_user))))
     = msg_fill_all"
  by (rule confirm_rejects_missing) (simp add: init_booking_form_def)

text \<open>
  Claim C10. The form emits booking details exactly when every field is filled and the
  selected date is a valid \<open>Date\<close>, and the details are the form's fields unchanged.
\<close>

theorem confirm_emits_details:
  "snd (handleConfirmClick f) = Some d \<longleftrightarrow>
     form_patientName f \<noteq> [] \<and> form_phoneNo f \<noteq> [] \<and> form_service f \<noteq> [] \<and>
     form_selectedTime f \<noteq> [] \<and> form_selectedDate f = Some (ValidDate (d_date d)) \<and>
     d_time d = form_selectedTime f \<and> d_patientName d = form_patientName f \<and>
     d_phoneNo d = form_phoneNo f \<and> d_service d = form_service f"
  by (cases d) (auto simp: handleConfirmClick_def split: option.splits date_value.splits)

theorem confirm_emits_details_witness:
  "snd (handleConfirmClick \<lparr>form_patientName = ''Asha'', form_phoneNo = ''9820012345'',
      form_service = ''Sports Injury'', form_selectedDate = Some (ValidDate 1741564800000),
      form_selectedTime = ''10:00 AM'', form_error = ''''\<rparr>) = Some (demo_details 1741564800000 ''10:00 AM'')"
  by (subst confirm_emits_details) (simp add: demo_details_def)

section \<open>Rendering and reading numbers\<close>

lemma digit_char_props: "n < 10 \<Longrightarrow> is_digit (digit_char n) \<and> of_char (digit_char n) = 48 + n"
  by (simp add: digit_char_def is_digit_def)

lemma digits_value_append:
  "digits_value acc (xs @ ys) = (case digits_value acc xs of Some a \<Rightarrow> digits_value a ys | None \<Rightarrow> None)"
  by (induction acc xs rule: digits_value.induct) auto

lemma digits_value_nat_digits: "digits_value 0 (nat_digits n) = Some n"
proof (induction n rule: nat_digits.induct)
  case (1 n)
  show ?case
  proof (cases "n < 10")
    case True
    then show ?thesis using digit_char_props [of n] by (simp add: nat_digits.simps)
  next
    case False
    then have "digits_value 0 (nat_digits n) = digits_value (n div 10) [digit_char (n mod 10)]"
      using 1 by (simp add: nat_digits.simps [of n] digits_value_append)
    also have "\<dots> = Some n"
      using digit_char_props [of "n mod 10"] by simp
    finally show ?thesis .
  qed
qed

lemma nat_digits_all_digits: "list_all is_digit (nat_digits n)"
  by (induction n rule: nat_digits.induct) (subst nat_digits.simps, simp add: digit_char_props)

lemma js_Number_int_to_string: "0 \<le> i \<Longrightarrow> js_Number (int_to_string i) = Some i"
  by (simp add: js_Number_def int_to_string_def digits_value_nat_digits)

end
