(* ===== verification/App_Booking.thy ===== *)
theory App_Booking
  imports Booking_Modal
begin

text \<open>
  The application state of \<open>src/App.tsx\<close> (the \<open>useState\<close> calls, lines 31--80) as one
  record, and the handlers of the booking core as functions on it: opening and closing
  the booking modal, confirming a booking or a reschedule, payment success and close,
  \<open>finalizeBooking\<close> with its Google Sheets post, cancellation and the intake form.

  A handler reads the values of the render it was created in and writes through the
  setters. For the handlers invoked from the current render both are the same state.
  \<open>handlePaymentSuccess\<close> and \<open>finalizeBooking\<close> may also run from the closure the payment
  modal captured when it started the payment, so they take the closure's state \<open>r\<close>
  (what they read) apart from the current state \<open>s\<close> (what the setters update).
  Setters with a function argument (\<open>setBookings(prev => ...)\<close>) apply it to \<open>s\<close>.

  Effects that leave the application are returned beside the state: the POST to the
  Google Sheets web app and the 50 ms timer that opens the payment modal.
\<close>

datatype page = Browse | Profile | TherapistRegistration | Admin | TherapistDashboard | About

datatype auth_mode = Login | Signup

datatype mobile_page = MHome | MSearch | MProfile | MNone

record app_state =
  therapists :: "therapist list"
  filteredTherapists :: "therapist list"
  selectedTherapist :: "therapist option"
  isBookingModalOpen :: bool
  therapistToBook :: "therapist option"
  bookings :: "booking list"
  page :: page
  bookingToReschedule :: "booking option"
  isLoadingTherapists :: bool
  fetchError :: "string option"
  isCancelModalOpen :: bool
  bookingToCancel :: "booking option"
  isConfirmModalOpen :: bool
  lastBookingPaid :: bool
  isPaymentModalOpen :: bool
  pendingBookingDetails :: "booking_details option"
  isDeleteModalOpen :: bool
  therapistToDelete :: "therapist option"
  therapistToEdit :: "therapist option"
  bookingForIntake :: "booking option"
  intakeDataToView :: "intake_form option"
  isViewIntakeModalOpen :: bool
  isAuthModalOpen :: bool
  authMode :: auth_mode
  currentUser :: "user option"
  activeMobilePage :: mobile_page

definition init_app :: app_state where
  "init_app =
     \<lparr>therapists = [], filteredTherapists = [], selectedTherapist = None,
      isBookingModalOpen = False, therapistToBook = None, bookings = [], page = Browse,
      bookingToReschedule = None, isLoadingTherapists = True, fetchError = None,
      isCancelModalOpen = False, bookingToCancel = None, isConfirmModalOpen = False,
      lastBookingPaid = False, isPaymentModalOpen = False, pendingBookingDetails = None,
      isDeleteModalOpen = False, therapistToDelete = None, therapistToEdit = None,
      bookingForIntake = None, intakeDataToView = None, isViewIntakeModalOpen = False,
      isAuthModalOpen = False, authMode = Login, currentUser = None, activeMobilePage = MHome\<rparr>"

section \<open>Effects\<close>

text \<open>The flat record \<open>sendBookingToGoogleSheets\<close> posts (lines 393--404).\<close>

record sheet_row =
  row_bookingId :: string
  row_patientName :: string
  row_patientEmail :: string
  row_phone :: string
  row_therapistName :: string
  row_date :: js_date
  row_time :: string
  row_service :: string
  row_status :: "booking_status option"
  row_isPaid :: "bool option"

datatype effect = SheetPost sheet_row | OpenPaymentAfter50ms

definition GOOGLE_SHEET_URL :: string where
  "GOOGLE_SHEET_URL = ''https://script.google.com/macros/s/AKfycbyR2eimdPo_KuSJj9xCfEi2sK41NQ7HQ9O6AnfMIuIgenM9b7M1Lv7vsmm_r_uKTmpo1Q/exec''"

text \<open>
  The request is fire-and-forget: its failure is caught and logged, so the state is the
  same whether it succeeds or not, and only the request itself is an effect.
\<close>

definition sendBookingToGoogleSheets :: "app_state \<Rightarrow> booking \<Rightarrow> effect list" where
  "sendBookingToGoogleSheets r b =
     (if GOOGLE_SHEET_URL = [] then []
      else [SheetPost
             \<lparr>row_bookingId = bid b, row_patientName = patientName b,
              row_patientEmail = (case currentUser r of None \<Rightarrow> ''N/A''
                                  | Some u \<Rightarrow> opt_or (email u) ''N/A''),
              row_phone = opt_or (phoneNo b) ''N/A'', row_therapistName = tname (therapist b),
              row_date = date b, row_time = time b, row_service = opt_or (service b) ''General'',
              row_status = status b, row_isPaid = isPaid b\<rparr>])"

section \<open>Opening and closing the booking modal\<close>

definition handleOpenLoginModal :: "app_state \<Rightarrow> app_state" where
  "handleOpenLoginModal s = s\<lparr>authMode := Login, isAuthModalOpen := True\<rparr>"

definition handleOpenBookingModal :: "therapist \<Rightarrow> app_state \<Rightarrow> app_state" where
  "handleOpenBookingModal t s =
     (if currentUser s = None then handleOpenLoginModal s
      else s\<lparr>therapistToBook := Some t, isBookingModalOpen := True\<rparr>)"

definition handleOpenRescheduleModal :: "string \<Rightarrow> app_state \<Rightarrow> app_state" where
  "handleOpenRescheduleModal k s =
     (case List.find (\<lambda>b. bid b = k) (bookings s) of
        None \<Rightarrow> s
      | Some b \<Rightarrow> s\<lparr>bookingToReschedule := Some b, therapistToBook := Some (therapist b),
                    isBookingModalOpen := True\<rparr>)"

definition handleCloseBookingModal :: "app_state \<Rightarrow> app_state" where
  "handleCloseBookingModal s =
     s\<lparr>isBookingModalOpen := False, therapistToBook := None, bookingToReschedule := None,
       pendingBookingDetails := None\<rparr>"

section \<open>Finalising a booking\<close>

text \<open>The id \<open>`${Date.now()}-${therapistToBook.id}`\<close>; \<open>now\<close> is \<open>Date.now()\<close>.\<close>

definition booking_id :: "int \<Rightarrow> therapist \<Rightarrow> string" where
  "booking_id now t = int_to_string now @ ''-'' @ int_to_string (tid t)"

definition new_booking :: "int \<Rightarrow> booking_details \<Rightarrow> therapist \<Rightarrow> user \<Rightarrow> bool \<Rightarrow> booking" where
  "new_booking now d t u paid =
     \<lparr>bid = booking_id now t, userId = uid u, patientName = d_patientName d, therapist = t,
      date = d_date d, time = d_time d, status = Some Confirmed, intakeForm = None,
      patientEmail = None, phoneNo = Some (d_phoneNo d), service = Some (d_service d),
      isPaid = Some paid\<rparr>"

definition finalizeBooking ::
  "booking_details option \<Rightarrow> bool \<Rightarrow> int \<Rightarrow> app_state \<Rightarrow> app_state \<Rightarrow> app_state \<times> effect list" where
  "finalizeBooking details paid now r s =
     (case (details, therapistToBook r, currentUser r) of
        (Some d, Some t, Some u) \<Rightarrow>
          (let nb = new_booking now d t u paid
           in (s\<lparr>bookings := sort_key date (bookings s @ [nb]),
                 therapistToBook := Some (therapist nb), lastBookingPaid := paid,
                 isConfirmModalOpen := True, pendingBookingDetails := None\<rparr>,
               sendBookingToGoogleSheets r nb))
      | _ \<Rightarrow> (s, []))"

section \<open>Confirming the booking form\<close>

text \<open>The fields the reschedule branch overwrites (lines 324--333).\<close>

definition reschedule_update :: "booking_details \<Rightarrow> booking \<Rightarrow> booking" where
  "reschedule_update d b =
     b\<lparr>date := d_date d, time := d_time d, status := Some Confirmed,
       phoneNo := Some (d_phoneNo d), service := Some (d_service d)\<rparr>"

definition handleBookingConfirm :: "booking_details \<Rightarrow> int \<Rightarrow> app_state \<Rightarrow> app_state \<times> effect list" where
  "handleBookingConfirm d now s =
     (case bookingToReschedule s of
        Some rb \<Rightarrow>
          (s\<lparr>bookings := sort_key date (map_where (\<lambda>b. bid b = bid rb) (reschedule_update d) (bookings s)),
             bookingToReschedule := None, isBookingModalOpen := False,
             lastBookingPaid := False, isConfirmModalOpen := True\<rparr>, [])
      | None \<Rightarrow>
          (case (therapistToBook s, currentUser s) of
             (Some t, Some u) \<Rightarrow>
               (let s1 = s\<lparr>pendingBookingDetails := Some d\<rparr>
                in if online_payment_flag t
                   then (s1\<lparr>isBookingModalOpen := False\<rparr>, [OpenPaymentAfter50ms])
                   else finalizeBooking (Some d) False now s (s1\<lparr>isBookingModalOpen := False\<rparr>))
           | _ \<Rightarrow> (s, [])))"

section \<open>The payment modal's callbacks\<close>

text \<open>The timer set by the payment branch: \<open>setIsPaymentModalOpen(true)\<close> after 50 ms.\<close>

definition openPaymentModal :: "app_state \<Rightarrow> app_state" where
  "openPaymentModal s = s\<lparr>isPaymentModalOpen := True\<rparr>"

text \<open>\<open>handlePaymentSuccess\<close>, read in the closure \<open>r\<close>; the payment id is not kept.\<close>

definition handlePaymentSuccess :: "string \<Rightarrow> int \<Rightarrow> app_state \<Rightarrow> app_state \<Rightarrow> app_state \<times> effect list" where
  "handlePaymentSuccess paymentId now r s =
     (let s1 = s\<lparr>isPaymentModalOpen := False\<rparr>
      in case pendingBookingDetails r of
           Some d \<Rightarrow> finalizeBooking (Some d) True now r s1
         | None \<Rightarrow> (s1, []))"

text \<open>The \<open>onClose\<close> passed to the payment modal (lines 644--648).\<close>

definition paymentModalClose :: "app_state \<Rightarrow> app_state" where
  "paymentModalClose s =
     s\<lparr>isPaymentModalOpen := False, pendingBookingDetails := None, therapistToBook := None\<rparr>"

text \<open>The \<open>onClose\<close> passed to the confirmation modal (lines 671--674).\<close>

definition confirmModalClose :: "app_state \<Rightarrow> app_state" where
  "confirmModalClose s = s\<lparr>isConfirmModalOpen := False, therapistToBook := None\<rparr>"

section \<open>Cancellation\<close>

definition handleOpenCancelModal :: "string \<Rightarrow> app_state \<Rightarrow> app_state" where
  "handleOpenCancelModal k s =
     (case List.find (\<lambda>b. bid b = k) (bookings s) of
        None \<Rightarrow> s
      | Some b \<Rightarrow> s\<lparr>bookingToCancel := Some b, isCancelModalOpen := True\<rparr>)"

definition handleCloseCancelModal :: "app_state \<Rightarrow> app_state" where
  "handleCloseCancelModal s = s\<lparr>isCancelModalOpen := False, bookingToCancel := None\<rparr>"

definition cancel_booking :: "booking \<Rightarrow> booking" where
  "cancel_booking b = b\<lparr>status := Some Cancelled\<rparr>"

definition handleConfirmCancelBooking :: "string \<Rightarrow> app_state \<Rightarrow> app_state" where
  "handleConfirmCancelBooking k s =
     handleCloseCancelModal
       (case List.find (\<lambda>b. bid b = k) (bookings s) of
          None \<Rightarrow> s
        | Some _ \<Rightarrow> s\<lparr>bookings := map_where (\<lambda>b. bid b = k) cancel_booking (bookings s)\<rparr>)"

section \<open>Intake forms\<close>

definition handleOpenIntakeForm :: "string \<Rightarrow> app_state \<Rightarrow> app_state" where
  "handleOpenIntakeForm k s =
     (case List.find (\<lambda>b. bid b = k) (bookings s) of
        None \<Rightarrow> s
      | Some b \<Rightarrow> s\<lparr>bookingForIntake := Some b\<rparr>)"

definition handleCloseIntakeForm :: "app_state \<Rightarrow> app_state" where
  "handleCloseIntakeForm s = s\<lparr>bookingForIntake := None\<rparr>"

definition handleIntakeFormSubmit :: "string \<Rightarrow> intake_form \<Rightarrow> app_state \<Rightarrow> app_state" where
  "handleIntakeFormSubmit k form s =
     handleCloseIntakeForm
       (s\<lparr>bookings := map_where (\<lambda>b. bid b = k) (\<lambda>b. b\<lparr>intakeForm := Some form\<rparr>) (bookings s)\<rparr>)"

definition handleViewIntakeForm :: "string \<Rightarrow> app_state \<Rightarrow> app_state" where
  "handleViewIntakeForm k s =
     (case List.find (\<lambda>b. bid b = k) (bookings s) of
        Some b \<Rightarrow> (case intakeForm b of
                     Some form \<Rightarrow> s\<lparr>intakeDataToView := Some form, isViewIntakeModalOpen := True\<rparr>
                   | None \<Rightarrow> s)
      | None \<Rightarrow> s)"

definition handleCloseViewIntakeModal :: "app_state \<Rightarrow> app_state" where
  "handleCloseViewIntakeModal s = s\<lparr>isViewIntakeModalOpen := False, intakeDataToView := None\<rparr>"

section \<open>Behaviour of the handlers\<close>

lemmas app_handler_defs [model_simps] =
  handleOpenLoginModal_def handleOpenBookingModal_def handleCloseBookingModal_def
  openPaymentModal_def paymentModalClose_def confirmModalClose_def
  handleCloseCancelModal_def handleCloseIntakeForm_def handleCloseViewIntakeModal_def

lemma new_booking_fields [simp]:
  "bid (new_booking now d t u paid) = booking_id now t"
  "userId (new_booking now d t u paid) = uid u"
  "therapist (new_booking now d t u paid) = t"
  "date (new_booking now d t u paid) = d_date d"
  "status (new_booking now d t u paid) = Some Confirmed"
  "isPaid (new_booking now d t u paid) = Some paid"
  "intakeForm (new_booking now d t u paid) = None"
  by (simp_all add: new_booking_def)

lemma finalizeBooking_present:
  assumes "therapistToBook r = Some t" and "currentUser r = Some u"
  shows "finalizeBooking (Some d) paid now r s =
    (s\<lparr>bookings := sort_key date (bookings s @ [new_booking now d t u paid]),
       therapistToBook := Some t, lastBookingPaid := paid, isConfirmModalOpen := True,
       pendingBookingDetails := None\<rparr>,
     sendBookingToGoogleSheets r (new_booking now d t u paid))"
  using assms by (simp add: finalizeBooking_def Let_def)

lemma finalizeBooking_absent:
  "details = None \<or> therapistToBook r = None \<or> currentUser r = None \<Longrightarrow>
   finalizeBooking details paid now r s = (s, [])"
  by (auto simp: finalizeBooking_def split: option.splits)

lemma finalizeBooking_cases:
  "finalizeBooking details paid now r s = (s', effs) \<Longrightarrow>
     (s' = s \<and> effs = []) \<or>
     (\<exists>d t u. details = Some d \<and> therapistToBook r = Some t \<and> currentUser r = Some u \<and>
        bookings s' = sort_key date (bookings s @ [new_booking now d t u paid]) \<and>
        pendingBookingDetails s' = None \<and> isConfirmModalOpen s' \<and>
        effs = sendBookingToGoogleSheets r (new_booking now d t u paid))"
  by (auto simp: finalizeBooking_def Let_def split: option.splits)

lemma sendBookingToGoogleSheets_one:
  "sendBookingToGoogleSheets r b = [SheetPost row] \<Longrightarrow>
     row_bookingId row = bid b \<and> row_status row = status b \<and> row_isPaid row = isPaid b"
  by (auto simp: sendBookingToGoogleSheets_def split: if_splits)

lemma sendBookingToGoogleSheets_length [simp]: "length (sendBookingToGoogleSheets r b) = 1"
  by (simp add: sendBookingToGoogleSheets_def GOOGLE_SHEET_URL_def)

lemma reschedule_update_keeps [simp]:
  "bid (reschedule_update d b) = bid b" "userId (reschedule_update d b) = userId b"
  "therapist (reschedule_update d b) = therapist b" "isPaid (reschedule_update d b) = isPaid b"
  "patientName (reschedule_update d b) = patientName b"
  "intakeForm (reschedule_update d b) = intakeForm b"
  "date (reschedule_update d b) = d_date d" "time (reschedule_update d b) = d_time d"
  "status (reschedule_update d b) = Some Confirmed"
  by (simp_all add: reschedule_update_def)

lemma cancel_booking_keeps [simp]:
  "bid (cancel_booking b) = bid b" "userId (cancel_booking b) = userId b"
  "therapist (cancel_booking b) = therapist b" "isPaid (cancel_booking b) = isPaid b"
  "date (cancel_booking b) = date b" "status (cancel_booking b) = Some Cancelled"
  by (simp_all add: cancel_booking_def)

lemma cancel_booking_only_status: "(cancel_booking b)\<lparr>status := status b\<rparr> = b"
  by (simp add: cancel_booking_def)

text \<open>The three outcomes of \<open>handleBookingConfirm\<close>.\<close>

lemma handleBookingConfirm_reschedule:
  "bookingToReschedule s = Some rb \<Longrightarrow>
   handleBookingConfirm d now s =
     (s\<lparr>bookings := sort_key date (map_where (\<lambda>b. bid b = bid rb) (reschedule_update d) (bookings s)),
        bookingToReschedule := None, isBookingModalOpen := False,
        lastBookingPaid := False, isConfirmModalOpen := True\<rparr>, [])"
  by (simp add: handleBookingConfirm_def)

lemma handleBookingConfirm_online:
  "bookingToReschedule s = None \<Longrightarrow> therapistToBook s = Some t \<Longrightarrow> currentUser s = Some u \<Longrightarrow>
   online_payment_flag t \<Longrightarrow>
   handleBookingConfirm d now s =
     (s\<lparr>pendingBookingDetails := Some d, isBookingModalOpen := False\<rparr>, [OpenPaymentAfter50ms])"
  by (simp add: handleBookingConfirm_def Let_def)

lemma handleBookingConfirm_direct:
  "bookingToReschedule s = None \<Longrightarrow> therapistToBook s = Some t \<Longrightarrow> currentUser s = Some u \<Longrightarrow>
   \<not> online_payment_flag t \<Longrightarrow>
   handleBookingConfirm d now s =
     finalizeBooking (Some d) False now s
       (s\<lparr>pendingBookingDetails := Some d, isBookingModalOpen := False\<rparr>)"
  by (simp add: handleBookingConfirm_def Let_def)

lemma handleBookingConfirm_inert:
  "bookingToReschedule s = None \<Longrightarrow> therapistToBook s = None \<or> currentUser s = None \<Longrightarrow>
   handleBookingConfirm d now s = (s, [])"
  by (auto simp: handleBookingConfirm_def split: option.splits)

text \<open>What the two finalising handlers can do to the booking list.\<close>

lemma handleBookingConfirm_bookings:
  assumes h: "handleBookingConfirm d now s = (s', effs)"
  shows "bookings s' = bookings s \<or>
         (\<exists>rb::booking. bookings s' = sort_key date (map_where (\<lambda>b. bid b = bid rb) (reschedule_update d) (bookings s))) \<or>
         (\<exists>t u. bookings s' = sort_key date (bookings s @ [new_booking now d t u False]))"
proof (cases "bookingToReschedule s")
  case None
  show ?thesis
  proof (cases "\<exists>t u. therapistToBook s = Some t \<and> currentUser s = Some u")
    case True
    then obtain t u where t: "therapistToBook s = Some t" and u: "currentUser s = Some u" by blast
    show ?thesis
    proof (cases "online_payment_flag t")
      case True
      with h None t u show ?thesis by (auto simp: handleBookingConfirm_online)
    next
      case False
      with h None t u have "finalizeBooking (Some d) False now s
          (s\<lparr>pendingBookingDetails := Some d, isBookingModalOpen := False\<rparr>) = (s', effs)"
        by (simp add: handleBookingConfirm_direct)
      from finalizeBooking_cases [OF this] t u show ?thesis by auto
    qed
  qed (use h None in \<open>auto simp: handleBookingConfirm_inert\<close>)
next
  case (Some rb)
  with h have "\<exists>rb::booking. bookings s' = sort_key date (map_where (\<lambda>b. bid b = bid rb) (reschedule_update d) (bookings s))"
    by (auto simp: handleBookingConfirm_reschedule)
  then show ?thesis by blast
qed

lemma handlePaymentSuccess_bookings:
  assumes "handlePaymentSuccess pid now r s = (s', effs)"
  shows "bookings s' = bookings s \<or> (\<exists>d t u. bookings s' = sort_key date (bookings s @ [new_booking now d t u True]))"
proof (cases "pendingBookingDetails r")
  case (Some d)
  with assms have "finalizeBooking (Some d) True now r (s\<lparr>isPaymentModalOpen := False\<rparr>) = (s', effs)"
    by (simp add: handlePaymentSuccess_def)
  from finalizeBooking_cases [OF this] show ?thesis by auto
qed (use assms in \<open>auto simp: handlePaymentSuccess_def\<close>)
section \<open>Properties of the booking core\<close>

text \<open>
  Claim C5. Finalising with a therapist and a user appends exactly one booking, confirmed
  and with the requested payment flag, keeps the list sorted by date, clears the pending
  details, and posts exactly one row about that booking to the logging sink.
\<close>

theorem finalize_appends_confirmed:
  assumes "therapistToBook r = Some t" and "currentUser r = Some u"
    and "finalizeBooking (Some d) paid now r s = (s', effs)"
  shows "mset (bookings s') = add_mset (new_booking now d t u paid) (mset (bookings s)) \<and>
         bookings_sorted (bookings s') \<and>
         status (new_booking now d t u paid) = Some Confirmed \<and>
         isPaid (new_booking now d t u paid) = Some paid \<and>
         pendingBookingDetails s' = None \<and> isConfirmModalOpen s' \<and>
         (\<exists>row. effs = [SheetPost row] \<and> row_bookingId row = bid (new_booking now d t u paid) \<and>
                row_isPaid row = Some paid)"
proof -
  have eq: "s' = s\<lparr>bookings := sort_key date (bookings s @ [new_booking now d t u paid]),
       therapistToBook := Some t, lastBookingPaid := paid, isConfirmModalOpen := True,
       pendingBookingDetails := None\<rparr>"
    and effs: "effs = sendBookingToGoogleSheets r (new_booking now d t u paid)"
    using assms finalizeBooking_present [OF assms(1,2)] by auto
  show ?thesis
    by (simp add: eq effs sendBookingToGoogleSheets_def GOOGLE_SHEET_URL_def)
qed

theorem finalize_appends_confirmed_witness:
  "mset (bookings (fst (finalizeBooking (Some (demo_details 1741564800000 ''10:00 AM'')) False 1000
      (init_app\<lparr>therapistToBook := Some (demo_therapist 2 500 False), currentUser := Some demo_user\<rparr>)
      (init_app\<lparr>therapistToBook := Some (demo_therapist 2 500 False), currentUser := Some demo_user\<rparr>))))
   = {#new_booking 1000 (demo_details 1741564800000 ''10:00 AM'') (demo_therapist 2 500 False) demo_user False#}"
proof -
  let ?s = "init_app\<lparr>therapistToBook := Some (demo_therapist 2 500 False), currentUser := Some demo_user\<rparr>"
  obtain s' effs where f: "finalizeBooking (Some (demo_details 1741564800000 ''10:00 AM'')) False 1000 ?s ?s = (s', effs)"
    by fastforce
  from finalize_appends_confirmed [OF _ _ f] have "mset (bookings s') =
     add_mset (new_booking 1000 (demo_details 1741564800000 ''10:00 AM'') (demo_therapist 2 500 False) demo_user False)
       (mset (bookings ?s))" by simp
  then show ?thesis using f by (simp add: init_app_def)
qed

text \<open>
  Claim C6. \<open>finalizeBooking\<close> is a no-op, with no request to the logging sink, when the
  details, the therapist or the user is missing.
\<close>

theorem finalize_requires_intent:
  assumes "details = None \<or> therapistToBook r = None \<or> currentUser r = None"
  shows "finalizeBooking details paid now r s = (s, [])"
  using assms by (auto simp: finalizeBooking_def split: option.splits)

theorem finalize_requires_intent_witness:
  "finalizeBooking (Some (demo_details 1741564800000 ''10:00 AM'')) True 1000 init_app init_app = (init_app, [])"
  by (rule finalize_requires_intent) (simp add: init_app_def)

text \<open>
  Claim C7. Appending the new booking and sorting again (\<open>[...prev, newBooking].sort(...)\<close>)
  is, on a sorted list, a stable insertion: the new booking goes right after every booking
  dated no later than it, and the rest keep their order.
\<close>

theorem finalize_stable_insert:
  assumes "bookings_sorted (bookings s)" and "therapistToBook r = Some t" and "currentUser r = Some u"
  shows "bookings (fst (finalizeBooking (Some d) paid now r s)) =
           takeWhile (\<lambda>b. date b \<le> d_date d) (bookings s) @ new_booking now d t u paid #
           dropWhile (\<lambda>b. date b \<le> d_date d) (bookings s)"
  using assms sort_key_snoc_sorted [of date "bookings s" "new_booking now d t u paid"]
  by (simp add: finalizeBooking_present bookings_sorted_def)

theorem finalize_stable_insert_witness:
  "bookings (fst (finalizeBooking (Some (demo_details 1741564800000 ''10:00 AM'')) False 1000
      (init_app\<lparr>therapistToBook := Some (demo_therapist 2 500 False), currentUser := Some demo_user\<rparr>)
      (init_app\<lparr>therapistToBook := Some (demo_therapist 2 500 False), currentUser := Some demo_user\<rparr>)))
   = [new_booking 1000 (demo_details 1741564800000 ''10:00 AM'') (demo_therapist 2 500 False) demo_user False]"
  using finalize_stable_insert [of "init_app\<lparr>therapistToBook := Some (demo_therapist 2 500 False), currentUser := Some demo_user\<rparr>"
      "init_app\<lparr>therapistToBook := Some (demo_therapist 2 500 False), currentUser := Some demo_user\<rparr>"
      "demo_therapist 2 500 False" demo_user "demo_details 1741564800000 ''10:00 AM''" False 1000]
  by (simp add: init_app_def bookings_sorted_def)

text \<open>
  Claim C8. Confirming a cancellation never removes a booking: the list keeps its length,
  each booking keeps every field but its status, and the bookings with the cancelled id
  get the status \<open>cancelled\<close>; the cancel modal is closed.
\<close>

theorem cancel_only_status:
  "length (bookings (handleConfirmCancelBooking k s)) = length (bookings s) \<and>
   \<not> isCancelModalOpen (handleConfirmCancelBooking k s) \<and>
   (\<forall>i < length (bookings s).
      (bookings (handleConfirmCancelBooking k s) ! i)\<lparr>status := status (bookings s ! i)\<rparr> = bookings s ! i \<and>
      (bid (bookings s ! i) = k \<longrightarrow> status (bookings (handleConfirmCancelBooking k s) ! i) = Some Cancelled))"
proof (cases "List.find (\<lambda>b. bid b = k) (bookings s)")
  case None
  then have "\<forall>b\<in>set (bookings s). bid b \<noteq> k" by (simp add: find_None_iff)
  with None show ?thesis
    by (auto simp: handleConfirmCancelBooking_def handleCloseCancelModal_def dest: nth_mem)
next
  case (Some b)
  then show ?thesis
    by (auto simp: handleConfirmCancelBooking_def handleCloseCancelModal_def map_where_nth
        cancel_booking_only_status)
qed

theorem cancel_only_status_witness:
  "status (bookings (handleConfirmCancelBooking ''1000-2''
     (init_app\<lparr>bookings := [new_booking 1000 (demo_details 1741564800000 ''10:00 AM'')
                                (demo_therapist 2 500 False) demo_user False]\<rparr>)) ! 0) = Some Cancelled"
proof -
  let ?b = "new_booking 1000 (demo_details 1741564800000 ''10:00 AM'') (demo_therapist 2 500 False) demo_user False"
  have "bid ?b = ''1000-2''"
    by code_simp
  then show ?thesis
    using cancel_only_status [of "''1000-2''" "init_app\<lparr>bookings := [?b]\<rparr>"] by simp
qed

text \<open>
  Claim C9. Confirming a reschedule keeps every booking's id, user, therapist, patient name,
  payment flag and intake form (the bookings' multiset of these is unchanged), keeps every
  other booking as it was, gives the rescheduled booking the new date, time, phone and
  service and the status \<open>confirmed\<close>, keeps the list sorted and starts no payment.
\<close>

theorem reschedule_keeps_identity:
  assumes "bookingToReschedule s = Some rb" and "handleBookingConfirm d now s = (s', effs)"
  shows "effs = [] \<and> bookings_sorted (bookings s') \<and> bookingToReschedule s' = None \<and>
         mset (map (\<lambda>b. (bid b, userId b, therapist b, patientName b, isPaid b, intakeForm b)) (bookings s')) =
           mset (map (\<lambda>b. (bid b, userId b, therapist b, patientName b, isPaid b, intakeForm b)) (bookings s)) \<and>
         (\<forall>b\<in>set (bookings s). bid b \<noteq> bid rb \<longrightarrow> b \<in> set (bookings s')) \<and>
         (\<forall>b\<in>set (bookings s'). bid b = bid rb \<longrightarrow>
            date b = d_date d \<and> time b = d_time d \<and> status b = Some Confirmed \<and>
            phoneNo b = Some (d_phoneNo d) \<and> service b = Some (d_service d))"
proof -
  let ?bs = "map_where (\<lambda>b. bid b = bid rb) (reschedule_update d) (bookings s)"
  let ?key = "\<lambda>b. (bid b, userId b, therapist b, patientName b, isPaid b, intakeForm b)"
  have s': "bookings s' = sort_key date ?bs" and effs: "effs = []" and r: "bookingToReschedule s' = None"
    using assms by (auto simp: handleBookingConfirm_reschedule)
  have keys: "map ?key ?bs = map ?key (bookings s)"
    by (rule map_map_where_keep) simp
  have "mset (map ?key (sort_key date ?bs)) = mset (map ?key ?bs)"
    by (simp only: mset_map mset_sort)
  with keys have "mset (map ?key (bookings s')) = mset (map ?key (bookings s))" by (simp add: s')
  moreover have "\<forall>b\<in>set (bookings s). bid b \<noteq> bid rb \<longrightarrow> b \<in> set (bookings s')"
    by (simp add: s' set_map_where)
  moreover have "\<forall>b\<in>set (bookings s'). bid b = bid rb \<longrightarrow>
            date b = d_date d \<and> time b = d_time d \<and> status b = Some Confirmed \<and>
            phoneNo b = Some (d_phoneNo d) \<and> service b = Some (d_service d)"
    by (auto simp: s' set_map_where reschedule_update_def)
  ultimately show ?thesis by (simp add: s' effs r)
qed

theorem reschedule_keeps_identity_witness:
  "bookings (fst (handleBookingConfirm (demo_details 1741737600000 ''02:00 PM'') 2000
     (init_app\<lparr>bookings := [new_booking 1000 (demo_details 1741564800000 ''10:00 AM'')
                                (demo_therapist 2 500 False) demo_user False],
               bookingToReschedule := Some (new_booking 1000 (demo_details 1741564800000 ''10:00 AM'')
                                (demo_therapist 2 500 False) demo_user False)\<rparr>)))
   \<noteq> []"
proof -
  let ?b = "new_booking 1000 (demo_details 1741564800000 ''10:00 AM'') (demo_therapist 2 500 False) demo_user False"
  let ?s = "init_app\<lparr>bookings := [?b], bookingToReschedule := Some ?b\<rparr>"
  obtain s' effs where h: "handleBookingConfirm (demo_details 1741737600000 ''02:00 PM'') 2000 ?s = (s', effs)"
    by fastforce
  let ?key = "\<lambda>b. (bid b, userId b, therapist b, patientName b, isPaid b, intakeForm b)"
  have "bookingToReschedule ?s = Some ?b" by simp
  from reschedule_keeps_identity [OF this h] have "mset (map ?key (bookings s')) = mset (map ?key (bookings ?s))" by blast
  then have "size (mset (map ?key (bookings s'))) = size (mset (map ?key (bookings ?s)))" by (rule arg_cong)
  then have "length (bookings s') = 1" by simp
  then show ?thesis using h by auto
qed

text \<open>
  Claim C11. Every exit from a booking attempt clears the pending details: closing the
  booking modal, closing the payment modal, and finalising the booking.
\<close>

theorem pending_cleared_on_exit:
  "pendingBookingDetails (handleCloseBookingModal s) = None \<and>
   pendingBookingDetails (paymentModalClose s) = None \<and>
   (therapistToBook r \<noteq> None \<longrightarrow> currentUser r \<noteq> None \<longrightarrow>
      pendingBookingDetails (fst (finalizeBooking (Some d) paid now r s)) = None)"
  by (auto simp: handleCloseBookingModal_def paymentModalClose_def finalizeBooking_def Let_def)

theorem pending_cleared_on_exit_witness:
  "pendingBookingDetails (fst (finalizeBooking (Some (demo_details 1741564800000 ''10:00 AM'')) True 1000
     (init_app\<lparr>therapistToBook := Some (demo_therapist 2 800 True), currentUser := Some demo_user\<rparr>)
     (init_app\<lparr>pendingBookingDetails := Some (demo_details 1741564800000 ''10:00 AM'')\<rparr>))) = None"
  using pending_cleared_on_exit [of _ "init_app\<lparr>therapistToBook := Some (demo_therapist 2 800 True), currentUser := Some demo_user\<rparr>"
      "demo_details 1741564800000 ''10:00 AM''" True 1000]
  by simp

end
