(* ===== verification/Auth.thy ===== *)
theory Auth
  imports App_Navigation
begin

text \<open>
  The Supabase auth listener of \<open>src/App.tsx\<close> (the \<open>onAuthStateChange\<close> callback,
  lines 110--204). On every auth event it settles \<open>currentUser\<close>: with no session it
  logs out; with a session it reads the user's row of the \<open>profiles\<close> table, and when
  there is none it inserts one and uses the inserted row. A failed read or insert logs the
  user in as a patient built from the session. On \<open>SIGNED_IN\<close> it closes the auth modal
  and sends therapists and admins to their pages. The two awaited database calls are
  inputs of the model: their answers are an error message (\<open>Inl\<close>) or the returned rows
  (\<open>Inr\<close>, a missing array being the empty list). Every state change happens after the
  last await, so the listener is one function from the answers to the next state.
\<close>

datatype auth_event =
  INITIAL_SESSION | SIGNED_IN | SIGNED_OUT | TOKEN_REFRESHED | USER_UPDATED | PASSWORD_RECOVERY

text \<open>The fields of \<open>session.user\<close> the listener reads (\<open>user_metadata.full_name\<close> included).\<close>

record session_user =
  su_id :: string
  su_email :: "string option"
  su_phone :: "string option"
  su_full_name :: "string option"

text \<open>A row of \<open>profiles\<close> as selected: \<open>full_name, role, therapist_id\<close>.\<close>

record profile_row =
  p_full_name :: "string option"
  p_role :: role
  p_therapist_id :: "int option"

type_synonym db_answer = "string + profile_row list"

text \<open>\<open>session.user.email?.split('@')[0]\<close>, with \<open>undefined\<close> as the empty (falsy) string.\<close>

definition email_prefix :: "session_user \<Rightarrow> string" where
  "email_prefix su =
     (case su_email su of None \<Rightarrow> [] | Some e \<Rightarrow> (case split_on CHR ''@'' e of [] \<Rightarrow> [] | w # _ \<Rightarrow> w))"

text \<open>Line 126: \<open>user_metadata?.full_name || email?.split('@')[0] || 'User'\<close>.\<close>

definition fallback_name :: "session_user \<Rightarrow> string" where
  "fallback_name su = opt_or (su_full_name su) (js_or (email_prefix su) ''User'')"

text \<open>Line 158 (\<open>fullName\<close>): the same chain with the phone and \<open>'New User'\<close> last.\<close>

definition new_profile_name :: "session_user \<Rightarrow> string" where
  "new_profile_name su =
     opt_or (su_full_name su) (js_or (email_prefix su) (opt_or (su_phone su) ''New User''))"

text \<open>The fallback users of lines 124--129 and 172--177: a patient with the session's email.\<close>

definition fallback_user :: "session_user \<Rightarrow> string \<Rightarrow> user" where
  "fallback_user su n = \<lparr>uid = su_id su, uname = n, email = su_email su, role = RPatient, therapistId = None\<rparr>"

text \<open>
  The users built from a profile row (lines 139--145 and 184--190): the email is set only
  when it is truthy. The inserted row's \<open>full_name\<close> is taken as is; a \<open>null\<close> there
  is the empty name.
\<close>

definition truthy_email :: "session_user \<Rightarrow> string option" where
  "truthy_email su = (case su_email su of Some e \<Rightarrow> (if e = [] then None else Some e) | None \<Rightarrow> None)"

definition profile_user :: "session_user \<Rightarrow> profile_row \<Rightarrow> user" where
  "profile_user su p =
     \<lparr>uid = su_id su, uname = opt_or (p_full_name p) (new_profile_name su), email = truthy_email su,
      role = p_role p, therapistId = p_therapist_id p\<rparr>"

definition inserted_user :: "session_user \<Rightarrow> profile_row \<Rightarrow> user" where
  "inserted_user su p =
     \<lparr>uid = su_id su, uname = (case p_full_name p of Some n \<Rightarrow> n | None \<Rightarrow> []), email = truthy_email su,
      role = p_role p, therapistId = p_therapist_id p\<rparr>"

definition on_signed_in :: "auth_event \<Rightarrow> app_state \<Rightarrow> app_state" where
  "on_signed_in ev s = (if ev = SIGNED_IN then handleCloseAuthModal s else s)"

text \<open>Lines 148--155: the redirect of a freshly signed-in therapist or admin.\<close>

definition role_redirect :: "role \<Rightarrow> app_state \<Rightarrow> app_state" where
  "role_redirect r s =
     (case r of RTherapist \<Rightarrow> handleShowTherapistDashboard s | RAdmin \<Rightarrow> handleShowAdminPage s
      | RPatient \<Rightarrow> s)"

definition onAuthStateChange ::
  "auth_event \<Rightarrow> session_user option \<Rightarrow> db_answer \<Rightarrow> db_answer \<Rightarrow> app_state \<Rightarrow> app_state" where
  "onAuthStateChange ev sess fetched inserted s =
     (case sess of
        None \<Rightarrow> s\<lparr>currentUser := None\<rparr>
      | Some su \<Rightarrow>
          (case fetched of
             Inl _ \<Rightarrow> on_signed_in ev (s\<lparr>currentUser := Some (fallback_user su (fallback_name su))\<rparr>)
           | Inr (p # _) \<Rightarrow>
               (let u = profile_user su p; s1 = s\<lparr>currentUser := Some u\<rparr>
                in if ev = SIGNED_IN then role_redirect (role u) (handleCloseAuthModal s1) else s1)
           | Inr [] \<Rightarrow>
               (case inserted of
                  Inl _ \<Rightarrow> on_signed_in ev (s\<lparr>currentUser := Some (fallback_user su (new_profile_name su))\<rparr>)
                | Inr (p # _) \<Rightarrow> on_signed_in ev (s\<lparr>currentUser := Some (inserted_user su p)\<rparr>)
                | Inr [] \<Rightarrow> s)))"

text \<open>A session and an admin's profile row, for the examples.\<close>

definition demo_session :: session_user where
  "demo_session = \<lparr>su_id = ''u9'', su_email = Some ''ravi@example.com'', su_phone = None,
                   su_full_name = None\<rparr>"

definition admin_row :: profile_row where
  "admin_row = \<lparr>p_full_name = Some ''Ravi'', p_role = RAdmin, p_therapist_id = None\<rparr>"

section \<open>Properties of the auth listener\<close>

lemmas auth_defs = onAuthStateChange_def on_signed_in_def role_redirect_def handleCloseAuthModal_def
  handleShowTherapistDashboard_def handleShowAdminPage_def

text \<open>The listener changes the user, the auth modal, the page and the selected therapist only.\<close>

lemma onAuthStateChange_frame:
  "onAuthStateChange ev sess fetched inserted s =
     s\<lparr>currentUser := currentUser (onAuthStateChange ev sess fetched inserted s),
       isAuthModalOpen := isAuthModalOpen (onAuthStateChange ev sess fetched inserted s),
       page := page (onAuthStateChange ev sess fetched inserted s),
       selectedTherapist := selectedTherapist (onAuthStateChange ev sess fetched inserted s)\<rparr>"
  by (simp add: auth_defs Let_def split: option.splits sum.splits list.splits role.splits)

lemma onAuthStateChange_user_cases:
  "currentUser (onAuthStateChange ev sess fetched inserted s) =
     (case sess of
        None \<Rightarrow> None
      | Some su \<Rightarrow>
          (case fetched of
             Inl _ \<Rightarrow> Some (fallback_user su (fallback_name su))
           | Inr (p # _) \<Rightarrow> Some (profile_user su p)
           | Inr [] \<Rightarrow>
               (case inserted of
                  Inl _ \<Rightarrow> Some (fallback_user su (new_profile_name su))
                | Inr (p # _) \<Rightarrow> Some (inserted_user su p)
                | Inr [] \<Rightarrow> currentUser s)))"
  by (simp add: auth_defs Let_def split: option.splits sum.splits list.splits role.splits)

lemma onAuthStateChange_bookings [simp]:
  "bookings (onAuthStateChange ev sess fetched inserted s) = bookings s"
  by (subst onAuthStateChange_frame) simp

lemmas auth_user_defs = fallback_user_def profile_user_def inserted_user_def

text \<open>
  Claim C21. The listener grants a therapist or admin role only from a row of the
  \<open>profiles\<close> table, the one read or the one inserted, together with that row's therapist
  id; every fallback built from the session is a patient. (Otherwise the user is the one
  already logged in.)
\<close>

theorem auth_role_from_profile:
  assumes "currentUser (onAuthStateChange ev sess fetched inserted s) = Some u" and "role u \<noteq> RPatient"
  shows "currentUser s = Some u \<or>
         (\<exists>p ps. (fetched = Inr (p # ps) \<or> fetched = Inr [] \<and> inserted = Inr (p # ps)) \<and>
                 p_role p = role u \<and> p_therapist_id p = therapistId u)"
  using assms
  by (auto simp: onAuthStateChange_user_cases auth_user_defs split: option.splits sum.splits list.splits)

theorem auth_role_from_profile_witness:
  "\<exists>p ps. Inr [admin_row] = (Inr (p # ps) :: db_answer) \<and> p_role p = RAdmin \<and> p_therapist_id p = None"
proof -
  have "currentUser (onAuthStateChange SIGNED_IN (Some demo_session) (Inr [admin_row]) (Inr []) init_app) =
          Some (profile_user demo_session admin_row)"
    by (simp add: onAuthStateChange_user_cases)
  from auth_role_from_profile [OF this] show ?thesis
    by (simp add: init_app_def profile_user_def admin_row_def)
qed

text \<open>
  When the profile read fails (for instance when row-level security blocks it),
  the session's user is logged in as a patient with a non-empty name, no redirect happens,
  and a \<open>SIGNED_IN\<close> event closes the auth modal.
\<close>

theorem auth_read_error_fallback:
  assumes "fetched = Inl msg"
  shows "currentUser (onAuthStateChange ev (Some su) fetched inserted s) =
           Some \<lparr>uid = su_id su, uname = fallback_name su, email = su_email su, role = RPatient,
                 therapistId = None\<rparr> \<and>
         fallback_name su \<noteq> [] \<and>
         page (onAuthStateChange ev (Some su) fetched inserted s) = page s \<and>
         isAuthModalOpen (onAuthStateChange ev (Some su) fetched inserted s) =
           (isAuthModalOpen s \<and> ev \<noteq> SIGNED_IN)"
  using assms by (simp add: auth_defs fallback_user_def fallback_name_def opt_or_nonempty js_or_nonempty)

theorem auth_read_error_fallback_witness:
  "currentUser (onAuthStateChange SIGNED_IN (Some demo_session) (Inl ''permission denied'') (Inr []) init_app) =
     Some \<lparr>uid = ''u9'', uname = fallback_name demo_session, email = Some ''ravi@example.com'',
           role = RPatient, therapistId = None\<rparr>"
  using auth_read_error_fallback [of "Inl ''permission denied''" "''permission denied''" SIGNED_IN demo_session "Inr []" init_app]
  by (simp add: demo_session_def)

text \<open>
  When the profile read returns no row and the insert returns no row either
  (neither answering with an error), the listener changes nothing: the user of the previous
  session, if any, stays logged in although the session now belongs to someone else.
\<close>

theorem auth_empty_answers_keep_state:
  "onAuthStateChange ev (Some su) (Inr []) (Inr []) s = s"
  by (simp add: onAuthStateChange_def)

text \<open>
  With a profile row, a \<open>SIGNED_IN\<close> event sends a therapist to the dashboard
  and an admin to the admin page; a patient, and any other event, keeps the page.
\<close>

theorem auth_redirect_on_sign_in:
  assumes "fetched = Inr (p # ps)"
  shows "page (onAuthStateChange ev (Some su) fetched inserted s) =
           (if ev = SIGNED_IN then (case p_role p of RTherapist \<Rightarrow> TherapistDashboard | RAdmin \<Rightarrow> Admin
                                    | RPatient \<Rightarrow> page s)
            else page s)"
  using assms by (simp add: auth_defs profile_user_def Let_def split: role.splits)

theorem auth_redirect_on_sign_in_witness:
  "page (onAuthStateChange SIGNED_IN (Some demo_session) (Inr [admin_row]) (Inr []) init_app) = Admin"
  using auth_redirect_on_sign_in [of "Inr [admin_row]" admin_row "[]" SIGNED_IN demo_session "Inr []" init_app]
  by (simp add: admin_row_def)

text \<open>
  The listener logs out exactly when there is no session, and otherwise logs in
  the session's own user (its id), except when both database answers are empty, where the
  previous user is kept.
\<close>

theorem auth_user_is_session_user:
  "currentUser (onAuthStateChange ev sess fetched inserted s) = None \<and> sess = None \<or>
   (\<exists>su u. sess = Some su \<and> currentUser (onAuthStateChange ev sess fetched inserted s) = Some u \<and>
           uid u = su_id su) \<or>
   (sess \<noteq> None \<and> fetched = Inr [] \<and> inserted = Inr [] \<and>
    currentUser (onAuthStateChange ev sess fetched inserted s) = currentUser s)"
  by (auto simp: onAuthStateChange_user_cases auth_user_defs split: option.splits sum.splits list.splits)

end
