(* ===== verification/Payment_Modal.thy ===== *)
theory Payment_Modal
  imports Demo_Data
begin

text \<open>
  The payment modal of \<open>src/components/PaymentProcessingModal.tsx\<close>: its local state
  (\<open>loading\<close>, \<open>error\<close>, \<open>step\<close>), and what each asynchronous stage of
  \<open>initiatePayment\<close> and \<open>verifyPayment\<close> makes of the answer it receives: the Razorpay
  script load, the \<open>create-razorpay-order\<close> invocation, the checkout's three callbacks
  (\<open>handler\<close>, \<open>payment.failed\<close>, \<open>ondismiss\<close>) and the \<open>verify-razorpay-payment\<close>
  invocation. Which stage is in flight, and for which mounted instance, is the business of
  the composed flow (theory \<open>Booking_Flow\<close>); here every stage is a function from the
  answer to the next local state and the next stage.
\<close>

datatype pay_step = Initiating | Processing | Verifying

record pay_modal =
  pm_loading :: bool
  pm_error :: string
  pm_step :: pay_step

definition init_pay_modal :: pay_modal where
  "init_pay_modal = \<lparr>pm_loading = True, pm_error = '''', pm_step = Initiating\<rparr>"

text \<open>The synchronous start of \<open>initiatePayment\<close> (lines 57--59).\<close>

definition initiatePayment_start :: "pay_modal \<Rightarrow> pay_modal" where
  "initiatePayment_start pm = pm\<lparr>pm_error := '''', pm_loading := True, pm_step := Initiating\<rparr>"

text \<open>The \<open>catch\<close> of \<open>initiatePayment\<close> (lines 149--153): the thrown message, or a default.\<close>

definition payment_flow_error :: "string \<Rightarrow> pay_modal \<Rightarrow> pay_modal" where
  "payment_flow_error msg pm =
     pm\<lparr>pm_error := js_or msg ''Something went wrong initializing payment.'', pm_loading := False\<rparr>"

section \<open>Script load\<close>

definition msg_sdk_failed :: string where
  "msg_sdk_failed = ''Razorpay SDK failed to load. Please check your internet connection.''"

section \<open>Order creation\<close>

text \<open>
  The body the edge function answers with: an order with \<open>id\<close>, \<open>amount\<close> and
  \<open>currency\<close>, or \<open>{error}\<close>. Missing fields are \<open>None\<close>.
\<close>

record order =
  order_id :: "string option"
  order_error :: "string option"
  order_amount :: int
  order_currency :: string

definition msg_network :: string where
  "msg_network = ''Network Error: Could not connect to the backend. Please ensure the 'create-razorpay-order' function is deployed in Supabase.''"

text \<open>The message built from an invocation error (lines 79--89).\<close>

definition invoke_error_message :: "string \<Rightarrow> string" where
  "invoke_error_message m =
     (if m = [] then ''Failed to initiate payment.''
      else if js_includes m ''Failed to send a request'' \<or> js_includes m ''fetch failed''
      then msg_network
      else ''Failed to initiate payment.'' @ '' ('' @ m @ '')'')"

text \<open>
  Lines 77--101: an invocation error, a missing body or a body with a truthy \<open>error\<close>,
  and a body without an \<open>id\<close> are failures (\<open>Inl\<close> with the message thrown); otherwise
  the order is opened in the checkout (\<open>Inr\<close>).
\<close>

definition check_order_id :: "order \<Rightarrow> string + order" where
  "check_order_id od =
     (if opt_or (order_id od) [] = [] then Inl ''Invalid order received from server. Order ID is missing.''
      else Inr od)"

definition order_outcome :: "string option \<Rightarrow> order option \<Rightarrow> string + order" where
  "order_outcome err data =
     (case err of
        Some m \<Rightarrow> Inl (invoke_error_message m)
      | None \<Rightarrow>
          (case data of
             None \<Rightarrow> Inl ''Order creation failed. Please check server logs.''
           | Some od \<Rightarrow>
               (case order_error od of
                  Some e \<Rightarrow> (if e \<noteq> [] then Inl e else check_order_id od)
                | None \<Rightarrow> check_order_id od)))"

text \<open>After a good order: \<open>setLoading(false); setStep('processing')\<close>, then the checkout opens.\<close>

definition order_opened :: "pay_modal \<Rightarrow> pay_modal" where
  "order_opened pm = pm\<lparr>pm_loading := False, pm_step := Processing\<rparr>"

section \<open>The checkout's callbacks\<close>

definition checkout_dismissed :: "pay_modal \<Rightarrow> pay_modal" where
  "checkout_dismissed pm = pm\<lparr>pm_loading := False, pm_error := ''Payment cancelled by user.''\<rparr>"

definition checkout_failed :: "string \<Rightarrow> pay_modal \<Rightarrow> pay_modal" where
  "checkout_failed desc pm = pm\<lparr>pm_error := js_or desc ''Payment Failed'', pm_loading := False\<rparr>"

definition checkout_handler :: "pay_modal \<Rightarrow> pay_modal" where
  "checkout_handler pm = pm\<lparr>pm_step := Verifying, pm_loading := True\<rparr>"

section \<open>Verification\<close>

text \<open>
  The answer of \<open>verify-razorpay-payment\<close>: an invocation error's message and the body
  \<open>{success, message}\<close>, either of which may be missing.
\<close>

record verify_data =
  v_success :: bool
  v_message :: "string option"

text \<open>
  Lines 166--171: success only without an invocation error and with a truthy
  \<open>success\<close>; the failure message is \<open>verifyData?.message || verifyError?.message ||
  'Verification failed'\<close>.
\<close>

definition verify_outcome :: "string option \<Rightarrow> verify_data option \<Rightarrow> string + unit" where
  "verify_outcome err data =
     (if err \<noteq> None \<or> \<not> (case data of Some v \<Rightarrow> v_success v | None \<Rightarrow> False)
      then Inl (js_or (case data of Some v \<Rightarrow> opt_or (v_message v) [] | None \<Rightarrow> [])
                      (opt_or err ''Verification failed''))
      else Inr ())"

text \<open>The message shown when verification fails (line 174): it carries the payment id.\<close>

definition verify_failure_message :: "string \<Rightarrow> string \<Rightarrow> string" where
  "verify_failure_message msg pid =
     ''Payment successful but verification failed: '' @ msg @
     ''. Please contact support with Payment ID: '' @ pid"

definition verify_failed :: "string \<Rightarrow> string \<Rightarrow> pay_modal \<Rightarrow> pay_modal" where
  "verify_failed msg pid pm = pm\<lparr>pm_error := verify_failure_message msg pid, pm_loading := False\<rparr>"

text \<open>The body of the order request (lines 71--74): the fee and a receipt of at most 40 characters.\<close>

definition receipt :: "int \<Rightarrow> string" where
  "receipt now = take 40 (''receipt_'' @ int_to_string now)"

section \<open>Properties of the payment modal\<close>

lemma order_outcome_Inr:
  "order_outcome err data = Inr od \<Longrightarrow>
     err = None \<and> data = Some od \<and> opt_or (order_id od) [] \<noteq> [] \<and> opt_or (order_error od) [] = []"
  by (auto simp: order_outcome_def check_order_id_def js_or_def split: option.splits if_splits)

lemma verify_outcome_Inr:
  "verify_outcome err data = Inr u \<Longrightarrow> err = None \<and> (\<exists>v. data = Some v \<and> v_success v)"
  by (auto simp: verify_outcome_def split: option.splits if_splits)

lemma verify_failure_message_has_id: "js_includes (verify_failure_message msg pid) pid"
  using js_includes_append [of "''Payment successful but verification failed: '' @ msg @
     ''. Please contact support with Payment ID: ''" pid "[]"]
  by (simp add: verify_failure_message_def)

lemma receipt_length: "length (receipt now) \<le> 40"
  by (simp add: receipt_def)

text \<open>
  A failed verification ends the spinner and shows a message that contains the
  payment id, so that a charge that was taken can be reconciled by hand.
\<close>

theorem verify_failure_reports_payment_id:
  assumes "verify_outcome err data = Inl msg"
  shows "js_includes (pm_error (verify_failed msg pid pm)) pid \<and> \<not> pm_loading (verify_failed msg pid pm)"
  using verify_failure_message_has_id [of msg pid] by (simp add: verify_failed_def)

theorem verify_failure_reports_payment_id_witness:
  "js_includes (pm_error (verify_failed ''Invalid signature'' ''pay_123'' init_pay_modal)) ''pay_123''"
proof -
  have "verify_outcome None (Some \<lparr>v_success = False, v_message = Some ''Invalid signature''\<rparr>) =
        Inl ''Invalid signature''"
    by (simp add: verify_outcome_def)
  from verify_failure_reports_payment_id [OF this] show ?thesis by simp
qed

text \<open>
  The order step succeeds exactly when the invocation reports no error and
  returns a body with no truthy \<open>error\<close> and a non-empty \<open>id\<close>; every other answer is a
  failure with a message.
\<close>

theorem order_outcome_success_iff:
  "(\<exists>od. order_outcome err data = Inr od) \<longleftrightarrow>
     err = None \<and> (\<exists>od. data = Some od \<and> opt_or (order_error od) [] = [] \<and> opt_or (order_id od) [] \<noteq> [])"
  by (auto simp: order_outcome_def check_order_id_def js_or_def split: option.splits if_splits)

theorem order_outcome_success_iff_witness:
  "\<exists>od. order_outcome None (Some \<lparr>order_id = Some ''order_1'', order_error = None, order_amount = 80000,
                                    order_currency = ''INR''\<rparr>) = Inr od"
  by (subst order_outcome_success_iff) simp

end
