(* ===== verification/Intake_Wizard.thy ===== *)
theory Intake_Wizard
  imports Model_Types
begin

text \<open>
  The four-step patient intake wizard of \<open>src/components/PatientIntakeForm.tsx\<close>, shown
  by \<open>src/components/IntakeFormModal.tsx\<close>. Its state is the step (1 to 4), the form
  data and an error message; \<open>handleNext\<close> validates the current step, \<open>handleBack\<close>
  goes back, \<open>handleSubmit\<close> validates the goals and passes the form to \<open>onSubmit\<close>.
  Only the inputs of the current step are rendered, Back is disabled on step 1, Next is
  rendered before step 4 and the submit button on step 4; \<open>wizard_step\<close> offers exactly
  these. Pressing Enter submits nothing before step 4: steps 1 and 3 have several text
  inputs and step 2 only text areas, so HTML's implicit submission does not apply.
\<close>

definition initialFormData :: intake_form where
  "initialFormData =
     \<lparr>personalInfo = \<lparr>fullName = [], dob = [], gender = PreferNotToSay\<rparr>,
      medicalHistory = \<lparr>allergies = [], medications = [], pastSurgeries = [], chronicConditions = []\<rparr>,
      currentCondition = \<lparr>primaryComplaint = [], symptoms = [], painLevel = 5, onset = [],
                          betterWith = [], worseWith = []\<rparr>,
      goals = \<lparr>patientGoals = []\<rparr>\<rparr>"

record intake_wizard =
  step :: int
  formData :: intake_form
  wiz_error :: string

text \<open>The effect of lines 46--49: the user's name is copied into \<open>fullName\<close>.\<close>

definition prefill_name :: "string \<Rightarrow> intake_form \<Rightarrow> intake_form" where
  "prefill_name n f = f\<lparr>personalInfo := (personalInfo f)\<lparr>fullName := n\<rparr>\<rparr>"

text \<open>The mounted wizard, after its effect has run once.\<close>

definition init_wizard :: "string \<Rightarrow> intake_wizard" where
  "init_wizard userName = \<lparr>step = 1, formData = prefill_name userName initialFormData, wiz_error = []\<rparr>"

definition msg_name_dob :: string where
  "msg_name_dob = ''Please fill in your Full Name and Date of Birth.''"

definition msg_complaint :: string where
  "msg_complaint = ''Please describe your primary complaint.''"

definition msg_goals :: string where
  "msg_goals = ''Please describe your goals for physiotherapy.''"

definition handleNext :: "intake_wizard \<Rightarrow> intake_wizard" where
  "handleNext w =
     (let f = formData w
      in if step w = 1 \<and> (fullName (personalInfo f) = [] \<or> dob (personalInfo f) = [])
         then w\<lparr>wiz_error := msg_name_dob\<rparr>
         else if step w = 3 \<and> primaryComplaint (currentCondition f) = []
         then w\<lparr>wiz_error := msg_complaint\<rparr>
         else w\<lparr>wiz_error := [], step := step w + 1\<rparr>)"

definition handleBack :: "intake_wizard \<Rightarrow> intake_wizard" where
  "handleBack w = w\<lparr>wiz_error := [], step := step w - 1\<rparr>"

text \<open>\<open>handleSubmit\<close>: the new state and the form passed to \<open>onSubmit\<close>, if any.\<close>

definition handleSubmit :: "intake_wizard \<Rightarrow> intake_wizard \<times> intake_form option" where
  "handleSubmit w =
     (if step w = 4 \<and> patientGoals (goals (formData w)) = [] then (w\<lparr>wiz_error := msg_goals\<rparr>, None)
      else (w\<lparr>wiz_error := []\<rparr>, Some (formData w)))"

text \<open>
  The inputs, one constructor per rendered field, with the value the change handler
  receives. The form has no input for \<open>symptoms\<close>.
\<close>

datatype intake_field =
    FullName string | Dob string | GenderSel gender
  | Allergies string | Medications string | PastSurgeries string | ChronicConditions string
  | PrimaryComplaint string | PainLevel int | Onset string | BetterWith string | WorseWith string
  | PatientGoals string

text \<open>\<open>handleChange(section, field, value)\<close> for each field.\<close>

fun handleChange :: "intake_field \<Rightarrow> intake_form \<Rightarrow> intake_form" where
  "handleChange (FullName v) f = f\<lparr>personalInfo := (personalInfo f)\<lparr>fullName := v\<rparr>\<rparr>"
| "handleChange (Dob v) f = f\<lparr>personalInfo := (personalInfo f)\<lparr>dob := v\<rparr>\<rparr>"
| "handleChange (GenderSel v) f = f\<lparr>personalInfo := (personalInfo f)\<lparr>gender := v\<rparr>\<rparr>"
| "handleChange (Allergies v) f = f\<lparr>medicalHistory := (medicalHistory f)\<lparr>allergies := v\<rparr>\<rparr>"
| "handleChange (Medications v) f = f\<lparr>medicalHistory := (medicalHistory f)\<lparr>medications := v\<rparr>\<rparr>"
| "handleChange (PastSurgeries v) f = f\<lparr>medicalHistory := (medicalHistory f)\<lparr>pastSurgeries := v\<rparr>\<rparr>"
| "handleChange (ChronicConditions v) f =
     f\<lparr>medicalHistory := (medicalHistory f)\<lparr>chronicConditions := v\<rparr>\<rparr>"
| "handleChange (PrimaryComplaint v) f =
     f\<lparr>currentCondition := (currentCondition f)\<lparr>primaryComplaint := v\<rparr>\<rparr>"
| "handleChange (PainLevel v) f = f\<lparr>currentCondition := (currentCondition f)\<lparr>painLevel := v\<rparr>\<rparr>"
| "handleChange (Onset v) f = f\<lparr>currentCondition := (currentCondition f)\<lparr>onset := v\<rparr>\<rparr>"
| "handleChange (BetterWith v) f = f\<lparr>currentCondition := (currentCondition f)\<lparr>betterWith := v\<rparr>\<rparr>"
| "handleChange (WorseWith v) f = f\<lparr>currentCondition := (currentCondition f)\<lparr>worseWith := v\<rparr>\<rparr>"
| "handleChange (PatientGoals v) f = f\<lparr>goals := (goals f)\<lparr>patientGoals := v\<rparr>\<rparr>"

text \<open>The step whose section renders the field (lines 113--189).\<close>

fun field_step :: "intake_field \<Rightarrow> int" where
  "field_step (FullName _) = 1" | "field_step (Dob _) = 1" | "field_step (GenderSel _) = 1"
| "field_step (Allergies _) = 2" | "field_step (Medications _) = 2"
| "field_step (PastSurgeries _) = 2" | "field_step (ChronicConditions _) = 2"
| "field_step (PrimaryComplaint _) = 3" | "field_step (PainLevel _) = 3" | "field_step (Onset _) = 3"
| "field_step (BetterWith _) = 3" | "field_step (WorseWith _) = 3"
| "field_step (PatientGoals _) = 4"

text \<open>The range input (line 165) yields \<open>parseInt\<close> of a value between its \<open>min\<close> and \<open>max\<close>.\<close>

fun field_value_ok :: "intake_field \<Rightarrow> bool" where
  "field_value_ok (PainLevel v) \<longleftrightarrow> 1 \<le> v \<and> v \<le> 10"
| "field_value_ok _ \<longleftrightarrow> True"

text \<open>
  The wizard's events: an input, the three buttons, and a new \<open>userName\<close> prop, which
  re-runs the pre-filling effect. The result is the next state and the form submitted.
\<close>

datatype wizard_event = Edit intake_field | Next | Back | Submit | UserNameChange string

fun wizard_step :: "wizard_event \<Rightarrow> intake_wizard \<Rightarrow> (intake_wizard \<times> intake_form option) option" where
  "wizard_step (Edit fld) w =
     (if step w = field_step fld \<and> field_value_ok fld
      then Some (w\<lparr>formData := handleChange fld (formData w)\<rparr>, None) else None)"
| "wizard_step Next w = (if step w < 4 then Some (handleNext w, None) else None)"
| "wizard_step Back w = (if step w \<noteq> 1 then Some (handleBack w, None) else None)"
| "wizard_step Submit w = (if \<not> step w < 4 then Some (handleSubmit w) else None)"
| "wizard_step (UserNameChange n) w = Some (w\<lparr>formData := prefill_name n (formData w)\<rparr>, None)"

text \<open>
  The states the mounted wizard reaches by events allowed by \<open>ok\<close>; a submission ends the
  wizard, since \<open>handleIntakeFormSubmit\<close> closes the modal.
\<close>

inductive wiz_reachable :: "(wizard_event \<Rightarrow> bool) \<Rightarrow> string \<Rightarrow> intake_wizard \<Rightarrow> bool"
  for ok :: "wizard_event \<Rightarrow> bool" and n :: string where
  start: "wiz_reachable ok n (init_wizard n)"
| step: "wiz_reachable ok n w \<Longrightarrow> ok e \<Longrightarrow> wizard_step e w = Some (w', None) \<Longrightarrow> wiz_reachable ok n w'"

fun wiz_run :: "wizard_event list \<Rightarrow> intake_wizard \<Rightarrow> (intake_wizard \<times> intake_form option) option" where
  "wiz_run [] w = Some (w, None)"
| "wiz_run (e # es) w =
     (case wizard_step e w of
        None \<Rightarrow> None
      | Some (w', None) \<Rightarrow> wiz_run es w'
      | Some (w', Some f) \<Rightarrow> (if es = [] then Some (w', Some f) else None))"

section \<open>The wizard's invariant\<close>

text \<open>
  What the wizard guarantees of its state: the step is between 1 and 4, past step 1 the
  date of birth is filled, on step 4 the primary complaint is filled, and the pain level
  is within the slider's range. \<open>name_ok\<close>: past step 1 the full name is filled.
\<close>

definition wiz_inv :: "intake_wizard \<Rightarrow> bool" where
  "wiz_inv w \<longleftrightarrow>
     1 \<le> step w \<and> step w \<le> 4 \<and>
     (2 \<le> step w \<longrightarrow> dob (personalInfo (formData w)) \<noteq> []) \<and>
     (4 \<le> step w \<longrightarrow> primaryComplaint (currentCondition (formData w)) \<noteq> []) \<and>
     1 \<le> painLevel (currentCondition (formData w)) \<and> painLevel (currentCondition (formData w)) \<le> 10"

definition name_ok :: "intake_wizard \<Rightarrow> bool" where
  "name_ok w \<longleftrightarrow> (2 \<le> step w \<longrightarrow> fullName (personalInfo (formData w)) \<noteq> [])"

text \<open>A patient who fills in the four steps.\<close>

definition demo_wizard_events :: "wizard_event list" where
  "demo_wizard_events =
     [Edit (Dob ''1990-05-01''), Next, Next, Edit (PrimaryComplaint ''Knee pain''), Edit (PainLevel 7),
      Next, Edit (PatientGoals ''Run without pain'')]"

lemma handleChange_keeps:
  "field_step fld \<noteq> 1 \<Longrightarrow> personalInfo (handleChange fld f) = personalInfo f"
  "field_step fld \<noteq> 3 \<Longrightarrow> currentCondition (handleChange fld f) = currentCondition f"
  by (cases fld; simp)+

lemma handleChange_pain:
  "field_value_ok fld \<Longrightarrow> 1 \<le> painLevel (currentCondition f) \<Longrightarrow> painLevel (currentCondition f) \<le> 10 \<Longrightarrow>
   1 \<le> painLevel (currentCondition (handleChange fld f)) \<and> painLevel (currentCondition (handleChange fld f)) \<le> 10"
  by (cases fld) simp_all

lemmas wizard_handler_defs = handleNext_def handleBack_def handleSubmit_def prefill_name_def Let_def

lemma wizard_step_inv:
  assumes "wiz_inv w" and "wizard_step e w = Some (w', out)"
  shows "wiz_inv w'"
proof (cases e)
  case (Edit fld)
  with assms have w': "w' = w\<lparr>formData := handleChange fld (formData w)\<rparr>"
    and st: "step w = field_step fld" and ok: "field_value_ok fld"
    by (auto split: if_splits)
  have "2 \<le> step w \<Longrightarrow> personalInfo (handleChange fld (formData w)) = personalInfo (formData w)"
    using st handleChange_keeps(1) by auto
  moreover have "4 \<le> step w \<Longrightarrow> currentCondition (handleChange fld (formData w)) = currentCondition (formData w)"
    using st handleChange_keeps(2) by auto
  ultimately show ?thesis
    using assms(1) handleChange_pain [OF ok] by (auto simp: wiz_inv_def w')
qed (use assms in \<open>auto simp: wiz_inv_def wizard_handler_defs split: if_splits\<close>)

lemma wizard_step_name:
  assumes "name_ok w" and "e \<noteq> UserNameChange []" and "wizard_step e w = Some (w', out)"
  shows "name_ok w'"
proof (cases e)
  case (Edit fld)
  with assms show ?thesis
    by (cases "field_step fld = 1") (auto simp: name_ok_def handleChange_keeps(1) split: if_splits)
qed (use assms in \<open>auto simp: name_ok_def wizard_handler_defs split: if_splits\<close>)

lemma init_wizard_inv: "wiz_inv (init_wizard n)" "name_ok (init_wizard n)"
  by (simp_all add: wiz_inv_def name_ok_def init_wizard_def initialFormData_def prefill_name_def)

lemma wiz_reachable_inv: "wiz_reachable ok n w \<Longrightarrow> wiz_inv w"
  by (induction rule: wiz_reachable.induct) (auto intro: wizard_step_inv simp: init_wizard_inv)

lemma wiz_reachable_name:
  "wiz_reachable ok n w \<Longrightarrow> (\<And>e. ok e \<Longrightarrow> e \<noteq> UserNameChange []) \<Longrightarrow> name_ok w"
  by (induction rule: wiz_reachable.induct) (auto intro: wizard_step_name simp: init_wizard_inv)

lemma wizard_submit_output:
  "wizard_step Submit w = Some (w', Some f) \<Longrightarrow> wiz_inv w \<Longrightarrow>
   f = formData w \<and> step w = 4 \<and> patientGoals (goals f) \<noteq> []"
  by (auto simp: wiz_inv_def handleSubmit_def split: if_splits)

lemma wizard_step_output: "wizard_step e w = Some (w', Some f) \<Longrightarrow> e = Submit"
  by (cases e) (auto simp: handleNext_def handleBack_def split: if_splits)

lemma wiz_run_reachable:
  "wiz_reachable ok n w \<Longrightarrow> list_all ok es \<Longrightarrow> wiz_run es w = Some (w', None) \<Longrightarrow> wiz_reachable ok n w'"
proof (induction es arbitrary: w)
  case (Cons e es)
  then obtain a where st: "wizard_step e w = Some (a, None)" and r: "wiz_run es a = Some (w', None)"
    by (auto split: option.splits prod.splits if_splits)
  have "wiz_reachable ok n a"
    using Cons.prems st by (auto intro: wiz_reachable.step)
  with Cons.IH Cons.prems r show ?case by simp
qed simp

lemma demo_wizard_run:
  "wiz_run demo_wizard_events (init_wizard ''Asha'') =
     Some (fst (the (wiz_run demo_wizard_events (init_wizard ''Asha''))), None)"
  by code_simp

lemma demo_wizard_submit:
  "wizard_step Submit (fst (the (wiz_run demo_wizard_events (init_wizard ''Asha'')))) =
     Some (fst (the (wizard_step Submit (fst (the (wiz_run demo_wizard_events (init_wizard ''Asha'')))))),
           Some (formData (fst (the (wiz_run demo_wizard_events (init_wizard ''Asha''))))))"
  by code_simp

section \<open>Properties of the intake wizard\<close>

text \<open>
  Claim C22. Whatever the user does in the mounted wizard, a submitted intake form is the
  wizard's data, with a date of birth, a primary complaint and goals filled in and a pain
  level between 1 and 10.
\<close>

theorem wizard_submits_complete:
  assumes "wiz_reachable ok n w" and "wizard_step Submit w = Some (w', Some f)"
  shows "f = formData w \<and> dob (personalInfo f) \<noteq> [] \<and> primaryComplaint (currentCondition f) \<noteq> [] \<and>
         patientGoals (goals f) \<noteq> [] \<and> 1 \<le> painLevel (currentCondition f) \<and> painLevel (currentCondition f) \<le> 10"
  using wizard_submit_output [OF assms(2) wiz_reachable_inv [OF assms(1)]] wiz_reachable_inv [OF assms(1)]
  by (auto simp: wiz_inv_def)

theorem wizard_submits_complete_witness:
  "primaryComplaint (currentCondition (formData (fst (the (wiz_run demo_wizard_events (init_wizard ''Asha''))))))
     \<noteq> []"
proof -
  have "wiz_reachable (\<lambda>_. True) ''Asha'' (fst (the (wiz_run demo_wizard_events (init_wizard ''Asha''))))"
    by (rule wiz_run_reachable [OF wiz_reachable.start _ demo_wizard_run]) (simp add: list_all_iff)
  from wizard_submits_complete [OF this demo_wizard_submit] show ?thesis by simp
qed

text \<open>
  As long as the \<open>userName\<close> prop never becomes empty, a submitted intake form
  also carries a full name: step 1 cannot be left without one and is the only step that
  edits it.
\<close>

theorem wizard_submitted_name:
  assumes "wiz_reachable ok n w" and "\<forall>e. ok e \<longrightarrow> e \<noteq> UserNameChange []"
    and "wizard_step Submit w = Some (w', Some f)"
  shows "fullName (personalInfo f) \<noteq> []"
proof -
  have "name_ok w" using wiz_reachable_name [OF assms(1)] assms(2) by blast
  with wizard_submit_output [OF assms(3) wiz_reachable_inv [OF assms(1)]] show ?thesis
    by (simp add: name_ok_def)
qed

theorem wizard_submitted_name_witness:
  "fullName (personalInfo (formData (fst (the (wiz_run demo_wizard_events (init_wizard ''Asha'')))))) \<noteq> []"
proof -
  have "wiz_reachable (\<lambda>e. e \<noteq> UserNameChange []) ''Asha''
          (fst (the (wiz_run demo_wizard_events (init_wizard ''Asha''))))"
    by (rule wiz_run_reachable [OF wiz_reachable.start _ demo_wizard_run]) (simp add: demo_wizard_events_def)
  from wizard_submitted_name [OF this _ demo_wizard_submit] show ?thesis by simp
qed

text \<open>
  The full name is checked only when leaving step 1: if the \<open>userName\<close> prop
  becomes empty later (the pre-filling effect re-runs on every change of it), the wizard
  submits a form whose full name is empty.
\<close>

theorem wizard_empty_name_submitted:
  "map_option (\<lambda>(w, f). map_option (\<lambda>x. fullName (personalInfo x)) f)
     (wiz_run [Edit (Dob ''1990-05-01''), Next, UserNameChange [], Next, Edit (PrimaryComplaint ''Knee pain''),
               Next, Edit (PatientGoals ''Run without pain''), Submit] (init_wizard ''Asha'')) = Some (Some [])"
  by code_simp

end
