(* ===== verification/Booking_Views.thy ===== *)
theory Booking_Views
  imports App_Booking
begin

text \<open>
  The views of the booking list: the patient's profile page
  (\<open>src/components/ProfilePage.tsx\<close>), which splits the patient's bookings into upcoming
  and past ones; the card of a booking (\<open>src/components/BookingCard.tsx\<close>) with its status
  badge and its buttons; and the therapist's dashboard
  (\<open>src/components/TherapistDashboard.tsx\<close>) with its statistics, as \<open>App.tsx\<close> renders
  them (lines 586--620). \<open>today\<close> is the local midnight both pages compute with
  \<open>setHours(0, 0, 0, 0)\<close>. The buttons a card renders are the events of the composed flow
  (theory \<open>Booking_Flow\<close>).
\<close>

section \<open>The profile page\<close>

text \<open>App.tsx line 589: the bookings passed to the profile page are the user's own.\<close>

definition user_bookings :: "user \<Rightarrow> booking list \<Rightarrow> booking list" where
  "user_bookings u bs = filter (\<lambda>b. userId b = uid u) bs"

text \<open>
  Lines 23--29. \<open>sort\<close> is stable; the comparator \<open>b.date - a.date\<close> sorts by descending
  date, which is the stable sort on the negated time value.
\<close>

definition upcomingBookings :: "js_date \<Rightarrow> booking list \<Rightarrow> booking list" where
  "upcomingBookings today bs = sort_key date (filter (\<lambda>b. today \<le> date b \<and> status b \<noteq> Some Cancelled) bs)"

definition pastBookings :: "js_date \<Rightarrow> booking list \<Rightarrow> booking list" where
  "pastBookings today bs = sort_key (\<lambda>b. - date b) (filter (\<lambda>b. date b < today \<or> status b = Some Cancelled) bs)"

section \<open>The booking card\<close>

datatype badge = BadgeCompleted | BadgeCheckedIn | BadgeCancelled | BadgeConfirmed

text \<open>
  \<open>getStatusBadge\<close> (lines 24--38): a past card that is neither cancelled nor completed
  shows "Completed" (\<open>booking.status || ''\<close> makes a missing status such a card);
  otherwise the stored status is shown, and a stored \<open>completed\<close> has no badge.
\<close>

definition getStatusBadge :: "bool \<Rightarrow> booking \<Rightarrow> badge option" where
  "getStatusBadge isPast b =
     (if isPast \<and> status b \<noteq> Some Cancelled \<and> status b \<noteq> Some Completed then Some BadgeCompleted
      else case status b of
             Some CheckedIn \<Rightarrow> Some BadgeCheckedIn
           | Some Cancelled \<Rightarrow> Some BadgeCancelled
           | Some Confirmed \<Rightarrow> Some BadgeConfirmed
           | _ \<Rightarrow> None)"

datatype card_button = ViewForm | FillIntakeForm | RescheduleButton | CancelButton

text \<open>Lines 77--109: the buttons of a card, in their order.\<close>

definition card_buttons :: "bool \<Rightarrow> booking \<Rightarrow> card_button list" where
  "card_buttons isPast b =
     (if \<not> isPast \<and> status b \<noteq> Some Cancelled
      then [if intakeForm b \<noteq> None then ViewForm else FillIntakeForm, RescheduleButton, CancelButton]
      else [])"

text \<open>
  The cards the profile page renders (lines 61--70 and 89--98), each with its \<open>isPast\<close>
  flag, for the page shown to a patient (App.tsx line 586).
\<close>

definition profile_cards :: "app_state \<Rightarrow> js_date \<Rightarrow> (booking \<times> bool) list" where
  "profile_cards s today =
     (case currentUser s of
        Some u \<Rightarrow>
          (if page s = Profile \<and> role u = RPatient
           then map (\<lambda>b. (b, False)) (upcomingBookings today (user_bookings u (bookings s))) @
                map (\<lambda>b. (b, True)) (pastBookings today (user_bookings u (bookings s)))
           else [])
      | None \<Rightarrow> [])"

text \<open>A button of a rendered card, with the booking id its \<open>onClick\<close> passes.\<close>

definition card_offered :: "app_state \<Rightarrow> js_date \<Rightarrow> card_button \<Rightarrow> string \<Rightarrow> bool" where
  "card_offered s today btn k \<longleftrightarrow>
     list_ex (\<lambda>(b, isPast). bid b = k \<and> btn \<in> set (card_buttons isPast b)) (profile_cards s today)"

section \<open>The therapist's dashboard\<close>

record dashboard =
  dash_upcoming :: "booking list"
  dash_total_patients :: nat
  dash_total_bookings :: nat

text \<open>
  Lines 29--33 and 59--73: the upcoming appointments (every booking dated today or later,
  sorted by date), the number of distinct patients (\<open>new Set(...).size\<close>) and the number
  of bookings.
\<close>

definition dashboard_stats :: "js_date \<Rightarrow> booking list \<Rightarrow> dashboard" where
  "dashboard_stats today bs =
     \<lparr>dash_upcoming = sort_key date (filter (\<lambda>b. today \<le> date b) bs),
      dash_total_patients = length (remdups (map userId bs)),
      dash_total_bookings = length bs\<rparr>"

text \<open>
  App.tsx lines 613--619: the dashboard of the logged-in therapist, with the bookings whose
  therapist has the user's \<open>therapistId\<close>. The therapist is looked up with
  \<open>therapists.find(...)!\<close>; when none has that id, the component reads \<open>therapist.name\<close>
  of \<open>undefined\<close> (line 40) and the render throws: the value \<open>Inl\<close> with the error.
\<close>

definition msg_render_crash :: string where
  "msg_render_crash = ''TypeError: Cannot read properties of undefined (reading 'name')''"

definition dashboard_view :: "app_state \<Rightarrow> js_date \<Rightarrow> (string + dashboard) option" where
  "dashboard_view s today =
     (case currentUser s of
        Some u \<Rightarrow>
          (if page s = TherapistDashboard \<and> role u = RTherapist
           then (case List.find (\<lambda>t. Some (tid t) = therapistId u) (therapists s) of
                   None \<Rightarrow> Some (Inl msg_render_crash)
                 | Some _ \<Rightarrow>
                     Some (Inr (dashboard_stats today
                                  (filter (\<lambda>b. Some (tid (therapist b)) = therapistId u) (bookings s)))))
           else None)
      | None \<Rightarrow> None)"

text \<open>A patient on the profile page with one upcoming booking.\<close>

definition demo_profile_state :: app_state where
  "demo_profile_state =
     init_app\<lparr>currentUser := Some demo_user, page := Profile,
              bookings := [new_booking 1000 (demo_details 1741564800000 ''10:00 AM'')
                             (demo_therapist 2 500 False) demo_user False]\<rparr>"

text \<open>A therapist user whose profile names therapist 2, on the dashboard page.\<close>

definition demo_therapist_user :: user where
  "demo_therapist_user = \<lparr>uid = ''t2'', uname = ''Dr. Rao'', email = None, role = RTherapist,
                          therapistId = Some 2\<rparr>"

definition demo_dashboard_state :: "therapist list \<Rightarrow> app_state" where
  "demo_dashboard_state ts =
     init_app\<lparr>currentUser := Some demo_therapist_user, page := TherapistDashboard, therapists := ts\<rparr>"

section \<open>Properties of the views\<close>

lemma upcoming_past_partition:
  "mset (upcomingBookings today bs) + mset (pastBookings today bs) = mset bs"
proof -
  let ?P = "\<lambda>b. today \<le> date b \<and> status b \<noteq> Some Cancelled"
  have "mset (pastBookings today bs) = filter_mset (\<lambda>b. \<not> ?P b) (mset bs)"
    by (simp add: pastBookings_def) (rule filter_mset_cong; auto)
  moreover have "mset (upcomingBookings today bs) = filter_mset ?P (mset bs)"
    by (simp add: upcomingBookings_def)
  ultimately show ?thesis using multiset_partition [of "mset bs" ?P] by simp
qed

lemma profile_cards_cases:
  "(b, isPast) \<in> set (profile_cards s today) \<longleftrightarrow>
   (\<exists>u. currentUser s = Some u \<and> page s = Profile \<and> role u = RPatient \<and> userId b = uid u \<and>
        b \<in> set (bookings s) \<and>
        (if isPast then date b < today \<or> status b = Some Cancelled
         else today \<le> date b \<and> status b \<noteq> Some Cancelled))"
  by (cases "currentUser s") (auto simp: profile_cards_def upcomingBookings_def pastBookings_def user_bookings_def)

lemma card_offered_iff:
  "card_offered s today btn k \<longleftrightarrow>
   (\<exists>b isPast. (b, isPast) \<in> set (profile_cards s today) \<and> bid b = k \<and> btn \<in> set (card_buttons isPast b))"
  by (auto simp: card_offered_def list_ex_iff)

text \<open>
  Claim C24. The profile page shows each of the patient's bookings exactly once: the
  upcoming list (dated today or later, not cancelled) in ascending date order and the
  history (past or cancelled) in descending date order together are the user's bookings.
\<close>

theorem profile_lists_partition:
  "mset (upcomingBookings today (user_bookings u bs)) + mset (pastBookings today (user_bookings u bs)) =
     mset (filter (\<lambda>b. userId b = uid u) bs) \<and>
   sorted (map date (upcomingBookings today (user_bookings u bs))) \<and>
   sorted (map (\<lambda>b. - date b) (pastBookings today (user_bookings u bs))) \<and>
   list_all (\<lambda>b. status b \<noteq> Some Cancelled) (upcomingBookings today (user_bookings u bs))"
  using upcoming_past_partition [of today "user_bookings u bs"]
  by (simp add: user_bookings_def upcomingBookings_def pastBookings_def list_all_iff)

text \<open>
  Claim C25. The card buttons on screen are exactly those of the logged-in patient's own
  bookings dated today or later that are not cancelled: each such card offers Reschedule,
  Cancel, and "Fill Intake Form" without a form or "View Form" with one; past and
  cancelled cards offer nothing.
\<close>

theorem card_buttons_guard:
  "card_offered s today btn k \<longleftrightarrow>
   (\<exists>u b. currentUser s = Some u \<and> page s = Profile \<and> role u = RPatient \<and> b \<in> set (bookings s) \<and>
          bid b = k \<and> userId b = uid u \<and> today \<le> date b \<and> status b \<noteq> Some Cancelled \<and>
          btn \<in> {if intakeForm b = None then FillIntakeForm else ViewForm, RescheduleButton, CancelButton})"
  by (auto simp: card_offered_iff profile_cards_cases card_buttons_def split: if_splits) blast

theorem card_buttons_guard_witness:
  "card_offered demo_profile_state 1741478400000 CancelButton ''1000-2'' \<and>
   \<not> card_offered demo_profile_state 1741478400000 ViewForm ''1000-2''"
proof -
  let ?b = "new_booking 1000 (demo_details 1741564800000 ''10:00 AM'') (demo_therapist 2 500 False) demo_user False"
  have facts: "bid ?b = ''1000-2''" "(1741478400000::int) \<le> date ?b" "intakeForm ?b = None"
    "status ?b = Some Confirmed" "userId ?b = uid demo_user" "role demo_user = RPatient"
    by code_simp+
  show ?thesis
    unfolding card_buttons_guard using facts by (auto simp: demo_profile_state_def init_app_def)
qed

text \<open>
  On the profile page the "Completed" badge is the derived display state of
  the specification: as long as no booking stores the status \<open>completed\<close>, a card
  shows it exactly when its booking is past and not cancelled.
\<close>

theorem completed_badge_derived:
  assumes "(b, isPast) \<in> set (profile_cards s today)" and "status b \<noteq> Some Completed"
  shows "getStatusBadge isPast b = Some BadgeCompleted \<longleftrightarrow> date b < today \<and> status b \<noteq> Some Cancelled"
  using assms by (auto simp: profile_cards_cases getStatusBadge_def split: if_splits option.splits booking_status.splits)

theorem completed_badge_derived_witness:
  "getStatusBadge True (new_booking 1000 (demo_details 1741564800000 ''10:00 AM'') (demo_therapist 2 500 False)
      demo_user False) = Some BadgeCompleted"
proof -
  let ?b = "new_booking 1000 (demo_details 1741564800000 ''10:00 AM'') (demo_therapist 2 500 False) demo_user False"
  let ?today = "1741651200000 :: int"
  have "(?b, True) \<in> set (profile_cards demo_profile_state ?today)"
    by code_simp
  moreover have "status ?b \<noteq> Some Completed" "date ?b < ?today" "status ?b \<noteq> Some Cancelled"
    by code_simp+
  ultimately show ?thesis using completed_badge_derived by blast
qed


text \<open>
  The dashboard page of a logged-in therapist crashes (the render throws)
  exactly when no loaded therapist has the user's \<open>therapistId\<close>: a therapist profile
  without a therapist id, a deleted therapist, or a dashboard shown before the therapist
  list has loaded.
\<close>

theorem dashboard_crash_iff:
  "(\<exists>msg. dashboard_view s today = Some (Inl msg)) \<longleftrightarrow>
   (\<exists>u. currentUser s = Some u \<and> page s = TherapistDashboard \<and> role u = RTherapist \<and>
        (\<forall>t\<in>set (therapists s). Some (tid t) \<noteq> therapistId u))"
  by (auto simp: dashboard_view_def find_None_iff dest: find_Some_mem split: option.splits)

theorem dashboard_crash_iff_witness:
  "(\<exists>msg. dashboard_view (demo_dashboard_state []) 0 = Some (Inl msg)) \<and>
   \<not> (\<exists>msg. dashboard_view (demo_dashboard_state [demo_therapist 2 500 False]) 0 = Some (Inl msg))"
  unfolding dashboard_crash_iff
  by (simp add: demo_dashboard_state_def demo_therapist_user_def demo_therapist_def init_app_def)

end
