(* ===== verification/Booking_Flow.thy ===== *)
theory Booking_Flow
  imports Auth Payment_Modal Intake_Wizard Booking_Views
begin

text \<open>
  The booking flow as the browser runs it: the application state of \<open>App.tsx\<close>, the
  local state of the mounted \<open>BookingModal\<close> and \<open>PaymentProcessingModal\<close>, the pending
  50 ms timers, and the asynchronous stages of the payment in flight. Every event is a
  click the rendered UI offers, a timer, the completion of an asynchronous stage, or a
  change of session; \<open>flow_step\<close> is \<open>None\<close> for an event the state does not offer.

  After each event the modals are mounted or unmounted as the JSX of \<open>App.tsx\<close>
  (lines 628--651) decides: a modal that appears starts with its initial state, and the
  payment modal's \<open>useEffect\<close> starts a payment whose callbacks capture the render's
  closure. A stage in flight belongs to the modal instance that started it: its
  \<open>setState\<close> calls are lost once that instance is unmounted, but its calls into the
  application (\<open>onSuccess\<close>, \<open>rzp1.open()\<close>) still happen.

  \<open>verified\<close> counts the verifications that reported success to \<open>onSuccess\<close>, and
  \<open>posted\<close> is the sequence of rows sent to the logging sink; both are observations of
  the environment, not application state. \<open>clock\<close> is the last value \<open>Date.now()\<close>
  returned to the booking core: the two events that read the clock (a submitted form and a
  verification's answer) happen at a later millisecond than the previous one.
\<close>

datatype task =
    TScript nat app_state
  | TOrder nat app_state
  | TCheckout nat app_state string
  | TVerify nat app_state string string

record flow =
  app :: app_state
  form :: "booking_form option"
  pay :: "(nat \<times> pay_modal) option"
  next_instance :: nat
  timers :: nat
  tasks :: "task list"
  posted :: "sheet_row list"
  verified :: nat
  clock :: int
  intake :: "(string \<times> intake_wizard) option"

definition init_flow :: flow where
  "init_flow =
     \<lparr>app = init_app, form = None, pay = None, next_instance = 0, timers = 0, tasks = [],
      posted = [], verified = 0, clock = 0, intake = None\<rparr>"

section \<open>What is rendered\<close>

definition booking_modal_shown :: "app_state \<Rightarrow> bool" where
  "booking_modal_shown s \<longleftrightarrow> isBookingModalOpen s \<and> therapistToBook s \<noteq> None \<and> currentUser s \<noteq> None"

definition payment_modal_shown :: "app_state \<Rightarrow> bool" where
  "payment_modal_shown s \<longleftrightarrow>
     isPaymentModalOpen s \<and> therapistToBook s \<noteq> None \<and> currentUser s \<noteq> None \<and>
     pendingBookingDetails s \<noteq> None"

definition confirm_modal_shown :: "app_state \<Rightarrow> bool" where
  "confirm_modal_shown s \<longleftrightarrow> isConfirmModalOpen s \<and> therapistToBook s \<noteq> None"

definition cancel_modal_shown :: "app_state \<Rightarrow> bool" where
  "cancel_modal_shown s \<longleftrightarrow> isCancelModalOpen s \<and> bookingToCancel s \<noteq> None"

definition intake_modal_shown :: "app_state \<Rightarrow> bool" where
  "intake_modal_shown s \<longleftrightarrow> bookingForIntake s \<noteq> None \<and> currentUser s \<noteq> None"

definition view_intake_shown :: "app_state \<Rightarrow> bool" where
  "view_intake_shown s \<longleftrightarrow> isViewIntakeModalOpen s \<and> intakeDataToView s \<noteq> None"

definition delete_modal_shown :: "app_state \<Rightarrow> bool" where
  "delete_modal_shown s \<longleftrightarrow> isDeleteModalOpen s \<and> therapistToDelete s \<noteq> None"

definition any_modal_shown :: "app_state \<Rightarrow> bool" where
  "any_modal_shown s \<longleftrightarrow>
     booking_modal_shown s \<or> payment_modal_shown s \<or> isAuthModalOpen s \<or> cancel_modal_shown s \<or>
     delete_modal_shown s \<or> confirm_modal_shown s \<or> intake_modal_shown s \<or> view_intake_shown s"

text \<open>A therapist whose "Book Now" button is on the screen (lines 546--585).\<close>

definition therapist_offered :: "app_state \<Rightarrow> therapist \<Rightarrow> bool" where
  "therapist_offered s t \<longleftrightarrow>
     selectedTherapist s = Some t \<or>
     (page s = Browse \<and> selectedTherapist s = None \<and>
      (t \<in> set (featuredTherapists s) \<or>
       (\<not> isLoadingTherapists s \<and> fetchError s = None \<and> t \<in> set (filteredTherapists s))))"

section \<open>Mounting and unmounting\<close>

definition sync_form :: "flow \<Rightarrow> flow" where
  "sync_form fs =
     (case (isBookingModalOpen (app fs), therapistToBook (app fs), currentUser (app fs)) of
        (True, Some t, Some u) \<Rightarrow>
          (case form fs of None \<Rightarrow> fs\<lparr>form := Some (init_booking_form t (Some u))\<rparr> | Some _ \<Rightarrow> fs)
      | _ \<Rightarrow> fs\<lparr>form := None\<rparr>)"

definition sync_pay :: "flow \<Rightarrow> flow" where
  "sync_pay fs =
     (if payment_modal_shown (app fs) then
        (case pay fs of
           Some _ \<Rightarrow> fs
         | None \<Rightarrow> fs\<lparr>pay := Some (next_instance fs, init_pay_modal),
                      next_instance := Suc (next_instance fs),
                      tasks := tasks fs @ [TScript (next_instance fs) (app fs)]\<rparr>)
      else fs\<lparr>pay := None\<rparr>)"

text \<open>
  The intake wizard is mounted with the user's name as its \<open>userName\<close> prop (App.tsx lines
  676--683); the mounted instance keeps the prop it last saw, and a new name re-runs the
  pre-filling effect.
\<close>

definition sync_intake :: "flow \<Rightarrow> flow" where
  "sync_intake fs =
     (case (bookingForIntake (app fs), currentUser (app fs)) of
        (Some _, Some u) \<Rightarrow>
          (case intake fs of
             None \<Rightarrow> fs\<lparr>intake := Some (uname u, init_wizard (uname u))\<rparr>
           | Some (n, w) \<Rightarrow>
               (if n = uname u then fs
                else fs\<lparr>intake := Some (uname u, w\<lparr>formData := prefill_name (uname u) (formData w)\<rparr>)\<rparr>))
      | _ \<Rightarrow> fs\<lparr>intake := None\<rparr>)"

definition sync :: "flow \<Rightarrow> flow" where
  "sync fs = sync_intake (sync_pay (sync_form fs))"

text \<open>A \<open>setState\<close> of payment modal instance \<open>i\<close>: lost when \<open>i\<close> is not mounted.\<close>

definition upd_pay :: "nat \<Rightarrow> (pay_modal \<Rightarrow> pay_modal) \<Rightarrow> flow \<Rightarrow> flow" where
  "upd_pay i f fs =
     (case pay fs of
        Some (j, pm) \<Rightarrow> (if i = j then fs\<lparr>pay := Some (j, f pm)\<rparr> else fs)
      | None \<Rightarrow> fs)"

fun apply_effect :: "flow \<Rightarrow> effect \<Rightarrow> flow" where
  "apply_effect fs (SheetPost row) = fs\<lparr>posted := posted fs @ [row]\<rparr>"
| "apply_effect fs OpenPaymentAfter50ms = fs\<lparr>timers := Suc (timers fs)\<rparr>"

definition app_result :: "app_state \<times> effect list \<Rightarrow> flow \<Rightarrow> flow" where
  "app_result r fs = foldl apply_effect (fs\<lparr>app := fst r\<rparr>) (snd r)"

definition with_app :: "(app_state \<Rightarrow> app_state) \<Rightarrow> flow \<Rightarrow> flow" where
  "with_app h fs = sync (fs\<lparr>app := h (app fs)\<rparr>)"

definition remove_nth :: "nat \<Rightarrow> 'a list \<Rightarrow> 'a list" where
  "remove_nth i xs = take i xs @ drop (Suc i) xs"

definition task_at :: "flow \<Rightarrow> nat \<Rightarrow> task option" where
  "task_at fs j = (if j < length (tasks fs) then Some (tasks fs ! j) else None)"

definition drop_task :: "nat \<Rightarrow> flow \<Rightarrow> flow" where
  "drop_task j fs = fs\<lparr>tasks := remove_nth j (tasks fs)\<rparr>"

definition add_task :: "task \<Rightarrow> flow \<Rightarrow> flow" where
  "add_task t fs = fs\<lparr>tasks := tasks fs @ [t]\<rparr>"

section \<open>Events\<close>

datatype event =
    TherapistsLoaded "therapist list"
  | BookNow therapist
  | RescheduleClick js_date string
  | CancelClick js_date string
  | FillIntakeClick js_date string
  | ViewIntakeClick js_date string
  | FormInput form_event
  | FormSubmit int
  | FormClose
  | TimerFires
  | PayRetry
  | PayClose
  | ScriptLoaded nat bool
  | OrderCreated nat "string option" "order option"
  | CheckoutDismissed nat
  | CheckoutFailed nat string
  | CheckoutPaid nat string
  | VerifyReturned nat "string option" "verify_data option" int
  | ConfirmClose
  | ConfirmViewBookings
  | CancelConfirm
  | CancelKeep
  | IntakeInput wizard_event
  | IntakeClose
  | ViewIntakeClose
  | AuthChange auth_event "session_user option" db_answer db_answer

text \<open>
  Page-level clicks need a page without a modal over it. A stage's completion names the
  stage by its position in \<open>tasks\<close>. A checkout that reports \<open>payment.failed\<close> stays
  open (Razorpay lets the user try again inside it); the other completions end their stage.
  \<open>IntakeInput\<close> is a click or an edit in the mounted intake wizard; its \<open>userName\<close>
  changes come from \<open>sync_intake\<close>, not from the user.
  \<open>AuthChange\<close> is a completed run of the auth listener (theory \<open>Auth\<close>) with the
  event, the session and the answers of its two database calls.
\<close>

fun flow_step :: "event \<Rightarrow> flow \<Rightarrow> flow option" where
  "flow_step (TherapistsLoaded ts) fs =
     (if isLoadingTherapists (app fs) then Some (with_app (loadTherapists ts) fs) else None)"
| "flow_step (BookNow t) fs =
     (if \<not> any_modal_shown (app fs) \<and> therapist_offered (app fs) t
      then Some (with_app (handleOpenBookingModal t) fs) else None)"
| "flow_step (RescheduleClick today k) fs =
     (if \<not> any_modal_shown (app fs) \<and> card_offered (app fs) today RescheduleButton k
      then Some (with_app (handleOpenRescheduleModal k) fs) else None)"
| "flow_step (CancelClick today k) fs =
     (if \<not> any_modal_shown (app fs) \<and> card_offered (app fs) today CancelButton k
      then Some (with_app (handleOpenCancelModal k) fs) else None)"
| "flow_step (FillIntakeClick today k) fs =
     (if \<not> any_modal_shown (app fs) \<and> card_offered (app fs) today FillIntakeForm k
      then Some (with_app (handleOpenIntakeForm k) fs) else None)"
| "flow_step (ViewIntakeClick today k) fs =
     (if \<not> any_modal_shown (app fs) \<and> card_offered (app fs) today ViewForm k
      then Some (with_app (handleViewIntakeForm k) fs) else None)"
| "flow_step (FormInput e) fs =
     (case (form fs, therapistToBook (app fs)) of
        (Some f, Some t) \<Rightarrow> map_option (\<lambda>f'. fs\<lparr>form := Some f'\<rparr>) (form_input t e f)
      | _ \<Rightarrow> None)"
| "flow_step (FormSubmit now) fs =
     (case form fs of
        None \<Rightarrow> None
      | Some f \<Rightarrow>
          (if now \<le> clock fs then None
           else case handleConfirmClick f of
             (f', None) \<Rightarrow> Some (fs\<lparr>form := Some f', clock := now\<rparr>)
           | (f', Some d) \<Rightarrow>
               Some (sync (app_result (handleBookingConfirm d now (app fs))
                             (fs\<lparr>form := Some f', clock := now\<rparr>)))))"
| "flow_step FormClose fs =
     (if form fs \<noteq> None then Some (with_app handleCloseBookingModal fs) else None)"
| "flow_step TimerFires fs =
     (if timers fs > 0 then Some (with_app openPaymentModal (fs\<lparr>timers := timers fs - 1\<rparr>)) else None)"
| "flow_step PayRetry fs =
     (case pay fs of
        Some (i, pm) \<Rightarrow>
          (if pm_error pm \<noteq> []
           then Some (add_task (TScript i (app fs)) (fs\<lparr>pay := Some (i, initiatePayment_start pm)\<rparr>))
           else None)
      | None \<Rightarrow> None)"
| "flow_step PayClose fs =
     (if pay fs \<noteq> None then Some (with_app paymentModalClose fs) else None)"
| "flow_step (ScriptLoaded j ok) fs =
     (case task_at fs j of
        Some (TScript i r) \<Rightarrow>
          Some (if ok then add_task (TOrder i r) (drop_task j fs)
                else upd_pay i (payment_flow_error msg_sdk_failed) (drop_task j fs))
      | _ \<Rightarrow> None)"
| "flow_step (OrderCreated j err data) fs =
     (case task_at fs j of
        Some (TOrder i r) \<Rightarrow>
          Some (case order_outcome err data of
                  Inl msg \<Rightarrow> upd_pay i (payment_flow_error msg) (drop_task j fs)
                | Inr od \<Rightarrow> upd_pay i order_opened
                             (add_task (TCheckout i r (opt_or (order_id od) [])) (drop_task j fs)))
      | _ \<Rightarrow> None)"
| "flow_step (CheckoutDismissed j) fs =
     (case task_at fs j of
        Some (TCheckout i r oid) \<Rightarrow> Some (upd_pay i checkout_dismissed (drop_task j fs))
      | _ \<Rightarrow> None)"
| "flow_step (CheckoutFailed j desc) fs =
     (case task_at fs j of
        Some (TCheckout i r oid) \<Rightarrow> Some (upd_pay i (checkout_failed desc) fs)
      | _ \<Rightarrow> None)"
| "flow_step (CheckoutPaid j pid) fs =
     (case task_at fs j of
        Some (TCheckout i r oid) \<Rightarrow>
          Some (upd_pay i checkout_handler (add_task (TVerify i r oid pid) (drop_task j fs)))
      | _ \<Rightarrow> None)"
| "flow_step (VerifyReturned j err data now) fs =
     (case task_at fs j of
        Some (TVerify i r oid pid) \<Rightarrow>
          (if now \<le> clock fs then None
           else Some (case verify_outcome err data of
                  Inl msg \<Rightarrow> upd_pay i (verify_failed msg pid) ((drop_task j fs)\<lparr>clock := now\<rparr>)
                | Inr _ \<Rightarrow>
                    sync (app_result (handlePaymentSuccess pid now r (app fs))
                            ((drop_task j fs)\<lparr>verified := Suc (verified fs), clock := now\<rparr>))))
      | _ \<Rightarrow> None)"
| "flow_step ConfirmClose fs =
     (if confirm_modal_shown (app fs) then Some (with_app confirmModalClose fs) else None)"
| "flow_step ConfirmViewBookings fs =
     (if confirm_modal_shown (app fs) then Some (with_app handleShowProfile fs) else None)"
| "flow_step CancelConfirm fs =
     (case (isCancelModalOpen (app fs), bookingToCancel (app fs)) of
        (True, Some b) \<Rightarrow> Some (with_app (handleConfirmCancelBooking (bid b)) fs)
      | _ \<Rightarrow> None)"
| "flow_step CancelKeep fs =
     (if cancel_modal_shown (app fs) then Some (with_app handleCloseCancelModal fs) else None)"
| "flow_step (IntakeInput (UserNameChange n)) fs = None"
| "flow_step (IntakeInput e) fs =
     (case (intake fs, bookingForIntake (app fs)) of
        (Some (n, w), Some b) \<Rightarrow>
          (case wizard_step e w of
             None \<Rightarrow> None
           | Some (w', None) \<Rightarrow> Some (fs\<lparr>intake := Some (n, w')\<rparr>)
           | Some (w', Some frm) \<Rightarrow>
               Some (with_app (handleIntakeFormSubmit (bid b) frm) (fs\<lparr>intake := Some (n, w')\<rparr>)))
      | _ \<Rightarrow> None)"
| "flow_step IntakeClose fs =
     (if intake_modal_shown (app fs) then Some (with_app handleCloseIntakeForm fs) else None)"
| "flow_step ViewIntakeClose fs =
     (if view_intake_shown (app fs) then Some (with_app handleCloseViewIntakeModal fs) else None)"
| "flow_step (AuthChange ev sess fetched inserted) fs =
     Some (with_app (onAuthStateChange ev sess fetched inserted) fs)"

section \<open>Runs and reachable states\<close>

fun run :: "event list \<Rightarrow> flow \<Rightarrow> flow option" where
  "run [] fs = Some fs"
| "run (e # es) fs = (case flow_step e fs of None \<Rightarrow> None | Some fs' \<Rightarrow> run es fs')"

inductive reachable :: "flow \<Rightarrow> bool" where
  start: "reachable init_flow"
| step: "reachable fs \<Longrightarrow> flow_step e fs = Some fs' \<Longrightarrow> reachable fs'"

lemma run_reachable: "reachable fs \<Longrightarrow> run es fs = Some fs' \<Longrightarrow> reachable fs'"
proof (induction es arbitrary: fs)
  case Nil
  then show ?case by simp
next
  case (Cons e es)
  then obtain fs1 where "flow_step e fs = Some fs1" and "run es fs1 = Some fs'"
    by (auto split: option.splits)
  with Cons show ?case by (blast intro: reachable.step)
qed

section \<open>Invariants of the booking list\<close>

text \<open>
  What the flow keeps true of the booking list, with \<open>v\<close> the number of verified
  payments and \<open>n\<close> the number of rows posted to the logging sink: the list is sorted by
  date, every booking with a therapist that takes online payment is paid, there are no
  more paid bookings than verified payments, and one row was posted per booking.
\<close>

definition paid_when_online :: "booking list \<Rightarrow> bool" where
  "paid_when_online bs \<longleftrightarrow> list_all (\<lambda>b. online_payment_flag (therapist b) \<longrightarrow> isPaid b = Some True) bs"

definition paid_count :: "booking list \<Rightarrow> nat" where
  "paid_count bs = length (filter (\<lambda>b. isPaid b = Some True) bs)"

definition inv_bookings :: "nat \<Rightarrow> nat \<Rightarrow> booking list \<Rightarrow> bool" where
  "inv_bookings v n bs \<longleftrightarrow>
     bookings_sorted bs \<and> paid_when_online bs \<and> paid_count bs \<le> v \<and> n = length bs"

definition flow_inv :: "flow \<Rightarrow> bool" where
  "flow_inv fs \<longleftrightarrow> inv_bookings (verified fs) (length (posted fs)) (bookings (app fs))"

fun sheet_rows :: "effect list \<Rightarrow> sheet_row list" where
  "sheet_rows [] = []"
| "sheet_rows (SheetPost row # es) = row # sheet_rows es"
| "sheet_rows (OpenPaymentAfter50ms # es) = sheet_rows es"

lemma paid_when_online_sort [simp]: "paid_when_online (sort_key k bs) = paid_when_online bs"
  by (simp add: paid_when_online_def list_all_iff)

lemma paid_count_sort [simp]: "paid_count (sort_key k bs) = paid_count bs"
  by (simp add: paid_count_def filter_sort)

lemma inv_bookings_mono: "inv_bookings v n bs \<Longrightarrow> v \<le> v' \<Longrightarrow> inv_bookings v' n bs"
  by (simp add: inv_bookings_def)

text \<open>An update of matching bookings that keeps therapist, payment and date.\<close>

lemma inv_bookings_map_where:
  assumes "inv_bookings v n bs"
    and "\<And>b. therapist (f b) = therapist b" "\<And>b. isPaid (f b) = isPaid b" "\<And>b. date (f b) = date b"
  shows "inv_bookings v n (map_where P f bs)"
proof -
  have "map date (map_where P f bs) = map date bs"
    by (rule map_map_where_keep) (simp add: assms)
  moreover have "paid_when_online (map_where P f bs) = paid_when_online bs"
    by (induction bs) (auto simp: paid_when_online_def assms)
  moreover have "paid_count (map_where P f bs) = paid_count bs"
    unfolding paid_count_def by (rule filter_map_where_invariant) (simp add: assms)
  ultimately show ?thesis using assms(1) by (simp add: inv_bookings_def bookings_sorted_def)
qed

text \<open>The reschedule update: therapist and payment kept, the list sorted again.\<close>

lemma inv_bookings_resort:
  assumes "inv_bookings v n bs"
    and "\<And>b. therapist (f b) = therapist b" "\<And>b. isPaid (f b) = isPaid b"
  shows "inv_bookings v n (sort_key date (map_where P f bs))"
proof -
  have "paid_when_online (map_where P f bs) = paid_when_online bs"
    by (induction bs) (auto simp: paid_when_online_def assms)
  moreover have "paid_count (map_where P f bs) = paid_count bs"
    unfolding paid_count_def by (rule filter_map_where_invariant) (simp add: assms)
  ultimately show ?thesis using assms(1) by (simp add: inv_bookings_def)
qed

text \<open>A new booking, unpaid only when its therapist does not take online payment.\<close>

lemma inv_bookings_insert:
  assumes "inv_bookings v n bs"
    and "isPaid nb = Some True \<or> \<not> online_payment_flag (therapist nb)"
  shows "inv_bookings (if isPaid nb = Some True then Suc v else v) (Suc n) (sort_key date (bs @ [nb]))"
proof -
  have "paid_when_online (bs @ [nb])" and "paid_count (bs @ [nb]) \<le> (if isPaid nb = Some True then Suc v else v)"
    using assms by (auto simp: inv_bookings_def paid_when_online_def paid_count_def)
  then show ?thesis using assms(1) by (simp add: inv_bookings_def)
qed

section \<open>Frame lemmas\<close>

lemma sync_intake_frame [simp]:
  "app (sync_intake fs) = app fs" "verified (sync_intake fs) = verified fs"
  "posted (sync_intake fs) = posted fs" "pay (sync_intake fs) = pay fs"
  "tasks (sync_intake fs) = tasks fs" "form (sync_intake fs) = form fs"
  "next_instance (sync_intake fs) = next_instance fs" "timers (sync_intake fs) = timers fs"
  "clock (sync_intake fs) = clock fs"
  by (auto simp: sync_intake_def split: option.splits prod.splits)

lemma sync_frame [simp]:
  "app (sync fs) = app fs" "verified (sync fs) = verified fs" "posted (sync fs) = posted fs"
  by (auto simp: sync_def sync_pay_def sync_form_def split: option.splits bool.splits)

lemma upd_pay_frame [simp]:
  "app (upd_pay i f fs) = app fs" "verified (upd_pay i f fs) = verified fs"
  "posted (upd_pay i f fs) = posted fs"
  by (auto simp: upd_pay_def split: option.splits)

lemma task_frame [simp]:
  "app (add_task t fs) = app fs" "verified (add_task t fs) = verified fs"
  "posted (add_task t fs) = posted fs"
  "app (drop_task j fs) = app fs" "verified (drop_task j fs) = verified fs"
  "posted (drop_task j fs) = posted fs"
  by (simp_all add: add_task_def drop_task_def)

lemma foldl_apply_effect_frame:
  "app (foldl apply_effect fs effs) = app fs \<and> verified (foldl apply_effect fs effs) = verified fs \<and>
   posted (foldl apply_effect fs effs) = posted fs @ sheet_rows effs"
proof (induction effs arbitrary: fs)
  case Nil
  then show ?case by simp
next
  case (Cons e effs)
  then show ?case by (cases e) simp_all
qed

lemma app_result_frame [simp]:
  "app (app_result r fs) = fst r" "verified (app_result r fs) = verified fs"
  "posted (app_result r fs) = posted fs @ sheet_rows (snd r)"
  by (simp_all add: app_result_def foldl_apply_effect_frame)

lemma with_app_frame [simp]:
  "app (with_app h fs) = h (app fs)" "verified (with_app h fs) = verified fs"
  "posted (with_app h fs) = posted fs"
  by (simp_all add: with_app_def)

lemma sheet_rows_send [simp]: "length (sheet_rows (sendBookingToGoogleSheets r b)) = 1"
  by (simp add: sendBookingToGoogleSheets_def GOOGLE_SHEET_URL_def)

section \<open>Each handler keeps the invariant\<close>

lemma bookings_unchanged [simp]:
  "bookings (loadTherapists ts s) = bookings s"
  "bookings (handleOpenBookingModal t s) = bookings s"
  "bookings (handleOpenRescheduleModal k s) = bookings s"
  "bookings (handleOpenCancelModal k s) = bookings s"
  "bookings (handleOpenIntakeForm k s) = bookings s"
  "bookings (handleViewIntakeForm k s) = bookings s"
  "bookings (handleCloseBookingModal s) = bookings s"
  "bookings (openPaymentModal s) = bookings s"
  "bookings (paymentModalClose s) = bookings s"
  "bookings (confirmModalClose s) = bookings s"
  "bookings (handleShowProfile s) = bookings s"
  "bookings (handleCloseCancelModal s) = bookings s"
  "bookings (handleCloseIntakeForm s) = bookings s"
  "bookings (handleCloseViewIntakeModal s) = bookings s"
  by (auto simp: loadTherapists_def handleOpenBookingModal_def handleOpenLoginModal_def
      handleOpenRescheduleModal_def handleOpenCancelModal_def handleOpenIntakeForm_def
      handleViewIntakeForm_def handleCloseBookingModal_def openPaymentModal_def
      paymentModalClose_def confirmModalClose_def handleShowProfile_def
      handleShowTherapistDashboard_def handleShowAdminPage_def handleCloseCancelModal_def
      handleCloseIntakeForm_def handleCloseViewIntakeModal_def
      split: option.splits role.splits)

lemma inv_cancel:
  "inv_bookings v n (bookings s) \<Longrightarrow> inv_bookings v n (bookings (handleConfirmCancelBooking k s))"
  by (auto simp: handleConfirmCancelBooking_def handleCloseCancelModal_def
      intro: inv_bookings_map_where split: option.splits)

lemma inv_intake:
  "inv_bookings v n (bookings s) \<Longrightarrow> inv_bookings v n (bookings (handleIntakeFormSubmit k frm s))"
  by (auto simp: handleIntakeFormSubmit_def handleCloseIntakeForm_def intro: inv_bookings_map_where)

lemma inv_finalize:
  assumes "inv_bookings v n (bookings s)"
    and "finalizeBooking det paid now r s = (s', effs)"
    and "paid \<or> (\<forall>t. therapistToBook r = Some t \<longrightarrow> \<not> online_payment_flag t)"
  shows "inv_bookings (if paid then Suc v else v) (n + length (sheet_rows effs)) (bookings s')"
  using finalizeBooking_cases [OF assms(2)]
proof
  assume "s' = s \<and> effs = []"
  with assms(1) show ?thesis by (auto intro: inv_bookings_mono)
next
  assume "\<exists>d t u. det = Some d \<and> therapistToBook r = Some t \<and> currentUser r = Some u \<and>
        bookings s' = sort_key date (bookings s @ [new_booking now d t u paid]) \<and>
        pendingBookingDetails s' = None \<and> isConfirmModalOpen s' \<and>
        effs = sendBookingToGoogleSheets r (new_booking now d t u paid)"
  then obtain d t u where t: "therapistToBook r = Some t"
    and bs: "bookings s' = sort_key date (bookings s @ [new_booking now d t u paid])"
    and effs: "effs = sendBookingToGoogleSheets r (new_booking now d t u paid)" by blast
  have "isPaid (new_booking now d t u paid) = Some True \<or>
        \<not> online_payment_flag (therapist (new_booking now d t u paid))"
    using assms(3) t by auto
  from inv_bookings_insert [OF assms(1) this] show ?thesis
    by (simp add: bs effs)
qed

lemma inv_booking_confirm:
  assumes "inv_bookings v n (bookings s)" and "handleBookingConfirm d now s = (s', effs)"
  shows "inv_bookings v (n + length (sheet_rows effs)) (bookings s')"
proof (cases "bookingToReschedule s")
  case (Some rb)
  have "inv_bookings v n (sort_key date (map_where (\<lambda>b. bid b = bid rb) (reschedule_update d) (bookings s)))"
    using assms(1) by (rule inv_bookings_resort) simp_all
  with Some assms(2) show ?thesis by (auto simp: handleBookingConfirm_reschedule)
next
  case None
  show ?thesis
  proof (cases "therapistToBook s = None \<or> currentUser s = None")
    case True
    with None assms show ?thesis by (simp add: handleBookingConfirm_inert)
  next
    case False
    then obtain t u where t: "therapistToBook s = Some t" and u: "currentUser s = Some u" by auto
    show ?thesis
    proof (cases "online_payment_flag t")
      case True
      with None t u assms show ?thesis by (auto simp: handleBookingConfirm_online)
    next
      case False
      let ?s1 = "s\<lparr>pendingBookingDetails := Some d, isBookingModalOpen := False\<rparr>"
      have fin: "finalizeBooking (Some d) False now s ?s1 = (s', effs)"
        using None t u False assms(2) by (simp add: handleBookingConfirm_direct)
      have "inv_bookings v n (bookings ?s1)" using assms(1) by simp
      from inv_finalize [OF this fin] False t show ?thesis by simp
    qed
  qed
qed

lemma inv_payment_success:
  assumes "inv_bookings v n (bookings s)" and "handlePaymentSuccess pid now r s = (s', effs)"
  shows "inv_bookings (Suc v) (n + length (sheet_rows effs)) (bookings s')"
proof (cases "pendingBookingDetails r")
  case None
  with assms show ?thesis by (auto simp: handlePaymentSuccess_def intro: inv_bookings_mono)
next
  case (Some d)
  let ?s1 = "s\<lparr>isPaymentModalOpen := False\<rparr>"
  have fin: "finalizeBooking (Some d) True now r ?s1 = (s', effs)"
    using Some assms(2) by (simp add: handlePaymentSuccess_def)
  have "inv_bookings v n (bookings ?s1)" using assms(1) by simp
  from inv_finalize [OF this fin] show ?thesis by simp
qed

section \<open>The invariant holds in every reachable state\<close>

lemma flow_step_inv:
  assumes step: "flow_step e fs = Some fs'" and inv: "flow_inv fs"
  shows "flow_inv fs'"
proof (cases e)
  case (FormSubmit now)
  then obtain f where f: "form fs = Some f" and now: "clock fs < now"
    using step by (auto split: option.splits if_splits)
  show ?thesis
  proof (cases "snd (handleConfirmClick f)")
    case None
    then show ?thesis using step inv FormSubmit f now
      by (auto simp: flow_inv_def split: prod.splits)
  next
    case (Some d)
    obtain s' effs where conf: "handleBookingConfirm d now (app fs) = (s', effs)" by fastforce
    have fs': "fs' = sync (app_result (s', effs) (fs\<lparr>form := Some (fst (handleConfirmClick f)), clock := now\<rparr>))"
      using step FormSubmit f now Some conf by (auto split: prod.splits)
    from inv_booking_confirm [OF _ conf] inv show ?thesis
      by (simp add: fs' flow_inv_def)
  qed
next
  case (VerifyReturned j err data now)
  then obtain i r oid pid where t: "task_at fs j = Some (TVerify i r oid pid)" and now: "clock fs < now"
    using step by (auto split: option.splits task.splits if_splits)
  show ?thesis
  proof (cases "verify_outcome err data")
    case (Inl msg)
    then show ?thesis using step inv VerifyReturned t now by (auto simp: flow_inv_def)
  next
    case (Inr x)
    obtain s' effs where ps: "handlePaymentSuccess pid now r (app fs) = (s', effs)" by fastforce
    have fs': "fs' = sync (app_result (s', effs)
                 ((drop_task j fs)\<lparr>verified := Suc (verified fs), clock := now\<rparr>))"
      using step VerifyReturned t now Inr ps by auto
    from inv_payment_success [OF _ ps] inv show ?thesis
      by (simp add: fs' flow_inv_def)
  qed
next
  case CancelConfirm
  then show ?thesis using step inv
    by (auto simp: flow_inv_def intro: inv_cancel split: option.splits bool.splits)
next
  case (IntakeInput we)
  then show ?thesis using step inv
    by (cases we) (auto simp: flow_inv_def intro: inv_intake split: option.splits prod.splits)
qed (use step inv in \<open>auto simp: flow_inv_def split: option.splits if_splits task.splits sum.splits prod.splits\<close>)

lemma init_flow_inv: "flow_inv init_flow"
  by (simp add: flow_inv_def inv_bookings_def init_flow_def init_app_def bookings_sorted_def
      paid_when_online_def paid_count_def)

lemma reachable_flow_inv: "reachable fs \<Longrightarrow> flow_inv fs"
proof (induction rule: reachable.induct)
  case start
  show ?case by (rule init_flow_inv)
next
  case (step fs e fs')
  then show ?case by (blast intro: flow_step_inv)
qed

section \<open>What a step does to the bookings and the clock\<close>

lemma foldl_apply_effect_keeps [simp]:
  "clock (foldl apply_effect fs effs) = clock fs \<and> intake (foldl apply_effect fs effs) = intake fs"
proof (induction effs arbitrary: fs)
  case (Cons e effs)
  then show ?case by (cases e) simp_all
qed simp

lemma clock_frame [simp]:
  "clock (sync fs) = clock fs" "clock (with_app h fs) = clock fs" "clock (upd_pay i f fs) = clock fs"
  "clock (add_task t fs) = clock fs" "clock (drop_task j fs) = clock fs" "clock (app_result r fs) = clock fs"
  by (auto simp: sync_def sync_pay_def sync_form_def with_app_def upd_pay_def add_task_def drop_task_def
      app_result_def split: option.splits prod.splits bool.splits)

text \<open>What one step does to the booking list and the clock.\<close>

lemma flow_step_bookings:
  assumes step: "flow_step e fs = Some fs'"
  shows "bookings (app fs') = bookings (app fs) \<and> clock fs \<le> clock fs' \<or>
         (\<exists>d now s' effs. clock fs < now \<and> clock fs' = now \<and> handleBookingConfirm d now (app fs) = (s', effs) \<and>
            bookings (app fs') = bookings s') \<or>
         (\<exists>pid now r s' effs. clock fs < now \<and> clock fs' = now \<and> handlePaymentSuccess pid now r (app fs) = (s', effs) \<and>
            bookings (app fs') = bookings s') \<or>
         (\<exists>k. clock fs' = clock fs \<and> bookings (app fs') = bookings (handleConfirmCancelBooking k (app fs))) \<or>
         (\<exists>b frm n w w'. clock fs' = clock fs \<and> intake fs = Some (n, w) \<and> wizard_step Submit w = Some (w', Some frm) \<and>
            bookingForIntake (app fs) = Some b \<and>
            app fs' = handleIntakeFormSubmit (bid b) frm (app fs))"
proof (cases e)
  case (FormSubmit now)
  then obtain f where f: "form fs = Some f" and now: "clock fs < now"
    using step by (auto split: option.splits if_splits)
  show ?thesis
  proof (cases "snd (handleConfirmClick f)")
    case None
    then show ?thesis using step FormSubmit f now by (auto split: prod.splits)
  next
    case (Some d)
    obtain s' effs where conf: "handleBookingConfirm d now (app fs) = (s', effs)" by fastforce
    then have "fs' = sync (app_result (s', effs) (fs\<lparr>form := Some (fst (handleConfirmClick f)), clock := now\<rparr>))"
      using step FormSubmit f now Some by (auto split: prod.splits)
    with conf now show ?thesis by auto
  qed
next
  case (VerifyReturned j err data now)
  then obtain i r oid pid where t: "task_at fs j = Some (TVerify i r oid pid)" and now: "clock fs < now"
    using step by (auto split: option.splits task.splits if_splits)
  show ?thesis
  proof (cases "verify_outcome err data")
    case (Inl msg)
    then show ?thesis using step VerifyReturned t now by auto
  next
    case (Inr x)
    obtain s' effs where ps: "handlePaymentSuccess pid now r (app fs) = (s', effs)" by fastforce
    then have "fs' = sync (app_result (s', effs) ((drop_task j fs)\<lparr>verified := Suc (verified fs), clock := now\<rparr>))"
      using step VerifyReturned t now Inr by auto
    then have "bookings (app fs') = bookings s'" "clock fs' = now" by simp_all
    with ps now show ?thesis by blast
  qed
next
  case (IntakeInput we)
  then obtain n w b r where m: "intake fs = Some (n, w)" and bi: "bookingForIntake (app fs) = Some b"
    and ws: "wizard_step we w = Some r" and nu: "\<forall>x. we \<noteq> UserNameChange x"
    using step by (cases we) (auto split: option.splits prod.splits)
  obtain w' out where r: "r = (w', out)" by fastforce
  show ?thesis
  proof (cases out)
    case None
    then show ?thesis using step IntakeInput m bi ws nu r by (cases we) auto
  next
    case (Some frm)
    then have sub: "we = Submit" using ws r wizard_step_output by blast
    then have "fs' = with_app (handleIntakeFormSubmit (bid b) frm) (fs\<lparr>intake := Some (n, w')\<rparr>)"
      using step IntakeInput m bi ws r Some by auto
    then have "app fs' = handleIntakeFormSubmit (bid b) frm (app fs)" "clock fs' = clock fs"
      by simp_all
    with m bi ws r Some sub show ?thesis by blast
  qed
qed (use step in \<open>auto split: option.splits if_splits task.splits sum.splits prod.splits bool.splits\<close>)

end
