(* ===== verification/Flow_Scenarios.thy ===== *)
theory Flow_Scenarios
  imports Booking_Flow
begin

text \<open>
  Concrete runs of the booking flow: the end-to-end scenarios of the specification
  (section 8, A to D) and the run in which a verification answers after the payment modal
  was closed. Each is a list of events from the initial state; the lemmas here compute
  their results, and the root theory states what they show.
\<close>

definition demo_order :: order where
  "demo_order = \<lparr>order_id = Some ''order_1'', order_error = None, order_amount = 80000,
                 order_currency = ''INR''\<rparr>"

definition verify_ok :: verify_data where
  "verify_ok = \<lparr>v_success = True, v_message = None\<rparr>"

text \<open>Filling and submitting the booking form for a therapist whose card is on screen.\<close>

definition book_events :: "therapist \<Rightarrow> string \<Rightarrow> string \<Rightarrow> int \<Rightarrow> event list" where
  "book_events t day slot now =
     [BookNow t, FormInput (EditPhoneNo ''9820012345''), FormInput (ChangeDate day),
      FormInput (SelectTime slot), FormSubmit now]"

text \<open>The session of \<open>demo_user\<close> and the user's profile row: signing in logs in \<open>demo_user\<close>.\<close>

definition demo_user_session :: session_user where
  "demo_user_session = \<lparr>su_id = ''u1'', su_email = Some ''asha@example.com'', su_phone = None,
                        su_full_name = Some ''Asha''\<rparr>"

definition patient_row :: profile_row where
  "patient_row = \<lparr>p_full_name = Some ''Asha'', p_role = RPatient, p_therapist_id = None\<rparr>"

definition login_events :: "therapist list \<Rightarrow> event list" where
  "login_events ts =
     [AuthChange SIGNED_IN (Some demo_user_session) (Inr [patient_row]) (Inr []), TherapistsLoaded ts]"

abbreviation pay_later :: therapist where
  "pay_later \<equiv> demo_therapist 2 500 False"

abbreviation pay_online :: therapist where
  "pay_online \<equiv> demo_therapist 13 800 True"

definition scenario_A :: "event list" where
  "scenario_A = login_events [pay_later] @ book_events pay_later ''2025-03-10'' ''10:00 AM'' 1000"

definition to_checkout :: "event list" where
  "to_checkout = login_events [pay_online] @ book_events pay_online ''2025-03-10'' ''10:00 AM'' 1000 @
     [TimerFires, ScriptLoaded 0 True, OrderCreated 0 None (Some demo_order)]"

definition scenario_B :: "event list" where
  "scenario_B = to_checkout @ [CheckoutPaid 0 ''pay_123'', VerifyReturned 0 None (Some verify_ok) 2000]"

definition scenario_C :: "event list" where
  "scenario_C = to_checkout @ [CheckoutFailed 0 ''Card declined'']"

definition scenario_D :: "event list" where
  "scenario_D = scenario_A @ [ConfirmClose] @ book_events pay_later ''2025-03-11'' ''11:00 AM'' 1500 @
     [ConfirmViewBookings, ConfirmClose, RescheduleClick 1741478400000 ''1000-2'',
      FormInput (EditPhoneNo ''9820099999''), FormInput (ChangeDate ''2025-03-12''),
      FormInput (SelectTime ''02:00 PM''), FormSubmit 3000]"

definition scenario_late :: "event list" where
  "scenario_late = to_checkout @ [CheckoutPaid 0 ''pay_123'', PayClose]"

text \<open>
  Scenario E: after scenario A, the patient opens the profile page from the confirmation,
  closes it, and fills in the intake form of the new booking.
\<close>

definition scenario_E :: "event list" where
  "scenario_E = scenario_A @ [ConfirmViewBookings, ConfirmClose, FillIntakeClick 1741478400000 ''1000-2''] @
                map IntakeInput (demo_wizard_events @ [Submit])"

text \<open>A therapist's session and profile row, with or without a therapist id.\<close>

definition therapist_session :: session_user where
  "therapist_session = \<lparr>su_id = ''t2'', su_email = Some ''rao@example.com'', su_phone = None,
                        su_full_name = Some ''Dr. Rao''\<rparr>"

definition therapist_row :: "int option \<Rightarrow> profile_row" where
  "therapist_row i = \<lparr>p_full_name = Some ''Dr. Rao'', p_role = RTherapist, p_therapist_id = i\<rparr>"

definition flow_B :: flow where
  "flow_B = (case run scenario_B init_flow of Some fs \<Rightarrow> fs | None \<Rightarrow> init_flow)"

definition flow_E :: flow where
  "flow_E = (case run scenario_E init_flow of Some fs \<Rightarrow> fs | None \<Rightarrow> init_flow)"

text \<open>What scenarios B and E end with, each computed once for the examples that use it.\<close>

lemma flow_B_computed:
  "map_option (\<lambda>fs. (map (\<lambda>b. (online_payment_flag (therapist b), isPaid b)) (bookings (app fs)),
                     paid_count (bookings (app fs)), length (posted fs), verified fs))
     (run scenario_B init_flow) = Some ([(True, Some True)], 1, 1, 1)"
  by code_simp

lemma run_scenario_B: "run scenario_B init_flow = Some flow_B"
  using flow_B_computed by (auto simp: flow_B_def)

lemma reachable_flow_B: "reachable flow_B"
  by (rule run_reachable [OF reachable.start run_scenario_B])

lemma flow_B_summary:
  "map (\<lambda>b. (online_payment_flag (therapist b), isPaid b)) (bookings (app flow_B)) = [(True, Some True)] \<and>
   paid_count (bookings (app flow_B)) = 1 \<and> length (posted flow_B) = 1 \<and> verified flow_B = 1"
  using flow_B_computed by (simp add: run_scenario_B)

lemma flow_E_computed:
  "map_option (\<lambda>fs. map (\<lambda>b. (bid b, map_option (\<lambda>f. (fullName (personalInfo f), dob (personalInfo f),
                        primaryComplaint (currentCondition f), painLevel (currentCondition f),
                        patientGoals (goals f))) (intakeForm b))) (bookings (app fs)))
     (run scenario_E init_flow) =
   Some [(''1000-2'', Some (''Asha'', ''1990-05-01'', ''Knee pain'', 7, ''Run without pain''))]"
  by code_simp

lemma run_scenario_E: "run scenario_E init_flow = Some flow_E"
  using flow_E_computed by (auto simp: flow_E_def)

lemma reachable_flow_E: "reachable flow_E"
  by (rule run_reachable [OF reachable.start run_scenario_E])

lemma flow_E_summary:
  "map (\<lambda>b. (bid b, map_option (\<lambda>f. (fullName (personalInfo f), dob (personalInfo f),
                 primaryComplaint (currentCondition f), painLevel (currentCondition f),
                 patientGoals (goals f))) (intakeForm b))) (bookings (app flow_E)) =
   [(''1000-2'', Some (''Asha'', ''1990-05-01'', ''Knee pain'', 7, ''Run without pain''))]"
  using flow_E_computed by (simp add: run_scenario_E)

end
