(* ===== verification/Intake_Flow.thy ===== *)
theory Intake_Flow
  imports Flow_Scenarios
begin

text \<open>
  The intake wizard inside the composed flow. The flow mounts the wizard of theory
  \<open>Intake_Wizard\<close> while \<open>IntakeFormModal\<close> is shown and passes its submission to
  \<open>handleIntakeFormSubmit\<close>; this theory proves that every intake form attached to a
  booking is one the wizard validated, whatever else happens to the bookings.
\<close>

definition intake_complete :: "intake_form \<Rightarrow> bool" where
  "intake_complete f \<longleftrightarrow>
     dob (personalInfo f) \<noteq> [] \<and> primaryComplaint (currentCondition f) \<noteq> [] \<and>
     patientGoals (goals f) \<noteq> [] \<and> 1 \<le> painLevel (currentCondition f) \<and> painLevel (currentCondition f) \<le> 10"

definition intakes_ok :: "booking list \<Rightarrow> bool" where
  "intakes_ok bs \<longleftrightarrow> list_all (\<lambda>b. pred_option intake_complete (intakeForm b)) bs"

definition intake_flow_inv :: "flow \<Rightarrow> bool" where
  "intake_flow_inv fs \<longleftrightarrow> intakes_ok (bookings (app fs)) \<and> pred_option (\<lambda>p. wiz_inv (snd p)) (intake fs)"

section \<open>The booking handlers keep the intake forms valid\<close>

lemma intakes_ok_sort [simp]: "intakes_ok (sort_key k bs) = intakes_ok bs"
  by (simp add: intakes_ok_def list_all_iff)

lemma intakes_ok_append [simp]: "intakes_ok (xs @ ys) \<longleftrightarrow> intakes_ok xs \<and> intakes_ok ys"
  by (simp add: intakes_ok_def)

lemma intakes_ok_map_where:
  assumes "\<And>b. P b \<Longrightarrow> pred_option intake_complete (intakeForm b) \<Longrightarrow> pred_option intake_complete (intakeForm (f b))"
    and "intakes_ok bs"
  shows "intakes_ok (map_where P f bs)"
  using assms(2) by (induction bs) (auto simp: intakes_ok_def assms(1))

lemma intakes_ok_new [simp]: "intakes_ok [new_booking now d t u paid]"
  by (simp add: intakes_ok_def new_booking_def)

lemma intakes_finalize:
  "intakes_ok (bookings s) \<Longrightarrow> finalizeBooking d paid now r s = (s', effs) \<Longrightarrow> intakes_ok (bookings s')"
  by (drule finalizeBooking_cases) auto

lemma intakes_reschedule: "intakes_ok bs \<Longrightarrow> intakes_ok (map_where P (reschedule_update d) bs)"
  by (rule intakes_ok_map_where) (simp_all add: reschedule_update_def)

lemma intakes_booking_confirm:
  assumes "intakes_ok (bookings s)" and "handleBookingConfirm d now s = (s', effs)"
  shows "intakes_ok (bookings s')"
  using handleBookingConfirm_bookings [OF assms(2)] assms(1) by (auto simp: intakes_reschedule)

lemma intakes_payment_success:
  "intakes_ok (bookings s) \<Longrightarrow> handlePaymentSuccess pid now r s = (s', effs) \<Longrightarrow> intakes_ok (bookings s')"
  by (auto dest: handlePaymentSuccess_bookings)

lemma intakes_cancel: "intakes_ok (bookings s) \<Longrightarrow> intakes_ok (bookings (handleConfirmCancelBooking k s))"
  by (auto simp: handleConfirmCancelBooking_def handleCloseCancelModal_def cancel_booking_def
      intro: intakes_ok_map_where split: option.splits)

lemma intakes_submit:
  "intakes_ok (bookings s) \<Longrightarrow> intake_complete frm \<Longrightarrow> intakes_ok (bookings (handleIntakeFormSubmit k frm s))"
  by (auto simp: handleIntakeFormSubmit_def handleCloseIntakeForm_def intro: intakes_ok_map_where)

section \<open>The mounted wizard keeps its invariant\<close>

lemma wiz_inv_prefill [simp]: "wiz_inv (w\<lparr>formData := prefill_name n (formData w)\<rparr>) = wiz_inv w"
  by (simp add: wiz_inv_def prefill_name_def)

lemma intake_frame [simp]:
  "intake (sync_pay fs) = intake fs" "intake (sync_form fs) = intake fs"
  "intake (app_result r fs) = intake fs" "intake (upd_pay i f fs) = intake fs"
  "intake (add_task t fs) = intake fs" "intake (drop_task j fs) = intake fs"
  by (auto simp: sync_pay_def sync_form_def app_result_def upd_pay_def add_task_def drop_task_def
      split: option.splits bool.splits prod.splits)

lemma sync_wiz_inv:
  "pred_option (\<lambda>p. wiz_inv (snd p)) (intake fs) \<Longrightarrow> pred_option (\<lambda>p. wiz_inv (snd p)) (intake (sync fs))"
  by (auto simp: sync_def sync_intake_def init_wizard_inv split: option.splits prod.splits)

section \<open>The invariant holds in every reachable state\<close>

lemma intake_inv_sync: "intake_flow_inv fs \<Longrightarrow> intake_flow_inv (sync fs)"
  by (simp add: intake_flow_inv_def sync_wiz_inv)

lemma intake_inv_with_app:
  "intake_flow_inv fs \<Longrightarrow> intakes_ok (bookings (h (app fs))) \<Longrightarrow> intake_flow_inv (with_app h fs)"
  unfolding with_app_def by (rule intake_inv_sync) (simp add: intake_flow_inv_def)

lemma intake_inv_frame [simp]:
  "intake_flow_inv (upd_pay i f fs) = intake_flow_inv fs"
  "intake_flow_inv (add_task t fs) = intake_flow_inv fs"
  "intake_flow_inv (drop_task j fs) = intake_flow_inv fs"
  "intake_flow_inv (fs\<lparr>form := x\<rparr>) = intake_flow_inv fs"
  "intake_flow_inv (fs\<lparr>clock := c\<rparr>) = intake_flow_inv fs"
  "intake_flow_inv (fs\<lparr>timers := k\<rparr>) = intake_flow_inv fs"
  "intake_flow_inv (fs\<lparr>pay := p\<rparr>) = intake_flow_inv fs"
  by (simp_all add: intake_flow_inv_def)

lemma flow_step_intake_inv:
  assumes step: "flow_step e fs = Some fs'" and inv: "intake_flow_inv fs"
  shows "intake_flow_inv fs'"
proof (cases e)
  case (FormSubmit now)
  then obtain f where f: "form fs = Some f" using step by (auto split: option.splits)
  show ?thesis
  proof (cases "snd (handleConfirmClick f)")
    case None
    then show ?thesis using step inv FormSubmit f
      by (auto simp: intake_flow_inv_def split: prod.splits if_splits)
  next
    case (Some d)
    obtain s' effs where conf: "handleBookingConfirm d now (app fs) = (s', effs)" by fastforce
    have fs': "fs' = sync (app_result (s', effs) (fs\<lparr>form := Some (fst (handleConfirmClick f)), clock := now\<rparr>))"
      using step FormSubmit f Some conf by (auto split: prod.splits if_splits)
    have "intakes_ok (bookings s')"
      using inv conf by (auto simp: intake_flow_inv_def intro: intakes_booking_confirm)
    with inv show ?thesis unfolding fs' by (intro intake_inv_sync) (simp add: intake_flow_inv_def)
  qed
next
  case (VerifyReturned j err data now)
  then obtain i r oid pid where t: "task_at fs j = Some (TVerify i r oid pid)"
    using step by (auto split: option.splits task.splits if_splits)
  show ?thesis
  proof (cases "verify_outcome err data")
    case (Inl msg)
    then show ?thesis using step inv VerifyReturned t
      by (auto simp: intake_flow_inv_def split: if_splits)
  next
    case (Inr x)
    obtain s' effs where ps: "handlePaymentSuccess pid now r (app fs) = (s', effs)" by fastforce
    have fs': "fs' = sync (app_result (s', effs) ((drop_task j fs)\<lparr>verified := Suc (verified fs), clock := now\<rparr>))"
      using step VerifyReturned t Inr ps by (auto split: if_splits)
    have "intakes_ok (bookings s')"
      using inv ps by (auto simp: intake_flow_inv_def intro: intakes_payment_success)
    with inv show ?thesis unfolding fs' by (intro intake_inv_sync) (simp add: intake_flow_inv_def)
  qed
next
  case (IntakeInput we)
  then obtain n w b where m: "intake fs = Some (n, w)" and bi: "bookingForIntake (app fs) = Some b"
    and we: "we \<noteq> UserNameChange (case we of UserNameChange x \<Rightarrow> x | _ \<Rightarrow> [])"
    using step by (cases we) (auto split: option.splits prod.splits)
  have nu: "\<forall>x. we \<noteq> UserNameChange x" using we by (cases we) auto
  then have st: "flow_step (IntakeInput we) fs =
      (case wizard_step we w of
         None \<Rightarrow> None
       | Some (w', None) \<Rightarrow> Some (fs\<lparr>intake := Some (n, w')\<rparr>)
       | Some (w', Some frm) \<Rightarrow>
           Some (with_app (handleIntakeFormSubmit (bid b) frm) (fs\<lparr>intake := Some (n, w')\<rparr>)))"
    using m bi by (cases we) auto
  obtain w' out where ws: "wizard_step we w = Some (w', out)"
    using step IntakeInput st by (auto split: option.splits)
  have wi: "wiz_inv w" using inv m by (simp add: intake_flow_inv_def)
  have wi': "wiz_inv w'" by (rule wizard_step_inv [OF wi ws])
  show ?thesis
  proof (cases out)
    case None
    then show ?thesis using step IntakeInput st ws inv wi' by (auto simp: intake_flow_inv_def)
  next
    case (Some frm)
    have "intake_complete frm"
      using ws Some wi
      by (cases we) (auto simp: intake_complete_def wiz_inv_def handleSubmit_def split: if_splits)
    then have "intakes_ok (bookings (handleIntakeFormSubmit (bid b) frm (app fs)))"
      using inv by (simp add: intake_flow_inv_def intakes_submit)
    moreover have "intake_flow_inv (fs\<lparr>intake := Some (n, w')\<rparr>)"
      using inv wi' by (simp add: intake_flow_inv_def)
    ultimately show ?thesis
      using step IntakeInput st ws Some by (auto intro: intake_inv_with_app)
  qed
next
  case CancelConfirm
  have "intakes_ok (bookings (app fs))" using inv by (simp add: intake_flow_inv_def)
  then show ?thesis using step inv CancelConfirm
    by (auto intro!: intake_inv_with_app intakes_cancel split: option.splits bool.splits)
qed (use step inv in \<open>auto intro!: intake_inv_with_app simp: intake_flow_inv_def [of fs]
       split: option.splits if_splits task.splits sum.splits prod.splits\<close>)

lemma init_flow_intake_inv: "intake_flow_inv init_flow"
  by (simp add: intake_flow_inv_def intakes_ok_def init_flow_def init_app_def)

lemma reachable_intake_inv: "reachable fs \<Longrightarrow> intake_flow_inv fs"
  by (induction rule: reachable.induct) (auto intro: flow_step_intake_inv simp: init_flow_intake_inv)

section \<open>Every stored intake form was validated\<close>

text \<open>
  Claim C23. In every reachable state, every intake form attached to a booking has a date
  of birth, a primary complaint and goals, and a pain level between 1 and 10: the only
  way a form reaches a booking is a submission of the mounted wizard, and no other
  handler changes a booking's form.
\<close>

theorem intake_forms_validated:
  "reachable fs \<Longrightarrow>
   list_all (\<lambda>b. pred_option intake_complete (intakeForm b)) (bookings (app fs))"
  using reachable_intake_inv by (simp add: intake_flow_inv_def intakes_ok_def)

theorem intake_forms_validated_witness:
  "list_all (\<lambda>b. pred_option intake_complete (intakeForm b)) (bookings (app flow_E)) \<and>
   map (\<lambda>b. intakeForm b \<noteq> None) (bookings (app flow_E)) = [True]"
proof
  show "list_all (\<lambda>b. pred_option intake_complete (intakeForm b)) (bookings (app flow_E))"
    by (rule intake_forms_validated [OF reachable_flow_E])
  show "map (\<lambda>b. intakeForm b \<noteq> None) (bookings (app flow_E)) = [True]"
    using flow_E_summary by (auto simp: map_eq_Cons_conv)
qed

end
