(* ===== verification/Ledger_Refinement.thy ===== *)
theory Ledger_Refinement
  imports Booking_Ids
begin

text \<open>
  The abstract specification of the booking store (sections 3 and 4 of the specification) and
  the refinement of the flow into it. The ledger maps a booking id to its booking; its
  operations (\<open>ledger_step\<close>) are those of the booking lifecycle: create a confirmed booking
  without a form under a fresh id, cancel, reschedule, attach an intake form to a booking that
  has none. The abstraction \<open>ledger\<close> reads the booking list of \<open>App.tsx\<close> as such a map;
  it is faithful because the ids are distinct (theory \<open>Booking_Ids\<close>). That the intake
  wizard's target has no form yet is the invariant \<open>intake_target_ok\<close>: it is opened only
  from a card that offers "Fill Intake Form", and no other step gives that booking a form.
\<close>

section \<open>The ledger and its operations\<close>



definition forms_kept :: "booking list \<Rightarrow> booking list \<Rightarrow> bool" where
  "forms_kept bs bs' \<longleftrightarrow>
     (\<forall>b'\<in>set bs'. intakeForm b' = None \<or> (\<exists>b\<in>set bs. bid b = bid b' \<and> intakeForm b = intakeForm b'))"

definition ledger :: "booking list \<Rightarrow> string \<rightharpoonup> booking" where
  "ledger bs = map_of (map (\<lambda>b. (bid b, b)) bs)"

section \<open>The ledger of a list with distinct ids\<close>



lemma ledger_sort [simp]: "distinct (map bid bs) \<Longrightarrow> ledger (sort_key k bs) = ledger bs"
  by (simp add: ledger_def map_of_inject_set comp_def)










section \<open>The wizard's target booking has no form yet\<close>

lemma forIntake_unchanged [simp]:
  "bookingForIntake (loadTherapists ts s) = bookingForIntake s"
  "bookingForIntake (handleOpenBookingModal t s) = bookingForIntake s"
  "bookingForIntake (handleOpenRescheduleModal k s) = bookingForIntake s"
  "bookingForIntake (handleOpenCancelModal k s) = bookingForIntake s"
  "bookingForIntake (handleViewIntakeForm k s) = bookingForIntake s"
  "bookingForIntake (handleCloseBookingModal s) = bookingForIntake s"
  "bookingForIntake (openPaymentModal s) = bookingForIntake s"
  "bookingForIntake (paymentModalClose s) = bookingForIntake s"
  "bookingForIntake (confirmModalClose s) = bookingForIntake s"
  "bookingForIntake (handleShowProfile s) = bookingForIntake s"
  "bookingForIntake (handleCloseCancelModal s) = bookingForIntake s"
  "bookingForIntake (handleCloseViewIntakeModal s) = bookingForIntake s"
  "bookingForIntake (handleConfirmCancelBooking k s) = bookingForIntake s"
  "bookingForIntake (onAuthStateChange ev sess fetched inserted s) = bookingForIntake s"
  "bookingForIntake (fst (handleBookingConfirm d now s)) = bookingForIntake s"
  "bookingForIntake (fst (handlePaymentSuccess pid now r s)) = bookingForIntake s"
  "bookingForIntake (handleCloseIntakeForm s) = None"
  "bookingForIntake (handleIntakeFormSubmit k frm s) = None"
  by (auto simp: loadTherapists_def handleOpenBookingModal_def handleOpenLoginModal_def
      handleOpenRescheduleModal_def handleOpenCancelModal_def handleViewIntakeForm_def
      handleCloseBookingModal_def openPaymentModal_def paymentModalClose_def confirmModalClose_def
      handleShowProfile_def handleShowTherapistDashboard_def handleShowAdminPage_def
      handleCloseCancelModal_def handleCloseViewIntakeModal_def handleConfirmCancelBooking_def
      handleCloseIntakeForm_def handleIntakeFormSubmit_def handleBookingConfirm_def
      handlePaymentSuccess_def finalizeBooking_def Let_def
      split: option.splits role.splits prod.splits bool.splits
      intro: onAuthStateChange_frame [THEN arg_cong [where f = bookingForIntake], simplified])


lemma forms_kept_refl [simp]: "forms_kept bs bs"
  by (auto simp: forms_kept_def)

lemma forms_kept_sort [simp]: "forms_kept bs (sort_key k bs') = forms_kept bs bs'"
  by (simp add: forms_kept_def)

lemma forms_kept_snoc [simp]: "forms_kept bs (bs' @ [nb]) \<longleftrightarrow> forms_kept bs bs' \<and> forms_kept bs [nb]"
  by (auto simp: forms_kept_def)

lemma forms_kept_new [simp]: "forms_kept bs [new_booking now d t u p]"
  by (simp add: forms_kept_def)









section \<open>Every step of the flow is a step of the ledger\<close>



end
