(* ===== verification/Auth_Modal.thy ===== *)
theory Auth_Modal
  imports App_Navigation
begin

text \<open>
  The sign-in dialog \<open>src/components/AuthModal.tsx\<close>: its state (the \<open>useState\<close> calls,
  lines 10--22), its handlers, and the calls it makes to the auth service. A handler that
  awaits the service is split in two, as in theory \<open>Payment_Modal\<close>: the part before the
  \<open>await\<close> validates the form and issues a call together with the continuation that
  handles its answer; the continuation carries the values the closure read when the form
  was submitted. The dialog with its calls in flight is an event system (\<open>am_step\<close>)
  whose events are the inputs and buttons the rendered dialog offers, the answers of the
  service and the 15-second safety timer.
\<close>

datatype am_mode = AMLogin | AMSignup | AMForgot

datatype am_method = AMEmail | AMPhone

record auth_modal =
  am_mode :: am_mode
  am_method :: am_method
  am_phone :: string
  am_otp :: string
  am_otpSent :: bool
  am_name :: string
  am_email :: string
  am_password :: string
  am_error :: string
  am_resetMessage :: string
  am_authMessage :: string
  am_showPassword :: bool
  am_loading :: bool

definition init_auth_modal :: "auth_mode \<Rightarrow> auth_modal" where
  "init_auth_modal m =
     \<lparr>am_mode = (case m of Login \<Rightarrow> AMLogin | Signup \<Rightarrow> AMSignup), am_method = AMEmail,
      am_phone = [], am_otp = [], am_otpSent = False, am_name = [], am_email = [],
      am_password = [], am_error = [], am_resetMessage = [], am_authMessage = [],
      am_showPassword = False, am_loading = False\<rparr>"

section \<open>Strings the dialog checks and shows\<close>

text \<open>The regular expressions \<open>/^\d{6}$/\<close> and \<open>/^\d{10}$/\<close>.\<close>

definition digits_exactly :: "nat \<Rightarrow> string \<Rightarrow> bool" where
  "digits_exactly n s \<longleftrightarrow> length s = n \<and> list_all is_digit s"

definition msg_fill_all :: string where "msg_fill_all = ''Please fill in all fields.''"
definition msg_email_not_confirmed :: string where
  "msg_email_not_confirmed = ''Please verify your email address. Check your inbox for a confirmation link.''"
definition msg_invalid_login :: string where
  "msg_invalid_login = ''Invalid email or password. Have you signed up yet?''"
definition msg_signup_ok :: string where
  "msg_signup_ok = ''Signup successful! Please check your email for a confirmation link before logging in.''"
definition msg_unexpected :: string where "msg_unexpected = ''An unexpected error occurred.''"
definition msg_enter_otp :: string where "msg_enter_otp = ''Please enter the 6-digit OTP.''"
definition msg_enter_name :: string where "msg_enter_name = ''Please enter your full name.''"
definition msg_valid_phone :: string where
  "msg_valid_phone = ''Please enter a valid 10-digit Indian phone number.''"
definition msg_otp_sent :: string where "msg_otp_sent = ''An OTP has been sent to your phone.''"
definition msg_enter_email :: string where "msg_enter_email = ''Please enter your email address.''"
definition msg_reset_sent :: string where
  "msg_reset_sent = ''If an account with that email exists, a password reset link has been sent.''"
definition msg_timed_out :: string where
  "msg_timed_out = ''Request timed out. Please check your internet connection and try again.''"

section \<open>Calls to the auth service and their continuations\<close>

datatype auth_call =
    SignInWithPassword string string
  | SignUp string string string
  | VerifyOtp string string
  | SignInWithOtp string
  | UpdateUser string
  | ResetPasswordForEmail string

text \<open>
  What runs after the \<open>await\<close>; \<open>KVerify\<close> keeps the \<open>mode\<close> and \<open>name\<close> the submitting
  render read (line 175).
\<close>

datatype am_cont = KSignIn | KSignUp | KVerify am_mode string | KUpdateUser | KSendOtp | KReset

text \<open>
  The answer of the service: its \<open>error\<close> (with its message) or success with whether
  \<open>data.session\<close> (sign-up) or \<open>verifyData.user\<close> (OTP) is present; or a thrown exception
  with its message.
\<close>

datatype am_reply = Answered "string option" bool | Threw string

text \<open>What a continuation does besides updating the state.\<close>

datatype am_out = ONone | OClose | OCall auth_call am_cont

section \<open>The handlers\<close>

definition resetAllAuthStates :: "auth_modal \<Rightarrow> auth_modal" where
  "resetAllAuthStates s =
     s\<lparr>am_name := [], am_email := [], am_password := [], am_phone := [], am_otp := [],
       am_otpSent := False, am_error := [], am_resetMessage := [], am_authMessage := []\<rparr>"

definition switchMode :: "am_mode \<Rightarrow> auth_modal \<Rightarrow> auth_modal" where
  "switchMode m s =
     (let s1 = resetAllAuthStates (s\<lparr>am_mode := m, am_method := AMEmail\<rparr>)
      in if m \<noteq> AMForgot then s1\<lparr>am_email := []\<rparr> else s1)"

definition toggleMethod :: "auth_modal \<Rightarrow> auth_modal" where
  "toggleMethod s =
     resetAllAuthStates (s\<lparr>am_method := (if am_method s = AMEmail then AMPhone else AMEmail)\<rparr>)"

definition handleEmailSubmit :: "auth_modal \<Rightarrow> auth_modal \<times> am_out" where
  "handleEmailSubmit s =
     (let s0 = s\<lparr>am_loading := True, am_error := [], am_authMessage := []\<rparr>
      in if am_mode s = AMLogin then
           (if am_email s = [] \<or> am_password s = [] then (s0\<lparr>am_error := msg_fill_all, am_loading := False\<rparr>, ONone)
            else (s0, OCall (SignInWithPassword (js_trim (am_email s)) (am_password s)) KSignIn))
         else if am_mode s = AMSignup then
           (if am_email s = [] \<or> am_password s = [] \<or> am_name s = []
            then (s0\<lparr>am_error := msg_fill_all, am_loading := False\<rparr>, ONone)
            else (s0, OCall (SignUp (js_trim (am_email s)) (am_password s) (am_name s)) KSignUp))
         else (s0, ONone))"

definition handlePhoneSubmit :: "auth_modal \<Rightarrow> auth_modal \<times> am_out" where
  "handlePhoneSubmit s =
     (let s0 = s\<lparr>am_loading := True, am_error := []\<rparr>
      in if am_otpSent s then
           (if am_otp s = [] \<or> \<not> digits_exactly 6 (am_otp s)
            then (s0\<lparr>am_error := msg_enter_otp, am_loading := False\<rparr>, ONone)
            else (s0, OCall (VerifyOtp (''+91'' @ am_phone s) (am_otp s)) (KVerify (am_mode s) (am_name s))))
         else if am_mode s = AMSignup \<and> am_name s = [] then
           (s0\<lparr>am_error := msg_enter_name, am_loading := False\<rparr>, ONone)
         else if am_phone s = [] \<or> \<not> digits_exactly 10 (am_phone s) then
           (s0\<lparr>am_error := msg_valid_phone, am_loading := False\<rparr>, ONone)
         else (s0, OCall (SignInWithOtp (''+91'' @ am_phone s)) KSendOtp))"

definition handlePasswordReset :: "auth_modal \<Rightarrow> auth_modal \<times> am_out" where
  "handlePasswordReset s =
     (let s0 = s\<lparr>am_loading := True, am_error := [], am_resetMessage := []\<rparr>
      in if am_email s = [] then (s0\<lparr>am_error := msg_enter_email, am_loading := False\<rparr>, ONone)
         else (s0, OCall (ResetPasswordForEmail (js_trim (am_email s))) KReset))"

text \<open>The message shown for a failed sign-in (lines 86--94).\<close>

definition login_error :: "string \<Rightarrow> string" where
  "login_error m =
     (if m = ''Email not confirmed'' then msg_email_not_confirmed
      else if js_includes m ''Invalid login credentials'' then msg_invalid_login
      else m)"

text \<open>
  The code after the \<open>await\<close> of each handler, with the \<open>catch\<close> blocks (\<open>err.message ||
  'An unexpected error occurred.'\<close>). A failed \<open>updateUser\<close> is only logged (line 181).
\<close>

definition thrown :: "string \<Rightarrow> auth_modal \<Rightarrow> auth_modal" where
  "thrown m s = s\<lparr>am_error := js_or m msg_unexpected, am_loading := False\<rparr>"

fun am_continue :: "am_cont \<Rightarrow> am_reply \<Rightarrow> auth_modal \<Rightarrow> auth_modal \<times> am_out" where
  "am_continue k (Threw m) s = (thrown m s, ONone)"
| "am_continue KUpdateUser (Answered _ _) s = (s, OClose)"
| "am_continue KSignIn (Answered err _) s =
     (case err of
        Some m \<Rightarrow> (s\<lparr>am_error := login_error m, am_loading := False\<rparr>, ONone)
      | None \<Rightarrow> (s, OClose))"
| "am_continue KSignUp (Answered err hasSession) s =
     (case err of
        Some m \<Rightarrow> (s\<lparr>am_error := m, am_loading := False\<rparr>, ONone)
      | None \<Rightarrow> if hasSession then (s, OClose)
                else (s\<lparr>am_authMessage := msg_signup_ok, am_loading := False\<rparr>, ONone))"
| "am_continue (KVerify md nm) (Answered err hasUser) s =
     (case err of
        Some m \<Rightarrow> (s\<lparr>am_error := m, am_loading := False\<rparr>, ONone)
      | None \<Rightarrow> if md = AMSignup \<and> nm \<noteq> [] \<and> hasUser then (s, OCall (UpdateUser nm) KUpdateUser)
                else (s, OClose))"
| "am_continue KSendOtp (Answered err _) s =
     ((case err of
         Some m \<Rightarrow> s\<lparr>am_error := m\<rparr>
       | None \<Rightarrow> s\<lparr>am_otpSent := True, am_authMessage := msg_otp_sent\<rparr>)\<lparr>am_loading := False\<rparr>, ONone)"
| "am_continue KReset (Answered err _) s =
     ((case err of
         Some m \<Rightarrow> s\<lparr>am_error := m\<rparr>
       | None \<Rightarrow> s\<lparr>am_resetMessage := msg_reset_sent\<rparr>)\<lparr>am_loading := False\<rparr>, ONone)"

text \<open>
  The safety timer (lines 28--41): fifteen seconds after \<open>loading\<close> became true it is
  reset, with the time-out message unless an error is shown.
\<close>

definition safety_timeout :: "auth_modal \<Rightarrow> auth_modal" where
  "safety_timeout s =
     s\<lparr>am_loading := False, am_error := (if am_error s = [] then msg_timed_out else am_error s)\<rparr>"


section \<open>The dialog as an event system\<close>

text \<open>
  The dialog with the calls in flight (each with its continuation), the log of every call
  it made, and whether it called \<open>onClose\<close>, after which App unmounts it and the
  continuations find \<open>isMounted.current\<close> false.
\<close>

record am_sys =
  modal :: auth_modal
  in_flight :: "(auth_call \<times> am_cont) list"
  issued :: "auth_call list"
  closed :: bool

definition init_am_sys :: "auth_mode \<Rightarrow> am_sys" where
  "init_am_sys m = \<lparr>modal = init_auth_modal m, in_flight = [], issued = [], closed = False\<rparr>"

datatype am_event =
    AName string | AEmail string | APassword string | APhone string | AOtp string
  | AShowPassword | AChangeNumber | AToggleMethod | ASwitch am_mode | ASubmit
  | AReply nat am_reply | ATimer | ACloseButton | AOverlay

text \<open>Which form \<open>renderContent\<close> shows (lines 271--421).\<close>

definition email_form_shown :: "auth_modal \<Rightarrow> bool" where
  "email_form_shown s \<longleftrightarrow> am_mode s \<noteq> AMForgot \<and> am_method s = AMEmail"

definition phone_form_shown :: "auth_modal \<Rightarrow> bool" where
  "phone_form_shown s \<longleftrightarrow> am_mode s \<noteq> AMForgot \<and> am_method s = AMPhone"

text \<open>
  The submit button: \<open>disabled={loading}\<close> on the reset form (line 299),
  \<open>disabled={loading || !!authMessage}\<close> otherwise (line 394). A form whose only submit
  button is disabled cannot be submitted with the Enter key either.
\<close>

definition submit_enabled :: "auth_modal \<Rightarrow> bool" where
  "submit_enabled s \<longleftrightarrow> \<not> am_loading s \<and> (am_mode s = AMForgot \<or> am_authMessage s = [])"

definition am_submit :: "auth_modal \<Rightarrow> auth_modal \<times> am_out" where
  "am_submit s =
     (if am_mode s = AMForgot then handlePasswordReset s
      else if am_method s = AMEmail then handleEmailSubmit s else handlePhoneSubmit s)"

definition am_apply :: "auth_modal \<times> am_out \<Rightarrow> am_sys \<Rightarrow> am_sys" where
  "am_apply r sys =
     (case r of
        (m, ONone) \<Rightarrow> sys\<lparr>modal := m\<rparr>
      | (m, OClose) \<Rightarrow> sys\<lparr>modal := m, closed := True\<rparr>
      | (m, OCall c k) \<Rightarrow> sys\<lparr>modal := m, in_flight := in_flight sys @ [(c, k)], issued := issued sys @ [c]\<rparr>)"

definition am_ui :: "(auth_modal \<Rightarrow> auth_modal) \<Rightarrow> am_sys \<Rightarrow> am_sys" where
  "am_ui f sys = sys\<lparr>modal := f (modal sys)\<rparr>"

fun am_event_step :: "am_event \<Rightarrow> am_sys \<Rightarrow> am_sys option" where
  "am_event_step (AName v) sys =
     (if am_mode (modal sys) = AMSignup \<and> (email_form_shown (modal sys) \<or> phone_form_shown (modal sys) \<and> \<not> am_otpSent (modal sys))
      then Some (am_ui (\<lambda>s. s\<lparr>am_name := v\<rparr>) sys) else None)"
| "am_event_step (AEmail v) sys =
     (if email_form_shown (modal sys) \<or> am_mode (modal sys) = AMForgot
      then Some (am_ui (\<lambda>s. s\<lparr>am_email := v\<rparr>) sys) else None)"
| "am_event_step (APassword v) sys =
     (if email_form_shown (modal sys) then Some (am_ui (\<lambda>s. s\<lparr>am_password := v\<rparr>) sys) else None)"
| "am_event_step AShowPassword sys =
     (if email_form_shown (modal sys)
      then Some (am_ui (\<lambda>s. s\<lparr>am_showPassword := \<not> am_showPassword s\<rparr>) sys) else None)"
| "am_event_step (APhone v) sys =
     (if phone_form_shown (modal sys) \<and> \<not> am_otpSent (modal sys)
      then Some (am_ui (\<lambda>s. s\<lparr>am_phone := v\<rparr>) sys) else None)"
| "am_event_step (AOtp v) sys =
     (if phone_form_shown (modal sys) \<and> am_otpSent (modal sys) \<and> length v \<le> 6
      then Some (am_ui (\<lambda>s. s\<lparr>am_otp := v\<rparr>) sys) else None)"
| "am_event_step AChangeNumber sys =
     (if phone_form_shown (modal sys) \<and> am_otpSent (modal sys)
      then Some (am_ui (\<lambda>s. s\<lparr>am_otpSent := False\<rparr>) sys) else None)"
| "am_event_step AToggleMethod sys =
     (if am_mode (modal sys) \<noteq> AMForgot then Some (am_ui toggleMethod sys) else None)"
| "am_event_step (ASwitch m) sys =
     (if (m \<noteq> AMForgot \<and> am_mode (modal sys) \<noteq> AMForgot \<and> am_authMessage (modal sys) = [])
         \<or> (m = AMForgot \<and> am_mode (modal sys) = AMLogin \<and> am_method (modal sys) = AMEmail)
         \<or> (m = AMLogin \<and> am_mode (modal sys) = AMForgot)
      then Some (am_ui (switchMode m) sys) else None)"
| "am_event_step ASubmit sys =
     (if submit_enabled (modal sys) then Some (am_apply (am_submit (modal sys)) sys) else None)"
| "am_event_step (AReply j r) sys =
     (if j < length (in_flight sys)
      then (let k = snd (in_flight sys ! j);
                sys' = sys\<lparr>in_flight := take j (in_flight sys) @ drop (Suc j) (in_flight sys)\<rparr>
            in Some (if closed sys then sys' else am_apply (am_continue k r (modal sys)) sys'))
      else None)"
| "am_event_step ATimer sys =
     (if am_loading (modal sys) then Some (am_ui safety_timeout sys) else None)"
| "am_event_step ACloseButton sys = Some (sys\<lparr>closed := True\<rparr>)"
| "am_event_step AOverlay sys =
     (if am_authMessage (modal sys) = [] then Some (sys\<lparr>closed := True\<rparr>) else None)"

text \<open>Once \<open>onClose\<close> has run the dialog is gone: only answers still arrive.\<close>

fun is_reply :: "am_event \<Rightarrow> bool" where
  "is_reply (AReply j r) = True"
| "is_reply e = False"

definition am_step :: "am_event \<Rightarrow> am_sys \<Rightarrow> am_sys option" where
  "am_step e sys = (if closed sys \<and> \<not> is_reply e then None else am_event_step e sys)"

inductive am_reachable :: "auth_mode \<Rightarrow> am_sys \<Rightarrow> bool" for m where
  start: "am_reachable m (init_am_sys m)"
| step: "am_reachable m sys \<Longrightarrow> am_step e sys = Some sys' \<Longrightarrow> am_reachable m sys'"

fun am_run :: "am_event list \<Rightarrow> am_sys \<Rightarrow> am_sys option" where
  "am_run [] sys = Some sys"
| "am_run (e # es) sys = (case am_step e sys of None \<Rightarrow> None | Some sys' \<Rightarrow> am_run es sys')"


text \<open>
  A phone sign-in: switch to the phone form, enter a number, send the OTP, the service
  answers without error, and the user types the code.
\<close>

definition otp_demo_events :: "am_event list" where
  "otp_demo_events =
     [AToggleMethod, APhone ''9876543210'', ASubmit, AReply 0 (Answered None False), AOtp ''123456'']"

definition otp_demo :: am_sys where
  "otp_demo = the (am_run otp_demo_events (init_am_sys Login))"

section \<open>No OTP is ever verified\<close>

fun is_verify_call :: "auth_call \<Rightarrow> bool" where
  "is_verify_call (VerifyOtp p t) = True"
| "is_verify_call (UpdateUser n) = True"
| "is_verify_call c = False"

fun is_verify_cont :: "am_cont \<Rightarrow> bool" where
  "is_verify_cont (KVerify md nm) = True"
| "is_verify_cont KUpdateUser = True"
| "is_verify_cont k = False"

text \<open>
  A sent OTP always comes with the message that announces it, and neither is cleared
  without the other; no verification call is in flight or was made.
\<close>

definition otp_inv :: "am_sys \<Rightarrow> bool" where
  "otp_inv sys \<longleftrightarrow>
     (am_otpSent (modal sys) \<longrightarrow> am_authMessage (modal sys) \<noteq> []) \<and>
     list_all (\<lambda>c. \<not> is_verify_call c) (issued sys) \<and>
     list_all (\<lambda>(c, k). \<not> is_verify_cont k) (in_flight sys)"

lemma otp_inv_ui:
  assumes "otp_inv sys"
    and "am_otpSent (f (modal sys)) \<longrightarrow> am_authMessage (f (modal sys)) \<noteq> []"
  shows "otp_inv (am_ui f sys)"
  using assms by (simp add: otp_inv_def am_ui_def)

lemma am_submit_no_verify:
  assumes "am_submit s = (s', out)" and "submit_enabled s"
    and "am_otpSent s \<longrightarrow> am_authMessage s \<noteq> []"
  shows "(case out of OCall c k \<Rightarrow> \<not> is_verify_call c \<and> \<not> is_verify_cont k | _ \<Rightarrow> True) \<and>
         (am_otpSent s' \<longrightarrow> am_authMessage s' \<noteq> [])"
  using assms
  by (auto simp: am_submit_def submit_enabled_def handlePasswordReset_def handleEmailSubmit_def
      handlePhoneSubmit_def Let_def split: if_splits)

lemma am_continue_no_verify:
  assumes "am_continue k r s = (s', out)" and "\<not> is_verify_cont k"
    and "am_otpSent s \<longrightarrow> am_authMessage s \<noteq> []"
  shows "(case out of OCall c k' \<Rightarrow> \<not> is_verify_call c \<and> \<not> is_verify_cont k' | _ \<Rightarrow> True) \<and>
         (am_otpSent s' \<longrightarrow> am_authMessage s' \<noteq> [])"
  using assms
  by (cases r; cases k) (auto simp: thrown_def msg_otp_sent_def msg_signup_ok_def split: option.splits if_splits)

lemma otp_inv_apply:
  assumes "otp_inv sys" and "m = fst r"
    and "case snd r of OCall c k \<Rightarrow> \<not> is_verify_call c \<and> \<not> is_verify_cont k | _ \<Rightarrow> True"
    and "am_otpSent m \<longrightarrow> am_authMessage m \<noteq> []"
  shows "otp_inv (am_apply r sys)"
  using assms by (auto simp: otp_inv_def am_apply_def split: prod.splits am_out.splits)


lemma otp_inv_remove_sys:
  "otp_inv sys \<Longrightarrow> otp_inv (sys\<lparr>in_flight := take j (in_flight sys) @ drop (Suc j) (in_flight sys)\<rparr>)"
  by (auto simp: otp_inv_def list_all_iff dest: in_set_takeD in_set_dropD)

lemma am_step_otp_inv:
  assumes step: "am_step e sys = Some sys'" and inv: "otp_inv sys"
  shows "otp_inv sys'"
proof (cases e)
  case ASubmit
  obtain m out where sub: "am_submit (modal sys) = (m, out)" by fastforce
  from step ASubmit have en: "submit_enabled (modal sys)" and sys': "sys' = am_apply (m, out) sys"
    by (auto simp: am_step_def sub split: if_splits)
  from inv have "am_otpSent (modal sys) \<longrightarrow> am_authMessage (modal sys) \<noteq> []" by (simp add: otp_inv_def)
  from am_submit_no_verify [OF sub en this] inv show ?thesis
    by (simp add: sys' otp_inv_apply)
next
  case (AReply j r)
  let ?sys0 = "sys\<lparr>in_flight := take j (in_flight sys) @ drop (Suc j) (in_flight sys)\<rparr>"
  from step AReply have j: "j < length (in_flight sys)"
    and sys': "sys' = (if closed sys then ?sys0
                       else am_apply (am_continue (snd (in_flight sys ! j)) r (modal sys)) ?sys0)"
    by (auto simp: am_step_def Let_def split: if_splits)
  have inv0: "otp_inv ?sys0" using inv by (rule otp_inv_remove_sys)
  have k: "\<not> is_verify_cont (snd (in_flight sys ! j))"
    using inv nth_mem [OF j] by (auto simp: otp_inv_def list_all_iff)
  show ?thesis
  proof (cases "closed sys")
    case False
    obtain m out where c: "am_continue (snd (in_flight sys ! j)) r (modal sys) = (m, out)" by fastforce
    from inv have "am_otpSent (modal sys) \<longrightarrow> am_authMessage (modal sys) \<noteq> []" by (simp add: otp_inv_def)
    from am_continue_no_verify [OF c k this] inv0 False show ?thesis
      by (simp add: sys' c otp_inv_apply)
  qed (simp add: sys' inv0)
qed (use step inv in \<open>auto simp: am_step_def otp_inv_def am_ui_def toggleMethod_def switchMode_def
       resetAllAuthStates_def safety_timeout_def Let_def split: if_splits\<close>)

lemma am_reachable_otp_inv: "am_reachable m sys \<Longrightarrow> otp_inv sys"
proof (induction rule: am_reachable.induct)
  case start
  show ?case by (simp add: otp_inv_def init_am_sys_def init_auth_modal_def)
next
  case (step sys e sys')
  then show ?case by (blast intro: am_step_otp_inv)
qed

lemma am_run_reachable: "am_reachable m sys \<Longrightarrow> am_run es sys = Some sys' \<Longrightarrow> am_reachable m sys'"
proof (induction es arbitrary: sys)
  case (Cons e es)
  then obtain sys1 where "am_step e sys = Some sys1" and "am_run es sys1 = Some sys'"
    by (auto split: option.splits)
  with Cons show ?case by (blast intro: am_reachable.step)
qed simp

lemma otp_demo_run: "am_run otp_demo_events (init_am_sys Login) = Some otp_demo"
  unfolding otp_demo_def by code_simp

lemma otp_demo_state:
  "am_otpSent (modal otp_demo) \<and> am_otp (modal otp_demo) = ''123456'' \<and>
   issued otp_demo = [SignInWithOtp ''+919876543210''] \<and> am_step ASubmit otp_demo = None"
  unfolding otp_demo_def by code_simp

section \<open>Properties of the sign-in dialog\<close>

text \<open>
  Claim C39. Signing in with a phone number can never be completed: in every state the
  dialog can reach, from either initial mode, it has never called \<open>verifyOtp\<close> (nor the
  \<open>updateUser\<close> that follows it). Sending the OTP sets \<open>authMessage\<close>, which disables the
  only submit button (\<open>disabled={loading || !!authMessage}\<close>), and nothing on the phone
  form clears it.
\<close>

theorem otp_never_verified:
  assumes "am_reachable m sys"
  shows "list_all (\<lambda>c. \<not> is_verify_call c) (issued sys)"
  using am_reachable_otp_inv [OF assms] by (simp add: otp_inv_def)


theorem otp_never_verified_witness:
  "am_otpSent (modal otp_demo) \<and> am_step ASubmit otp_demo = None \<and>
   list_all (\<lambda>c. \<not> is_verify_call c) (issued otp_demo)"
proof -
  have "am_reachable Login otp_demo" by (rule am_run_reachable [OF am_reachable.start otp_demo_run])
  with otp_demo_state show ?thesis using otp_never_verified [of Login otp_demo] by simp
qed


section \<open>The handlers one by one\<close>

text \<open>
  Switching the mode always empties the email field: \<open>resetAllAuthStates\<close> clears it
  before the test that, according to its comment, keeps it for the reset form.
\<close>

lemma switchMode_clears: "am_email (switchMode m s) = [] \<and> \<not> am_otpSent (switchMode m s) \<and>
    am_authMessage (switchMode m s) = [] \<and> am_method (switchMode m s) = AMEmail \<and> am_mode (switchMode m s) = m"
  by (simp add: switchMode_def resetAllAuthStates_def Let_def)

text \<open>An OTP is requested only for ten digits, with the \<open>+91\<close> prefix, and with a name on sign-up.\<close>

lemma handlePhoneSubmit_send:
  assumes "handlePhoneSubmit s = (s', OCall c k)" and "\<not> am_otpSent s"
  shows "c = SignInWithOtp (''+91'' @ am_phone s) \<and> k = KSendOtp \<and> digits_exactly 10 (am_phone s) \<and>
         (am_mode s = AMSignup \<longrightarrow> am_name s \<noteq> []) \<and> am_loading s'"
  using assms by (auto simp: handlePhoneSubmit_def Let_def split: if_splits)

lemma handlePhoneSubmit_rejects:
  assumes "\<not> am_otpSent s" and "\<not> digits_exactly 10 (am_phone s)"
  shows "handlePhoneSubmit s =
           (s\<lparr>am_loading := False,
              am_error := (if am_mode s = AMSignup \<and> am_name s = [] then msg_enter_name else msg_valid_phone)\<rparr>,
            ONone)"
  using assms by (simp add: handlePhoneSubmit_def Let_def)

lemma handleEmailSubmit_call:
  assumes "handleEmailSubmit s = (s', OCall c k)"
  shows "am_email s \<noteq> [] \<and> am_password s \<noteq> [] \<and> am_loading s' \<and>
         (am_mode s = AMLogin \<and> c = SignInWithPassword (js_trim (am_email s)) (am_password s) \<and> k = KSignIn \<or>
          am_mode s = AMSignup \<and> am_name s \<noteq> [] \<and>
            c = SignUp (js_trim (am_email s)) (am_password s) (am_name s) \<and> k = KSignUp)"
  using assms by (auto simp: handleEmailSubmit_def Let_def split: if_splits)

text \<open>A thrown exception always leaves an error on screen and ends loading.\<close>

lemma am_continue_threw: "am_continue k (Threw m) s = (s\<lparr>am_error := js_or m msg_unexpected, am_loading := False\<rparr>, ONone)"
  by (cases k) (simp_all add: thrown_def)

lemma login_error_cases:
  "login_error ''Email not confirmed'' = msg_email_not_confirmed"
  "js_includes m ''Invalid login credentials'' \<Longrightarrow> m \<noteq> ''Email not confirmed'' \<Longrightarrow> login_error m = msg_invalid_login"
  by (simp_all add: login_error_def)


section \<open>The dialog never locks its own submit button\<close>

lemma am_run_append:
  "am_run (xs @ ys) sys = (case am_run xs sys of None \<Rightarrow> None | Some s' \<Rightarrow> am_run ys s')"
  by (induction xs arbitrary: sys) (simp_all split: option.splits)

text \<open>While a request is pending the safety timer can always fire and end the loading state.\<close>

lemma timer_unloads:
  assumes "\<not> closed sys"
  obtains es sys1 where "length es \<le> 1" "am_run es sys = Some sys1" "\<not> am_loading (modal sys1)"
    "\<not> closed sys1" "am_mode (modal sys1) = am_mode (modal sys)"
proof (cases "am_loading (modal sys)")
  case True
  with assms have "am_run [ATimer] sys = Some (am_ui safety_timeout sys)" by (simp add: am_step_def)
  moreover have "\<not> am_loading (modal (am_ui safety_timeout sys))" "\<not> closed (am_ui safety_timeout sys)"
    "am_mode (modal (am_ui safety_timeout sys)) = am_mode (modal sys)"
    using assms by (simp_all add: am_ui_def safety_timeout_def)
  ultimately show ?thesis using that [of "[ATimer]"] by simp
next
  case False
  with assms that [of "[]" sys] show ?thesis by simp
qed

text \<open>
  Claim C40. The dialog never locks the user out: from every open state, whatever the
  pending requests and messages, at most two user-visible events (the safety timer, then
  the "Continue with ..." toggle) lead to a state whose submit button is enabled.
\<close>

theorem submit_reenabled:
  assumes "\<not> closed sys"
  shows "\<exists>es sys'. length es \<le> 2 \<and> am_run es sys = Some sys' \<and> submit_enabled (modal sys')"
proof -
  obtain es1 sys1 where l1: "length es1 \<le> 1" and r1: "am_run es1 sys = Some sys1"
    and nl: "\<not> am_loading (modal sys1)" and c1: "\<not> closed sys1"
    using timer_unloads [OF assms] by blast
  show ?thesis
  proof (cases "submit_enabled (modal sys1)")
    case True
    moreover have "length es1 \<le> 2" using l1 by simp
    ultimately show ?thesis using r1 by blast
  next
    case False
    with nl have m: "am_mode (modal sys1) \<noteq> AMForgot" by (simp add: submit_enabled_def)
    have r2: "am_run (es1 @ [AToggleMethod]) sys = Some (am_ui toggleMethod sys1)"
      using r1 c1 m by (simp add: am_run_append am_step_def)
    have "submit_enabled (modal (am_ui toggleMethod sys1))"
      using nl by (simp add: am_ui_def toggleMethod_def resetAllAuthStates_def submit_enabled_def)
    moreover have "length (es1 @ [AToggleMethod]) \<le> 2" using l1 by simp
    ultimately show ?thesis using r2 by blast
  qed
qed

theorem submit_reenabled_witness:
  "\<not> submit_enabled (modal otp_demo) \<and>
   (\<exists>es sys'. length es \<le> 2 \<and> am_run es otp_demo = Some sys' \<and> submit_enabled (modal sys'))"
proof -
  have "\<not> closed otp_demo \<and> \<not> submit_enabled (modal otp_demo)" unfolding otp_demo_def by code_simp
  with submit_reenabled [of otp_demo] show ?thesis by blast
qed

end
