(* ===== verification/Therapist_Registration.thy ===== *)
theory Therapist_Registration
  imports App_Navigation
begin

text \<open>
  The therapist registration and profile editing page
  \<open>src/components/TherapistRegistrationPage.tsx\<close>: the form's state, its inputs, the
  profile-completeness widget, the validation of \<open>handleSubmit\<close> and the \<open>Therapist\<close>
  record it builds, for a new profile and for an edited one; and App's
  \<open>handleProfileCreate\<close> and \<open>handleProfileUpdate\<close> that receive it. The page stays
  mounted while App's \<open>page\<close> is \<open>therapist-registration\<close>; its prop \<open>therapistToEdit\<close>
  may change under it.
\<close>

section \<open>Numbers and lists as the page reads and writes them\<close>

text \<open>
  \<open>parseInt(s, 10)\<close>: leading white space, an optional sign, then the longest run of
  decimal digits; \<open>NaN\<close> (here \<open>None\<close>) without digits.
\<close>

definition js_parseInt :: "string \<Rightarrow> int option" where
  "js_parseInt s =
     (let t = dropWhile js_is_space s;
          (sg, r) = (case t of c # r' \<Rightarrow> if c = CHR ''-'' then (-1, r') else if c = CHR ''+'' then (1, r') else (1, t)
                    | [] \<Rightarrow> (1, t));
          ds = takeWhile is_digit r
      in if ds = [] then None else map_option (\<lambda>n. sg * int n) (digits_value 0 ds))"

text \<open>\<open>parseInt(s, 10) || 0\<close>: \<open>NaN\<close> and \<open>0\<close> are falsy.\<close>

definition parseInt_or_0 :: "string \<Rightarrow> int" where
  "parseInt_or_0 s = (case js_parseInt s of None \<Rightarrow> 0 | Some n \<Rightarrow> n)"

text \<open>\<open>xs.join(sep)\<close>.\<close>

fun js_join :: "string \<Rightarrow> string list \<Rightarrow> string" where
  "js_join sep [] = []"
| "js_join sep [x] = x"
| "js_join sep (x # y # xs) = x @ sep @ js_join sep (y # xs)"

text \<open>\<open>new Set(xs)\<close> read back with \<open>Array.from\<close>: the first occurrences, in order.\<close>

definition set_from_array :: "string list \<Rightarrow> string list" where
  "set_from_array xs = rev (remdups (rev xs))"

section \<open>The form\<close>

record reg_form =
  rf_name :: string
  rf_email :: string
  rf_password :: string
  rf_title :: string
  rf_location :: string
  rf_description :: string
  rf_qualifications :: string
  rf_experience :: string
  rf_clinicName :: string
  rf_clinicAddress :: string
  rf_phone :: string

definition empty_reg_form :: reg_form where
  "empty_reg_form =
     \<lparr>rf_name = [], rf_email = [], rf_password = [], rf_title = [], rf_location = [],
      rf_description = [], rf_qualifications = [], rf_experience = [], rf_clinicName = [],
      rf_clinicAddress = [], rf_phone = []\<rparr>"

text \<open>The \<open>name\<close> attributes of the inputs, the keys of \<open>formData\<close>.\<close>

datatype reg_field =
  FName | FEmail | FPassword | FTitle | FLocation | FDescription | FQualifications | FExperience
  | FClinicName | FClinicAddress | FPhone

primrec field_key :: "reg_field \<Rightarrow> string" where
  "field_key FName = ''name''" | "field_key FEmail = ''email''" | "field_key FPassword = ''password''"
| "field_key FTitle = ''title''" | "field_key FLocation = ''location''"
| "field_key FDescription = ''description''" | "field_key FQualifications = ''qualifications''"
| "field_key FExperience = ''experience''" | "field_key FClinicName = ''clinicName''"
| "field_key FClinicAddress = ''clinicAddress''" | "field_key FPhone = ''phone''"

primrec field_value :: "reg_form \<Rightarrow> reg_field \<Rightarrow> string" where
  "field_value f FName = rf_name f" | "field_value f FEmail = rf_email f"
| "field_value f FPassword = rf_password f" | "field_value f FTitle = rf_title f"
| "field_value f FLocation = rf_location f" | "field_value f FDescription = rf_description f"
| "field_value f FQualifications = rf_qualifications f" | "field_value f FExperience = rf_experience f"
| "field_value f FClinicName = rf_clinicName f" | "field_value f FClinicAddress = rf_clinicAddress f"
| "field_value f FPhone = rf_phone f"

text \<open>\<open>handleInputChange\<close>: \<open>setFormData(prev => ({ ...prev, [name]: value }))\<close>.\<close>

primrec set_field :: "reg_field \<Rightarrow> string \<Rightarrow> reg_form \<Rightarrow> reg_form" where
  "set_field FName v f = f\<lparr>rf_name := v\<rparr>" | "set_field FEmail v f = f\<lparr>rf_email := v\<rparr>"
| "set_field FPassword v f = f\<lparr>rf_password := v\<rparr>" | "set_field FTitle v f = f\<lparr>rf_title := v\<rparr>"
| "set_field FLocation v f = f\<lparr>rf_location := v\<rparr>" | "set_field FDescription v f = f\<lparr>rf_description := v\<rparr>"
| "set_field FQualifications v f = f\<lparr>rf_qualifications := v\<rparr>"
| "set_field FExperience v f = f\<lparr>rf_experience := v\<rparr>" | "set_field FClinicName v f = f\<lparr>rf_clinicName := v\<rparr>"
| "set_field FClinicAddress v f = f\<lparr>rf_clinicAddress := v\<rparr>" | "set_field FPhone v f = f\<lparr>rf_phone := v\<rparr>"

text \<open>
  The page's state. A chosen file is represented by the data URL \<open>fileToBase64\<close> reads
  from it, a preview by its blob URL.
\<close>

record reg_page =
  formData :: reg_form
  selectedSpecialties :: "string list"
  rp_clinicPhotos :: "string list"
  photoPreviews :: "string list"
  isSubmitting :: bool
  reg_error :: string
  reg_showPassword :: bool

definition init_reg_page :: reg_page where
  "init_reg_page =
     \<lparr>formData = empty_reg_form, selectedSpecialties = [], rp_clinicPhotos = [], photoPreviews = [],
      isSubmitting = False, reg_error = [], reg_showPassword = False\<rparr>"

text \<open>
  The effect on \<open>[therapistToEdit, isEditMode]\<close> (lines 229--247): in edit mode it loads
  the profile into the form. It reads \<open>therapistToEdit.clinic.name\<close> without a guard, so
  a profile without a clinic makes it throw (\<open>None\<close>). Without a profile it does nothing.
\<close>

definition load_for_edit :: "therapist option \<Rightarrow> reg_page \<Rightarrow> reg_page option" where
  "load_for_edit te p =
     (case te of
        None \<Rightarrow> Some p
      | Some t \<Rightarrow>
          (case clinic t of
             None \<Rightarrow> None
           | Some c \<Rightarrow>
               Some (p\<lparr>formData :=
                         \<lparr>rf_name = tname t, rf_email = [], rf_password = [], rf_title = title t,
                          rf_location = location t, rf_description = description t,
                          rf_qualifications = js_join '', '' (qualifications t),
                          rf_experience = int_to_string (experience t), rf_clinicName = clinic_name c,
                          rf_clinicAddress = address c, rf_phone = opt_or (clinic_phone c) []\<rparr>,
                       selectedSpecialties := set_from_array (specialties t), rp_clinicPhotos := []\<rparr>)))"

definition handleInputChange :: "reg_field \<Rightarrow> string \<Rightarrow> reg_page \<Rightarrow> reg_page" where
  "handleInputChange fld v p = p\<lparr>formData := set_field fld v (formData p)\<rparr>"

definition handleSpecialtyChange :: "string \<Rightarrow> reg_page \<Rightarrow> reg_page" where
  "handleSpecialtyChange sp p =
     p\<lparr>selectedSpecialties :=
        (if sp \<in> set (selectedSpecialties p) then removeAll sp (selectedSpecialties p)
         else selectedSpecialties p @ [sp])\<rparr>"

text \<open>\<open>e.target.files\<close> may be \<open>null\<close>; the previews are \<open>URL.createObjectURL\<close> of each file.\<close>

definition handlePhotoChange :: "(string \<times> string) list option \<Rightarrow> reg_page \<Rightarrow> reg_page" where
  "handlePhotoChange files p =
     (case files of
        None \<Rightarrow> p
      | Some fs \<Rightarrow> p\<lparr>rp_clinicPhotos := map fst fs, photoPreviews := map snd fs\<rparr>)"

definition handleClearPhotos :: "reg_page \<Rightarrow> reg_page" where
  "handleClearPhotos p = p\<lparr>rp_clinicPhotos := [], photoPreviews := []\<rparr>"


section \<open>Submitting the form\<close>

text \<open>The required fields, in the order \<open>handleSubmit\<close> checks them (lines 295--298).\<close>

definition required_fields :: "bool \<Rightarrow> reg_field list" where
  "required_fields isEdit =
     [FName, FTitle, FLocation, FDescription, FQualifications, FExperience, FClinicName,
      FClinicAddress, FPhone] @ (if isEdit then [] else [FEmail, FPassword])"

definition msg_missing :: "reg_field \<Rightarrow> string" where
  "msg_missing fld = ''Please fill in all fields. Missing: '' @ field_key fld"

definition msg_no_specialty :: string where
  "msg_no_specialty = ''Please select at least one specialty.''"

definition msg_photos_failed :: string where
  "msg_photos_failed = ''Could not process photos. Please try again.''"

definition reg_validate :: "bool \<Rightarrow> reg_page \<Rightarrow> string option" where
  "reg_validate isEdit p =
     (case List.find (\<lambda>fld. field_value (formData p) fld = []) (required_fields isEdit) of
        Some fld \<Rightarrow> Some (msg_missing fld)
      | None \<Rightarrow> if selectedSpecialties p = [] then Some msg_no_specialty else None)"

text \<open>The clinic of a new profile (lines 348--358).\<close>

definition new_clinic :: "reg_form \<Rightarrow> clinic" where
  "new_clinic f =
     \<lparr>clinic_name = rf_clinicName f, address = rf_clinicAddress f, clinic_rating = 0,
      clinic_timings = \<lparr>days = ''Mon - Sat'', hours = [''10:00 AM - 07:00 PM'']\<rparr>,
      isOnlinePaymentAvailable = JBool False, isPrime = False, maxWaitTime = 15, isVerified = False,
      clinic_phone = Some (rf_phone f)\<rparr>"

text \<open>
  \<open>{ ...therapistToEdit.clinic, name, address, phone }\<close> (lines 343--347). Spreading an
  undefined clinic leaves only the three fields; the model gives the others the values a
  reader of the code sees through optional chaining (\<open>undefined\<close> flag) or their zero.
\<close>

definition edited_clinic :: "clinic option \<Rightarrow> reg_form \<Rightarrow> clinic" where
  "edited_clinic co f =
     (case co of
        Some c \<Rightarrow> c\<lparr>clinic_name := rf_clinicName f, address := rf_clinicAddress f, clinic_phone := Some (rf_phone f)\<rparr>
      | None \<Rightarrow> \<lparr>clinic_name = rf_clinicName f, address = rf_clinicAddress f, clinic_rating = 0,
                 clinic_timings = \<lparr>days = [], hours = []\<rparr>, isOnlinePaymentAvailable = JUndefined,
                 isPrime = False, maxWaitTime = 0, isVerified = False, clinic_phone = Some (rf_phone f)\<rparr>)"

text \<open>\<open>therapistData\<close> (lines 326--359); \<open>now\<close> is \<open>Date.now()\<close>, \<open>urls\<close> the photos read.\<close>

definition therapistData :: "therapist option \<Rightarrow> int \<Rightarrow> reg_page \<Rightarrow> string list \<Rightarrow> therapist" where
  "therapistData te now p urls =
     (let f = formData p; x = parseInt_or_0 (rf_experience f)
      in \<lparr>tid = (case te of Some t \<Rightarrow> tid t | None \<Rightarrow> now), tname = rf_name f, temail = None,
          title = rf_title f, location = rf_location f,
          rating = (case te of Some t \<Rightarrow> rating t | None \<Rightarrow> 0),
          reviewCount = (case te of Some t \<Rightarrow> reviewCount t | None \<Rightarrow> 0),
          specialties = selectedSpecialties p, description = rf_description f,
          qualifications = map js_trim (split_on CHR '','' (rf_qualifications f)),
          clinicPhotos = (case te of Some t \<Rightarrow> clinicPhotos t @ urls | None \<Rightarrow> urls),
          reviews = (case te of Some t \<Rightarrow> reviews t | None \<Rightarrow> []),
          fee = (case te of Some t \<Rightarrow> fee t | None \<Rightarrow> 500),
          isProfileClaimed = True, experience = x, specialistExperience = x,
          patientSatisfaction = (case te of Some t \<Rightarrow> patientSatisfaction t | None \<Rightarrow> 0),
          clinic = Some (case te of Some t \<Rightarrow> edited_clinic (clinic t) f | None \<Rightarrow> new_clinic f)\<rparr>)"

datatype reg_out = RNone | RCreate therapist | RUpdate therapist

text \<open>
  \<open>handleSubmit\<close> (lines 293--374), after its \<open>await\<close>: \<open>photos_read\<close> is the result of
  reading the chosen files (\<open>None\<close> when one of them fails). App always passes
  \<open>onProfileUpdate\<close>, so an edit calls it. \<open>isSubmitting\<close> is back to false in \<open>finally\<close>.
\<close>

definition handleSubmit :: "therapist option \<Rightarrow> int \<Rightarrow> string list option \<Rightarrow> reg_page \<Rightarrow> reg_page \<times> reg_out" where
  "handleSubmit te now photos_read p =
     (case reg_validate (te \<noteq> None) p of
        Some e \<Rightarrow> (p\<lparr>reg_error := e\<rparr>, RNone)
      | None \<Rightarrow>
          (case photos_read of
             None \<Rightarrow> (p\<lparr>reg_error := msg_photos_failed, isSubmitting := False\<rparr>, RNone)
           | Some urls \<Rightarrow>
               (p\<lparr>reg_error := [], isSubmitting := False\<rparr>,
                (let td = therapistData te now p urls in if te \<noteq> None then RUpdate td else RCreate td))))"

text \<open>What App does with the page's output; \<open>now\<close> is App's own \<open>Date.now()\<close>.\<close>

definition reg_deliver :: "reg_out \<Rightarrow> int \<Rightarrow> app_state \<Rightarrow> app_state" where
  "reg_deliver out now s =
     (case out of
        RNone \<Rightarrow> s
      | RCreate t \<Rightarrow> handleProfileCreate t now s
      | RUpdate t \<Rightarrow> handleProfileUpdate t s)"

section \<open>The completeness widget\<close>

text \<open>\<open>completenessChecks\<close> of \<open>ProfileCompleteness\<close> (lines 76--117), label and result.\<close>

definition completeness_checks :: "therapist option \<Rightarrow> reg_page \<Rightarrow> (string \<times> bool) list" where
  "completeness_checks te p =
     (let f = formData p
      in [(''Add your full name'', rf_name f \<noteq> []),
          (''Add your professional title'', rf_title f \<noteq> []),
          (''Write a short bio (min 50 chars)'', 50 \<le> length (rf_description f)),
          (''List your qualifications'', rf_qualifications f \<noteq> []),
          (''Enter years of experience'',
             rf_experience f \<noteq> [] \<and> (case js_parseInt (rf_experience f) of Some n \<Rightarrow> 0 < n | None \<Rightarrow> False)),
          (''Add your clinic name'', rf_clinicName f \<noteq> []),
          (''Add clinic address'', rf_clinicAddress f \<noteq> []),
          (''Add clinic phone number'', rf_phone f \<noteq> []),
          (''Select at least one specialty'', selectedSpecialties p \<noteq> []),
          (''Upload at least one clinic photo'',
             rp_clinicPhotos p \<noteq> [] \<or> (case te of Some t \<Rightarrow> clinicPhotos t \<noteq> [] | None \<Rightarrow> False))])"

text \<open>
  \<open>Math.round((completedChecks / totalChecks) * 100)\<close>, computed exactly: for at most ten
  checks the double-precision result is within \<open>10\<^sup>-\<^sup>1\<^sup>3\<close> of the exact one, so
  both round alike.
\<close>

definition completeness_percentage :: "therapist option \<Rightarrow> reg_page \<Rightarrow> nat" where
  "completeness_percentage te p =
     (let cs = completeness_checks te p
      in nat \<lfloor>of_nat (length (filter snd cs)) / of_nat (length cs) * 100 + 1 / 2 :: rat\<rfloor>)"

definition incomplete_items :: "therapist option \<Rightarrow> reg_page \<Rightarrow> string list" where
  "incomplete_items te p = map fst (filter (\<lambda>c. \<not> snd c) (completeness_checks te p))"


text \<open>A profile as an admin would open it for editing.\<close>

definition edit_demo_therapist :: therapist where
  "edit_demo_therapist =
     (demo_therapist 13 800 True)\<lparr>description := ''Sports rehabilitation and post-operative care'',
        qualifications := [''BPT'', ''MPT (Sports)''],
        clinic := Some ((demo_clinic True)\<lparr>clinic_phone := Some ''9820012345''\<rparr>)\<rparr>"

section \<open>What the page writes into the form reads back\<close>

lemma digit_not_space_sign:
  "is_digit c \<Longrightarrow> \<not> js_is_space c \<and> c \<noteq> CHR ''-'' \<and> c \<noteq> CHR ''+''"
  by (auto simp: is_digit_def js_is_space_def)

lemma js_parseInt_digits:
  assumes "ds \<noteq> []" and "list_all is_digit ds"
  shows "js_parseInt ds = map_option int (digits_value 0 ds)"
    and "js_parseInt (CHR ''-'' # ds) = map_option (\<lambda>n. - int n) (digits_value 0 ds)"
proof -
  obtain c cs where ds: "ds = c # cs" and c: "is_digit c" using assms by (cases ds) auto
  have tw: "takeWhile is_digit ds = ds" and tw': "takeWhile is_digit cs = cs"
    using assms(2) by (simp_all add: list_all_iff ds)
  have dw: "dropWhile js_is_space ds = ds" and sg: "c \<noteq> CHR ''-''" "c \<noteq> CHR ''+''"
    using digit_not_space_sign [OF c] by (simp_all add: ds)
  have "js_parseInt ds = map_option (\<lambda>n. 1 * int n) (digits_value 0 ds)"
    using assms(1) sg unfolding js_parseInt_def Let_def dw tw by (simp add: ds tw')
  then show "js_parseInt ds = map_option int (digits_value 0 ds)" by (simp add: comp_def)
  show "js_parseInt (CHR ''-'' # ds) = map_option (\<lambda>n. - int n) (digits_value 0 ds)"
    using assms(1) by (simp add: tw js_parseInt_def js_is_space_def Let_def option.map_comp comp_def)
qed

lemma nat_digits_ne: "nat_digits n \<noteq> []"
  by (subst nat_digits.simps) simp

text \<open>\<open>parseInt(String(x), 10) === x\<close> for every integer \<open>x\<close>.\<close>

lemma js_parseInt_int_to_string [simp]: "js_parseInt (int_to_string i) = Some i"
  using js_parseInt_digits [OF nat_digits_ne nat_digits_all_digits, of "nat (- i)"]
        js_parseInt_digits [OF nat_digits_ne nat_digits_all_digits, of "nat i"]
  by (simp add: int_to_string_def digits_value_nat_digits)

lemma parseInt_or_0_int_to_string [simp]: "parseInt_or_0 (int_to_string i) = i"
  by (simp add: parseInt_or_0_def)

lemma split_on_no_sep: "c \<notin> set w \<Longrightarrow> split_on c w = [w]"
  by (induction w) auto

lemma split_on_sep: "c \<notin> set w \<Longrightarrow> split_on c (w @ c # r) = w # split_on c r"
  by (induction w) (auto split: list.splits)

text \<open>A qualification that survives \<open>join(', ')\<close>, \<open>split(',')\<close> and \<open>trim()\<close>.\<close>

definition qualification_ok :: "string \<Rightarrow> bool" where
  "qualification_ok q \<longleftrightarrow>
     q \<noteq> [] \<and> CHR '','' \<notin> set q \<and> \<not> js_is_space (hd q) \<and> \<not> js_is_space (last q)"

lemma split_join:
  "qs \<noteq> [] \<Longrightarrow> \<forall>q\<in>set qs. CHR '','' \<notin> set q \<Longrightarrow>
   split_on CHR '','' (js_join '', '' qs) = hd qs # map (\<lambda>q. CHR '' '' # q) (tl qs)"
proof (induction "'', ''" qs rule: js_join.induct)
  case (3 x y xs)
  then show ?case by (simp add: split_on_sep)
qed (simp_all add: split_on_no_sep)

lemma js_trim_qualification:
  assumes "qualification_ok q"
  shows "js_trim q = q \<and> js_trim (CHR '' '' # q) = q"
proof -
  have "js_trim (CHR '' '' # q) = js_trim q" by (simp add: js_trim_def js_is_space_def)
  moreover have "js_trim q = q" using assms by (simp add: qualification_ok_def js_trim_plain)
  ultimately show ?thesis by simp
qed

lemma qualifications_roundtrip:
  assumes "qs \<noteq> []" and "list_all qualification_ok qs"
  shows "map js_trim (split_on CHR '','' (js_join '', '' qs)) = qs"
proof -
  have "\<forall>q\<in>set qs. CHR '','' \<notin> set q" using assms(2) by (auto simp: list_all_iff qualification_ok_def)
  with assms show ?thesis
    by (cases qs) (auto simp: split_join js_trim_qualification list_all_iff map_idI)
qed

lemma set_from_array_distinct: "distinct xs \<Longrightarrow> set_from_array xs = xs"
  by (simp add: set_from_array_def distinct_remdups_id)


section \<open>Properties of the registration page\<close>

lemma reg_validate_ok:
  assumes "\<forall>fld\<in>set (required_fields isEdit). field_value (formData p) fld \<noteq> []"
    and "selectedSpecialties p \<noteq> []"
  shows "reg_validate isEdit p = None"
proof -
  have "List.find (\<lambda>fld. field_value (formData p) fld = []) (required_fields isEdit) = None"
    using assms(1) by (simp add: find_None_iff)
  with assms(2) show ?thesis by (simp add: reg_validate_def)
qed

lemma reg_validate_missing:
  "List.find (\<lambda>fld. field_value (formData p) fld = []) (required_fields isEdit) = Some fld \<Longrightarrow>
   handleSubmit te now r p = (p\<lparr>reg_error := msg_missing fld\<rparr>, RNone)"
  if "isEdit = (te \<noteq> None)"
  using that by (simp add: handleSubmit_def reg_validate_def)

text \<open>
  A new profile: the id is \<open>Date.now()\<close>, fee 500, no rating or reviews, and a clinic that
  takes no online payment, so the booking form never asks its patients to pay online. The
  email and password the form requires are not part of it.
\<close>

lemma handleSubmit_create:
  assumes "handleSubmit None now (Some urls) p = (p', out)" and "reg_validate False p = None"
  shows "out = RCreate (therapistData None now p urls) \<and> reg_error p' = [] \<and>
         tid (therapistData None now p urls) = now \<and> fee (therapistData None now p urls) = 500 \<and>
         temail (therapistData None now p urls) = None \<and>
         clinicPhotos (therapistData None now p urls) = urls \<and>
         \<not> isOnlinePayment (therapistData None now p urls) r"
  using assms
  by (auto simp: handleSubmit_def therapistData_def new_clinic_def isOnlinePayment_def strict_true_def Let_def)

text \<open>What App adds: the same profile under App's own \<open>Date.now()\<close>, at the end of both lists.\<close>

lemma reg_deliver_create:
  "therapists (reg_deliver (RCreate t) now s) = therapists s @ [t\<lparr>tid := now\<rparr>] \<and>
   page (reg_deliver (RCreate t) now s) = Browse"
  by (simp add: reg_deliver_def handleProfileCreate_def handleGoHome_def Let_def)

text \<open>
  The widget's percentage is ten per check met: \<open>Math.round\<close> of an exact multiple of ten.
  It shows 100 exactly when nothing is listed as missing.
\<close>

lemma completeness_percentage_tens:
  "completeness_percentage te p = 10 * length (filter snd (completeness_checks te p)) \<and>
   (completeness_percentage te p = 100 \<longleftrightarrow> incomplete_items te p = [])"
proof -
  let ?cs = "completeness_checks te p"
  have len: "length ?cs = 10" by (simp add: completeness_checks_def Let_def)
  have x: "of_nat (length (filter snd ?cs)) / of_nat (length ?cs) * 100 + 1 / 2 =
          of_int (int (10 * length (filter snd ?cs))) + (1 / 2 :: rat)"
    by (simp add: len)
  have "\<lfloor>of_int (int (10 * length (filter snd ?cs))) + (1 / 2 :: rat)\<rfloor> = int (10 * length (filter snd ?cs))"
    by (rule floor_unique) simp_all
  then have pct: "completeness_percentage te p = 10 * length (filter snd ?cs)"
    unfolding completeness_percentage_def Let_def x by simp
  have "length (filter snd ?cs) = length ?cs \<longleftrightarrow> (\<forall>c\<in>set ?cs. snd c)"
  proof
    assume "length (filter snd ?cs) = length ?cs"
    then show "\<forall>c\<in>set ?cs. snd c" using length_filter_less [of _ ?cs snd] by fastforce
  qed (simp add: filter_True)
  then have "length (filter snd ?cs) = 10 \<longleftrightarrow> filter (\<lambda>c. \<not> snd c) ?cs = []"
    by (simp add: len filter_empty_conv)
  with pct show ?thesis by (simp add: incomplete_items_def)
qed

text \<open>
  The form is not reset when the page leaves edit mode: the header's "For Professionals"
  button (App.tsx line 541) clears \<open>therapistToEdit\<close> while the page stays mounted, the
  effect does nothing without a profile, and a submission then creates a new profile from
  the edited one's data.
\<close>

lemma stale_edit_form:
  "tname (therapistData None 2000
     (handleInputChange FPassword ''secret''
       (handleInputChange FEmail ''new@example.com''
         (the (load_for_edit (Some edit_demo_therapist) init_reg_page)))) []) = ''Dr. Shilpa Rangari'' \<and>
   reg_validate False
     (handleInputChange FPassword ''secret''
       (handleInputChange FEmail ''new@example.com''
         (the (load_for_edit (Some edit_demo_therapist) init_reg_page)))) = None"
  by code_simp

text \<open>
  Claim C31. Opening a profile for editing and submitting the form unchanged gives back the
  same profile, up to what the form does not carry: the email is dropped, the profile is
  marked claimed, and the specialist experience becomes the years of experience. This holds
  for a profile with a clinic phone, distinct specialties and qualifications without commas
  or surrounding blanks, which the \<open>join(', ')\<close>, \<open>split(',')\<close> and \<open>trim()\<close> of the
  page then restore, and whose experience \<open>String\<close> and \<open>parseInt\<close> restore.
\<close>

theorem edit_roundtrip:
  assumes load: "load_for_edit (Some t) p = Some p'"
    and c: "clinic t = Some c" and ph: "clinic_phone c = Some ph" "ph \<noteq> []"
    and q: "qualifications t \<noteq> []" "list_all qualification_ok (qualifications t)"
    and sp: "distinct (specialties t)" "specialties t \<noteq> []"
    and ne: "tname t \<noteq> []" "title t \<noteq> []" "location t \<noteq> []" "description t \<noteq> []"
            "clinic_name c \<noteq> []" "address c \<noteq> []"
  shows "snd (handleSubmit (Some t) now (Some []) p') =
           RUpdate (t\<lparr>temail := None, isProfileClaimed := True, specialistExperience := experience t\<rparr>)"
proof -
  have p': "formData p' = \<lparr>rf_name = tname t, rf_email = [], rf_password = [], rf_title = title t,
                 rf_location = location t, rf_description = description t,
                 rf_qualifications = js_join '', '' (qualifications t),
                 rf_experience = int_to_string (experience t), rf_clinicName = clinic_name c,
                 rf_clinicAddress = address c, rf_phone = ph\<rparr>"
       "selectedSpecialties p' = specialties t"
    using load c ph sp by (auto simp: load_for_edit_def set_from_array_distinct js_or_def)
  have jq: "js_join '', '' (qualifications t) \<noteq> []"
  proof -
    obtain x xs where "qualifications t = x # xs" and "x \<noteq> []"
      using q by (cases "qualifications t") (auto simp: qualification_ok_def)
    then show ?thesis by (cases xs) simp_all
  qed
  have "reg_validate True p' = None"
    using p' ne ph(2) jq nat_digits_ne [of "nat (experience t)"] nat_digits_ne [of "nat (- experience t)"] sp
    by (intro reg_validate_ok) (auto simp: required_fields_def int_to_string_def)
  moreover have "edited_clinic (Some c) (formData p') = c" using p' ph by (simp add: edited_clinic_def)
  ultimately show ?thesis
    using p' c q by (cases t) (simp add: handleSubmit_def therapistData_def qualifications_roundtrip)
qed

theorem edit_roundtrip_witness:
  "snd (handleSubmit (Some edit_demo_therapist) 1000 (Some [])
          (the (load_for_edit (Some edit_demo_therapist) init_reg_page))) =
     RUpdate (edit_demo_therapist\<lparr>temail := None, isProfileClaimed := True, specialistExperience := 8\<rparr>)"
proof -
  have l: "load_for_edit (Some edit_demo_therapist) init_reg_page =
             Some (the (load_for_edit (Some edit_demo_therapist) init_reg_page))"
    by (simp add: load_for_edit_def edit_demo_therapist_def demo_therapist_def)
  have ok: "list_all qualification_ok [''BPT'', ''MPT (Sports)'']" by code_simp
  show ?thesis
    using edit_roundtrip [OF l, of "(demo_clinic True)\<lparr>clinic_phone := Some ''9820012345''\<rparr>" "''9820012345''"] ok
    by (simp add: edit_demo_therapist_def demo_therapist_def demo_clinic_def)
qed

end
