(* ===== verification/Order_Function.thy ===== *)
theory Order_Function
  imports Payment_Modal Booking_Modal
begin

text \<open>
  The Supabase edge function \<open>src/supabase/functions/create-razorpay-order/index.ts\<close> that
  the payment modal invokes to create a Razorpay order: the request body, the two secrets,
  the call to the Razorpay orders API (an argument of the model, so that its answer may
  depend on the request), and the response with its status. Then how the modal receives
  that response through \<open>supabase.functions.invoke\<close>.
\<close>

section \<open>The request and the Razorpay call\<close>

text \<open>
  \<open>const { amount, currency = "INR", receipt } = await req.json()\<close>: the fields of the
  body; \<open>Inl\<close> is the message of a body that does not parse or destructure.
\<close>

record order_request =
  rq_amount :: jsval
  rq_currency :: "string option"
  rq_receipt :: "string option"

text \<open>
  \<open>Number(amount)\<close> on the values the body can hold (\<open>None\<close> is \<open>NaN\<close>), and the paise
  \<open>Math.round(Number(amount) * 100)\<close>; amounts are whole numbers of rupees here, so the
  rounding is exact. \<open>JSON.stringify\<close> sends \<open>NaN\<close> as \<open>null\<close>.
\<close>

fun js_Number_of :: "jsval \<Rightarrow> int option" where
  "js_Number_of (JNum n) = Some n"
| "js_Number_of JNull = Some 0"
| "js_Number_of (JBool b) = Some (if b then 1 else 0)"
| "js_Number_of (JStr s) = js_Number s"
| "js_Number_of JUndefined = None"

definition to_paise :: "jsval \<Rightarrow> int option" where
  "to_paise a = map_option (\<lambda>x. x * 100) (js_Number_of a)"

text \<open>The body sent to \<open>https://api.razorpay.com/v1/orders\<close>, with the Basic credentials.\<close>

record rz_request =
  rz_amount :: "int option"
  rz_currency :: string
  rz_receipt :: "string option"
  rz_key :: "string \<times> string"

text \<open>
  What the \<open>fetch\<close> yields: a response with \<open>ok\<close> and the order, one without \<open>ok\<close> and the
  \<open>error.description\<close> of its body, or an exception (network failure, a body that is not
  JSON) with its message.
\<close>

datatype rz_answer = RzOk order | RzFailed "string option" | RzThrows string

section \<open>The function\<close>

definition cors_headers :: "(string \<times> string) list" where
  "cors_headers =
     [(''Access-Control-Allow-Origin'', ''*''),
      (''Access-Control-Allow-Headers'', ''authorization, x-client-info, apikey, content-type''),
      (''Access-Control-Allow-Methods'', ''POST, OPTIONS'')]"

datatype fn_body = FnText string | FnOrder order | FnError string

record fn_response =
  fn_status :: nat
  fn_headers :: "(string \<times> string) list"
  fn_body :: fn_body

definition msg_keys_missing :: string where
  "msg_keys_missing = ''Razorpay keys (RAZORPAY_KEY_ID or RAZORPAY_KEY_SECRET) are missing in Supabase Secrets.''"

definition msg_rz_failed :: string where
  "msg_rz_failed = ''Failed to create order with Razorpay''"

definition fn_json :: "nat \<Rightarrow> fn_body \<Rightarrow> fn_response" where
  "fn_json st b = \<lparr>fn_status = st, fn_headers = cors_headers @ [(''Content-Type'', ''application/json'')], fn_body = b\<rparr>"

text \<open>The response built from Razorpay's answer (lines 46--65): the order, or the error thrown and caught.\<close>

definition rz_response :: "rz_answer \<Rightarrow> fn_response" where
  "rz_response a =
     (case a of
        RzOk od \<Rightarrow> fn_json 200 (FnOrder od)
      | RzFailed d \<Rightarrow> fn_json 400 (FnError (opt_or d msg_rz_failed))
      | RzThrows m \<Rightarrow> fn_json 400 (FnError m))"

text \<open>
  The handler passed to \<open>serve\<close>: the method, the body, the two secrets
  (\<open>Deno.env.get\<close>) and the Razorpay API; it returns the response and the request it
  sent to Razorpay, if any.
\<close>

definition create_order_fn ::
  "string \<Rightarrow> string + order_request \<Rightarrow> string option \<Rightarrow> string option \<Rightarrow> (rz_request \<Rightarrow> rz_answer) \<Rightarrow>
   fn_response \<times> rz_request option" where
  "create_order_fn meth body key_id key_secret api =
     (if meth = ''OPTIONS'' then (\<lparr>fn_status = 200, fn_headers = cors_headers, fn_body = FnText ''ok''\<rparr>, None)
      else case body of
        Inl m \<Rightarrow> (fn_json 400 (FnError m), None)
      | Inr rq \<Rightarrow>
          (if opt_or key_id [] = [] \<or> opt_or key_secret [] = [] then (fn_json 400 (FnError msg_keys_missing), None)
           else
             (let r = \<lparr>rz_amount = to_paise (rq_amount rq),
                       rz_currency = (case rq_currency rq of None \<Rightarrow> ''INR'' | Some c \<Rightarrow> c),
                       rz_receipt = rq_receipt rq, rz_key = (the key_id, the key_secret)\<rparr>
              in (rz_response (api r), Some r))))"

section \<open>The modal's side of the call\<close>

text \<open>
  The body the modal sends (lines 69--74): the fee as \<open>amount\<close>, no currency, and the
  receipt built from \<open>Date.now()\<close>.
\<close>

definition modal_order_request :: "int \<Rightarrow> int \<Rightarrow> order_request" where
  "modal_order_request amount now = \<lparr>rq_amount = JNum amount, rq_currency = None, rq_receipt = Some (receipt now)\<rparr>"

text \<open>
  \<open>supabase.functions.invoke\<close>, as the client library documents it: a 2xx response yields
  its parsed body as \<open>data\<close>; any other status yields the error \<open>Edge Function returned a
  non-2xx status code\<close> and no data. A body with an \<open>error\<close> field is an order with
  \<open>order_error\<close> set.
\<close>

definition msg_non_2xx :: string where
  "msg_non_2xx = ''Edge Function returned a non-2xx status code''"

fun body_as_order :: "fn_body \<Rightarrow> order option" where
  "body_as_order (FnOrder od) = Some od"
| "body_as_order (FnError e) = Some \<lparr>order_id = None, order_error = Some e, order_amount = 0, order_currency = []\<rparr>"
| "body_as_order (FnText t) = None"

definition invoke_result :: "fn_response \<Rightarrow> string option \<times> order option" where
  "invoke_result r =
     (if 200 \<le> fn_status r \<and> fn_status r < 300 then (None, body_as_order (fn_body r))
      else (Some msg_non_2xx, None))"


section \<open>Properties of the order function\<close>

lemma create_order_fn_cases:
  assumes "create_order_fn meth body kid ks api = (resp, sent)"
  shows "(meth = ''OPTIONS'' \<and> fn_status resp = 200 \<and> fn_body resp = FnText ''ok'' \<and> sent = None) \<or>
         (meth \<noteq> ''OPTIONS'' \<and> (\<exists>m. body = Inl m \<and> resp = fn_json 400 (FnError m)) \<and> sent = None) \<or>
         (meth \<noteq> ''OPTIONS'' \<and> (\<exists>rq. body = Inr rq) \<and> (opt_or kid [] = [] \<or> opt_or ks [] = []) \<and>
            resp = fn_json 400 (FnError msg_keys_missing) \<and> sent = None) \<or>
         (meth \<noteq> ''OPTIONS'' \<and> opt_or kid [] \<noteq> [] \<and> opt_or ks [] \<noteq> [] \<and>
            (\<exists>rq r. body = Inr rq \<and> sent = Some r \<and> rz_amount r = to_paise (rq_amount rq) \<and>
               rz_key r = (the kid, the ks) \<and>
               resp = rz_response (api r)))"
  using assms by (auto simp: create_order_fn_def Let_def split: if_splits sum.splits)

lemma rz_response_2xx:
  "200 \<le> fn_status (rz_response a) \<and> fn_status (rz_response a) < 300 \<longleftrightarrow> (\<exists>od. a = RzOk od)"
  "fn_body (rz_response (RzOk od)) = FnOrder od"
  by (auto simp: rz_response_def fn_json_def split: rz_answer.splits)

text \<open>Every response, errors included, carries the CORS headers.\<close>

lemma create_order_fn_cors:
  "set cors_headers \<subseteq> set (fn_headers (fst (create_order_fn meth body kid ks api)))"
  by (auto simp: create_order_fn_def fn_json_def rz_response_def Let_def split: sum.splits rz_answer.splits)

text \<open>Without both secrets no request reaches Razorpay, and the answer names the secrets.\<close>

lemma create_order_fn_no_keys:
  assumes "meth \<noteq> ''OPTIONS''" and "body = Inr rq" and "opt_or kid [] = [] \<or> opt_or ks [] = []"
  shows "create_order_fn meth body kid ks api = (fn_json 400 (FnError msg_keys_missing), None)"
  using assms by (auto simp: create_order_fn_def)

text \<open>A status of 200 only answers an order Razorpay created from the request the function sent.\<close>

lemma create_order_fn_200:
  assumes "create_order_fn meth body kid ks api = (resp, sent)" and "meth \<noteq> ''OPTIONS''"
    and "200 \<le> fn_status resp \<and> fn_status resp < 300"
  shows "\<exists>rq r od. body = Inr rq \<and> sent = Some r \<and> rz_amount r = to_paise (rq_amount rq) \<and>
                 api r = RzOk od \<and> fn_body resp = FnOrder od"
proof -
  from create_order_fn_cases [OF assms(1)] assms(2,3) obtain rq r where
    b: "body = Inr rq" "sent = Some r" "rz_amount r = to_paise (rq_amount rq)" and rsp: "resp = rz_response (api r)"
    by (auto simp: fn_json_def)
  with assms(3) obtain od where "api r = RzOk od" using rz_response_2xx(1) [of "api r"] by auto
  with b rsp show ?thesis by (auto simp: rz_response_2xx(2))
qed

lemma modal_request_paise [simp]: "to_paise (rq_amount (modal_order_request amount now)) = Some (100 * amount)"
  by (simp add: modal_order_request_def to_paise_def)

text \<open>
  The modal opens the checkout only for an order Razorpay created for the fee in paise
  (\<open>100 \<times> fee\<close>), and when the function fails before reaching Razorpay the modal shows the
  library's generic message, not the function's.
\<close>

lemma modal_checkout_order:
  assumes "create_order_fn ''POST'' (Inr (modal_order_request amount now)) kid ks api = (resp, sent)"
    and "order_outcome (fst (invoke_result resp)) (snd (invoke_result resp)) = Inr od"
  shows "\<exists>r. sent = Some r \<and> rz_amount r = Some (100 * amount) \<and> api r = RzOk od"
proof -
  from order_outcome_Inr [OF assms(2)]
  have ok: "fst (invoke_result resp) = None" and d: "snd (invoke_result resp) = Some od" by simp_all
  from ok have st: "200 \<le> fn_status resp \<and> fn_status resp < 300"
    by (simp add: invoke_result_def split: if_splits)
  from create_order_fn_200 [OF assms(1) _ st] obtain r od' where
    r: "sent = Some r" "rz_amount r = Some (100 * amount)" "api r = RzOk od'" "fn_body resp = FnOrder od'"
    by auto
  from d st r(4) have "od' = od" by (simp add: invoke_result_def)
  with r show ?thesis by blast
qed

lemma non_2xx_message:
  "invoke_error_message msg_non_2xx = ''Failed to initiate payment. ('' @ msg_non_2xx @ '')''"
  by code_simp

lemma modal_sees_generic_error:
  assumes "opt_or kid [] = [] \<or> opt_or ks [] = []"
  shows "order_outcome (fst (invoke_result (fst (create_order_fn ''POST'' (Inr rq) kid ks api))))
                       (snd (invoke_result (fst (create_order_fn ''POST'' (Inr rq) kid ks api)))) =
         Inl (''Failed to initiate payment. ('' @ msg_non_2xx @ '')'')"
  using assms non_2xx_message
  by (auto simp: create_order_fn_def invoke_result_def fn_json_def order_outcome_def)

end
