(* ===== verification/Flow_Progress.thy ===== *)
theory Flow_Progress
  imports Flow_Scenarios
begin

text \<open>
  What the composed flow does without the user. The machine-driven events are the 50 ms
  timer and the completions of the asynchronous payment stages that need no decision of
  the user: the script load, the order creation and the verification's answer. The
  checkout's own reports (paid, dismissed, failed) are the user's actions inside the
  Razorpay window. Each machine-driven event lowers a weight of the pending work: a timer
  weighs more than the script load it may start, and each stage more than the stage it
  hands over to. So the flow cannot run on by itself: every sequence of machine-driven
  events ends.
\<close>

fun task_weight :: "task \<Rightarrow> nat" where
  "task_weight (TScript i r) = 4"
| "task_weight (TOrder i r) = 3"
| "task_weight (TCheckout i r oid) = 2"
| "task_weight (TVerify i r oid pid) = 1"

definition async_weight :: "flow \<Rightarrow> nat" where
  "async_weight fs = 5 * timers fs + sum_list (map task_weight (tasks fs))"

fun machine_event :: "event \<Rightarrow> bool" where
  "machine_event TimerFires = True"
| "machine_event (ScriptLoaded j ok) = True"
| "machine_event (OrderCreated j err data) = True"
| "machine_event (VerifyReturned j err data now) = True"
| "machine_event e = False"

section \<open>The weight under the flow's building blocks\<close>

lemma weight_remove_nth:
  fixes w :: "'a \<Rightarrow> nat"
  shows "j < length xs \<Longrightarrow> sum_list (map w (remove_nth j xs)) + w (xs ! j) = sum_list (map w xs)"
proof -
  assume j: "j < length xs"
  have "xs = take j xs @ xs ! j # drop (Suc j) xs" using j by (simp add: id_take_nth_drop)
  then have "sum_list (map w xs) = sum_list (map w (take j xs)) + w (xs ! j) + sum_list (map w (drop (Suc j) xs))"
    by (metis add.assoc map_append sum_list_append list.map(2) sum_list.Cons)
  then show ?thesis by (simp add: remove_nth_def ac_simps)
qed

lemma weight_drop_task:
  "task_at fs j = Some t \<Longrightarrow> async_weight (drop_task j fs) + task_weight t = async_weight fs"
  using weight_remove_nth [of j "tasks fs" task_weight]
  by (simp add: task_at_def drop_task_def async_weight_def split: if_splits)

lemma weight_frames [simp]:
  "async_weight (add_task t fs) = async_weight fs + task_weight t"
  "async_weight (upd_pay i f fs) = async_weight fs"
  "async_weight (fs\<lparr>clock := c\<rparr>) = async_weight fs"
  "async_weight (fs\<lparr>verified := v\<rparr>) = async_weight fs"
  "async_weight (fs\<lparr>app := s\<rparr>) = async_weight fs"
  by (simp_all add: async_weight_def add_task_def upd_pay_def split: option.splits prod.splits)

lemma weight_sync:
  "async_weight (sync fs) \<le> async_weight fs + 4"
  "\<not> payment_modal_shown (app fs) \<Longrightarrow> async_weight (sync fs) = async_weight fs"
  by (auto simp: async_weight_def sync_def sync_pay_def sync_form_def sync_intake_def
      split: option.splits prod.splits bool.splits)

lemma weight_sheet_effects:
  "list_all (\<lambda>e. e \<noteq> OpenPaymentAfter50ms) effs \<Longrightarrow> async_weight (foldl apply_effect fs effs) = async_weight fs"
proof (induction effs arbitrary: fs)
  case (Cons e effs)
  then show ?case by (cases e) (simp_all add: async_weight_def)
qed simp

lemma app_apply_effects [simp]: "app (foldl apply_effect fs effs) = app fs"
proof (induction effs arbitrary: fs)
  case (Cons e effs)
  then show ?case by (cases e) simp_all
qed simp

lemma handlePaymentSuccess_quiet:
  assumes "handlePaymentSuccess pid now r s = (s', effs)"
  shows "\<not> payment_modal_shown s'" and "list_all (\<lambda>e. e \<noteq> OpenPaymentAfter50ms) effs"
  using assms
  by (auto simp: handlePaymentSuccess_def finalizeBooking_def sendBookingToGoogleSheets_def
      payment_modal_shown_def Let_def split: option.splits prod.splits if_splits)

section \<open>Each machine-driven event lowers the weight\<close>

lemma timer_decreases:
  assumes "flow_step TimerFires fs = Some fs'"
  shows "async_weight fs' < async_weight fs"
proof -
  from assms have t: "timers fs > 0" and fs': "fs' = with_app openPaymentModal (fs\<lparr>timers := timers fs - 1\<rparr>)"
    by (simp_all split: if_splits)
  have "async_weight fs' \<le> async_weight (fs\<lparr>timers := timers fs - 1\<rparr>) + 4"
    unfolding fs' with_app_def using weight_sync(1) by (metis weight_frames(5))
  moreover have "async_weight (fs\<lparr>timers := timers fs - 1\<rparr>) + 5 = async_weight fs"
    using t by (simp add: async_weight_def)
  ultimately show ?thesis by simp
qed

lemma verify_decreases:
  assumes "flow_step (VerifyReturned j err data now) fs = Some fs'"
  shows "async_weight fs' < async_weight fs"
proof -
  from assms obtain i r oid pid where tk: "task_at fs j = Some (TVerify i r oid pid)"
    by (cases "task_at fs j") (simp_all split: task.splits)
  let ?fs0 = "(drop_task j fs)\<lparr>verified := Suc (verified fs), clock := now\<rparr>"
  have w0: "async_weight ?fs0 + 1 = async_weight fs"
    using weight_drop_task [OF tk] by simp
  show ?thesis
  proof (cases "verify_outcome err data")
    case (Inl msg)
    with assms tk have "fs' = upd_pay i (verify_failed msg pid) ((drop_task j fs)\<lparr>clock := now\<rparr>)"
      by (simp split: if_splits)
    with w0 show ?thesis by simp
  next
    case (Inr v)
    obtain s' effs where h: "handlePaymentSuccess pid now r (app fs) = (s', effs)" by fastforce
    with assms tk Inr have fs': "fs' = sync (foldl apply_effect (?fs0\<lparr>app := s'\<rparr>) effs)"
      by (simp add: app_result_def split: if_splits)
    have "async_weight fs' = async_weight ?fs0"
      unfolding fs' using handlePaymentSuccess_quiet [OF h]
      by (simp add: weight_sync(2) weight_sheet_effects)
    with w0 show ?thesis by simp
  qed
qed

lemma stage_decreases:
  assumes "flow_step e fs = Some fs'" and "machine_event e"
  shows "async_weight fs' < async_weight fs"
proof (cases e)
  case TimerFires
  with assms timer_decreases show ?thesis by blast
next
  case (VerifyReturned j err data now)
  with assms verify_decreases show ?thesis by blast
next
  case (ScriptLoaded j ok)
  with assms obtain i r where tk: "task_at fs j = Some (TScript i r)"
    by (cases "task_at fs j") (simp_all split: task.splits)
  with assms ScriptLoaded have "fs' = (if ok then add_task (TOrder i r) (drop_task j fs)
                else upd_pay i (payment_flow_error msg_sdk_failed) (drop_task j fs))" by simp
  then show ?thesis using weight_drop_task [OF tk] by simp
next
  case (OrderCreated j err data)
  with assms obtain i r where tk: "task_at fs j = Some (TOrder i r)"
    by (cases "task_at fs j") (simp_all split: task.splits)
  with assms OrderCreated have "fs' = (case order_outcome err data of
                  Inl msg \<Rightarrow> upd_pay i (payment_flow_error msg) (drop_task j fs)
                | Inr od \<Rightarrow> upd_pay i order_opened
                             (add_task (TCheckout i r (opt_or (order_id od) [])) (drop_task j fs)))" by simp
  then show ?thesis using weight_drop_task [OF tk] by (simp split: sum.splits)
qed (use assms(2) in simp_all)


section \<open>Every machine-driven run ends\<close>

text \<open>
  Claim C14. Without the user, the flow settles: a run made only of machine-driven events
  (timers, script loads, order creations, verification answers) has at most as many steps
  as the weight of the work pending where it starts, so the payment pipeline can never
  feed itself for ever.
\<close>

theorem machine_runs_end:
  "run es fs = Some fs' \<Longrightarrow> list_all machine_event es \<Longrightarrow> length es \<le> async_weight fs"
proof (induction es arbitrary: fs)
  case (Cons e es)
  then obtain fs1 where s: "flow_step e fs = Some fs1" and r: "run es fs1 = Some fs'"
    by (auto split: option.splits)
  from Cons.prems(2) have m: "machine_event e" and ms: "list_all machine_event es" by simp_all
  have "length es \<le> async_weight fs1" using Cons.IH [OF r ms] .
  with stage_decreases [OF s m] show ?case by simp
qed simp

theorem machine_runs_end_witness:
  "run [TimerFires] (init_flow\<lparr>timers := 1\<rparr>) = Some (with_app openPaymentModal init_flow) \<and>
   length [TimerFires] \<le> async_weight (init_flow\<lparr>timers := 1\<rparr>)"
proof -
  have r: "run [TimerFires] (init_flow\<lparr>timers := 1\<rparr>) = Some (with_app openPaymentModal init_flow)"
    by (simp add: init_flow_def)
  from machine_runs_end [OF r] show ?thesis using r by simp
qed

section \<open>The stored shape of a booking\<close>

text \<open>
  The \<open>Booking\<close> type leaves \<open>status\<close>, \<open>phoneNo\<close>, \<open>service\<close> and \<open>isPaid\<close> optional, and
  its status union includes \<open>completed\<close>. What the app stores is narrower: a status that
  is set and is \<open>confirmed\<close> or \<open>cancelled\<close> (the profile page derives "completed" from the
  date, theory \<open>Booking_Views\<close>), and a phone, a service and a paid flag that are set.
\<close>

definition stored_booking_ok :: "booking \<Rightarrow> bool" where
  "stored_booking_ok b \<longleftrightarrow>
     (status b = Some Confirmed \<or> status b = Some Cancelled) \<and>
     phoneNo b \<noteq> None \<and> service b \<noteq> None \<and> isPaid b \<noteq> None"

lemma list_all_sort_key [simp]: "list_all Q (sort_key k xs) = list_all Q xs"
  by (simp add: list_all_iff)

lemma list_all_map_where:
  "list_all Q xs \<Longrightarrow> (\<And>x. Q x \<Longrightarrow> P x \<Longrightarrow> Q (f x)) \<Longrightarrow> list_all Q (map_where P f xs)"
  by (induction xs) auto

lemma stored_new_booking [simp]: "stored_booking_ok (new_booking now d t u paid)"
  by (simp add: new_booking_def stored_booking_ok_def)

lemma stored_finalize:
  assumes "list_all stored_booking_ok (bookings s)" and "finalizeBooking dd paid now r s = (s', effs)"
  shows "list_all stored_booking_ok (bookings s')"
  using assms by (auto simp: finalizeBooking_def Let_def split: option.splits)

lemma stored_confirm:
  assumes "list_all stored_booking_ok (bookings s)" and "handleBookingConfirm d now s = (s', effs)"
  shows "list_all stored_booking_ok (bookings s')"
proof (cases "bookingToReschedule s")
  case None
  with assms show ?thesis
    by (auto simp: handleBookingConfirm_def Let_def finalizeBooking_def split: option.splits if_splits)
next
  case (Some rb)
  with assms have "bookings s' = sort_key date (map_where (\<lambda>b. bid b = bid rb) (reschedule_update d) (bookings s))"
    by (auto simp: handleBookingConfirm_def)
  with assms(1) show ?thesis
    by (auto intro!: list_all_map_where simp: reschedule_update_def stored_booking_ok_def)
qed

lemma stored_payment_success:
  assumes "list_all stored_booking_ok (bookings s)" and "handlePaymentSuccess pid now r s = (s', effs)"
  shows "list_all stored_booking_ok (bookings s')"
proof (cases "pendingBookingDetails r")
  case None
  with assms show ?thesis by (auto simp: handlePaymentSuccess_def)
next
  case (Some d)
  with assms(2) have "finalizeBooking (Some d) True now r (s\<lparr>isPaymentModalOpen := False\<rparr>) = (s', effs)"
    by (simp add: handlePaymentSuccess_def)
  from stored_finalize [OF _ this] assms(1) show ?thesis by simp
qed

lemma stored_cancel:
  "list_all stored_booking_ok (bookings s) \<Longrightarrow> list_all stored_booking_ok (bookings (handleConfirmCancelBooking k s))"
  by (auto intro!: list_all_map_where simp: handleConfirmCancelBooking_def handleCloseCancelModal_def
      cancel_booking_def stored_booking_ok_def split: option.splits)

lemma stored_intake:
  "list_all stored_booking_ok (bookings s) \<Longrightarrow> list_all stored_booking_ok (bookings (handleIntakeFormSubmit k frm s))"
  by (auto intro!: list_all_map_where simp: handleIntakeFormSubmit_def handleCloseIntakeForm_def stored_booking_ok_def)

lemma flow_step_stored:
  assumes "flow_step e fs = Some fs'" and "list_all stored_booking_ok (bookings (app fs))"
  shows "list_all stored_booking_ok (bookings (app fs'))"
  using flow_step_bookings [OF assms(1)]
proof (elim disjE exE conjE)
  assume "bookings (app fs') = bookings (app fs)"
  with assms(2) show ?thesis by simp
next
  fix d now s' effs
  assume "handleBookingConfirm d now (app fs) = (s', effs)" and "bookings (app fs') = bookings s'"
  with stored_confirm [OF assms(2)] show ?thesis by simp
next
  fix pid now r s' effs
  assume "handlePaymentSuccess pid now r (app fs) = (s', effs)" and "bookings (app fs') = bookings s'"
  with stored_payment_success [OF assms(2)] show ?thesis by simp
next
  fix k
  assume "bookings (app fs') = bookings (handleConfirmCancelBooking k (app fs))"
  with stored_cancel [OF assms(2)] show ?thesis by simp
next
  fix b frm n w w'
  assume "app fs' = handleIntakeFormSubmit (bid b) frm (app fs)"
  with stored_intake [OF assms(2)] show ?thesis by simp
qed

text \<open>
  Claim C15. In every reachable state each stored booking has the shape the code writes:
  its status is set and is \<open>confirmed\<close> or \<open>cancelled\<close>, never \<open>completed\<close> or missing, and
  its phone, service and paid flag are set.
\<close>

theorem stored_bookings_typed:
  "reachable fs \<Longrightarrow> list_all stored_booking_ok (bookings (app fs))"
proof (induction rule: reachable.induct)
  case start
  then show ?case by (simp add: init_flow_def init_app_def)
next
  case (step fs e fs')
  then show ?case using flow_step_stored by blast
qed

theorem stored_bookings_typed_witness:
  "list_all stored_booking_ok (bookings (app flow_B)) \<and> bookings (app flow_B) \<noteq> []"
proof
  show "list_all stored_booking_ok (bookings (app flow_B))"
    by (rule stored_bookings_typed [OF reachable_flow_B])
  have "map (\<lambda>b. (online_payment_flag (therapist b), isPaid b)) (bookings (app flow_B)) = [(True, Some True)]"
    using flow_B_summary by simp
  then show "bookings (app flow_B) \<noteq> []" by auto
qed

end
