(* ===== verification/Therapist_Views.thy ===== *)
theory Therapist_Views
  imports Therapist_Registration
begin

text \<open>
  The therapist pages: the star row of \<open>src/components/StarRating.tsx\<close>, the card of
  \<open>src/components/TherapistCard.tsx\<close> and the profile page of
  \<open>src/components/TherapistProfile.tsx\<close> with its two pieces of state (the photo shown
  enlarged and whether the whole description is shown). A render is a function of the
  props and the state; a render that throws is \<open>Inl\<close> with the exception's message.
\<close>

section \<open>The star row\<close>

text \<open>
  \<open>x % 1\<close> in JavaScript: the remainder takes the sign of the dividend, so it is zero
  exactly for whole numbers.
\<close>

definition js_rem1 :: "rat \<Rightarrow> rat" where
  "js_rem1 x = x - of_int (if x < 0 then - \<lfloor>- x\<rfloor> else \<lfloor>x\<rfloor>)"

text \<open>\<open>[...Array(n)]\<close>: \<open>Array(n)\<close> throws a \<open>RangeError\<close> for a negative length.\<close>

definition msg_invalid_array_length :: string where
  "msg_invalid_array_length = ''RangeError: Invalid array length''"

definition js_Array :: "int \<Rightarrow> 'a \<Rightarrow> string + 'a list" where
  "js_Array n x = (if n < 0 then Inl msg_invalid_array_length else Inr (replicate (nat n) x))"

datatype star = Star string | HalfStar string

definition StarRating :: "rat \<Rightarrow> int \<Rightarrow> string \<Rightarrow> string \<Rightarrow> string + star list" where
  "StarRating ratingValue maxRating starColor halfStarRgbColor =
     (let fullStars = \<lfloor>ratingValue\<rfloor>;
          halfStar = (js_rem1 ratingValue \<noteq> 0);
          emptyStars = maxRating - fullStars - (if halfStar then 1 else 0)
      in case js_Array fullStars (Star starColor) of
           Inl e \<Rightarrow> Inl e
         | Inr fullRow \<Rightarrow>
             (case js_Array emptyStars (Star ''text-gray-300'') of
                Inl e \<Rightarrow> Inl e
              | Inr emptyRow \<Rightarrow> Inr (fullRow @ (if halfStar then [HalfStar halfStarRgbColor] else []) @ emptyRow)))"

text \<open>The defaults of the props: five stars, amber.\<close>

definition star_rating_default :: "rat \<Rightarrow> string + star list" where
  "star_rating_default r = StarRating r 5 ''text-amber-400'' ''rgb(251 191 36)''"

text \<open>The green variant used for clinic ratings on the profile page.\<close>

definition clinic_stars :: "rat \<Rightarrow> string + star list" where
  "clinic_stars r = StarRating r 5 ''text-green-500'' ''rgb(34 197 94)''"

section \<open>The therapist card\<close>

text \<open>
  What a card shows (TherapistCard.tsx lines 13--67): name, title, location, the star row
  of the rating with the rating and the review count, and the first three specialties.
  The two buttons call the \<open>onViewProfile\<close> and \<open>onBookNow\<close> props. The star row
  throws for a rating outside 0..5, and the card with it.
\<close>

record card_view =
  cv_name :: string
  cv_title :: string
  cv_location :: string
  cv_stars :: "star list"
  cv_rating :: rat
  cv_reviewCount :: int
  cv_specialties :: "string list"

definition TherapistCard :: "therapist \<Rightarrow> string + card_view" where
  "TherapistCard t =
     (case star_rating_default (rating t) of
        Inl e \<Rightarrow> Inl e
      | Inr stars \<Rightarrow>
          Inr \<lparr>cv_name = tname t, cv_title = title t, cv_location = location t, cv_stars = stars,
               cv_rating = rating t, cv_reviewCount = reviewCount t,
               cv_specialties = take 3 (specialties t)\<rparr>)"

section \<open>The profile page\<close>

text \<open>The page's two \<open>useState\<close>s (lines 85--86).\<close>

record profile_state =
  selectedPhoto :: "string option"
  showFullDescription :: bool

definition init_profile_state :: profile_state where
  "init_profile_state = \<lparr>selectedPhoto = None, showFullDescription = False\<rparr>"

text \<open>The description shortened to fifty words (lines 88--90).\<close>

definition descriptionWords :: "therapist \<Rightarrow> string list" where
  "descriptionWords t = (if description t = [] then [] else split_on CHR '' '' (description t))"

definition canShrink :: "therapist \<Rightarrow> bool" where
  "canShrink t \<longleftrightarrow> 50 < length (descriptionWords t)"

definition shortDescription :: "therapist \<Rightarrow> string" where
  "shortDescription t =
     (if canShrink t then js_join '' '' (take 50 (descriptionWords t)) @ ''...'' else description t)"

text \<open>
  The experience line (lines 122--125): \<open>{specialistExperience && experience !==
  specialistExperience && ...}\<close>. When \<open>specialistExperience\<close> is \<open>0\<close> the expression is
  the number \<open>0\<close>, which React renders as the text "0".
\<close>

definition experience_line :: "therapist \<Rightarrow> string" where
  "experience_line t =
     int_to_string (experience t) @ '' Years Experience Overall'' @
     (if specialistExperience t = 0 then ''0''
      else if experience t \<noteq> specialistExperience t
      then '' ('' @ int_to_string (specialistExperience t) @ '' years as specialist)''
      else [])"

text \<open>
  The map query (line 92): \<open>therapist.clinic?.address || therapist.location\<close>, and the
  phone link (line 172): \<open>tel:\<close> and the phone with \<open>/\s/g\<close> removed.
\<close>

definition map_query :: "therapist \<Rightarrow> string" where
  "map_query t = (case clinic t of Some c \<Rightarrow> js_or (address c) (location t) | None \<Rightarrow> location t)"

definition tel_href :: "string \<Rightarrow> string" where
  "tel_href ph = ''tel:'' @ filter (\<lambda>ch. \<not> js_is_space ch) ph"

text \<open>
  The clinic block (lines 151--216): name, the green star row when the rating is positive,
  address, the query of the embedded map, the phone link when the phone is set and non-empty, the
  timings with the fee.
\<close>

record clinic_view =
  cl_name :: string
  cl_stars :: "star list option"
  cl_address :: string
  cl_map :: string
  cl_tel :: "string option"
  cl_days :: string
  cl_fee :: int
  cl_hours :: "string list"

definition clinic_block :: "therapist \<Rightarrow> clinic \<Rightarrow> string + clinic_view" where
  "clinic_block t c =
     (let v = \<lparr>cl_name = clinic_name c, cl_stars = None, cl_address = address c, cl_map = map_query t,
               cl_tel = (case clinic_phone c of Some ph \<Rightarrow> if ph = [] then None else Some (tel_href ph) | None \<Rightarrow> None),
               cl_days = days (clinic_timings c), cl_fee = fee t, cl_hours = hours (clinic_timings c)\<rparr>
      in if 0 < clinic_rating c
         then (case clinic_stars (clinic_rating c) of Inl e \<Rightarrow> Inl e | Inr st \<Rightarrow> Inr (v\<lparr>cl_stars := Some st\<rparr>))
         else Inr v)"

text \<open>
  The booking panel (lines 36--81): the fee, and the clinic's name, stars and the first
  comma-separated part of the location, or a notice without a clinic.
\<close>

record panel_view =
  pn_fee :: int
  pn_clinic :: "(string \<times> star list option \<times> string) option"

definition BookingPanel :: "therapist \<Rightarrow> string + panel_view" where
  "BookingPanel t =
     (case clinic t of
        None \<Rightarrow> Inr \<lparr>pn_fee = fee t, pn_clinic = None\<rparr>
      | Some c \<Rightarrow>
          (let loc = hd (split_on CHR '','' (location t))
           in if 0 < clinic_rating c
              then (case clinic_stars (clinic_rating c) of
                      Inl e \<Rightarrow> Inl e
                    | Inr st \<Rightarrow> Inr \<lparr>pn_fee = fee t, pn_clinic = Some (clinic_name c, Some st, loc)\<rparr>)
              else Inr \<lparr>pn_fee = fee t, pn_clinic = Some (clinic_name c, None, loc)\<rparr>))"

text \<open>
  The whole page (lines 84--264): the enlarged photo when \<open>selectedPhoto\<close> is truthy, the
  description shown and its toggle label, the experience line, the first two specialties,
  the satisfaction badge when positive, the clinic block, the photos and the panel.
\<close>

record profile_view =
  pv_viewer :: "string option"
  pv_description :: string
  pv_toggle :: "string option"
  pv_experience :: string
  pv_specialties :: string
  pv_claimed :: bool
  pv_satisfaction :: "(int \<times> int) option"
  pv_clinic :: "clinic_view option"
  pv_photos :: "string list"
  pv_panel :: panel_view

definition TherapistProfile :: "therapist \<Rightarrow> profile_state \<Rightarrow> string + profile_view" where
  "TherapistProfile t st =
     (case (case clinic t of None \<Rightarrow> Inr None | Some c \<Rightarrow> map_sum id Some (clinic_block t c)) of
        Inl e \<Rightarrow> Inl e
      | Inr cv \<Rightarrow>
          (case BookingPanel t of
             Inl e \<Rightarrow> Inl e
           | Inr pn \<Rightarrow>
               Inr \<lparr>pv_viewer = (case selectedPhoto st of Some p \<Rightarrow> if p = [] then None else Some p | None \<Rightarrow> None),
                    pv_description = (if showFullDescription st then description t else shortDescription t),
                    pv_toggle = (if canShrink t then Some (if showFullDescription st then ''[shrink]'' else ''[more]'') else None),
                    pv_experience = experience_line t,
                    pv_specialties = js_join '', '' (take 2 (specialties t)),
                    pv_claimed = isProfileClaimed t,
                    pv_satisfaction = (if 0 < patientSatisfaction t then Some (patientSatisfaction t, reviewCount t) else None),
                    pv_clinic = cv, pv_photos = clinicPhotos t, pv_panel = pn\<rparr>))"

text \<open>
  The page's events: a click on photo \<open>i\<close> (a button exists for each photo), the viewer's
  close button or backdrop (only while it is shown), and the "[more]"/"[shrink]" toggle
  (only when the description can shrink). Back and Book are the App's props.
\<close>

datatype profile_event = ClickPhoto nat | ClosePhotoViewer | ToggleDescription

fun profile_step :: "therapist \<Rightarrow> profile_event \<Rightarrow> profile_state \<Rightarrow> profile_state option" where
  "profile_step t (ClickPhoto i) st =
     (if i < length (clinicPhotos t) then Some (st\<lparr>selectedPhoto := Some (clinicPhotos t ! i)\<rparr>) else None)"
| "profile_step t ClosePhotoViewer st =
     (case selectedPhoto st of Some p \<Rightarrow> if p \<noteq> [] then Some (st\<lparr>selectedPhoto := None\<rparr>) else None | None \<Rightarrow> None)"
| "profile_step t ToggleDescription st =
     (if canShrink t then Some (st\<lparr>showFullDescription := \<not> showFullDescription st\<rparr>) else None)"

section \<open>Splitting and joining words\<close>

lemma split_on_ne [simp]: "split_on c s \<noteq> []"
  by (induction s) (auto split: list.splits)

lemma js_join_split_on: "js_join [c] (split_on c s) = s"
proof (induction s)
  case (Cons x xs)
  show ?case
  proof (cases "x = c")
    case True
    then show ?thesis using Cons by (cases "split_on c xs") simp_all
  next
    case False
    then obtain w ws where sp: "split_on c xs = w # ws" by (cases "split_on c xs") auto
    with Cons False show ?thesis by (cases ws) simp_all
  qed
qed simp

lemma split_on_words: "w \<in> set (split_on c s) \<Longrightarrow> c \<notin> set w"
proof (induction s arbitrary: w)
  case (Cons x xs)
  then show ?case by (auto split: if_splits list.splits)
qed simp

lemma split_on_append_sep: "c \<notin> set w \<Longrightarrow> split_on c (w @ c # r) = w # split_on c r"
  by (induction w) auto

lemma split_on_js_join:
  "ws \<noteq> [] \<Longrightarrow> \<forall>w\<in>set ws. c \<notin> set w \<Longrightarrow> split_on c (js_join [c] ws) = ws"
proof (induction "[c]" ws rule: js_join.induct)
  case (2 x)
  then show ?case by (simp add: split_on_no_sep)
next
  case (3 x y xs)
  then show ?case by (simp add: split_on_append_sep)
qed simp

lemma js_join_take: "\<exists>rest. js_join sep ws = js_join sep (take n ws) @ rest"
proof (induction sep ws arbitrary: n rule: js_join.induct)
  case (3 sep x y xs)
  show ?case
  proof (cases n)
    case (Suc m)
    from "3" [of m] obtain rest where "js_join sep (y # xs) = js_join sep (take m (y # xs)) @ rest" ..
    with Suc show ?thesis by (cases m) auto
  qed simp
next
  case (2 sep x)
  then show ?case by (cases n) simp_all
qed simp

section \<open>Properties of the star row\<close>

lemma js_rem1_zero [simp]: "js_rem1 x = 0 \<longleftrightarrow> x = of_int \<lfloor>x\<rfloor>"
proof (cases "x < 0")
  case True
  have "js_rem1 x = 0 \<longleftrightarrow> - x = of_int \<lfloor>- x\<rfloor>" using True by (auto simp: js_rem1_def)
  also have "\<dots> \<longleftrightarrow> x = of_int \<lfloor>x\<rfloor>"
    by (metis floor_minus floor_of_int minus_minus of_int_minus)
  finally show ?thesis .
qed (simp add: js_rem1_def)

lemma StarRating_eq:
  "StarRating r m c h =
     (if 0 \<le> r \<and> r \<le> of_int m
      then Inr (replicate (nat \<lfloor>r\<rfloor>) (Star c) @ (if r = of_int \<lfloor>r\<rfloor> then [] else [HalfStar h]) @
                replicate (nat (m - \<lceil>r\<rceil>)) (Star ''text-gray-300''))
      else Inl msg_invalid_array_length)"
proof -
  have ceil: "\<lceil>r\<rceil> = \<lfloor>r\<rfloor> + (if r = of_int \<lfloor>r\<rfloor> then 0 else 1)"
    by (simp add: ceiling_altdef)
  have "m - \<lceil>r\<rceil> < 0 \<longleftrightarrow> of_int m < r" by (metis ceiling_le_iff diff_less_0_iff_less not_le)
  with ceil show ?thesis
    by (auto simp: StarRating_def js_Array_def Let_def not_le)
qed

text \<open>
  Claim C32. The star row draws exactly \<open>maxRating\<close> stars, \<open>\<lfloor>rating\<rfloor>\<close> of them full and
  one half star when the rating is not a whole number, exactly when
  \<open>0 \<le> rating \<le> maxRating\<close>; for any other rating the render throws a \<open>RangeError\<close>.
\<close>

theorem star_row_bounds:
  "(StarRating r m c h = Inl msg_invalid_array_length \<longleftrightarrow> r < 0 \<or> of_int m < r) \<and>
   (\<forall>xs. StarRating r m c h = Inr xs \<longrightarrow>
      int (length xs) = m \<and> take (nat \<lfloor>r\<rfloor>) xs = replicate (nat \<lfloor>r\<rfloor>) (Star c) \<and>
      (HalfStar h \<in> set xs \<longleftrightarrow> r \<noteq> of_int \<lfloor>r\<rfloor>))"
proof -
  have ceil: "\<lceil>r\<rceil> = \<lfloor>r\<rfloor> + (if r = of_int \<lfloor>r\<rfloor> then 0 else 1)" by (simp add: ceiling_altdef)
  have len: "int (length xs) = m" if "StarRating r m c h = Inr xs" for xs
  proof -
    from that have r: "0 \<le> r" "r \<le> of_int m" by (simp_all add: StarRating_eq split: if_splits)
    have "\<lceil>r\<rceil> \<le> m" using r(2) by (simp add: ceiling_le_iff)
    moreover have "0 \<le> \<lfloor>r\<rfloor>" using r(1) by simp
    ultimately show ?thesis using that r ceil by (auto simp: StarRating_eq split: if_splits)
  qed
  show ?thesis
    using len by (auto simp: StarRating_eq not_le)
qed

theorem star_row_bounds_witness:
  "star_rating_default (9 / 2) = Inr [Star ''text-amber-400'', Star ''text-amber-400'', Star ''text-amber-400'',
                                     Star ''text-amber-400'', HalfStar ''rgb(251 191 36)''] \<and>
   star_rating_default (11 / 2) = Inl msg_invalid_array_length"
proof -
  have "(StarRating (11 / 2) 5 ''text-amber-400'' ''rgb(251 191 36)'' = Inl msg_invalid_array_length \<longleftrightarrow>
          (11 / 2 :: rat) < 0 \<or> of_int 5 < (11 / 2 :: rat))"
    using star_row_bounds [of "11 / 2" 5 "''text-amber-400''" "''rgb(251 191 36)''"] by blast
  then have "star_rating_default (11 / 2) = Inl msg_invalid_array_length"
    by (simp add: star_rating_default_def)
  moreover have "star_rating_default (9 / 2) = Inr [Star ''text-amber-400'', Star ''text-amber-400'', Star ''text-amber-400'',
                                     Star ''text-amber-400'', HalfStar ''rgb(251 191 36)'']"
    by code_simp
  ultimately show ?thesis by blast
qed

section \<open>Properties of the profile page\<close>

lemma descriptionWords_shrink:
  "canShrink t \<Longrightarrow> descriptionWords t = split_on CHR '' '' (description t)"
  by (auto simp: canShrink_def descriptionWords_def)

text \<open>
  The description toggle shows the whole description when expanded; collapsed,
  it shows a prefix of the description that splits back into exactly its first fifty
  words, followed by "...": shortening never alters or reorders the words it keeps.
\<close>

theorem description_toggle:
  assumes view: "TherapistProfile t st = Inr v" and shrink: "canShrink t"
  shows "if showFullDescription st
         then pv_description v = description t \<and> pv_toggle v = Some ''[shrink]''
         else (\<exists>w rest. pv_description v = w @ ''...'' \<and> description t = w @ rest \<and>
                 split_on CHR '' '' w = take 50 (split_on CHR '' '' (description t))) \<and>
              pv_toggle v = Some ''[more]''"
proof -
  let ?ws = "split_on CHR '' '' (description t)"
  let ?w = "js_join '' '' (take 50 ?ws)"
  have ws: "descriptionWords t = ?ws" using descriptionWords_shrink [OF shrink] .
  have pv: "pv_description v = (if showFullDescription st then description t else ?w @ ''...'')"
    "pv_toggle v = Some (if showFullDescription st then ''[shrink]'' else ''[more]'')"
    using view shrink ws
    by (auto simp: TherapistProfile_def shortDescription_def split: option.splits sum.splits)
  obtain rest where rest: "description t = ?w @ rest"
    using js_join_take [of "'' ''" ?ws 50] js_join_split_on [of "CHR '' ''" "description t"] by auto
  have "take 50 ?ws \<noteq> []" using shrink ws by (auto simp: canShrink_def)
  moreover have "\<forall>w\<in>set (take 50 ?ws). CHR '' '' \<notin> set w"
    using split_on_words by (metis in_set_takeD)
  ultimately have "split_on CHR '' '' ?w = take 50 ?ws" by (simp add: split_on_js_join)
  with pv rest show ?thesis by auto
qed

text \<open>A profile whose description has fifty-one words.\<close>

definition long_description_therapist :: therapist where
  "long_description_therapist =
     edit_demo_therapist\<lparr>description := js_join '' '' (replicate 51 ''care'')\<rparr>"

theorem description_toggle_witness:
  "\<exists>v. TherapistProfile long_description_therapist init_profile_state = Inr v \<and>
       pv_description v = js_join '' '' (replicate 50 ''care'') @ ''...'' \<and>
       split_on CHR '' '' (js_join '' '' (replicate 50 ''care'')) =
         take 50 (split_on CHR '' '' (description long_description_therapist))"
proof -
  have "case TherapistProfile long_description_therapist init_profile_state of
          Inr v \<Rightarrow> pv_description v = js_join '' '' (replicate 50 ''care'') @ ''...'' | Inl e \<Rightarrow> False"
    by code_simp
  then obtain v where v: "TherapistProfile long_description_therapist init_profile_state = Inr v"
    and d: "pv_description v = js_join '' '' (replicate 50 ''care'') @ ''...''"
    by (auto split: sum.splits)
  have "canShrink long_description_therapist" by code_simp
  from description_toggle [OF v this] d v show ?thesis
    by (auto simp: init_profile_state_def)
qed

text \<open>
  Claim C33. A therapist registered or edited with the years of experience "0" (or any
  entry that \<open>parseInt(...) || 0\<close> reads as \<open>0\<close>) gets \<open>specialistExperience\<close> \<open>0\<close>,
  and the profile page then renders the number itself: the experience line reads
  "0 Years Experience Overall0".
\<close>

theorem zero_experience_stray_0:
  assumes "handleSubmit te now photos p = (p', out)" and "out \<noteq> RNone"
    and "parseInt_or_0 (rf_experience (formData p)) = 0"
  shows "\<exists>t. (out = RCreate t \<or> out = RUpdate t) \<and>
             experience_line t = ''0 Years Experience Overall0'' \<and>
             (\<forall>st v. TherapistProfile t st = Inr v \<longrightarrow> pv_experience v = ''0 Years Experience Overall0'')"
proof -
  from assms(1,2) obtain urls where t: "out = (if te \<noteq> None then RUpdate (therapistData te now p urls)
                                               else RCreate (therapistData te now p urls))"
    by (auto simp: handleSubmit_def Let_def split: option.splits)
  let ?t = "therapistData te now p urls"
  have e: "experience ?t = 0" "specialistExperience ?t = 0"
    using assms(3) by (simp_all add: therapistData_def Let_def)
  have "int_to_string 0 = ''0''" by code_simp
  with e have line: "experience_line ?t = ''0 Years Experience Overall0''"
    by (simp add: experience_line_def)
  have "\<forall>st v. TherapistProfile ?t st = Inr v \<longrightarrow> pv_experience v = experience_line ?t"
    by (auto simp: TherapistProfile_def split: option.splits sum.splits)
  with t line show ?thesis by (cases "te = None") auto
qed

text \<open>The demo profile edited with experience "0".\<close>

definition zero_experience_page :: reg_page where
  "zero_experience_page =
     handleInputChange FExperience ''0'' (the (load_for_edit (Some edit_demo_therapist) init_reg_page))"

theorem zero_experience_stray_0_witness:
  "\<exists>t v. snd (handleSubmit (Some edit_demo_therapist) 1000 (Some []) zero_experience_page) = RUpdate t \<and>
         TherapistProfile t init_profile_state = Inr v \<and> pv_experience v = ''0 Years Experience Overall0''"
proof -
  obtain p' out where h: "handleSubmit (Some edit_demo_therapist) 1000 (Some []) zero_experience_page = (p', out)"
    by fastforce
  have ne: "snd (handleSubmit (Some edit_demo_therapist) 1000 (Some []) zero_experience_page) \<noteq> RNone"
    by code_simp
  have z: "parseInt_or_0 (rf_experience (formData zero_experience_page)) = 0" by code_simp
  from zero_experience_stray_0 [OF h _ z] ne h obtain t where
    t: "out = RCreate t \<or> out = RUpdate t" and
    pv: "\<forall>st v. TherapistProfile t st = Inr v \<longrightarrow> pv_experience v = ''0 Years Experience Overall0''"
    by auto
  have u: "out = RUpdate t" using t h by (auto simp: handleSubmit_def Let_def split: option.splits)
  have "case TherapistProfile (therapistData (Some edit_demo_therapist) 1000 zero_experience_page []) init_profile_state of
          Inr v \<Rightarrow> True | Inl e \<Rightarrow> False"
    by code_simp
  then have "\<exists>v. TherapistProfile (therapistData (Some edit_demo_therapist) 1000 zero_experience_page []) init_profile_state = Inr v"
    by (auto split: sum.splits)
  moreover have "out = RUpdate (therapistData (Some edit_demo_therapist) 1000 zero_experience_page [])"
    using h ne by (auto simp: handleSubmit_def Let_def split: option.splits)
  ultimately show ?thesis using u pv h by auto
qed

end
