(* ===== verification/Site_Navigation.thy ===== *)
theory Site_Navigation
  imports Therapist_Views Auth
begin

text \<open>
  The site's frame: the header of \<open>src/components/Header.tsx\<close> with the links it offers
  to each kind of visitor and its mobile menu, the main area of \<open>src/App.tsx\<close> (which page
  component is mounted for a state), and the admin table of
  \<open>src/components/AdminPage.tsx\<close>. The header's callbacks are App's handlers
  (\<open>App.tsx\<close> lines 533--544), modelled in \<open>App_Navigation\<close>.
\<close>

section \<open>The header\<close>

text \<open>The header's two \<open>useState\<close>s (lines 19--20).\<close>

record header_state =
  isMenuOpen :: bool
  isScrolled :: bool

definition init_header :: header_state where
  "init_header = \<lparr>isMenuOpen = False, isScrolled = False\<rparr>"

datatype nav_link = LLogo | LAbout | LFind | LPros | LDashboard | LAdmin | LProfile | LLogout | LLogin | LSignUp

definition is_role :: "role \<Rightarrow> user option \<Rightarrow> bool" where
  "is_role r u \<longleftrightarrow> (case u of Some v \<Rightarrow> role v = r | None \<Rightarrow> False)"

text \<open>
  The links of the desktop bar (lines 40--85): the logo, three page links, the dashboard
  link for a therapist, the admin link for an admin; then the greeting, a button to the
  profile for a patient and a plain text for the others, and Logout; or Login and Sign Up.
\<close>

definition desktop_links :: "user option \<Rightarrow> nav_link list" where
  "desktop_links u =
     [LLogo, LAbout, LFind, LPros] @
     (if is_role RTherapist u then [LDashboard] else []) @ (if is_role RAdmin u then [LAdmin] else []) @
     (case u of
        Some v \<Rightarrow> (if role v = RPatient then [LProfile] else []) @ [LLogout]
      | None \<Rightarrow> [LLogin, LSignUp])"

text \<open>The links of the mobile panel (lines 107--137), shown while the menu is open.\<close>

definition mobile_links :: "user option \<Rightarrow> nav_link list" where
  "mobile_links u =
     [LAbout, LFind, LPros] @
     (if is_role RTherapist u then [LDashboard] else []) @ (if is_role RAdmin u then [LAdmin] else []) @
     (case u of
        Some v \<Rightarrow> (if role v = RPatient then [LProfile] else []) @ [LLogout]
      | None \<Rightarrow> [LLogin, LSignUp])"

text \<open>\<open>currentUser.name.split(' ')[0]\<close> (lines 70, 74, 124).\<close>

definition greeting :: "user \<Rightarrow> string" where
  "greeting u = hd (split_on CHR '' '' (uname u))"

text \<open>
  The handler each link calls (App.tsx lines 533--544).
\<close>

fun link_action :: "nav_link \<Rightarrow> app_state \<Rightarrow> app_state" where
  "link_action LLogo s = handleGoHome s"
| "link_action LFind s = handleGoHome s"
| "link_action LAbout s = handleShowAboutPage s"
| "link_action LPros s = handleShowTherapistRegistration s"
| "link_action LDashboard s = handleShowTherapistDashboard s"
| "link_action LAdmin s = handleShowAdminPage s"
| "link_action LProfile s = handleShowProfile s"
| "link_action LLogout s = handleLogout s"
| "link_action LLogin s = handleOpenLoginModal s"
| "link_action LSignUp s = handleOpenSignUpModal s"

text \<open>
  The header's events: a scroll (\<open>window.scrollY\<close>), the menu button, a desktop link and a
  link of the open mobile panel. \<open>handleLinkClick\<close> (lines 32--35) closes the menu after
  the action; the logo and every mobile link go through it, the desktop page links do not.
\<close>

datatype header_event = HScroll int | HToggleMenu | HDesktop nav_link | HMobile nav_link

fun header_step :: "header_event \<Rightarrow> header_state \<times> app_state \<Rightarrow> (header_state \<times> app_state) option" where
  "header_step (HScroll y) (hs, s) = Some (hs\<lparr>isScrolled := 10 < y\<rparr>, s)"
| "header_step HToggleMenu (hs, s) = Some (hs\<lparr>isMenuOpen := \<not> isMenuOpen hs\<rparr>, s)"
| "header_step (HDesktop l) (hs, s) =
     (if l \<in> set (desktop_links (currentUser s))
      then Some (if l = LLogo then hs\<lparr>isMenuOpen := False\<rparr> else hs, link_action l s) else None)"
| "header_step (HMobile l) (hs, s) =
     (if isMenuOpen hs \<and> l \<in> set (mobile_links (currentUser s))
      then Some (hs\<lparr>isMenuOpen := False\<rparr>, link_action l s) else None)"

section \<open>The main area\<close>

text \<open>
  The page components App mounts (lines 546--620), each under its own condition: the
  browse page without a selected therapist, the selected therapist's profile, and the
  profile, about, registration, admin and dashboard pages, the last three of them only for
  a user of the matching role.
\<close>

datatype main_part = MBrowse | MTherapist therapist | MProfilePage | MAbout | MRegistration | MAdmin | MDashboard

definition main_view :: "app_state \<Rightarrow> main_part list" where
  "main_view s =
     (if page s = Browse \<and> selectedTherapist s = None then [MBrowse] else []) @
     (case selectedTherapist s of Some t \<Rightarrow> [MTherapist t] | None \<Rightarrow> []) @
     (if page s = Profile \<and> is_role RPatient (currentUser s) then [MProfilePage] else []) @
     (if page s = About then [MAbout] else []) @
     (if page s = TherapistRegistration then [MRegistration] else []) @
     (if page s = Admin \<and> is_role RAdmin (currentUser s) then [MAdmin] else []) @
     (if page s = TherapistDashboard \<and> is_role RTherapist (currentUser s) then [MDashboard] else [])"

section \<open>The admin table\<close>

text \<open>
  A row of the desktop table (lines 51--71): name, title, location, the first two
  specialties joined by a comma with "..." when there are more; the mobile list
  (lines 79--94) shows the first three. Edit and Delete call App's
  \<open>handleEditTherapist\<close> and \<open>handleDeleteTherapist\<close>; the empty list shows a notice
  (lines 98--102).
\<close>

record admin_row =
  ar_name :: string
  ar_title :: string
  ar_location :: string
  ar_specialties :: string
  ar_mobile_specialties :: string

definition admin_row_of :: "therapist \<Rightarrow> admin_row" where
  "admin_row_of t =
     \<lparr>ar_name = tname t, ar_title = title t, ar_location = location t,
      ar_specialties = js_join '', '' (take 2 (specialties t)) @ (if 2 < length (specialties t) then ''...'' else []),
      ar_mobile_specialties = js_join '', '' (take 3 (specialties t))\<rparr>"

record admin_view =
  av_rows :: "admin_row list"
  av_empty_notice :: bool

definition AdminPage :: "therapist list \<Rightarrow> admin_view" where
  "AdminPage ts = \<lparr>av_rows = map admin_row_of ts, av_empty_notice = (ts = [])\<rparr>"

text \<open>
  The page's buttons, offered while the admin page is mounted, and the two buttons of
  \<open>DeleteConfirmationModal\<close>, offered while App mounts it (App.tsx lines 661--667).
\<close>

datatype admin_event = AdminAdd | AdminEdit nat | AdminDelete nat | DeleteConfirm | DeleteCancel

fun admin_step :: "admin_event \<Rightarrow> app_state \<Rightarrow> app_state option" where
  "admin_step AdminAdd s = (if MAdmin \<in> set (main_view s) then Some (handleShowTherapistRegistration s) else None)"
| "admin_step (AdminEdit i) s =
     (if MAdmin \<in> set (main_view s) \<and> i < length (therapists s)
      then Some (handleEditTherapist (therapists s ! i) s) else None)"
| "admin_step (AdminDelete i) s =
     (if MAdmin \<in> set (main_view s) \<and> i < length (therapists s)
      then Some (handleDeleteTherapist (therapists s ! i) s) else None)"
| "admin_step DeleteConfirm s =
     (if isDeleteModalOpen s \<and> therapistToDelete s \<noteq> None then Some (handleConfirmDelete s) else None)"
| "admin_step DeleteCancel s =
     (if isDeleteModalOpen s \<and> therapistToDelete s \<noteq> None then Some (handleCloseDeleteModal s) else None)"

section \<open>Properties of the site's frame\<close>

lemma offered_links_role:
  assumes "l \<in> set (desktop_links u) \<or> l \<in> set (mobile_links u)"
  shows "(l = LDashboard \<longrightarrow> is_role RTherapist u) \<and> (l = LAdmin \<longrightarrow> is_role RAdmin u) \<and>
         (l = LProfile \<longrightarrow> is_role RPatient u)"
  using assms by (auto simp: desktop_links_def mobile_links_def is_role_def split: option.splits if_splits)

text \<open>
  Deleting from the admin page: the chosen profile and every profile with its id leave the
  list and the search results once the dialog is confirmed; cancelling changes neither.
\<close>

lemma admin_delete_confirm:
  assumes "admin_step (AdminDelete i) s = Some s1" and "admin_step DeleteConfirm s1 = Some s2"
  shows "therapists s2 = filter (\<lambda>t. tid t \<noteq> tid (therapists s ! i)) (therapists s) \<and>
         filteredTherapists s2 = filter (\<lambda>t. tid t \<noteq> tid (therapists s ! i)) (filteredTherapists s) \<and>
         \<not> isDeleteModalOpen s2 \<and> therapistToDelete s2 = None"
  using assms by (auto simp: handleDeleteTherapist_def handleConfirmDelete_def handleCloseDeleteModal_def
      split: if_splits)

lemma admin_delete_cancel:
  assumes "admin_step (AdminDelete i) s = Some s1" and "admin_step DeleteCancel s1 = Some s2"
  shows "therapists s2 = therapists s \<and> filteredTherapists s2 = filteredTherapists s \<and> \<not> isDeleteModalOpen s2"
  using assms by (auto simp: handleDeleteTherapist_def handleCloseDeleteModal_def split: if_splits)

lemma header_click:
  assumes "header_step (HDesktop l) (hs, s) = Some (hs', s') \<or> header_step (HMobile l) (hs, s) = Some (hs', s')"
  shows "s' = link_action l s \<and> (l \<in> set (desktop_links (currentUser s)) \<or> l \<in> set (mobile_links (currentUser s)))"
  using assms by (auto split: if_splits)

lemma link_action_user [simp]: "currentUser (link_action l s) = currentUser s"
  by (cases l) (simp_all add: handleGoHome_def handleShowAboutPage_def handleShowTherapistRegistration_def
      handleShowTherapistDashboard_def handleShowAdminPage_def handleShowProfile_def
      handleOpenLoginModal_def handleOpenSignUpModal_def handleLogout_def split: option.splits role.splits)

text \<open>
  Claim C34. Every page link the header offers, in the bar or in the mobile menu, lands on
  a state whose main area mounts exactly one page component: never a blank area (a page
  whose role guard fails) and never two pages at once. Login and Sign Up only open the
  dialog and leave the page as it was.
\<close>

theorem header_lands_on_one_page:
  assumes "header_step (HDesktop l) (hs, s) = Some (hs', s') \<or> header_step (HMobile l) (hs, s) = Some (hs', s')"
    and "l \<noteq> LLogin" and "l \<noteq> LSignUp"
  shows "length (main_view s') = 1"
proof -
  from header_click [OF assms(1)] have s': "s' = link_action l s"
    and r: "(l = LDashboard \<longrightarrow> is_role RTherapist (currentUser s)) \<and> (l = LAdmin \<longrightarrow> is_role RAdmin (currentUser s)) \<and>
            (l = LProfile \<longrightarrow> is_role RPatient (currentUser s))"
    using offered_links_role by blast+
  show ?thesis
  proof (cases l)
    case LProfile
    with r obtain u where "currentUser s = Some u" "role u = RPatient"
      by (auto simp: is_role_def split: option.splits)
    with s' LProfile show ?thesis by (simp add: main_view_def handleShowProfile_def is_role_def)
  qed (use s' r assms(2,3) in \<open>simp_all add: main_view_def handleGoHome_def handleShowAboutPage_def
        handleShowTherapistRegistration_def handleShowTherapistDashboard_def handleShowAdminPage_def
        handleLogout_def\<close>)
qed

text \<open>A patient on the browse page, and the same patient on the profile page.\<close>

definition patient_home :: app_state where
  "patient_home = init_app\<lparr>currentUser := Some demo_user\<rparr>"

theorem header_lands_on_one_page_witness:
  "header_step (HDesktop LProfile) (init_header, patient_home) =
     Some (init_header, handleShowProfile patient_home) \<and>
   main_view (handleShowProfile patient_home) = [MProfilePage]"
proof -
  have h: "header_step (HDesktop LProfile) (init_header, patient_home) =
             Some (init_header, handleShowProfile patient_home)" by code_simp
  have "length (main_view (handleShowProfile patient_home)) = 1"
    using header_lands_on_one_page [of LProfile init_header patient_home init_header] h by simp
  moreover have "main_view (handleShowProfile patient_home) = [MProfilePage]" by code_simp
  ultimately show ?thesis using h by simp
qed

text \<open>
  Claim C35. When the session ends by any other way than the Logout button (it expires, or
  the user signs out in another tab), the listener only clears the user: on the profile,
  admin or dashboard page the main area then mounts nothing, as the three pages are
  guarded by the user's role and nothing sends the visitor home.
\<close>

theorem signed_out_blank_page:
  assumes "page s = Profile \<or> page s = Admin \<or> page s = TherapistDashboard" and "selectedTherapist s = None"
  shows "main_view (onAuthStateChange ev None fetched inserted s) = []"
  using assms by (auto simp: main_view_def onAuthStateChange_def is_role_def)

theorem signed_out_blank_page_witness:
  "main_view (handleShowProfile patient_home) = [MProfilePage] \<and>
   main_view (onAuthStateChange SIGNED_OUT None (Inr []) (Inr []) (handleShowProfile patient_home)) = []"
proof -
  have "page (handleShowProfile patient_home) = Profile \<and> selectedTherapist (handleShowProfile patient_home) = None \<and>
        main_view (handleShowProfile patient_home) = [MProfilePage]" by code_simp
  with signed_out_blank_page [of "handleShowProfile patient_home" SIGNED_OUT "Inr []" "Inr []"] show ?thesis
    by simp
qed

end
