(* ===== verification/Home_Page.thy ===== *)
theory Home_Page
  imports Site_Navigation
begin

text \<open>
  The home page and the site's navigation as one state machine: the search card of
  \<open>src/components/HeroSection.tsx\<close> with its rotating placeholder and popular searches,
  \<open>src/components/FeaturedTherapists.tsx\<close>, the tab bar of
  \<open>src/components/MobileFooterNav.tsx\<close> and the links of \<open>src/components/Footer.tsx\<close>,
  composed with the header, the admin page, the therapist list and the auth listener. The
  list \<open>SPECIALTIES\<close> comes from \<open>constants.ts\<close>, which is not in the repository: it is a
  parameter \<open>specs\<close> of the model.
\<close>

section \<open>The search card\<close>

definition searchSuggestions :: "string list" where
  "searchSuggestions =
     [''e.g., Sports Injury'', ''e.g., Vashi, Navi Mumbai'', ''e.g., Post-Op Recovery'',
      ''e.g., Kharghar, Navi Mumbai'', ''e.g., Orthopedic'', ''e.g., Kamothe, Navi Mumbai'']"

definition popularSearches :: "string list" where
  "popularSearches = [''Back Pain'', ''Sports Injury'', ''Neck Pain'', ''Post-Op'']"

text \<open>\<open>[...new Set(xs)]\<close>: the values in the order of their first occurrence.\<close>

definition js_set_values :: "'a list \<Rightarrow> 'a list" where
  "js_set_values xs = rev (remdups (rev xs))"

definition uniqueLocations :: "therapist list \<Rightarrow> string list" where
  "uniqueLocations ts = js_set_values (map location ts)"

text \<open>
  The card's state (lines 22--24) with the position \<open>index\<close> of the interval's closure,
  which decides the placeholder shown.
\<close>

record hero_state =
  hero_searchTerm :: string
  hero_specialty :: string
  hero_index :: nat

definition init_hero :: hero_state where
  "init_hero = \<lparr>hero_searchTerm = [], hero_specialty = [], hero_index = 0\<rparr>"

definition hero_placeholder :: "hero_state \<Rightarrow> string" where
  "hero_placeholder h = searchSuggestions ! hero_index h"

text \<open>
  The card's events: typing in the location box, choosing in the select (the empty "All
  Specialties" or one of \<open>SPECIALTIES\<close>), submitting, a popular search (lines 130--146) and
  the three-second interval (lines 27--39). \<open>onSearch\<close> is App's \<open>handleSearch\<close>.
\<close>

datatype hero_event = HeroType string | HeroSelect string | HeroSubmit | HeroPopular nat | HeroTick

fun hero_step :: "string list \<Rightarrow> hero_event \<Rightarrow> hero_state \<times> app_state \<Rightarrow> (hero_state \<times> app_state) option" where
  "hero_step specs (HeroType v) (h, s) = Some (h\<lparr>hero_searchTerm := v\<rparr>, s)"
| "hero_step specs (HeroSelect v) (h, s) =
     (if v = [] \<or> v \<in> set specs then Some (h\<lparr>hero_specialty := v\<rparr>, s) else None)"
| "hero_step specs HeroSubmit (h, s) = Some (h, handleSearch (hero_searchTerm h) (hero_specialty h) s)"
| "hero_step specs (HeroPopular i) (h, s) =
     (if i < length popularSearches
      then (let term = popularSearches ! i
            in if term \<in> set specs then Some (h\<lparr>hero_specialty := term\<rparr>, handleSearch [] term s)
               else Some (h\<lparr>hero_searchTerm := term\<rparr>, handleSearch term [] s))
      else None)"
| "hero_step specs HeroTick (h, s) =
     Some (h\<lparr>hero_index := (hero_index h + 1) mod length searchSuggestions\<rparr>, s)"

section \<open>Featured therapists, the tab bar and the footer\<close>

text \<open>A list of renders, the first that throws aborting all of them.\<close>

fun all_renders :: "(string + 'a) list \<Rightarrow> string + 'a list" where
  "all_renders [] = Inr []"
| "all_renders (Inl e # rs) = Inl e"
| "all_renders (Inr x # rs) = (case all_renders rs of Inl e \<Rightarrow> Inl e | Inr xs \<Rightarrow> Inr (x # xs))"

text \<open>\<open>FeaturedTherapists\<close> (lines 11--38): nothing for an empty list, else one card each.\<close>

definition FeaturedTherapists :: "therapist list \<Rightarrow> string + card_view list option" where
  "FeaturedTherapists ts =
     (if ts = [] then Inr None else map_sum id Some (all_renders (map TherapistCard ts)))"

text \<open>The tab bar (lines 32--69): each tab with whether it is highlighted.\<close>

datatype mobile_tab = TabHome | TabSearch | TabProfile

definition MobileFooterNav :: "mobile_page \<Rightarrow> (string \<times> bool) list" where
  "MobileFooterNav activePage =
     [(''Home'', activePage = MHome), (''Find a Therapist'', activePage = MSearch),
      (''Profile'', activePage = MProfile)]"

fun mobile_tab_action :: "mobile_tab \<Rightarrow> app_state \<Rightarrow> app_state" where
  "mobile_tab_action TabHome s = handleGoHome s"
| "mobile_tab_action TabSearch s = handleMobileSearchClick s"
| "mobile_tab_action TabProfile s = handleMobileProfileClick s"

text \<open>The footer's links (Footer.tsx lines 25--43) and the three callbacks App passes.\<close>

datatype footer_link = FFind | FHow | FFaq | FJoin | FPricing | FBenefits | FAbout | FContact | FPrivacy

fun footer_action :: "footer_link \<Rightarrow> app_state \<Rightarrow> app_state" where
  "footer_action FFind s = handleGoHome s"
| "footer_action FJoin s = handleShowTherapistRegistration s"
| "footer_action FPricing s = handleShowTherapistRegistration s"
| "footer_action FBenefits s = handleShowTherapistRegistration s"
| "footer_action l s = handleShowAboutPage s"

section \<open>The site as a state machine\<close>

text \<open>
  The header's state, the search card's state while the browse page mounts it
  (\<open>None\<close> otherwise: unmounting drops its state), and App's state.
\<close>

record site =
  st_header :: header_state
  st_hero :: "hero_state option"
  st_app :: app_state

definition sync_hero :: "site \<Rightarrow> site" where
  "sync_hero st =
     (if MBrowse \<in> set (main_view (st_app st))
      then (case st_hero st of None \<Rightarrow> st\<lparr>st_hero := Some init_hero\<rparr> | Some _ \<Rightarrow> st)
      else st\<lparr>st_hero := None\<rparr>)"

definition site_app :: "(app_state \<Rightarrow> app_state) \<Rightarrow> site \<Rightarrow> site" where
  "site_app f st = sync_hero (st\<lparr>st_app := f (st_app st)\<rparr>)"

definition init_site :: site where
  "init_site = \<lparr>st_header = init_header, st_hero = Some init_hero, st_app = init_app\<rparr>"

text \<open>
  The navigation events: the header, the search card, "View Profile" on a card of the
  browse list, a footer link, a tab, the admin page's buttons, the arrival of the
  therapist list and a completed run of the auth listener.
\<close>

datatype site_event =
    SHeader header_event | SHero hero_event | SCard nat | SFooter footer_link | SMobile mobile_tab
  | SAdmin admin_event | SLoaded "therapist list" | SAuth auth_event "session_user option" db_answer db_answer

fun site_step :: "string list \<Rightarrow> site_event \<Rightarrow> site \<Rightarrow> site option" where
  "site_step specs (SHeader e) st =
     map_option (\<lambda>(hs, s). sync_hero (st\<lparr>st_header := hs, st_app := s\<rparr>)) (header_step e (st_header st, st_app st))"
| "site_step specs (SHero e) st =
     (case st_hero st of
        None \<Rightarrow> None
      | Some h \<Rightarrow> map_option (\<lambda>(h', s). sync_hero (st\<lparr>st_hero := Some h', st_app := s\<rparr>))
                    (hero_step specs e (h, st_app st)))"
| "site_step specs (SCard i) st =
     (let s = st_app st
      in if MBrowse \<in> set (main_view s) \<and> \<not> isLoadingTherapists s \<and> fetchError s = None \<and>
            i < length (filteredTherapists s)
         then Some (site_app (handleSelectTherapist (filteredTherapists s ! i)) st) else None)"
| "site_step specs (SFooter l) st = Some (site_app (footer_action l) st)"
| "site_step specs (SMobile t) st = Some (site_app (mobile_tab_action t) st)"
| "site_step specs (SAdmin e) st = map_option (\<lambda>s. sync_hero (st\<lparr>st_app := s\<rparr>)) (admin_step e (st_app st))"
| "site_step specs (SLoaded ts) st =
     (if isLoadingTherapists (st_app st) then Some (site_app (loadTherapists ts) st) else None)"
| "site_step specs (SAuth ev sess fetched inserted) st =
     Some (site_app (onAuthStateChange ev sess fetched inserted) st)"

inductive site_reachable :: "string list \<Rightarrow> site \<Rightarrow> bool" for specs where
  start: "site_reachable specs init_site"
| step: "site_reachable specs st \<Longrightarrow> site_step specs e st = Some st' \<Longrightarrow> site_reachable specs st'"

fun site_run :: "string list \<Rightarrow> site_event list \<Rightarrow> site \<Rightarrow> site option" where
  "site_run specs [] st = Some st"
| "site_run specs (e # es) st = (case site_step specs e st of None \<Rightarrow> None | Some st' \<Rightarrow> site_run specs es st')"

lemma site_run_reachable:
  "site_reachable specs st \<Longrightarrow> site_run specs es st = Some st' \<Longrightarrow> site_reachable specs st'"
proof (induction es arbitrary: st)
  case (Cons e es)
  then obtain st1 where "site_step specs e st = Some st1" and "site_run specs es st1 = Some st'"
    by (auto split: option.splits)
  with Cons show ?case by (blast intro: site_reachable.step)
qed simp

section \<open>Properties of the home page and the navigation\<close>

text \<open>The tab a state highlights is always Home or Profile: no handler sets another.\<close>

definition tab_ok :: "app_state \<Rightarrow> bool" where
  "tab_ok s \<longleftrightarrow> activeMobilePage s = MHome \<or> activeMobilePage s = MProfile"

lemma tab_ok_handlers [simp]:
  "tab_ok (handleGoHome s)"
  "tab_ok (handleSearch q sp s)"
  "tab_ok s \<Longrightarrow> tab_ok (handleShowAboutPage s)"
  "tab_ok s \<Longrightarrow> tab_ok (handleShowTherapistRegistration s)"
  "tab_ok s \<Longrightarrow> tab_ok (handleShowTherapistDashboard s)"
  "tab_ok s \<Longrightarrow> tab_ok (handleShowAdminPage s)"
  "tab_ok s \<Longrightarrow> tab_ok (handleShowProfile s)"
  "tab_ok s \<Longrightarrow> tab_ok (handleOpenLoginModal s)"
  "tab_ok s \<Longrightarrow> tab_ok (handleOpenSignUpModal s)"
  "tab_ok s \<Longrightarrow> tab_ok (handleSelectTherapist t s)"
  "tab_ok s \<Longrightarrow> tab_ok (handleEditTherapist t s)"
  "tab_ok s \<Longrightarrow> tab_ok (handleDeleteTherapist t s)"
  "tab_ok s \<Longrightarrow> tab_ok (loadTherapists ts s)"
  "tab_ok (handleLogout s)"
  "tab_ok s \<Longrightarrow> tab_ok (handleConfirmDelete s)"
  "tab_ok s \<Longrightarrow> tab_ok (handleCloseDeleteModal s)"
  by (auto simp: tab_ok_def handleGoHome_def handleLogout_def handleConfirmDelete_def handleCloseDeleteModal_def handleSearch_def handleShowAboutPage_def
      handleShowTherapistRegistration_def handleShowTherapistDashboard_def handleShowAdminPage_def
      handleShowProfile_def handleOpenLoginModal_def handleOpenSignUpModal_def handleSelectTherapist_def
      handleEditTherapist_def handleDeleteTherapist_def loadTherapists_def split: option.splits role.splits)

lemma tab_ok_auth: "tab_ok s \<Longrightarrow> tab_ok (onAuthStateChange ev sess fetched inserted s)"
  by (subst onAuthStateChange_frame) (simp add: tab_ok_def)

lemma tab_ok_actions:
  "tab_ok s \<Longrightarrow> tab_ok (link_action l s)"
  "tab_ok s \<Longrightarrow> tab_ok (footer_action f s)"
  "tab_ok s \<Longrightarrow> tab_ok (mobile_tab_action t s)"
proof -
  assume "tab_ok s"
  then show "tab_ok (link_action l s)" by (cases l) simp_all
  from \<open>tab_ok s\<close> show "tab_ok (footer_action f s)" by (cases f) simp_all
  from \<open>tab_ok s\<close> show "tab_ok (mobile_tab_action t s)"
    by (cases t) (simp_all add: handleMobileSearchClick_def handleMobileProfileClick_def)
qed

lemma sync_hero_app [simp]: "st_app (sync_hero st) = st_app st"
  by (simp add: sync_hero_def split: option.splits)

lemma site_step_tab_ok:
  assumes "site_step specs e st = Some st'" and "tab_ok (st_app st)"
  shows "tab_ok (st_app st')"
proof (cases e)
  case (SHeader he)
  with assms show ?thesis
    by (cases he) (auto simp: tab_ok_actions split: if_splits)
next
  case (SHero he)
  with assms show ?thesis
    by (cases he) (auto simp: Let_def split: option.splits if_splits)
next
  case (SAdmin ae)
  with assms show ?thesis
    by (cases ae) (auto split: if_splits)
qed (use assms in \<open>auto simp: site_app_def Let_def tab_ok_actions tab_ok_auth split: if_splits\<close>)


text \<open>
  Claim C36. The "Find a Therapist" tab of the mobile bar is never highlighted: in every
  state the site can reach, \<open>activeMobilePage\<close> is \<open>home\<close> or \<open>profile\<close>, because its
  own handler \<open>handleMobileSearchClick\<close> calls \<open>handleGoHome\<close>, which sets \<open>home\<close>, and
  no handler ever sets \<open>search\<close>.
\<close>

theorem search_tab_never_active:
  "site_reachable specs st \<Longrightarrow> MobileFooterNav (activeMobilePage (st_app st)) ! 1 = (''Find a Therapist'', False)"
proof -
  assume "site_reachable specs st"
  then have "tab_ok (st_app st)"
  proof (induction rule: site_reachable.induct)
    case start
    then show ?case by (simp add: init_site_def init_app_def tab_ok_def)
  next
    case (step st e st')
    then show ?case using site_step_tab_ok by blast
  qed
  then show ?thesis by (auto simp: tab_ok_def MobileFooterNav_def)
qed

theorem search_tab_never_active_witness:
  "site_run [] [SMobile TabSearch] init_site = Some (site_app handleMobileSearchClick init_site) \<and>
   page (st_app (site_app handleMobileSearchClick init_site)) = Browse \<and>
   MobileFooterNav (activeMobilePage (st_app (site_app handleMobileSearchClick init_site))) ! 1 =
     (''Find a Therapist'', False)"
proof -
  have e: "mobile_tab_action TabSearch = handleMobileSearchClick" by (rule ext) simp
  have r: "site_run [] [SMobile TabSearch] init_site = Some (site_app handleMobileSearchClick init_site)"
    by (simp add: e)
  have "site_reachable [] (site_app handleMobileSearchClick init_site)"
    by (rule site_run_reachable [OF site_reachable.start r])
  moreover have "page (st_app (site_app handleMobileSearchClick init_site)) = Browse" by code_simp
  ultimately show ?thesis using r search_tab_never_active by blast
qed

text \<open>
  A popular search runs a search on one field only: a term that is one of
  \<open>SPECIALTIES\<close> sets the select and searches \<open>('', term)\<close>, leaving the typed location
  in the box; any other term fills the box and searches \<open>(term, '')\<close>, leaving the
  chosen specialty in the select. The results then need not match what the form shows.
\<close>

theorem popular_search_one_field:
  assumes "hero_step specs (HeroPopular i) (h, s) = Some (h', s')"
  shows "(popularSearches ! i \<in> set specs \<longrightarrow>
            filteredTherapists s' = search_results [] (popularSearches ! i) (therapists s) \<and>
            hero_specialty h' = popularSearches ! i \<and> hero_searchTerm h' = hero_searchTerm h) \<and>
         (popularSearches ! i \<notin> set specs \<longrightarrow>
            filteredTherapists s' = search_results (popularSearches ! i) [] (therapists s) \<and>
            hero_searchTerm h' = popularSearches ! i \<and> hero_specialty h' = hero_specialty h)"
  using assms by (auto simp: Let_def handleSearch_def handleGoHome_def split: if_splits)

text \<open>Two therapists of sports injuries, one in Vashi and one in Kharghar.\<close>

definition two_sports_therapists :: "therapist list" where
  "two_sports_therapists =
     [demo_therapist 1 500 False, (demo_therapist 2 600 False)\<lparr>location := ''Kharghar, Navi Mumbai''\<rparr>]"

theorem popular_search_one_field_witness:
  "\<exists>h' s'. hero_step [''Sports Injury''] (HeroPopular 1)
             (init_hero\<lparr>hero_searchTerm := ''Kharghar''\<rparr>, (loadTherapists two_sports_therapists init_app)) = Some (h', s') \<and>
           hero_searchTerm h' = ''Kharghar'' \<and> hero_specialty h' = ''Sports Injury'' \<and>
           length (filteredTherapists s') = 2 \<and>
           length (search_results (hero_searchTerm h') (hero_specialty h') two_sports_therapists) = 1"
proof -
  let ?h = "init_hero\<lparr>hero_searchTerm := ''Kharghar''\<rparr>" and ?s = "loadTherapists two_sports_therapists init_app"
  obtain h' s' where st: "hero_step [''Sports Injury''] (HeroPopular 1) (?h, ?s) = Some (h', s')"
    by (simp add: popularSearches_def Let_def)
  have p: "popularSearches ! 1 = ''Sports Injury''" by (simp add: popularSearches_def)
  from popular_search_one_field [OF st] p have h': "hero_searchTerm h' = ''Kharghar''" "hero_specialty h' = ''Sports Injury''"
    and f: "filteredTherapists s' = search_results [] ''Sports Injury'' (therapists ?s)"
    by simp_all
  have "length (search_results [] ''Sports Injury'' (therapists ?s)) = 2" by code_simp
  moreover have "length (search_results ''Kharghar'' ''Sports Injury'' two_sports_therapists) = 1" by code_simp
  ultimately show ?thesis using st h' f by auto
qed

end
