(* ===== verification/Intake_View.thy ===== *)
theory Intake_View
  imports Intake_Wizard
begin

text \<open>
  How a submitted intake form is shown: \<open>src/components/ViewIntakeFormModal.tsx\<close> renders
  each answer as a \<open>DetailRow\<close> that is omitted when its value is falsy, and
  \<open>src/components/IntakeFormModal.tsx\<close> frames the wizard for one booking. Together
  with the wizard's validation this says which rows a therapist always sees.
\<close>

section \<open>The rows of the view\<close>

text \<open>A row's value, a string or a number, and JavaScript's truthiness of it.\<close>

datatype detail_value = DText string | DNumber int

fun detail_truthy :: "detail_value \<Rightarrow> bool" where
  "detail_truthy (DText s) \<longleftrightarrow> s \<noteq> []"
| "detail_truthy (DNumber n) \<longleftrightarrow> n \<noteq> 0"

text \<open>\<open>DetailRow\<close> (lines 9--16): the label and value, or nothing.\<close>

definition DetailRow :: "string \<Rightarrow> detail_value \<Rightarrow> (string \<times> detail_value) list" where
  "DetailRow label v = (if detail_truthy v then [(label, v)] else [])"

definition gender_text :: "gender \<Rightarrow> string" where
  "gender_text g =
     (case g of Male \<Rightarrow> ''Male'' | Female \<Rightarrow> ''Female'' | Other \<Rightarrow> ''Other''
      | PreferNotToSay \<Rightarrow> ''Prefer not to say'')"

text \<open>The four sections of the modal (lines 45--68), each with its rows.\<close>

definition ViewIntakeFormModal :: "intake_form \<Rightarrow> (string \<times> (string \<times> detail_value) list) list" where
  "ViewIntakeFormModal f =
     (let pi = personalInfo f; mh = medicalHistory f; cc = currentCondition f
      in [(''Personal Information'',
            DetailRow ''Full Name'' (DText (fullName pi)) @ DetailRow ''Date of Birth'' (DText (dob pi)) @
            DetailRow ''Gender'' (DText (gender_text (gender pi)))),
          (''Medical History'',
            DetailRow ''Allergies'' (DText (js_or (allergies mh) ''N/A'')) @
            DetailRow ''Current Medications'' (DText (js_or (medications mh) ''N/A'')) @
            DetailRow ''Past Surgeries or Major Injuries'' (DText (js_or (pastSurgeries mh) ''N/A'')) @
            DetailRow ''Chronic Conditions'' (DText (js_or (chronicConditions mh) ''N/A''))),
          (''Current Condition'',
            DetailRow ''Primary Complaint'' (DText (primaryComplaint cc)) @
            DetailRow ''Pain Level (1-10)'' (DNumber (painLevel cc)) @
            DetailRow ''When Symptoms Began'' (DText (onset cc)) @
            DetailRow ''What Makes it Better'' (DText (betterWith cc)) @
            DetailRow ''What Makes it Worse'' (DText (worseWith cc))),
          (''Patient Goals'', DetailRow ''Goals for Physiotherapy'' (DText (patientGoals (goals f))))])"

definition shown_labels :: "intake_form \<Rightarrow> string list" where
  "shown_labels f = map fst (concat (map snd (ViewIntakeFormModal f)))"

text \<open>The heading of \<open>IntakeFormModal\<close> (lines 19--22) for the booking it was opened for.\<close>

definition IntakeFormModal_heading :: "booking \<Rightarrow> string" where
  "IntakeFormModal_heading b = ''For your appointment with '' @ tname (therapist b)"

section \<open>What a submitted form shows\<close>

lemma gender_text_ne [simp]: "gender_text g \<noteq> []"
  by (cases g) (simp_all add: gender_text_def)

lemma shown_labels_eq:
  "shown_labels f =
     (if fullName (personalInfo f) \<noteq> [] then [''Full Name''] else []) @
     (if dob (personalInfo f) \<noteq> [] then [''Date of Birth''] else []) @
     [''Gender'', ''Allergies'', ''Current Medications'', ''Past Surgeries or Major Injuries'', ''Chronic Conditions''] @
     (if primaryComplaint (currentCondition f) \<noteq> [] then [''Primary Complaint''] else []) @
     (if painLevel (currentCondition f) \<noteq> 0 then [''Pain Level (1-10)''] else []) @
     (if onset (currentCondition f) \<noteq> [] then [''When Symptoms Began''] else []) @
     (if betterWith (currentCondition f) \<noteq> [] then [''What Makes it Better''] else []) @
     (if worseWith (currentCondition f) \<noteq> [] then [''What Makes it Worse''] else []) @
     (if patientGoals (goals f) \<noteq> [] then [''Goals for Physiotherapy''] else [])"
  by (simp add: shown_labels_def ViewIntakeFormModal_def DetailRow_def Let_def js_or_nonempty)

text \<open>
  Every intake form the mounted wizard submits is shown to its reader with the
  rows for the date of birth, gender, the four medical-history entries (with "N/A" for a
  blank one), the primary complaint, the pain level and the goals; the "Full Name" row is
  shown exactly when the name is not empty, so a form submitted after the name was
  cleared carries no name at all.
\<close>

theorem submitted_form_rows:
  assumes "wiz_reachable ok n w" and "wizard_step Submit w = Some (w', Some f)"
  shows "set [''Date of Birth'', ''Gender'', ''Allergies'', ''Current Medications'',
              ''Past Surgeries or Major Injuries'', ''Chronic Conditions'', ''Primary Complaint'',
              ''Pain Level (1-10)'', ''Goals for Physiotherapy''] \<subseteq> set (shown_labels f) \<and>
         (''Full Name'' \<in> set (shown_labels f) \<longleftrightarrow> fullName (personalInfo f) \<noteq> [])"
proof -
  have inv: "wiz_inv w" by (rule wiz_reachable_inv [OF assms(1)])
  from wizard_submit_output [OF assms(2) inv]
  have f: "f = formData w" "step w = 4" "patientGoals (goals f) \<noteq> []" by blast+
  with inv have "dob (personalInfo f) \<noteq> []" "primaryComplaint (currentCondition f) \<noteq> []"
    "painLevel (currentCondition f) \<noteq> 0"
    by (auto simp: wiz_inv_def)
  with f(3) show ?thesis by (auto simp: shown_labels_eq)
qed

theorem submitted_form_rows_witness:
  "set [''Date of Birth'', ''Gender'', ''Allergies'', ''Current Medications'',
        ''Past Surgeries or Major Injuries'', ''Chronic Conditions'', ''Primary Complaint'',
        ''Pain Level (1-10)'', ''Goals for Physiotherapy'']
     \<subseteq> set (shown_labels (formData (fst (the (wiz_run demo_wizard_events (init_wizard ''Asha'')))))) \<and>
   ''Full Name'' \<in> set (shown_labels (formData (fst (the (wiz_run demo_wizard_events (init_wizard ''Asha''))))))"
proof -
  let ?w = "fst (the (wiz_run demo_wizard_events (init_wizard ''Asha'')))"
  have r: "wiz_reachable (\<lambda>_. True) ''Asha'' ?w"
    by (rule wiz_run_reachable [OF wiz_reachable.start _ demo_wizard_run]) (simp add: list_all_iff)
  obtain w' f where s: "wizard_step Submit ?w = Some (w', Some f)" using demo_wizard_submit by blast
  have ff: "f = formData ?w" using wizard_submit_output [OF s wiz_reachable_inv [OF r]] by simp
  have "fullName (personalInfo (formData ?w)) \<noteq> []" by code_simp
  with submitted_form_rows [OF r s] ff show ?thesis by simp
qed

end
