(* ===== verification/Payment_View.thy ===== *)
theory Payment_View
  imports Flow_Progress Flow_Scenarios
begin

text \<open>
  What the payment modal of \<open>src/components/PaymentProcessingModal.tsx\<close> shows (lines
  179--240) and why its spinner never waits on nothing: in every reachable state of the
  booking flow, a mounted modal that shows its progress screen has a stage of its own
  instance in flight that matches the step it names. With the bound of \<open>Flow_Progress\<close>
  on machine-driven runs, the screen therefore always changes.
\<close>

section \<open>The script loader and the screens\<close>

text \<open>
  \<open>loadRazorpayScript\<close> (lines 32--44) resolves to \<open>true\<close> when \<open>window.Razorpay\<close> is
  already there or the script tag loads, and to \<open>false\<close> on its \<open>onerror\<close>: the value the
  flow's \<open>ScriptLoaded\<close> event carries.
\<close>

definition loadRazorpayScript :: "bool \<Rightarrow> bool \<Rightarrow> bool" where
  "loadRazorpayScript present loads \<longleftrightarrow> present \<or> loads"

datatype pay_view =
    PayErrorView string
  | PayProgressView string string int

definition pay_heading :: "pay_step \<Rightarrow> string" where
  "pay_heading st =
     (case st of Initiating \<Rightarrow> ''Setting up Payment...'' | Processing \<Rightarrow> ''Processing Payment...''
      | Verifying \<Rightarrow> ''Verifying Transaction...'')"

definition pay_hint :: "pay_step \<Rightarrow> string" where
  "pay_hint st =
     (if st = Processing then ''Please complete the payment in the popup.'' else ''Please do not close this window.'')"

text \<open>
  The screen (lines 193--238): the error with Retry and Close when \<open>error\<close> is truthy,
  otherwise the spinner with the step's heading, the hint and the amount. The close button
  in the corner is always there.
\<close>

definition PaymentProcessingModal_view :: "pay_modal \<Rightarrow> int \<Rightarrow> pay_view" where
  "PaymentProcessingModal_view pm amount =
     (if pm_error pm \<noteq> [] then PayErrorView (pm_error pm)
      else PayProgressView (pay_heading (pm_step pm)) (pay_hint (pm_step pm)) amount)"

section \<open>Progress screens are backed by pending stages\<close>

fun task_instance :: "task \<Rightarrow> nat" where
  "task_instance (TScript i r) = i"
| "task_instance (TOrder i r) = i"
| "task_instance (TCheckout i r oid) = i"
| "task_instance (TVerify i r oid pid) = i"

text \<open>The stages that can end each step: the script or the order, the checkout, the verification.\<close>

fun stage_of :: "pay_step \<Rightarrow> task \<Rightarrow> bool" where
  "stage_of Initiating (TScript i r) = True"
| "stage_of Initiating (TOrder i r) = True"
| "stage_of Processing (TCheckout i r oid) = True"
| "stage_of Verifying (TVerify i r oid pid) = True"
| "stage_of st t = False"

definition backed :: "nat \<Rightarrow> pay_step \<Rightarrow> task list \<Rightarrow> bool" where
  "backed i st ts \<longleftrightarrow> list_ex (\<lambda>t. task_instance t = i \<and> stage_of st t) ts"

definition progress_backed :: "flow \<Rightarrow> bool" where
  "progress_backed fs \<longleftrightarrow>
     (case pay fs of None \<Rightarrow> True | Some (i, pm) \<Rightarrow> pm_error pm = [] \<longrightarrow> backed i (pm_step pm) (tasks fs))"

section \<open>Lemmas on backing stages\<close>

lemma backed_iff: "backed i st ts \<longleftrightarrow> (\<exists>t\<in>set ts. task_instance t = i \<and> stage_of st t)"
  by (simp add: backed_def list_ex_iff)

lemma backed_mono: "backed i st xs \<Longrightarrow> set xs \<subseteq> set ys \<Longrightarrow> backed i st ys"
  by (auto simp: backed_iff)

text \<open>Removing one stage keeps a backing stage unless the removed one was the backing one.\<close>

lemma backed_remove_nth:
  assumes "j < length xs" and "backed i st xs"
  shows "backed i st (remove_nth j xs) \<or> (task_instance (xs ! j) = i \<and> stage_of st (xs ! j))"
proof -
  have xs: "xs = take j xs @ xs ! j # drop (Suc j) xs" using assms(1) by (rule id_take_nth_drop)
  from assms(2) obtain t where "t \<in> set xs" "task_instance t = i" "stage_of st t"
    by (auto simp: backed_iff)
  with xs show ?thesis
    by (metis (no_types, lifting) Un_iff backed_iff remove_nth_def set_ConsD set_append)
qed

lemma progress_backed_frame:
  "pay fs' = pay fs \<Longrightarrow> set (tasks fs) \<subseteq> set (tasks fs') \<Longrightarrow> progress_backed fs \<Longrightarrow> progress_backed fs'"
  by (auto simp: progress_backed_def intro: backed_mono split: option.splits)

lemma progress_backed_records [simp]:
  "progress_backed (fs\<lparr>app := a\<rparr>) = progress_backed fs"
  "progress_backed (fs\<lparr>form := f\<rparr>) = progress_backed fs"
  "progress_backed (fs\<lparr>clock := c\<rparr>) = progress_backed fs"
  "progress_backed (fs\<lparr>timers := n\<rparr>) = progress_backed fs"
  "progress_backed (fs\<lparr>intake := w\<rparr>) = progress_backed fs"
  "progress_backed (fs\<lparr>verified := v\<rparr>) = progress_backed fs"
  by (simp_all add: progress_backed_def split: option.splits)

lemma progress_backed_effects [simp]:
  "progress_backed (foldl apply_effect fs effs) = progress_backed fs"
proof (induction effs arbitrary: fs)
  case (Cons e effs)
  then show ?case by (cases e) (simp_all add: progress_backed_def split: option.splits)
qed simp

lemma upd_pay_clock: "upd_pay i f (fs\<lparr>clock := c\<rparr>) = (upd_pay i f fs)\<lparr>clock := c\<rparr>"
  by (simp add: upd_pay_def split: option.splits)

lemma progress_backed_sync: "progress_backed fs \<Longrightarrow> progress_backed (sync fs)"
  unfolding sync_def
  by (auto simp: progress_backed_def sync_form_def sync_pay_def init_pay_modal_def backed_iff
      split: option.splits bool.splits prod.splits)

lemma progress_backed_sync_hidden: "\<not> payment_modal_shown (app fs) \<Longrightarrow> progress_backed (sync fs)"
  by (simp add: sync_def sync_pay_def sync_form_def progress_backed_def split: option.splits bool.splits prod.splits)

lemma progress_backed_with_app: "progress_backed fs \<Longrightarrow> progress_backed (with_app h fs)"
  by (simp add: with_app_def progress_backed_sync)

lemma progress_backed_app_result: "progress_backed fs \<Longrightarrow> progress_backed (sync (app_result r fs))"
  by (simp add: app_result_def progress_backed_sync)

text \<open>A stage that ends by setting an error on its own instance.\<close>

lemma progress_backed_fail:
  assumes "progress_backed fs" and "task_at fs j = Some t" and "\<And>pm. pm_error (f pm) \<noteq> []"
  shows "progress_backed (upd_pay (task_instance t) f (drop_task j fs))"
proof -
  have j: "j < length (tasks fs)" "tasks fs ! j = t" using assms(2) by (auto simp: task_at_def split: if_splits)
  show ?thesis
    using assms(1,3) backed_remove_nth [OF j(1)] j(2)
    by (auto simp: progress_backed_def upd_pay_def drop_task_def split: option.splits)
qed

lemma progress_backed_error:
  "progress_backed fs \<Longrightarrow> (\<And>pm. pm_error (f pm) \<noteq> []) \<Longrightarrow> progress_backed (upd_pay i f fs)"
  by (auto simp: progress_backed_def upd_pay_def split: option.splits)

text \<open>A stage replaced by the next one of the same step (the script by the order).\<close>

lemma progress_backed_replace:
  assumes "progress_backed fs" and "task_at fs j = Some t" and "task_instance t' = task_instance t"
    and "\<And>st. stage_of st t \<Longrightarrow> stage_of st t'"
  shows "progress_backed (add_task t' (drop_task j fs))"
proof -
  have j: "j < length (tasks fs)" "tasks fs ! j = t" using assms(2) by (auto simp: task_at_def split: if_splits)
  show ?thesis
    using assms(1,3,4) backed_remove_nth [OF j(1)] j(2)
    by (auto simp: progress_backed_def add_task_def drop_task_def backed_iff split: option.splits)
qed

text \<open>A stage replaced by the next one while its instance moves to the matching step.\<close>

lemma progress_backed_advance:
  assumes "progress_backed fs" and "task_at fs j = Some t" and "task_instance t' = task_instance t"
    and "\<And>pm. pm_error (f pm) = pm_error pm \<and> stage_of (pm_step (f pm)) t'"
  shows "progress_backed (upd_pay (task_instance t) f (add_task t' (drop_task j fs)))"
proof -
  have j: "j < length (tasks fs)" "tasks fs ! j = t" using assms(2) by (auto simp: task_at_def split: if_splits)
  show ?thesis
  proof (cases "pay fs")
    case None
    then show ?thesis by (simp add: progress_backed_def upd_pay_def add_task_def drop_task_def)
  next
    case (Some p)
    then obtain i pm where p: "pay fs = Some (i, pm)" by (cases p) auto
    show ?thesis
    proof (cases "i = task_instance t")
      case True
      with p assms(3,4) show ?thesis
        by (auto simp: progress_backed_def upd_pay_def add_task_def drop_task_def backed_iff)
    next
      case False
      have "pm_error pm = [] \<Longrightarrow> backed i (pm_step pm) (remove_nth j (tasks fs))"
        using assms(1) p backed_remove_nth [OF j(1), of i "pm_step pm"] j(2) False
        by (auto simp: progress_backed_def)
      with p False show ?thesis
        by (auto simp: progress_backed_def upd_pay_def add_task_def drop_task_def intro: backed_mono)
    qed
  qed
qed

section \<open>Every step keeps progress screens backed\<close>

lemma flow_step_backed:
  assumes step: "flow_step e fs = Some fs'" and pb: "progress_backed fs"
  shows "progress_backed fs'"
proof (cases e)
  case (FormSubmit now)
  with step pb show ?thesis by (auto simp: progress_backed_app_result split: option.splits if_splits prod.splits)
next
  case PayRetry
  with step pb show ?thesis
    by (auto simp: progress_backed_def add_task_def initiatePayment_start_def backed_iff split: option.splits if_splits)
next
  case (ScriptLoaded j ok)
  with step obtain i r where tk: "task_at fs j = Some (TScript i r)"
    by (cases "task_at fs j") (simp_all split: task.splits)
  have st: "stage_of st (TScript i r) \<Longrightarrow> stage_of st (TOrder i r)" for st by (cases st) simp_all
  show ?thesis
  proof (cases ok)
    case True
    with ScriptLoaded step tk have "fs' = add_task (TOrder i r) (drop_task j fs)" by simp
    with progress_backed_replace [OF pb tk _ st] show ?thesis by simp
  next
    case False
    with ScriptLoaded step tk have "fs' = upd_pay i (payment_flow_error msg_sdk_failed) (drop_task j fs)" by simp
    with progress_backed_fail [OF pb tk] show ?thesis by (simp add: payment_flow_error_def js_or_nonempty)
  qed
next
  case (OrderCreated j err data)
  with step obtain i r where tk: "task_at fs j = Some (TOrder i r)"
    by (cases "task_at fs j") (simp_all split: task.splits)
  show ?thesis
  proof (cases "order_outcome err data")
    case (Inl msg)
    with OrderCreated step tk have "fs' = upd_pay i (payment_flow_error msg) (drop_task j fs)" by simp
    with progress_backed_fail [OF pb tk] show ?thesis by (simp add: payment_flow_error_def js_or_nonempty)
  next
    case (Inr od)
    with OrderCreated step tk
    have "fs' = upd_pay i order_opened (add_task (TCheckout i r (opt_or (order_id od) [])) (drop_task j fs))" by simp
    with progress_backed_advance [OF pb tk, of "TCheckout i r (opt_or (order_id od) [])" order_opened]
    show ?thesis by (simp add: order_opened_def)
  qed
next
  case (CheckoutDismissed j)
  with step obtain i r oid where tk: "task_at fs j = Some (TCheckout i r oid)"
    by (cases "task_at fs j") (simp_all split: task.splits)
  with CheckoutDismissed step have "fs' = upd_pay i checkout_dismissed (drop_task j fs)" by simp
  with progress_backed_fail [OF pb tk] show ?thesis by (simp add: checkout_dismissed_def)
next
  case (CheckoutFailed j desc)
  with step obtain i r oid where tk: "task_at fs j = Some (TCheckout i r oid)"
    by (cases "task_at fs j") (simp_all split: task.splits)
  with CheckoutFailed step have "fs' = upd_pay i (checkout_failed desc) fs" by simp
  with progress_backed_error [OF pb] show ?thesis by (simp add: checkout_failed_def js_or_nonempty)
next
  case (CheckoutPaid j pid)
  with step obtain i r oid where tk: "task_at fs j = Some (TCheckout i r oid)"
    by (cases "task_at fs j") (simp_all split: task.splits)
  with CheckoutPaid step have "fs' = upd_pay i checkout_handler (add_task (TVerify i r oid pid) (drop_task j fs))"
    by simp
  with progress_backed_advance [OF pb tk, of "TVerify i r oid pid" checkout_handler]
  show ?thesis by (simp add: checkout_handler_def)
next
  case (VerifyReturned j err data now)
  with step obtain i r oid pid where tk: "task_at fs j = Some (TVerify i r oid pid)"
    by (cases "task_at fs j") (simp_all split: task.splits)
  show ?thesis
  proof (cases "verify_outcome err data")
    case (Inl msg)
    with VerifyReturned step tk
    have "fs' = (upd_pay i (verify_failed msg pid) (drop_task j fs))\<lparr>clock := now\<rparr>"
      by (simp add: upd_pay_clock split: if_splits)
    with progress_backed_fail [OF pb tk] show ?thesis by (simp add: verify_failed_def verify_failure_message_def)
  next
    case (Inr u)
    obtain s' effs where hp: "handlePaymentSuccess pid now r (app fs) = (s', effs)" by (cases "handlePaymentSuccess pid now r (app fs)")
    with VerifyReturned Inr step tk
    have "fs' = sync (app_result (s', effs) ((drop_task j fs)\<lparr>verified := Suc (verified fs), clock := now\<rparr>))"
      by (simp split: if_splits)
    with handlePaymentSuccess_quiet(1) [OF hp] show ?thesis by (simp add: progress_backed_sync_hidden)
  qed
next
  case CancelConfirm
  with step pb show ?thesis
    by (auto simp: progress_backed_with_app split: option.splits prod.splits bool.splits)
next
  case (IntakeInput we)
  with step pb show ?thesis
    by (cases we) (auto simp: progress_backed_with_app split: option.splits prod.splits)
qed (use step pb in \<open>auto simp: progress_backed_with_app split: option.splits prod.splits if_splits\<close>)

lemma reachable_progress_backed: "reachable fs \<Longrightarrow> progress_backed fs"
proof (induction rule: reachable.induct)
  case start
  show ?case by (simp add: progress_backed_def init_flow_def)
next
  case (step fs e fs')
  then show ?case by (blast intro: flow_step_backed)
qed

section \<open>What the modal shows\<close>

text \<open>
  Claim C16. In every reachable state of the booking flow, a mounted payment modal that shows
  its progress screen names its step in the heading, and a stage of the same modal instance
  that can end that step is in flight: the script load or the order while "Setting up
  Payment...", the checkout while "Processing Payment...", the verification while
  "Verifying Transaction...". The spinner never waits on nothing.
\<close>

theorem progress_screen_backed:
  assumes "reachable fs" and "pay fs = Some (i, pm)"
    and "PaymentProcessingModal_view pm amount = PayProgressView heading hint amount'"
  shows "heading = pay_heading (pm_step pm) \<and>
         (\<exists>t\<in>set (tasks fs). task_instance t = i \<and> stage_of (pm_step pm) t)"
proof -
  have "pm_error pm = []" "heading = pay_heading (pm_step pm)"
    using assms(3) by (simp_all add: PaymentProcessingModal_view_def split: if_splits)
  with reachable_progress_backed [OF assms(1)] assms(2) show ?thesis
    by (simp add: progress_backed_def backed_iff)
qed

theorem progress_screen_backed_witness:
  "\<exists>t\<in>set (tasks (the (run to_checkout init_flow))). task_instance t = 0 \<and> stage_of Processing t"
proof -
  have "run to_checkout init_flow \<noteq> None" by code_simp
  then obtain fs where r: "run to_checkout init_flow = Some fs" by blast
  have "map_option pay (run to_checkout init_flow) =
          Some (Some (0, \<lparr>pm_loading = False, pm_error = [], pm_step = Processing\<rparr>))"
    by code_simp
  with r have p: "pay fs = Some (0, \<lparr>pm_loading = False, pm_error = [], pm_step = Processing\<rparr>)" by simp
  have v: "PaymentProcessingModal_view \<lparr>pm_loading = False, pm_error = [], pm_step = Processing\<rparr> 800 =
           PayProgressView (pay_heading Processing) (pay_hint Processing) 800"
    by (simp add: PaymentProcessingModal_view_def)
  from progress_screen_backed [OF run_reachable [OF reachable.start r] p v] r show ?thesis by simp
qed


end
