(* ===== verification/Calendar.thy ===== *)
theory Calendar
  imports Booking_Modal
begin

text \<open>
  Reading a date back: \<open>toLocaleDateString('en-US', {weekday: 'long', month: 'long',
  day: 'numeric'})\<close>, as \<open>src/components/CancelBookingModal.tsx\<close> calls it (lines 15--19),
  on the time values the booking form creates with \<open>new Date(year, month - 1, day)\<close>
  (\<open>Booking_Modal.js_new_Date\<close>). The library's conversion from a day number to the
  calendar date is the era-based inverse of \<open>days_from_civil\<close>; the lemma
  \<open>civil_from_days_roundtrip\<close> shows that it gives back every valid Gregorian date. The
  proof checks the 400 years of an era by evaluation (\<open>year_row\<close>) and covers the days
  between two year starts by the monotonicity of the year count \<open>doe_count\<close>.
\<close>

section \<open>The calendar of ECMAScript dates\<close>

definition leap_year :: "int \<Rightarrow> bool" where
  "leap_year y \<longleftrightarrow> y mod 4 = 0 \<and> (y mod 100 \<noteq> 0 \<or> y mod 400 = 0)"

definition days_in_month :: "int \<Rightarrow> int \<Rightarrow> int" where
  "days_in_month y m =
     (if m = 2 then (if leap_year y then 29 else 28)
      else if m \<in> {4, 6, 9, 11} then 30 else 31)"

text \<open>
  The day of the 400-year era (counted from 0000-03-01) to the year of the era, and the
  first day of year \<open>k\<close> of an era.
\<close>

definition doe_count :: "int \<Rightarrow> int" where
  "doe_count x = x - x div 1460 + x div 36524 - x div 146096"

definition yoe_of_doe :: "int \<Rightarrow> int" where
  "yoe_of_doe doe = doe_count doe div 365"

definition year_start :: "int \<Rightarrow> int" where
  "year_start k = 365 * k + k div 4 - k div 100"

definition year_end :: "int \<Rightarrow> int" where
  "year_end k = (if k = 399 then 146097 else year_start (k + 1))"

definition month_start :: "int \<Rightarrow> int" where
  "month_start mp = (153 * mp + 2) div 5"

text \<open>Day number (days since 1970-01-01) to year, month \<open>1..12\<close> and day of the month.\<close>

definition civil_from_days :: "int \<Rightarrow> int \<times> int \<times> int" where
  "civil_from_days z =
     (let z' = z + 719468;
          era = z' div 146097;
          doe = z' - era * 146097;
          yoe = (doe - doe div 1460 + doe div 36524 - doe div 146096) div 365;
          doy = doe - (365 * yoe + yoe div 4 - yoe div 100);
          mp = (5 * doy + 2) div 153;
          d = doy - (153 * mp + 2) div 5 + 1;
          m = (if mp < 10 then mp + 3 else mp - 9);
          y = yoe + era * 400
      in (if m \<le> 2 then y + 1 else y, m, d))"

definition month_names :: "string list" where
  "month_names = [''January'', ''February'', ''March'', ''April'', ''May'', ''June'', ''July'',
                  ''August'', ''September'', ''October'', ''November'', ''December'']"

definition month_name :: "int \<Rightarrow> string" where
  "month_name m = month_names ! nat (m - 1)"

text \<open>1970-01-01 was a Thursday: day \<open>z\<close> is weekday \<open>(z + 4) mod 7\<close>, Sunday first.\<close>

definition weekday_name :: "int \<Rightarrow> string" where
  "weekday_name z =
     [''Sunday'', ''Monday'', ''Tuesday'', ''Wednesday'', ''Thursday'', ''Friday'', ''Saturday''] ! nat ((z + 4) mod 7)"

text \<open>
  \<open>toLocaleDateString\<close> with a long weekday, a long month and a numeric day, on a time
  value of the local clock, e.g. "Monday, March 10".
\<close>

definition date_long :: "js_date \<Rightarrow> string" where
  "date_long t =
     (let z = t div ms_per_day; (y, m, d) = civil_from_days z
      in weekday_name z @ '', '' @ month_name m @ '' '' @ int_to_string d)"

text \<open>The tables of the 400 years of an era and of the twelve months, checked by evaluation.\<close>

definition year_row :: "nat \<Rightarrow> bool" where
  "year_row k \<longleftrightarrow>
     yoe_of_doe (year_start (int k)) = int k \<and> yoe_of_doe (year_end (int k) - 1) = int k \<and>
     0 \<le> year_start (int k) \<and> year_end (int k) \<le> 146097 \<and>
     year_end (int k) - year_start (int k) = (if leap_year (int k + 1) then 366 else 365)"

section \<open>Reading a day number back\<close>

lemma div_mod_unique_int:
  fixes q r c :: int
  assumes "0 \<le> r" "r < c"
  shows "(q * c + r) div c = q" "(q * c + r) mod c = r"
  using assms by simp_all

lemma div_succ_int:
  fixes x c :: int
  assumes "1 < c"
  shows "(x + 1) div c = x div c + (if (x + 1) mod c = 0 then 1 else 0)"
proof -
  let ?q = "x div c" and ?r = "x mod c"
  have m: "0 \<le> ?r" "?r < c" using assms by simp_all
  have x1: "x + 1 = ?q * c + (?r + 1)" by simp
  show ?thesis
  proof (cases "?r + 1 = c")
    case True
    then have "x + 1 = (?q + 1) * c + 0" using x1 by (simp add: algebra_simps)
    then have "(x + 1) div c = ((?q + 1) * c + 0) div c" "(x + 1) mod c = ((?q + 1) * c + 0) mod c"
      by (rule arg_cong)+
    then show ?thesis using div_mod_unique_int [of 0 c "?q + 1"] assms by simp
  next
    case False
    then have r: "0 \<le> ?r + 1" "?r + 1 < c" using m by simp_all
    have "(x + 1) div c = (?q * c + (?r + 1)) div c" "(x + 1) mod c = (?q * c + (?r + 1)) mod c"
      using x1 by (rule arg_cong)+
    then have "(x + 1) div c = ?q" "(x + 1) mod c = ?r + 1"
      using div_mod_unique_int [OF r, of ?q] by simp_all
    then show ?thesis using m by simp
  qed
qed

lemma doe_count_step:
  assumes "0 \<le> x" "x < 146096"
  shows "doe_count x \<le> doe_count (x + 1)"
proof -
  have era: "(x + 1) mod 36524 = 0" if "(x + 1) mod 146096 = 0"
  proof (cases "x + 1 < 146096")
    case True
    then have "(x + 1) mod 146096 = x + 1" using assms(1) by (simp add: mod_pos_pos_trivial)
    with that assms(1) show ?thesis by simp
  next
    case False
    with assms(2) have "x + 1 = 146096" by simp
    then show ?thesis by simp
  qed
  have h1: "(x + 1) div 1460 \<le> x div 1460 + 1"
    using div_succ_int [of 1460 x] by linarith
  have h2: "x div 36524 \<le> (x + 1) div 36524"
    using div_succ_int [of 36524 x] by linarith
  have h3: "(x + 1) div 146096 \<le> x div 146096 + ((x + 1) div 36524 - x div 36524)"
  proof (cases "(x + 1) mod 146096 = 0")
    case True
    with div_succ_int [of 146096 x] div_succ_int [of 36524 x] era show ?thesis by simp
  next
    case False
    with div_succ_int [of 146096 x] h2 show ?thesis by simp
  qed
  from h1 h2 h3 show ?thesis unfolding doe_count_def by linarith
qed

lemma doe_count_mono:
  assumes "0 \<le> x" "x \<le> y" "y \<le> 146096"
  shows "doe_count x \<le> doe_count y"
proof -
  obtain n where y: "y = x + int n" using assms(2) by (metis zle_iff_zadd)
  have "x + int n \<le> 146096 \<Longrightarrow> doe_count x \<le> doe_count (x + int n)" for n
  proof (induction n)
    case 0 then show ?case by simp
  next
    case (Suc n)
    then have "doe_count (x + int n) \<le> doe_count (x + int n + 1)"
      using assms(1) by (intro doe_count_step) simp_all
    with Suc show ?case by (simp add: ac_simps)
  qed
  with y assms(3) show ?thesis by simp
qed

lemma year_table_0: "list_all year_row [0..<100]" by code_simp
lemma year_table_1: "list_all year_row [100..<200]" by code_simp
lemma year_table_2: "list_all year_row [200..<300]" by code_simp
lemma year_table_3: "list_all year_row [300..<400]" by code_simp

lemma year_row_all: "n < 400 \<Longrightarrow> year_row n"
proof -
  assume n: "n < 400"
  have "n \<in> set [0..<100] \<or> n \<in> set [100..<200] \<or> n \<in> set [200..<300] \<or> n \<in> set [300..<400]"
    using n by (simp only: set_upt atLeastLessThan_iff) arith
  then show ?thesis
    using year_table_0 year_table_1 year_table_2 year_table_3 unfolding list_all_iff by blast
qed

lemma year_facts:
  assumes "n < 400"
  shows "yoe_of_doe (year_start (int n)) = int n" "yoe_of_doe (year_end (int n) - 1) = int n"
    "0 \<le> year_start (int n)" "year_end (int n) \<le> 146097"
    "year_end (int n) - year_start (int n) = (if leap_year (int n + 1) then 366 else 365)"
  using year_row_all [OF assms] unfolding year_row_def by blast+

lemma yoe_recover:
  assumes "0 \<le> k" "k \<le> 399" "0 \<le> j" "year_start k + j < year_end k"
  shows "yoe_of_doe (year_start k + j) = k"
proof -
  obtain n where k: "k = int n" using assms(1) nonneg_int_cases by blast
  with assms(2) have n: "k = int n" "n < 400" by simp_all
  note f = year_facts [OF n(2), folded n(1)]
  have "doe_count (year_start k) \<le> doe_count (year_start k + j)"
    using f assms by (intro doe_count_mono) simp_all
  moreover have "doe_count (year_start k + j) \<le> doe_count (year_end k - 1)"
    using f assms by (intro doe_count_mono) simp_all
  ultimately have "yoe_of_doe (year_start k) \<le> yoe_of_doe (year_start k + j)"
    "yoe_of_doe (year_start k + j) \<le> yoe_of_doe (year_end k - 1)"
    unfolding yoe_of_doe_def by (simp_all add: zdiv_mono1)
  with f show ?thesis by simp
qed

lemma month_table:
  "list_all (\<lambda>mp. list_all (\<lambda>d. (5 * (month_start (int mp) + int d - 1) + 2) div 153 = int mp)
                     [1..<(if mp = 11 then 30 else if mp \<in> {1, 3, 6, 8} then 31 else 32)]) [0..<12]"
  by code_simp

lemma leap_year_mod400: "a mod 400 = b mod 400 \<Longrightarrow> leap_year a = leap_year b"
proof -
  assume ab: "a mod 400 = b mod 400"
  have "a mod 4 = (a mod 400) mod 4" "b mod 4 = (b mod 400) mod 4"
    "a mod 100 = (a mod 400) mod 100" "b mod 100 = (b mod 400) mod 100"
    by (simp_all add: mod_mod_cancel)
  with ab show ?thesis by (simp add: leap_year_def)
qed

lemma month_row:
  assumes "0 \<le> mp" "mp \<le> 11" "1 \<le> d"
    and "d \<le> (if mp = 11 then 29 else if mp \<in> {1, 3, 6, 8} then 30 else 31)"
  shows "(5 * (month_start mp + d - 1) + 2) div 153 = mp"
proof -
  obtain a where a: "mp = int a" using assms(1) nonneg_int_cases by blast
  obtain b where b: "d = int b" using assms(3) by (metis nonneg_int_cases zero_le_one order_trans)
  have "a \<in> set [0..<12]" using a assms(2) by simp
  note row = month_table [unfolded list_all_iff, rule_format, OF this]
  have "b \<in> set [1..<(if a = 11 then 30 else if a \<in> {1, 3, 6, 8} then 31 else 32)]"
    using assms(3,4) a b by auto
  from row [unfolded list_all_iff, rule_format, OF this] a b show ?thesis by simp
qed

lemma civil_from_days_roundtrip:
  assumes m: "1 \<le> m" "m \<le> 12" and d: "1 \<le> d" "d \<le> days_in_month y m"
  shows "civil_from_days (days_from_civil y m d) = (y, m, d)"
proof -
  define y' where "y' = (if m \<le> 2 then y - 1 else y)"
  define era where "era = y' div 400"
  define yoe where "yoe = y' mod 400"
  define mp where "mp = (if m > 2 then m - 3 else m + 9)"
  define doy where "doy = month_start mp + d - 1"
  have yoe: "0 \<le> yoe" "yoe \<le> 399" by (simp_all add: yoe_def)
  have mp: "0 \<le> mp" "mp \<le> 11" using m by (simp_all add: mp_def)
  have y': "y' = yoe + era * 400" by (simp add: yoe_def era_def)
  have ye: "y' - era * 400 = yoe" by (simp add: yoe_def era_def minus_div_mult_eq_mod)
  have "days_from_civil y m d = era * 146097 + (yoe * 365 + yoe div 4 - yoe div 100 + doy) - 719468"
    unfolding days_from_civil_def Let_def y'_def [symmetric] era_def [symmetric] ye mp_def [symmetric]
    by (simp add: doy_def month_start_def)
  then have dfc: "days_from_civil y m d + 719468 = era * 146097 + (year_start yoe + doy)"
    by (simp add: year_start_def)
  have dm: "d \<le> (if mp = 11 then 29 else if mp \<in> {1, 3, 6, 8} then 30 else 31)"
    using d m by (auto simp: days_in_month_def mp_def split: if_splits)
  have mp': "(5 * doy + 2) div 153 = mp" using month_row [OF mp d(1) dm] by (simp add: doy_def)
  have ms: "0 \<le> month_start mp" "mp \<le> 10 \<Longrightarrow> month_start mp \<le> 306" "mp = 11 \<Longrightarrow> month_start mp = 337"
  proof -
    show "0 \<le> month_start mp" using mp by (simp add: month_start_def pos_imp_zdiv_nonneg_iff)
    show "month_start mp \<le> 306" if "mp \<le> 10"
    proof -
      have "(153 * mp + 2) div 5 \<le> (153 * 10 + 2) div 5" using that by (intro zdiv_mono1) simp_all
      then show ?thesis by (simp add: month_start_def)
    qed
    show "mp = 11 \<Longrightarrow> month_start mp = 337" by (simp add: month_start_def)
  qed
  have leap: "m \<le> 2 \<Longrightarrow> leap_year (yoe + 1) = leap_year y"
  proof (rule leap_year_mod400)
    assume "m \<le> 2"
    then have "yoe = (y - 1) mod 400" by (simp add: yoe_def y'_def)
    then show "(yoe + 1) mod 400 = y mod 400" by (simp add: mod_add_left_eq)
  qed
  have len: "year_end yoe - year_start yoe = (if leap_year (yoe + 1) then 366 else 365)"
  proof -
    obtain n where n: "yoe = int n" using yoe(1) nonneg_int_cases by blast
    with yoe(2) have "n < 400" by simp
    from year_facts(5) [OF this] n show ?thesis by simp
  qed
  have doy: "0 \<le> doy" "year_start yoe + doy < year_end yoe"
  proof -
    show "0 \<le> doy" using ms(1) d(1) by (simp add: doy_def)
    show "year_start yoe + doy < year_end yoe"
    proof (cases "mp = 11")
      case True
      then have "m = 2" using m by (simp add: mp_def split: if_splits)
      with d leap len ms(3) [OF True] show ?thesis
        by (simp add: doy_def days_in_month_def split: if_splits)
    next
      case False
      with mp ms(2) dm len show ?thesis by (simp add: doy_def split: if_splits)
    qed
  qed
  obtain n where n: "yoe = int n" using yoe(1) nonneg_int_cases by blast
  with yoe(2) have n400: "n < 400" by simp
  have ends: "0 \<le> year_start yoe" "year_end yoe \<le> 146097"
    using year_facts(3,4) [OF n400] n by simp_all
  define D where "D = year_start yoe + doy"
  have D: "0 \<le> D" "D < 146097" using ends doy by (simp_all add: D_def)
  have f1: "(days_from_civil y m d + 719468) div 146097 = era"
    using dfc div_mod_unique_int(1) [OF D, of era] by (simp add: D_def)
  have f2: "days_from_civil y m d + 719468 - era * 146097 = D" using dfc by (simp add: D_def)
  have f3: "(D - D div 1460 + D div 36524 - D div 146096) div 365 = yoe"
    using yoe_recover [OF yoe doy(1) doy(2)] by (simp add: D_def yoe_of_doe_def doe_count_def)
  have f4: "D - (365 * yoe + yoe div 4 - yoe div 100) = doy" by (simp add: D_def year_start_def)
  have f6: "doy - (153 * mp + 2) div 5 + 1 = d" by (simp add: doy_def month_start_def)
  have "civil_from_days (days_from_civil y m d) =
          (let mm = (if mp < 10 then mp + 3 else mp - 9) in (if mm \<le> 2 then yoe + era * 400 + 1 else yoe + era * 400, mm, d))"
    by (simp only: civil_from_days_def Let_def f1 f2 f3 f4 mp' f6)
  then show ?thesis using m y' by (auto simp: mp_def y'_def Let_def)
qed

section \<open>Dates made by the booking form, read back\<close>

lemma days_from_civil_day: "days_from_civil y m d = days_from_civil y m 1 + d - 1"
  by (simp add: days_from_civil_def Let_def)

text \<open>
  The time value \<open>new Date(y, m - 1, d)\<close> gives for a year of four digits is the midnight
  of day \<open>days_from_civil y m d\<close>.
\<close>

lemma new_Date_day:
  assumes "1 \<le> m" "m \<le> 12" "100 \<le> y" "js_new_Date (Some y) (Some (m - 1)) (Some d) = ValidDate t"
  shows "t div ms_per_day = days_from_civil y m d"
proof -
  have "(m - 1) div 12 = 0" "(m - 1) mod 12 + 1 = m" using assms(1,2) by simp_all
  with assms(3,4) have "t = (days_from_civil y m 1 + d - 1) * ms_per_day"
    by (simp add: js_new_Date_def Let_def split: if_splits)
  then show ?thesis by (simp add: ms_per_day_def days_from_civil_day [of y m d])
qed

lemma date_long_new_Date:
  assumes "1 \<le> m" "m \<le> 12" "1 \<le> d" "d \<le> days_in_month y m" "100 \<le> y"
    and "js_new_Date (Some y) (Some (m - 1)) (Some d) = ValidDate t"
  shows "date_long t = weekday_name (days_from_civil y m d) @ '', '' @ month_name m @ '' '' @ int_to_string d"
  using new_Date_day [OF assms(1,2,5,6)] civil_from_days_roundtrip [OF assms(1-4)]
  by (simp add: date_long_def)

end
