(* ===== verification/Booking_Dialogs.thy ===== *)
theory Booking_Dialogs
  imports Calendar Flow_Scenarios Booking_Ids Therapist_Registration
begin

text \<open>
  What the booking form's frame and the three small dialogs show, and how they connect to
  the handlers of the flow: the heading, the therapist and the confirm button of
  \<open>src/components/BookingModal.tsx\<close> (lines 52--166), \<open>BookingConfirmationModal\<close>,
  \<open>CancelBookingModal\<close> with its date line, and \<open>DeleteConfirmationModal\<close>, each as App
  mounts it (\<open>src/App.tsx\<close> lines 653--677).
\<close>

section \<open>The frame of the booking form\<close>

text \<open>The rupee sign, U+20B9, as the three bytes of its UTF-8 encoding.\<close>

definition rupee_sign :: string where
  "rupee_sign = map char_of [226 :: nat, 130, 185]"

definition pay_label :: "int \<Rightarrow> string" where
  "pay_label f = ''Pay '' @ rupee_sign @ int_to_string f @ '' via Razorpay''"

text \<open>Lines 52--69: the heading and the therapist the appointment is with.\<close>

definition booking_modal_header :: "therapist \<Rightarrow> bool \<Rightarrow> string \<times> string" where
  "booking_modal_header t isRescheduling =
     (if isRescheduling then ''Reschedule Appointment'' else ''Book Appointment'', tname t)"

text \<open>The confirm button's label (lines 150--151).\<close>

definition confirm_button_label :: "therapist \<Rightarrow> bool \<Rightarrow> string" where
  "confirm_button_label t isRescheduling =
     (if isRescheduling then ''Confirm Reschedule''
      else if isOnlinePayment t isRescheduling then pay_label (fee t) else ''Confirm Booking'')"

text \<open>
  Lines 134--162: the error line when \<open>error\<close> is truthy, the Cancel and confirm buttons,
  and the "100\% Secure Payment" note under an online payment.
\<close>

definition booking_modal_footer :: "therapist \<Rightarrow> bool \<Rightarrow> booking_form \<Rightarrow> string option \<times> string \<times> bool" where
  "booking_modal_footer t isRescheduling f =
     (if form_error f \<noteq> [] then Some (form_error f) else None,
      confirm_button_label t isRescheduling, isOnlinePayment t isRescheduling)"

section \<open>The confirmation dialog\<close>




section \<open>The cancellation dialog\<close>

record cancel_view =
  cnv_therapist :: string
  cnv_date :: string
  cnv_time :: string

text \<open>
  \<open>CancelBookingModal\<close> (lines 11--62): the therapist's name, the date as
  \<open>toLocaleDateString('en-US', {weekday, month, day})\<close> and the time. Its "Confirm
  Cancellation" button calls \<open>onConfirm(booking.id)\<close>.
\<close>

definition CancelBookingModal :: "booking \<Rightarrow> cancel_view" where
  "CancelBookingModal b =
     \<lparr>cnv_therapist = tname (therapist b), cnv_date = date_long (date b), cnv_time = time b\<rparr>"

definition cancel_dialog :: "app_state \<Rightarrow> cancel_view option" where
  "cancel_dialog s = (if isCancelModalOpen s then map_option CancelBookingModal (bookingToCancel s) else None)"

section \<open>The deletion dialog\<close>

text \<open>\<open>DeleteConfirmationModal\<close> (lines 9--56): the sentence naming the profile.\<close>

definition DeleteConfirmationModal :: "string \<Rightarrow> string" where
  "DeleteConfirmationModal therapistName =
     ''You are about to permanently delete the profile for '' @ therapistName @ ''.''"

definition delete_dialog :: "app_state \<Rightarrow> string option" where
  "delete_dialog s =
     (if isDeleteModalOpen s then map_option (\<lambda>t. DeleteConfirmationModal (tname t)) (therapistToDelete s) else None)"

section \<open>The date input\<close>

text \<open>
  The value of an \<open><input type="date">\<close>: \<open>YYYY-MM-DD\<close> with a two-digit month and day.
\<close>

definition pad2 :: "int \<Rightarrow> string" where
  "pad2 n = (if n < 10 then ''0'' @ int_to_string n else int_to_string n)"

definition date_input :: "int \<Rightarrow> int \<Rightarrow> int \<Rightarrow> string" where
  "date_input y m d = int_to_string y @ ''-'' @ pad2 m @ ''-'' @ pad2 d"

section \<open>Runs of the flow\<close>



text \<open>A booking made for 2025-03-10.\<close>

definition picked_booking :: booking where
  "picked_booking = new_booking 1000 (demo_details (days_from_civil 2025 3 10 * ms_per_day) ''10:00 AM'')
                      pay_later demo_user False"

section \<open>Reading the date input\<close>

lemma pad2_js_Number: "0 \<le> n \<Longrightarrow> js_Number (pad2 n) = Some n"
proof -
  assume n: "0 \<le> n"
  have "js_Number (''0'' @ int_to_string n) = js_Number (int_to_string n)"
    by (simp add: js_Number_def is_digit_def)
  with js_Number_int_to_string [OF n] show ?thesis by (simp add: pad2_def)
qed

lemma pad2_no_minus: "0 \<le> n \<Longrightarrow> CHR ''-'' \<notin> set (pad2 n)"
  using int_to_string_no_minus [of n] by (auto simp: pad2_def)

text \<open>\<open>handleDateChange\<close> reads a date input's value back into its three numbers.\<close>

lemma handleDateChange_input:
  assumes "0 \<le> y" "0 \<le> m" "0 \<le> d"
  shows "handleDateChange (date_input y m d) = Some (js_new_Date (Some y) (Some (m - 1)) (Some d))"
proof -
  have y: "CHR ''-'' \<notin> set (int_to_string y)" using int_to_string_no_minus [OF assms(1)] by blast
  have "split_on CHR ''-'' (date_input y m d) = [int_to_string y, pad2 m, pad2 d]"
    using y pad2_no_minus [OF assms(2)] pad2_no_minus [OF assms(3)]
    by (simp add: date_input_def split_on_sep split_on_no_sep)
  then show ?thesis
    using assms by (simp add: handleDateChange_def date_input_def component_def
        js_Number_int_to_string pad2_js_Number)
qed

section \<open>Properties of the dialogs\<close>

text \<open>
  Claim C28. A date the patient picks in the booking form is named back by the
  cancellation dialog of the booking: for every valid date of a four-digit year, the date
  input's value read by \<open>handleDateChange\<close> and shown by \<open>CancelBookingModal\<close> gives the
  same month and day of the month, with the weekday of that day.
\<close>

theorem cancel_dialog_shows_picked_date:
  assumes "1 \<le> m" "m \<le> 12" "1 \<le> d" "d \<le> days_in_month y m" "100 \<le> y"
    and "handleDateChange (date_input y m d) = Some (ValidDate (date b))"
  shows "cnv_date (CancelBookingModal b) =
           weekday_name (days_from_civil y m d) @ '', '' @ month_name m @ '' '' @ int_to_string d"
proof -
  have "js_new_Date (Some y) (Some (m - 1)) (Some d) = ValidDate (date b)"
    using assms(6) handleDateChange_input [of y m d] assms(1,3,5) by simp
  from date_long_new_Date [OF assms(1-5) this] show ?thesis by (simp add: CancelBookingModal_def)
qed

theorem cancel_dialog_shows_picked_date_witness:
  "cnv_date (CancelBookingModal picked_booking) = ''Monday, March 10''"
proof -
  have "handleDateChange (date_input 2025 3 10) = Some (ValidDate (date picked_booking))" by code_simp
  moreover have "(1::int) \<le> 10 \<and> 10 \<le> days_in_month 2025 3" by (simp add: days_in_month_def)
  ultimately have "cnv_date (CancelBookingModal picked_booking) =
           weekday_name (days_from_civil 2025 3 10) @ '', '' @ month_name 3 @ '' '' @ int_to_string 10"
    using cancel_dialog_shows_picked_date [of 3 10 2025 picked_booking] by simp
  moreover have "weekday_name (days_from_civil 2025 3 10) @ '', '' @ month_name 3 @ '' '' @ int_to_string 10 =
                 ''Monday, March 10''" by code_simp
  ultimately show ?thesis by simp
qed

text \<open>
  Claim C3. The booking form's confirm button says what confirming does: "Confirm
  Reschedule" exactly while rescheduling; "Pay", the rupee sign, the fee and "via Razorpay" exactly when App
  answers with the 50 ms timer that opens the payment modal; "Confirm Booking" exactly when
  App adds the booking at once.
\<close>

theorem button_label_path:
  assumes "therapistToBook s = Some t" "currentUser s = Some u"
    and "handleBookingConfirm d now s = (s', effs)"
  shows "(confirm_button_label t (bookingToReschedule s \<noteq> None) = ''Confirm Reschedule'' \<longleftrightarrow>
            bookingToReschedule s \<noteq> None) \<and>
         (confirm_button_label t (bookingToReschedule s \<noteq> None) = pay_label (fee t) \<longleftrightarrow>
            effs = [OpenPaymentAfter50ms]) \<and>
         (confirm_button_label t (bookingToReschedule s \<noteq> None) = ''Confirm Booking'' \<longleftrightarrow>
            length (bookings s') = Suc (length (bookings s)))"
proof (cases "bookingToReschedule s")
  case (Some rb)
  with assms(3) have "effs = []" "length (bookings s') = length (bookings s)"
    by (auto simp: handleBookingConfirm_reschedule)
  with Some show ?thesis by (simp add: confirm_button_label_def pay_label_def)
next
  case None
  show ?thesis
  proof (cases "online_payment_flag t")
    case True
    with None assms have "effs = [OpenPaymentAfter50ms]" "bookings s' = bookings s"
      by (auto simp: handleBookingConfirm_online)
    with None True show ?thesis by (simp add: confirm_button_label_def isOnlinePayment_def pay_label_def)
  next
    case False
    with None assms have "(s', effs) = finalizeBooking (Some d) False now s
                                         (s\<lparr>pendingBookingDetails := Some d, isBookingModalOpen := False\<rparr>)"
      by (simp add: handleBookingConfirm_direct)
    with assms(1,2) have "length (bookings s') = Suc (length (bookings s))" "effs \<noteq> [OpenPaymentAfter50ms]"
      by (simp_all add: finalizeBooking_present sendBookingToGoogleSheets_def)
    with None False show ?thesis by (simp add: confirm_button_label_def isOnlinePayment_def pay_label_def)
  qed
qed

theorem button_label_path_witness:
  "confirm_button_label pay_online False = pay_label 800 \<and>
   snd (handleBookingConfirm (demo_details 0 ''10:00 AM'') 1000
          (init_app\<lparr>therapistToBook := Some pay_online, currentUser := Some demo_user\<rparr>)) = [OpenPaymentAfter50ms]"
proof -
  let ?s = "init_app\<lparr>therapistToBook := Some pay_online, currentUser := Some demo_user\<rparr>"
  obtain s' effs where h: "handleBookingConfirm (demo_details 0 ''10:00 AM'') 1000 ?s = (s', effs)" by fastforce
  have r: "bookingToReschedule ?s = None" by (simp add: init_app_def)
  have l: "confirm_button_label pay_online False = pay_label 800"
    by (simp add: confirm_button_label_def isOnlinePayment_def demo_therapist_def demo_clinic_def)
  from button_label_path [of ?s pay_online demo_user, OF _ _ h] r l have "effs = [OpenPaymentAfter50ms]"
    by (simp add: demo_therapist_def)
  with h l show ?thesis by simp
qed


end
