(* ===== verification/Registration_View.thy ===== *)
theory Registration_View
  imports Therapist_Registration
begin

text \<open>
  The rendered therapist registration page of
  \<open>src/components/TherapistRegistrationPage.tsx\<close> (lines 130--207 and 375--550): the
  completeness widget, the form's sections with the controls each one renders (which depend
  on the mode), the photo previews, the error line and the submit button; and the page as
  an event system whose events are the controls on screen. \<open>handleSubmit\<close>'s \<open>await\<close> on
  reading the photos is taken as one step (\<open>Therapist_Registration.handleSubmit\<close>), so
  \<open>isSubmitting\<close> is false between events. \<open>SPECIALTIES\<close> comes from \<open>constants.ts\<close>,
  which is not in the repository: it is the parameter \<open>specs\<close>.
\<close>

section \<open>The completeness widget\<close>

record completeness_view =
  pc_percentage :: nat
  pc_missing :: "string list"
  pc_complete :: bool

text \<open>Lines 130--207: the percentage, the list of missing items and the completion banner.\<close>

definition ProfileCompleteness_view :: "therapist option \<Rightarrow> reg_page \<Rightarrow> completeness_view" where
  "ProfileCompleteness_view te p =
     \<lparr>pc_percentage = completeness_percentage te p, pc_missing = incomplete_items te p,
      pc_complete = (completeness_percentage te p = 100)\<rparr>"

section \<open>The form\<close>

text \<open>The interactive elements of the page: inputs by their \<open>name\<close>, checkboxes, buttons.\<close>

datatype reg_control =
    CInput reg_field | CSpecialty string | CShowPassword | CPhotoUpload | CClearPhotos | CBack | CSubmit

record reg_section =
  sec_step :: nat
  sec_title :: string
  sec_controls :: "reg_control list"

text \<open>
  The \<open>FormSection\<close>s (lines 396--525): the account section only when creating; name and
  title move to the professional section when editing; one checkbox per specialty; the
  "Clear new photos" button only while there are new previews (lines 517--521).
\<close>

definition reg_sections :: "bool \<Rightarrow> string list \<Rightarrow> reg_page \<Rightarrow> reg_section list" where
  "reg_sections isEdit specs p =
     (if isEdit then []
      else [\<lparr>sec_step = 1, sec_title = ''Personal & Account Information'',
              sec_controls = [CInput FName, CInput FTitle, CInput FEmail, CInput FPassword, CShowPassword]\<rparr>]) @
     [\<lparr>sec_step = (if isEdit then 1 else 2), sec_title = ''Professional Details'',
       sec_controls = (if isEdit then [CInput FName, CInput FTitle] else []) @
                      [CInput FExperience, CInput FQualifications, CInput FDescription] @ map CSpecialty specs\<rparr>,
      \<lparr>sec_step = (if isEdit then 2 else 3), sec_title = ''Clinic Information'',
       sec_controls = [CInput FClinicName, CInput FLocation, CInput FPhone, CInput FClinicAddress, CPhotoUpload] @
                      (if photoPreviews p \<noteq> [] then [CClearPhotos] else [])\<rparr>]"

definition reg_controls :: "therapist option \<Rightarrow> string list \<Rightarrow> reg_page \<Rightarrow> reg_control list" where
  "reg_controls te specs p = concat (map sec_controls (reg_sections (te \<noteq> None) specs p)) @ [CBack, CSubmit]"

record reg_view =
  rv_heading :: string
  rv_subheading :: string
  rv_completeness :: completeness_view
  rv_sections :: "reg_section list"
  rv_previews :: "string list"
  rv_error :: "string option"
  rv_password_visible :: bool
  rv_submit_label :: string
  rv_submit_disabled :: bool

text \<open>
  The page (lines 375--550). The previews are shown when there are new ones or, in edit
  mode, existing photos: the existing ones first (lines 506--516).
\<close>

definition TherapistRegistrationPage_view :: "therapist option \<Rightarrow> string list \<Rightarrow> reg_page \<Rightarrow> reg_view" where
  "TherapistRegistrationPage_view te specs p =
     (let isEdit = (te \<noteq> None); old = (case te of Some t \<Rightarrow> clinicPhotos t | None \<Rightarrow> [])
      in \<lparr>rv_heading = (if isEdit then ''Edit Therapist Profile'' else ''Empower Your Practice''),
          rv_subheading = (case te of Some t \<Rightarrow> ''Updating the profile for '' @ tname t @ ''.''
                           | None \<Rightarrow> ''Create your professional profile and connect with patients seeking care.''),
          rv_completeness = ProfileCompleteness_view te p,
          rv_sections = reg_sections isEdit specs p,
          rv_previews = (if photoPreviews p \<noteq> [] \<or> (isEdit \<and> old \<noteq> []) then old @ photoPreviews p else []),
          rv_error = (if reg_error p \<noteq> [] then Some (reg_error p) else None),
          rv_password_visible = reg_showPassword p,
          rv_submit_label = (if isSubmitting p then ''Submitting...''
                             else if isEdit then ''Update Profile'' else ''Create Profile''),
          rv_submit_disabled = isSubmitting p\<rparr>)"

section \<open>The page as an event system\<close>

text \<open>
  An event is a use of a control on screen: typing into an input, a specialty checkbox, the
  password eye (line 415), choosing files, clearing the new photos, submitting with the
  clock and the result of reading the chosen files. The submit button is disabled while
  submitting.
\<close>

datatype reg_event =
    RInput reg_field string | RSpecialty string | RShowPassword
  | RPhotos "(string \<times> string) list option" | RClear | RSubmit int "string list option"

fun reg_step :: "therapist option \<Rightarrow> string list \<Rightarrow> reg_event \<Rightarrow> reg_page \<Rightarrow> (reg_page \<times> reg_out) option" where
  "reg_step te specs (RInput fld v) p =
     (if CInput fld \<in> set (reg_controls te specs p) then Some (handleInputChange fld v p, RNone) else None)"
| "reg_step te specs (RSpecialty sp) p =
     (if CSpecialty sp \<in> set (reg_controls te specs p) then Some (handleSpecialtyChange sp p, RNone) else None)"
| "reg_step te specs RShowPassword p =
     (if CShowPassword \<in> set (reg_controls te specs p)
      then Some (p\<lparr>reg_showPassword := \<not> reg_showPassword p\<rparr>, RNone) else None)"
| "reg_step te specs (RPhotos fs) p = Some (handlePhotoChange fs p, RNone)"
| "reg_step te specs RClear p =
     (if CClearPhotos \<in> set (reg_controls te specs p) then Some (handleClearPhotos p, RNone) else None)"
| "reg_step te specs (RSubmit now photos) p =
     (if isSubmitting p then None else Some (handleSubmit te now photos p))"

fun reg_run :: "therapist option \<Rightarrow> string list \<Rightarrow> reg_event list \<Rightarrow> reg_page \<Rightarrow> (reg_page \<times> reg_out list) option" where
  "reg_run te specs [] p = Some (p, [])"
| "reg_run te specs (e # es) p =
     (case reg_step te specs e p of
        None \<Rightarrow> None
      | Some (p', out) \<Rightarrow> map_option (\<lambda>(p'', outs). (p'', out # outs)) (reg_run te specs es p'))"

text \<open>Filling in every required field with \<open>x\<close> and choosing a specialty if none is chosen.\<close>

definition fill_events :: "therapist option \<Rightarrow> string list \<Rightarrow> reg_page \<Rightarrow> int \<Rightarrow> reg_event list" where
  "fill_events te specs p now =
     map (\<lambda>fld. RInput fld ''x'') (required_fields (te \<noteq> None)) @
     (if selectedSpecialties p = [] then [RSpecialty (hd specs)] else []) @ [RSubmit now (Some [])]"

section \<open>Properties of the page\<close>

text \<open>Every field \<open>handleSubmit\<close> requires has an input on the page, in either mode.\<close>

lemma required_inputs_rendered:
  "fld \<in> set (required_fields (te \<noteq> None)) \<Longrightarrow> CInput fld \<in> set (reg_controls te specs p)"
  by (cases te) (auto simp: required_fields_def reg_controls_def reg_sections_def)

lemma specialty_rendered: "sp \<in> set specs \<Longrightarrow> CSpecialty sp \<in> set (reg_controls te specs p)"
  by (auto simp: reg_controls_def reg_sections_def)

lemma field_value_set_field:
  "field_value (set_field f v frm) g = (if f = g then v else field_value frm g)"
  by (cases f; cases g) simp_all

lemma fill_frame [simp]:
  "selectedSpecialties (fold (\<lambda>fld q. handleInputChange fld v q) fs p) = selectedSpecialties p"
  "isSubmitting (fold (\<lambda>fld q. handleInputChange fld v q) fs p) = isSubmitting p"
  by (induction fs arbitrary: p) (simp_all add: handleInputChange_def)

lemma fill_values:
  "field_value (formData (fold (\<lambda>fld q. handleInputChange fld v q) fs p)) g =
     (if g \<in> set fs then v else field_value (formData p) g)"
  by (induction fs arbitrary: p) (auto simp: handleInputChange_def field_value_set_field)

text \<open>Typing into inputs that are on screen: each step is enabled and outputs nothing.\<close>

lemma run_inputs:
  assumes "\<forall>fld\<in>set fs. CInput fld \<in> set (reg_controls te specs p)"
  shows "reg_run te specs (map (\<lambda>fld. RInput fld v) fs @ es) p =
           map_option (\<lambda>(p'', outs). (p'', replicate (length fs) RNone @ outs))
             (reg_run te specs es (fold (\<lambda>fld q. handleInputChange fld v q) fs p))"
  using assms
proof (induction fs arbitrary: p)
  case Nil
  then show ?case by (simp add: option.map_ident case_prod_beta)
next
  case (Cons f fs)
  have keep: "CInput g \<in> set (reg_controls te specs q) \<longleftrightarrow> CInput g \<in> set (reg_controls te specs p)" for g q
    by (auto simp: reg_controls_def reg_sections_def)
  from Cons.prems have "CInput f \<in> set (reg_controls te specs p)" by simp
  moreover have "\<forall>fld\<in>set fs. CInput fld \<in> set (reg_controls te specs (handleInputChange f v p))"
    using Cons.prems keep [where q = "handleInputChange f v p"] by simp
  ultimately show ?case
    using Cons.IH by (simp add: option.map_comp case_prod_beta comp_def)
qed

lemma submit_completes:
  assumes "\<forall>fld\<in>set (required_fields (te \<noteq> None)). field_value (formData q) fld \<noteq> []"
    and "selectedSpecialties q \<noteq> []" and "\<not> isSubmitting q"
  shows "\<exists>q' out. reg_run te specs [RSubmit now (Some urls)] q = Some (q', [out]) \<and> out \<noteq> RNone"
proof -
  have "reg_validate (te \<noteq> None) q = None" by (rule reg_validate_ok [OF assms(1,2)])
  with assms(3) show ?thesis by (simp add: handleSubmit_def Let_def)
qed

lemma tail_completes:
  assumes "\<forall>fld\<in>set (required_fields (te \<noteq> None)). field_value (formData q) fld \<noteq> []"
    and "\<not> isSubmitting q" and "specs \<noteq> []"
  shows "\<exists>q' outs. reg_run te specs ((if selectedSpecialties q = [] then [RSpecialty (hd specs)] else []) @
                                     [RSubmit now (Some [])]) q = Some (q', outs) \<and> outs \<noteq> [] \<and> last outs \<noteq> RNone"
proof (cases "selectedSpecialties q = []")
  case True
  let ?q2 = "handleSpecialtyChange (hd specs) q"
  have on: "CSpecialty (hd specs) \<in> set (reg_controls te specs q)"
    using assms(3) by (intro specialty_rendered) simp
  have "\<forall>fld\<in>set (required_fields (te \<noteq> None)). field_value (formData ?q2) fld \<noteq> []"
    using assms(1) by (simp add: handleSpecialtyChange_def)
  moreover have "selectedSpecialties ?q2 \<noteq> []" "\<not> isSubmitting ?q2"
    using True assms(2) by (simp_all add: handleSpecialtyChange_def)
  ultimately obtain q' out where "reg_run te specs [RSubmit now (Some [])] ?q2 = Some (q', [out])" "out \<noteq> RNone"
    using submit_completes by blast
  with True on show ?thesis by simp
next
  case False
  with submit_completes [OF assms(1) _ assms(2)] show ?thesis by fastforce
qed

text \<open>
  Claim C37. The registration page can always be completed: from any state that is not
  submitting, typing into each required input on screen, ticking a specialty when none is
  ticked, and pressing the submit button is a run of at most thirteen enabled events that
  ends in \<open>onProfileCreate\<close> or \<open>onProfileUpdate\<close>, in either mode, as long as there is
  a specialty to tick.
\<close>

theorem registration_completable:
  assumes "specs \<noteq> []" and "\<not> isSubmitting p"
  shows "length (fill_events te specs p now) \<le> 13 \<and>
         (\<exists>p' outs. reg_run te specs (fill_events te specs p now) p = Some (p', outs) \<and> last outs \<noteq> RNone)"
proof -
  let ?fs = "required_fields (te \<noteq> None)"
  let ?q = "fold (\<lambda>fld q. handleInputChange fld ''x'' q) ?fs p"
  have len: "length (fill_events te specs p now) \<le> 13"
    by (simp add: fill_events_def required_fields_def)
  have "\<forall>fld\<in>set ?fs. field_value (formData ?q) fld \<noteq> []" by (simp add: fill_values)
  with assms obtain q' outs where
    t: "reg_run te specs ((if selectedSpecialties ?q = [] then [RSpecialty (hd specs)] else []) @
                          [RSubmit now (Some [])]) ?q = Some (q', outs)" "outs \<noteq> []" "last outs \<noteq> RNone"
    using tail_completes [of te ?q specs now] by auto
  have on: "\<forall>fld\<in>set ?fs. CInput fld \<in> set (reg_controls te specs p)" using required_inputs_rendered by blast
  have "reg_run te specs (fill_events te specs p now) p = Some (q', replicate (length ?fs) RNone @ outs)"
    unfolding fill_events_def using run_inputs [OF on] t(1) by simp
  with t(2,3) len show ?thesis by auto
qed

theorem registration_completable_witness:
  "\<exists>p' outs. reg_run None [''Sports Injury''] (fill_events None [''Sports Injury''] init_reg_page 1000) init_reg_page =
               Some (p', outs) \<and> last outs \<noteq> RNone"
  using registration_completable [of "[''Sports Injury'']" init_reg_page None 1000]
  by (simp add: init_reg_page_def)

end
