(* ===== verification/Spec2Isabelle.thy ===== *)
theory Spec2Isabelle
  imports Ledger_Refinement Auth_Modal Therapist_Registration Order_Function Flow_Progress Therapist_Views Home_Page Intake_View Payment_View Booking_Dialogs Registration_View
begin

text \<open>
  \<^bold>\<open>A verified model of BookMyPhysiotherapy: its booking core, sign-in, therapist pages and navigation.\<close>

  The repository is a React single-page application (\<open>src/App.tsx\<close> and
  \<open>src/components/\<close>) backed by Supabase for authentication and by Razorpay for
  payments. Its only structured logic is the client-side booking flow: a patient opens the
  booking form for a therapist, the form validates the intent, the application either
  finalises the booking at once or opens the payment modal, whose asynchronous stages
  (script load, order creation through the \<open>create-razorpay-order\<close> edge function, the
  Razorpay checkout, server-side verification) end in \<open>onSuccess\<close>, which finalises a
  paid booking. Bookings are kept in one in-memory list, sorted by date, and can be
  rescheduled, cancelled and given an intake form; each finalised booking is posted to a
  Google Sheets web app.

  \<^bold>\<open>Theories.\<close>
  \<^item> \<open>Prelude\<close>: JavaScript values compared with \<open>===\<close> (\<open>jsval\<close>), the array idioms of
    the code (\<open>map_where\<close> for \<open>xs.map(x => p(x) ? f(x) : x)\<close>, stable \<open>sort_key\<close> for
    \<open>xs.sort((a, b) => k(a) - k(b))\<close>, \<open>List.find\<close>), \<open>x || d\<close> on strings, decimal
    rendering of numbers, and their lemmas.
  \<^item> \<open>Model_Types\<close>: the interfaces of \<open>src/types.ts\<close> as records and datatypes.
  \<^item> \<open>Demo_Data\<close>: sample records used as inputs of witnesses and runs.
  \<^item> \<open>Booking_Modal\<close>: \<open>src/components/BookingModal.tsx\<close>: the form's state and inputs,
    the date parsing of \<open>handleDateChange\<close> (local calendar components, the two-digit-year
    rule and month normalisation of \<open>new Date(y, m, d)\<close>), the validation of
    \<open>handleConfirmClick\<close>, and the payment gate \<open>isOnlinePayment\<close>.
  \<^item> \<open>App_Booking\<close>: the state of \<open>App.tsx\<close> as the record \<open>app_state\<close> and its booking
    handlers: \<open>handleOpenBookingModal\<close>, \<open>handleOpenRescheduleModal\<close>,
    \<open>handleCloseBookingModal\<close>, \<open>handleBookingConfirm\<close>, \<open>handlePaymentSuccess\<close>,
    \<open>finalizeBooking\<close> with \<open>sendBookingToGoogleSheets\<close>, the payment and confirmation
    modals' \<open>onClose\<close>, cancellation and the intake-form handlers. A handler that can run
    from a stale closure takes the closure's state apart from the current one.
  \<^item> \<open>App_Navigation\<close>: the page, search, auth-modal and admin handlers of \<open>App.tsx\<close>.
  \<^item> \<open>Auth\<close>: the \<open>onAuthStateChange\<close> listener of \<open>App.tsx\<close> (lines 110--204): the
    profile read, the on-the-fly profile insert, the patient fallbacks and the redirect of
    therapists and admins.
  \<^item> \<open>Payment_Modal\<close>: \<open>src/components/PaymentProcessingModal.tsx\<close>: the modal's local
    state and the result of each asynchronous stage, with its error messages.
  \<^item> \<open>Booking_Flow\<close>: the composition as a state machine. \<open>flow\<close> holds the application
    state, the mounted booking form and payment modal (with an instance number), pending
    timers, the asynchronous payment stages in flight (each with the render closure it
    captured), the rows posted to the logging sink, a count of verified payments and the
    clock. \<open>flow_step\<close> takes one event: a click the rendered UI offers, the 50 ms timer,
    the completion of a stage, a completed run of the auth listener. \<open>reachable\<close> is the inductive set of
    states reachable from \<open>init_flow\<close>; \<open>flow_inv\<close> is proved for all of them by rule
    induction, from one lemma per handler.
  \<^item> \<open>Intake_Wizard\<close>: \<open>src/components/PatientIntakeForm.tsx\<close>: the four-step wizard
    with its inputs, buttons and validation, as a step function on events; mounted in the
    flow by \<open>sync_intake\<close> with its \<open>userName\<close> prop.
  \<^item> \<open>Booking_Views\<close>: what \<open>ProfilePage\<close>, \<open>BookingCard\<close> and \<open>TherapistDashboard\<close>
    render from the state: the upcoming and past lists, the badges, the card buttons (the
    guards of the flow's card events), the dashboard's statistics and App's lookup of the
    logged-in therapist.
  \<^item> \<open>Flow_Scenarios\<close>: the runs of section 8 of the specification as event lists.
  \<^item> \<open>Intake_Flow\<close>: every intake form attached to a booking passed the wizard's checks.
  \<^item> \<open>Booking_Ids\<close>: the id \<open>`${Date.now()}-${therapist.id}`\<close>, read back by splitting at
    its \<open>-\<close>, and the invariant that the ids of the list are distinct and not later than
    the clock.
  \<^item> \<open>Ledger_Refinement\<close>: the abstract specification of the booking store as a map from id
    to booking changed by the lifecycle operations (\<open>ledger_step\<close>), and the forward
    simulation of every reachable flow step by one of them or a stutter.
  \<^item> \<open>Auth_Modal\<close>: \<open>src/components/AuthModal.tsx\<close>: the dialog's state and handlers, each
    split at its \<open>await\<close> into validation with a call to the auth service and a continuation,
    and the rendered dialog as an event system with the calls in flight.
  \<^item> \<open>Therapist_Registration\<close>: \<open>src/components/TherapistRegistrationPage.tsx\<close>: the form,
    its loading for an edit, validation, the therapist record it builds and the completeness
    widget; App's \<open>handleProfileCreate\<close> and \<open>handleProfileUpdate\<close> receive the result.
  \<^item> \<open>Order_Function\<close>: the edge function \<open>create-razorpay-order/index.ts\<close> (method, body,
    secrets, the Razorpay call as a parameter, the response) and how the payment modal reads
    its answer through \<open>supabase.functions.invoke\<close>.
  \<^item> \<open>Flow_Progress\<close>: a weight of the pending timers and payment stages that every
    machine-driven event of the flow lowers, and the shape of every stored booking.
  \<^item> \<open>Therapist_Views\<close>: \<open>StarRating\<close>, \<open>TherapistCard\<close> and \<open>TherapistProfile\<close> as render
    functions (\<open>Inl\<close> is a render that throws), with the profile page's state and clicks.
  \<^item> \<open>Site_Navigation\<close>: the \<open>Header\<close> (links per role, mobile menu), which page components
    App's main area mounts for a state, and \<open>AdminPage\<close>.
  \<^item> \<open>Home_Page\<close>: \<open>HeroSection\<close>, \<open>FeaturedTherapists\<close>, \<open>MobileFooterNav\<close> and \<open>Footer\<close>,
    and the site as a second state machine (\<open>site_step\<close>, \<open>site_reachable\<close>) over the
    navigation events: header, search card, cards, footer, tabs, admin page, therapist
    loading and the auth listener. The booking flow and the navigation machine share App's
    state record and handlers; each machine has the events the other does not need.
  \<^item> \<open>Intake_View\<close>: \<open>ViewIntakeFormModal\<close> (rows omitted when falsy, "N/A" fallbacks)
    and the heading of \<open>IntakeFormModal\<close>, composed with the wizard's validation.
  \<^item> \<open>Payment_View\<close>: the screens of \<open>PaymentProcessingModal\<close> (error with Retry, or
    progress with the step's heading, hint and amount) and \<open>loadRazorpayScript\<close>; the
    invariant that a progress screen always waits on a stage of its own instance.
  \<^item> \<open>Calendar\<close>: \<open>toLocaleDateString\<close> with a long weekday, month and numeric day
    (\<open>date_long\<close>) through the era-based conversion \<open>civil_from_days\<close>, and the proof that
    it inverts \<open>days_from_civil\<close> on every valid Gregorian date: a table of the 400 years
    of an era checked by evaluation and the monotonicity of the year count.
  \<^item> \<open>Booking_Dialogs\<close>: the frame of \<open>BookingModal\<close> (heading, confirm button label,
    secure-payment note), \<open>BookingConfirmationModal\<close>, \<open>CancelBookingModal\<close> and
    \<open>DeleteConfirmationModal\<close> as App mounts them.
  \<^item> \<open>Registration_View\<close>: the rendered registration page (completeness widget, the form's
    sections and controls per mode, previews, submit button) and the page as an event
    system over the controls on screen (\<open>reg_step\<close>).

  \<^bold>\<open>What is proved.\<close> In every reachable state a booking whose therapist takes online
  payment is paid, there are no more paid bookings than verified payments, the list is
  sorted by date and one row was posted to the logging sink per booking (this theory).
  The payment gate is exactly the clinic flag \<open>=== true\<close> outside a reschedule; the form
  emits details exactly when all fields are filled and the date is valid; finalising
  appends one confirmed booking as a stable insertion and is a no-op without intent,
  therapist or user; cancelling changes only the status; rescheduling keeps identities;
  every exit clears the pending details. The end-to-end scenarios A to D are computed by
  the kernel (\<open>code_simp\<close>). Every run of machine-driven events (timers, script loads,
  order creations, verification answers) is bounded by the pending weight, so the payment
  pipeline cannot run on without the user; every stored booking has a set status,
  confirmed or cancelled, and set phone, service and paid flag (\<open>Flow_Progress\<close>).
  The auth listener grants roles only from a profile row and falls back to a patient
  (\<open>Auth\<close>); the wizard submits only complete forms, and every intake form in a
  reachable state passed its checks (\<open>Intake_Wizard\<close>, \<open>Intake_Flow\<close>); the profile
  lists partition the user's bookings and the card buttons are exactly those of upcoming,
  non-cancelled own bookings (\<open>Booking_Views\<close>); booking ids are distinct in every
  reachable state while the clock advances and read back into their parts
  (\<open>Booking_Ids\<close>); the flow refines the ledger (\<open>Ledger_Refinement\<close>); from every open
  state the sign-in dialog re-enables its submit button within two events
  (\<open>Auth_Modal\<close>); editing a profile and saving it unchanged gives it back up to the
  fields the form does not carry (\<open>Therapist_Registration\<close>); the star row has exactly
  \<open>maxRating\<close> stars for ratings in range, and the collapsed description is a prefix that
  splits back into its first fifty words (\<open>Therapist_Views\<close>); every page link of the
  header lands on exactly one mounted page (\<open>Site_Navigation\<close>); every submitted intake
  form is shown with its required rows (\<open>Intake_View\<close>); in every reachable state a
  payment modal showing progress has a stage of its own instance in flight that ends the
  step it names (\<open>Payment_View\<close>); the booking form's confirm button names the
  path App takes, and a date picked in the form is named back, month, day and weekday, by
  the cancellation dialog (\<open>Booking_Dialogs\<close>, with \<open>Calendar\<close>); every field the
  registration form requires is rendered, and from any state the page can be completed and
  submitted in at most thirteen events (\<open>Registration_View\<close>).
  Defects shown by theorems: a verification that completes after the payment modal was
  closed still books; the dashboard render throws for a therapist without a loaded
  profile; two bookings in the same millisecond share an id; an intake form can be
  submitted with an empty name; the sign-in dialog can never verify a phone OTP
  (\<open>Auth_Modal\<close>); a profile registered with experience 0 shows a stray "0"
  (\<open>Therapist_Views\<close>); a session that ends outside the Logout button leaves the
  profile, admin or dashboard page blank (\<open>Site_Navigation\<close>); the "Find a Therapist"
  tab is never highlighted, and a popular search ignores the other field of the search
  card (\<open>Home_Page\<close>); a checkout paid after a reported failure is verified behind
  the failure screen, whose Retry starts a second payment (\<open>Payment_View\<close>); a late
  verification can leave the confirmation dialog announcing a paid appointment with a
  therapist the patient never booked (\<open>Booking_Dialogs\<close>).
  No model uses fuel: every loop of the code is a list traversal, modelled by structural
  recursion, and the only unbounded activity, the asynchronous payment stages, is shown to
  end by the weight of \<open>Flow_Progress\<close>.

  \<^bold>\<open>Choices.\<close> A \<open>Date\<close> is its time value (an integer of milliseconds, the local
  clock's, which orders dates like \<open>getTime()\<close>); \<open>Date.now()\<close> is an event parameter
  that grows between the two events that read it. Ratings are rationals. The strings of
  the model are byte strings, and \<open>toLowerCase\<close> lowers ASCII letters only.

  \<^bold>\<open>Not modelled.\<close> Styling, layout and static text (\<open>AboutPage\<close>, the markup of
  every component; the dialogs are modelled by the text they show); the browser's date
  input, modelled only by the value it yields (\<open>date_input\<close>); the Supabase client
  (\<open>src/lib/supabaseClient.ts\<close>, a library configuration), the network itself,
  \<open>encodeURIComponent\<close> in links, and \<open>constants.ts\<close> (imported by the code but not in
  the repository: the therapist list arrives as the event \<open>TherapistsLoaded\<close> and
  \<open>SPECIALTIES\<close> is a parameter). The Supabase auth service and database are inputs: the
  flow's \<open>AuthChange\<close> event carries the session and the answers of the listener's two
  database calls, and the Razorpay API is a parameter of the edge function's model.
\<close>

section \<open>Invariants of the booking flow\<close>

text \<open>
  Claim C1. In every reachable state of the flow, every booking whose therapist's clinic
  takes online payment is paid: no path finalises such a booking unpaid.
\<close>

theorem online_bookings_paid:
  "reachable fs \<Longrightarrow> paid_when_online (bookings (app fs))"
  using reachable_flow_inv by (simp add: flow_inv_def inv_bookings_def)

theorem online_bookings_paid_witness:
  "paid_when_online (bookings (app flow_B)) \<and>
   map (\<lambda>b. (online_payment_flag (therapist b), isPaid b)) (bookings (app flow_B)) = [(True, Some True)]"
proof
  show "paid_when_online (bookings (app flow_B))"
    by (rule online_bookings_paid [OF reachable_flow_B])
  show "map (\<lambda>b. (online_payment_flag (therapist b), isPaid b)) (bookings (app flow_B)) = [(True, Some True)]"
    using flow_B_summary by simp
qed

text \<open>
  Claim C2. In every reachable state there are no more paid bookings than payments whose
  verification reported success: a booking is marked paid only through \<open>onSuccess\<close>.
\<close>

theorem paid_bookings_verified:
  "reachable fs \<Longrightarrow> paid_count (bookings (app fs)) \<le> verified fs"
  using reachable_flow_inv by (simp add: flow_inv_def inv_bookings_def)

theorem paid_bookings_verified_witness:
  "paid_count (bookings (app flow_B)) \<le> verified flow_B \<and> paid_count (bookings (app flow_B)) = 1"
proof
  show "paid_count (bookings (app flow_B)) \<le> verified flow_B"
    by (rule paid_bookings_verified [OF reachable_flow_B])
  show "paid_count (bookings (app flow_B)) = 1"
    using flow_B_summary by simp
qed

text \<open>
  Claim C12. In every reachable state the booking list is sorted by appointment date.
\<close>

theorem bookings_always_sorted:
  "reachable fs \<Longrightarrow> bookings_sorted (bookings (app fs))"
  using reachable_flow_inv by (simp add: flow_inv_def inv_bookings_def)

theorem bookings_always_sorted_witness: "bookings_sorted (bookings (app flow_B))"
  by (rule bookings_always_sorted [OF reachable_flow_B])

text \<open>
  Claim C13. In every reachable state exactly one row has been posted to the logging sink
  per booking in the list: each finalisation posts one, and nothing else posts or removes.
\<close>

theorem one_log_row_per_booking:
  "reachable fs \<Longrightarrow> length (posted fs) = length (bookings (app fs))"
  using reachable_flow_inv by (simp add: flow_inv_def inv_bookings_def)

theorem one_log_row_per_booking_witness:
  "length (posted flow_B) = length (bookings (app flow_B)) \<and> length (posted flow_B) = 1"
proof
  show "length (posted flow_B) = length (bookings (app flow_B))"
    by (rule one_log_row_per_booking [OF reachable_flow_B])
  show "length (posted flow_B) = 1"
    using flow_B_summary by simp
qed

section \<open>End-to-end scenarios\<close>

text \<open>
  Scenario A: with a therapist whose clinic does not take online payment
  (fee 500), booking with valid fields finalises at once: one booking, confirmed, unpaid,
  and the confirmation modal is shown without the "Payment Received" badge.
\<close>

theorem scenario_A_pay_later:
  "map_option (\<lambda>fs. (map (\<lambda>b. (status b, isPaid b, fee (therapist b))) (bookings (app fs)),
                     isConfirmModalOpen (app fs), lastBookingPaid (app fs), tasks fs))
     (run scenario_A init_flow) = Some ([(Some Confirmed, Some False, 500)], True, False, [])"
  by code_simp

text \<open>
  Scenario B: with a therapist whose clinic takes online payment (fee 800), the
  payment modal opens, the order is created, the checkout succeeds with \<open>pay_123\<close> and the
  verification succeeds: one booking, confirmed and paid, and the payment modal is gone.
\<close>

theorem scenario_B_paid_online:
  "map_option (\<lambda>fs. (map (\<lambda>b. (status b, isPaid b, fee (therapist b))) (bookings (app fs)),
                     lastBookingPaid (app fs), pay fs, pendingBookingDetails (app fs)))
     (run scenario_B init_flow) = Some ([(Some Confirmed, Some True, 800)], True, None, None)"
  by code_simp


text \<open>
  Scenario D: a booking on 2025-03-10 at 10:00 AM is rescheduled to 2025-03-12 at
  02:00 PM while another booking is on 2025-03-11: the same id now carries the new date
  and time, and the list is reordered by date.
\<close>

theorem scenario_D_reschedule:
  "map_option (\<lambda>fs. map (\<lambda>b. (bid b, date b, time b, status b)) (bookings (app fs)))
     (run scenario_D init_flow) =
   Some [(''1500-2'', days_from_civil 2025 3 11 * ms_per_day, ''11:00 AM'', Some Confirmed),
         (''1000-2'', days_from_civil 2025 3 12 * ms_per_day, ''02:00 PM'', Some Confirmed)]"
  by code_simp

section \<open>A verification that answers after the modal was closed\<close>


section \<open>The therapist's dashboard in the flow\<close>


end
